(* ===== verification/Prelude.thy ===== *)
theory Prelude
  imports Main "HOL-Library.Word"
begin

text \<open>
  What the components share: the machine types of the x86-64 target (\<open>char\<close>, \<open>int\<close> and
  \<open>long\<close> as words of 8, 32 and 64 bits), byte memory with little-endian 64-bit loads and
  stores (the \<open>val[0]\<close> of a signal set, the fields of a \<open>struct\<close>, the word that
  \<open>ptrace\<close> peeks and pokes), and the collections \<open>mem_simps\<close> and \<open>fmt_simps\<close> the
  component proofs rewrite with.
\<close>

unbundle bit_operations_syntax

section \<open>Machine types\<close>

type_synonym u8 = "8 word"
type_synonym u32 = "32 word"
type_synonym u64 = "64 word"
type_synonym addr = "64 word"
type_synonym memory = "64 word \<Rightarrow> 8 word"

abbreviation NULL :: addr where "NULL \<equiv> 0"

named_theorems mem_simps "loads and stores of byte memory"
named_theorems fmt_simps "formatting and parsing of numbers"

section \<open>Little-endian words in byte memory\<close>

definition byte_of :: "u64 \<Rightarrow> nat \<Rightarrow> u8" where
  "byte_of w i = ucast (drop_bit (8 * i) w)"

fun join_bytes :: "u8 list \<Rightarrow> u64" where
  "join_bytes [] = 0"
| "join_bytes (b # bs) = ucast b OR push_bit 8 (join_bytes bs)"

definition load64 :: "memory \<Rightarrow> addr \<Rightarrow> u64" where
  "load64 m a = join_bytes (map (\<lambda>i. m (a + of_nat i)) [0..<8])"

definition store64 :: "memory \<Rightarrow> addr \<Rightarrow> u64 \<Rightarrow> memory" where
  "store64 m a w = (\<lambda>x. if x - a < 8 then byte_of w (unat (x - a)) else m x)"

lemma bit_byte_of [mem_simps]: "bit (byte_of w i) n \<longleftrightarrow> n < 8 \<and> bit w (8 * i + n)"
  by (simp add: byte_of_def bit_simps)

lemma bit_join_bytes:
  "bit (join_bytes bs) n \<longleftrightarrow> n < 64 \<and> n div 8 < length bs \<and> bit (bs ! (n div 8)) (n mod 8)"
proof (induction bs arbitrary: n)
  case Nil
  then show ?case by simp
next
  case (Cons b bs)
  show ?case
  proof (cases "n < 8")
    case True
    then show ?thesis by (simp add: bit_simps Cons.IH)
  next
    case False
    then obtain k where n: "n = k + 8"
      by (metis le_add_diff_inverse2 not_less)
    moreover have "\<not> bit b n"
      using False by (auto dest: bit_imp_le_length)
    moreover have "(k + 8) div 8 = Suc (k div 8)" by simp
    ultimately show ?thesis
      by (auto simp: bit_simps Cons.IH)
  qed
qed

lemma bit_load64 [mem_simps]:
  "bit (load64 m a) n \<longleftrightarrow> n < 64 \<and> bit (m (a + of_nat (n div 8))) (n mod 8)"
  by (auto simp: load64_def bit_join_bytes simp del: upt_rec_numeral)

lemma load64_cong:
  "(\<And>i. i < 8 \<Longrightarrow> m (a + of_nat i) = m' (a + of_nat i)) \<Longrightarrow> load64 m a = load64 m' a"
  unfolding load64_def by (rule arg_cong [where f = join_bytes]) simp

lemma unat_less_8: "(x :: u64) < 8 \<longleftrightarrow> unat x < 8"
  by (simp add: word_less_nat_alt)

lemma of_nat_less_8 [simp]: "i < 8 \<Longrightarrow> (of_nat i :: u64) < 8"
  by (simp add: word_less_nat_alt unat_of_nat)

lemma unat_of_nat_8 [simp]: "i < 8 \<Longrightarrow> unat (of_nat i :: u64) = i"
  by (simp add: unat_of_nat)

lemma load64_store64 [mem_simps, simp]: "load64 (store64 m a w) a = w"
proof (rule bit_word_eqI)
  fix n :: nat
  assume "n < LENGTH(64)"
  then have "n < 64" and "n div 8 < 8" by simp_all
  then show "bit (load64 (store64 m a w) a) n \<longleftrightarrow> bit w n"
    by (simp add: mem_simps store64_def)
qed

lemma store64_other: "\<not> x - a < 8 \<Longrightarrow> store64 m a w x = m x"
  by (simp add: store64_def)

lemma store64_low: "store64 m a w a = byte_of w 0"
  by (simp add: store64_def)

text \<open>Two 8-byte fields do not overlap when each starts at least 8 bytes after the other,
  counting modulo the size of the address space.\<close>

definition apart :: "addr \<Rightarrow> addr \<Rightarrow> bool" where
  "apart a b \<longleftrightarrow> 8 \<le> a - b \<and> 8 \<le> b - a"

lemma apart_sym: "apart a b \<longleftrightarrow> apart b a"
  by (auto simp: apart_def)

lemma shift_out_of_field: "8 \<le> x \<Longrightarrow> 8 \<le> - x \<Longrightarrow> y < 8 \<Longrightarrow> \<not> x + y < (8 :: u64)"
  using unat_sub_if' [of 0 x] unat_plus_if' [of x y]
  by (simp add: word_le_nat_alt word_less_nat_alt split: if_splits)

lemma apart_offset: "apart a b \<Longrightarrow> i < 8 \<Longrightarrow> \<not> b + of_nat i - a < 8"
  using shift_out_of_field [of "b - a" "of_nat i"] by (simp add: apart_def algebra_simps)

lemma load64_store64_apart [mem_simps]:
  "apart a b \<Longrightarrow> load64 (store64 m a w) b = load64 m b"
  by (rule load64_cong) (simp add: store64_other apart_offset)

section \<open>Counting down and offsets\<close>

lemma sint_dec: "0 < sint n \<Longrightarrow> sint (n - 1) = sint n - 1" for n :: "'a::len word"
proof -
  assume pos: "0 < sint n"
  have upper: "sint n - 1 < 2 ^ (LENGTH('a) - 1)" using sint_lt [of n] by linarith
  have "n - 1 = word_of_int (sint n - 1)" by simp
  then have "sint (n - 1) = signed_take_bit (LENGTH('a) - 1) (sint n - 1)"
    by (simp only: sint_sbintrunc')
  moreover have "- (2 ^ (LENGTH('a) - 1)) \<le> sint n - 1"
    using pos zero_le_power [of "2 :: int" "LENGTH('a) - 1"] by linarith
  ultimately show ?thesis using upper by (simp add: signed_take_bit_int_eq_self)
qed

lemma uint_dec: "d \<noteq> 0 \<Longrightarrow> uint (d - 1) = uint d - 1" for d :: u64
proof -
  assume "d \<noteq> 0"
  then have "1 \<le> uint d" by (metis int_one_le_iff_zero_less uint_0_iff uint_ge_0 order_le_less)
  then show ?thesis by (subst uint_sub_lem [THEN iffD1]) simp_all
qed

lemma within_step: "0 < sint n \<Longrightarrow>
    uint (a - p) < sint n \<longleftrightarrow> a = p \<or> uint (a - (p + 1)) < sint n - 1" for a p n :: u64
proof (cases "a = p")
  case False
  then have "uint (a - p - 1) = uint (a - p) - 1" by (intro uint_dec) simp
  then show ?thesis using False by (simp add: algebra_simps)
qed simp

lemma offset_unat [simp]: "a + of_nat (unat (b - a)) = b" for a b :: u64
  by simp

end
