(* ===== verification/Libmini_Syscall.thy ===== *)
theory Libmini_Syscall
  imports Prelude
begin

text \<open>
  The system-call layer of the mini C library of hw3: the \<open>gensys\<close> stubs of
  \<open>libmini64.asm\<close> (one constructor of \<open>syscall\<close> per stub, with the argument types of its
  prototype in \<open>libmini.h\<close>, and its number), the global \<open>errno\<close>, and the wrappers of
  \<open>libmini.c\<close> that turn the kernel's return value into the C result and \<open>errno\<close>.

  The kernel is not part of the repository: it is the parameter \<open>K\<close>, which answers a call
  with the value it leaves in \<open>rax\<close> and may change the process memory and its own state.
\<close>

section \<open>System calls and the process state\<close>

datatype (plugins only: code) syscall =
    Sys_read u32 addr u64
  | Sys_write u32 addr u64
  | Sys_open addr u32 u64
  | Sys_close u32
  | Sys_mmap addr u64 u32 u32 u32 u64
  | Sys_mprotect addr u64 u32
  | Sys_munmap addr u64
  | Sys_rt_sigaction u32 addr addr u64
  | Sys_rt_sigprocmask u32 addr addr u64
  | Sys_pipe addr
  | Sys_dup u32
  | Sys_dup2 u32 u32
  | Sys_pause 
  | Sys_nanosleep addr addr
  | Sys_alarm u32
  | Sys_fork 
  | Sys_exit u32
  | Sys_getcwd addr u64
  | Sys_chdir addr
  | Sys_rename addr addr
  | Sys_mkdir addr u32
  | Sys_rmdir addr
  | Sys_creat addr u32
  | Sys_link addr addr
  | Sys_unlink addr
  | Sys_readlink addr addr u64
  | Sys_chmod addr u32
  | Sys_chown addr u32 u32
  | Sys_umask u32
  | Sys_gettimeofday addr addr
  | Sys_getuid 
  | Sys_getgid 
  | Sys_setuid u32
  | Sys_setgid u32
  | Sys_geteuid 
  | Sys_getegid 
  | Sys_rt_sigpending addr u64

text \<open>The first argument of \<open>gensys\<close>, the number the stub moves into \<open>rax\<close>.\<close>

fun sysnum :: "syscall \<Rightarrow> nat" where
  "sysnum (Sys_read _ _ _) = 0"
| "sysnum (Sys_write _ _ _) = 1"
| "sysnum (Sys_open _ _ _) = 2"
| "sysnum (Sys_close _) = 3"
| "sysnum (Sys_mmap _ _ _ _ _ _) = 9"
| "sysnum (Sys_mprotect _ _ _) = 10"
| "sysnum (Sys_munmap _ _) = 11"
| "sysnum (Sys_rt_sigaction _ _ _ _) = 13"
| "sysnum (Sys_rt_sigprocmask _ _ _ _) = 14"
| "sysnum (Sys_pipe _) = 22"
| "sysnum (Sys_dup _) = 32"
| "sysnum (Sys_dup2 _ _) = 33"
| "sysnum (Sys_pause) = 34"
| "sysnum (Sys_nanosleep _ _) = 35"
| "sysnum (Sys_alarm _) = 37"
| "sysnum (Sys_fork) = 57"
| "sysnum (Sys_exit _) = 60"
| "sysnum (Sys_getcwd _ _) = 79"
| "sysnum (Sys_chdir _) = 80"
| "sysnum (Sys_rename _ _) = 82"
| "sysnum (Sys_mkdir _ _) = 83"
| "sysnum (Sys_rmdir _) = 84"
| "sysnum (Sys_creat _ _) = 85"
| "sysnum (Sys_link _ _) = 86"
| "sysnum (Sys_unlink _) = 88"
| "sysnum (Sys_readlink _ _ _) = 89"
| "sysnum (Sys_chmod _ _) = 90"
| "sysnum (Sys_chown _ _ _) = 92"
| "sysnum (Sys_umask _) = 95"
| "sysnum (Sys_gettimeofday _ _) = 96"
| "sysnum (Sys_getuid) = 102"
| "sysnum (Sys_getgid) = 104"
| "sysnum (Sys_setuid _) = 105"
| "sysnum (Sys_setgid _) = 106"
| "sysnum (Sys_geteuid) = 107"
| "sysnum (Sys_getegid) = 108"
| "sysnum (Sys_rt_sigpending _ _) = 127"

record 'k mst =
  errno :: u64
  mem :: memory
  kern :: 'k

type_synonym 'k kernel = "syscall \<Rightarrow> memory \<Rightarrow> 'k \<Rightarrow> u64 \<times> memory \<times> 'k"

definition do_sys :: "'k kernel \<Rightarrow> syscall \<Rightarrow> 'k mst \<Rightarrow> u64 \<times> 'k mst" where
  "do_sys K c st =
     (let (ret, m, k) = K c (mem st) (kern st) in (ret, st\<lparr>mem := m, kern := k\<rparr>))"

section \<open>The two wrapper macros\<close>

text \<open>\<open>WRAPPER_RETval(type)\<close> and \<open>WRAPPER_RETptr(type)\<close>: the result is converted to the
  return type (\<open>ucast\<close> keeps the low bits, as the conversion of \<open>long\<close> to \<open>int\<close> does).\<close>

definition wrapper_val :: "u64 \<Rightarrow> 'k mst \<Rightarrow> 'a::len word \<times> 'k mst" where
  "wrapper_val ret st =
     (let st0 = st\<lparr>errno := 0\<rparr>
      in if sint ret < 0 then (- 1, st0\<lparr>errno := - ret\<rparr>) else (ucast ret, st0))"

definition wrapper_ptr :: "u64 \<Rightarrow> 'k mst \<Rightarrow> addr \<times> 'k mst" where
  "wrapper_ptr ret st =
     (let st0 = st\<lparr>errno := 0\<rparr>
      in if sint ret < 0 then (NULL, st0\<lparr>errno := - ret\<rparr>) else (ret, st0))"

section \<open>The wrappers\<close>

definition read_mini :: "'k kernel \<Rightarrow> u32 \<Rightarrow> addr \<Rightarrow> u64 \<Rightarrow> 'k mst \<Rightarrow> u64 \<times> 'k mst" where
  "read_mini K fd buf count st = (let (ret, st1) = do_sys K (Sys_read fd buf count) st in wrapper_val ret st1)"

definition write_mini :: "'k kernel \<Rightarrow> u32 \<Rightarrow> addr \<Rightarrow> u64 \<Rightarrow> 'k mst \<Rightarrow> u64 \<times> 'k mst" where
  "write_mini K fd buf count st = (let (ret, st1) = do_sys K (Sys_write fd buf count) st in wrapper_val ret st1)"

definition close_mini :: "'k kernel \<Rightarrow> u32 \<Rightarrow> 'k mst \<Rightarrow> u32 \<times> 'k mst" where
  "close_mini K fd st = (let (ret, st1) = do_sys K (Sys_close fd) st in wrapper_val ret st1)"

definition mmap_mini :: "'k kernel \<Rightarrow> addr \<Rightarrow> u64 \<Rightarrow> u32 \<Rightarrow> u32 \<Rightarrow> u32 \<Rightarrow> u64 \<Rightarrow> 'k mst \<Rightarrow> addr \<times> 'k mst" where
  "mmap_mini K a len prot flags fd off st = (let (ret, st1) = do_sys K (Sys_mmap a len prot flags fd off) st in wrapper_ptr ret st1)"

definition mprotect_mini :: "'k kernel \<Rightarrow> addr \<Rightarrow> u64 \<Rightarrow> u32 \<Rightarrow> 'k mst \<Rightarrow> u32 \<times> 'k mst" where
  "mprotect_mini K a len prot st = (let (ret, st1) = do_sys K (Sys_mprotect a len prot) st in wrapper_val ret st1)"

definition munmap_mini :: "'k kernel \<Rightarrow> addr \<Rightarrow> u64 \<Rightarrow> 'k mst \<Rightarrow> u32 \<times> 'k mst" where
  "munmap_mini K a len st = (let (ret, st1) = do_sys K (Sys_munmap a len) st in wrapper_val ret st1)"

definition pipe_mini :: "'k kernel \<Rightarrow> addr \<Rightarrow> 'k mst \<Rightarrow> u32 \<times> 'k mst" where
  "pipe_mini K filedes st = (let (ret, st1) = do_sys K (Sys_pipe filedes) st in wrapper_val ret st1)"

definition dup_mini :: "'k kernel \<Rightarrow> u32 \<Rightarrow> 'k mst \<Rightarrow> u32 \<times> 'k mst" where
  "dup_mini K filedes st = (let (ret, st1) = do_sys K (Sys_dup filedes) st in wrapper_val ret st1)"

definition dup2_mini :: "'k kernel \<Rightarrow> u32 \<Rightarrow> u32 \<Rightarrow> 'k mst \<Rightarrow> u32 \<times> 'k mst" where
  "dup2_mini K oldfd newfd st = (let (ret, st1) = do_sys K (Sys_dup2 oldfd newfd) st in wrapper_val ret st1)"

definition pause_mini :: "'k kernel \<Rightarrow> 'k mst \<Rightarrow> u32 \<times> 'k mst" where
  "pause_mini K st = (let (ret, st1) = do_sys K Sys_pause st in wrapper_val ret st1)"

definition nanosleep_mini :: "'k kernel \<Rightarrow> addr \<Rightarrow> addr \<Rightarrow> 'k mst \<Rightarrow> u32 \<times> 'k mst" where
  "nanosleep_mini K rqtp rmtp st = (let (ret, st1) = do_sys K (Sys_nanosleep rqtp rmtp) st in wrapper_val ret st1)"

definition fork_mini :: "'k kernel \<Rightarrow> 'k mst \<Rightarrow> u32 \<times> 'k mst" where
  "fork_mini K st = (let (ret, st1) = do_sys K Sys_fork st in wrapper_val ret st1)"

definition getcwd_mini :: "'k kernel \<Rightarrow> addr \<Rightarrow> u64 \<Rightarrow> 'k mst \<Rightarrow> addr \<times> 'k mst" where
  "getcwd_mini K buf sz st = (let (ret, st1) = do_sys K (Sys_getcwd buf sz) st in wrapper_ptr ret st1)"

definition chdir_mini :: "'k kernel \<Rightarrow> addr \<Rightarrow> 'k mst \<Rightarrow> u32 \<times> 'k mst" where
  "chdir_mini K pathname st = (let (ret, st1) = do_sys K (Sys_chdir pathname) st in wrapper_val ret st1)"

definition rename_mini :: "'k kernel \<Rightarrow> addr \<Rightarrow> addr \<Rightarrow> 'k mst \<Rightarrow> u32 \<times> 'k mst" where
  "rename_mini K oldname newname st = (let (ret, st1) = do_sys K (Sys_rename oldname newname) st in wrapper_val ret st1)"

definition mkdir_mini :: "'k kernel \<Rightarrow> addr \<Rightarrow> u32 \<Rightarrow> 'k mst \<Rightarrow> u32 \<times> 'k mst" where
  "mkdir_mini K pathname mode st = (let (ret, st1) = do_sys K (Sys_mkdir pathname mode) st in wrapper_val ret st1)"

definition rmdir_mini :: "'k kernel \<Rightarrow> addr \<Rightarrow> 'k mst \<Rightarrow> u32 \<times> 'k mst" where
  "rmdir_mini K pathname st = (let (ret, st1) = do_sys K (Sys_rmdir pathname) st in wrapper_val ret st1)"

definition creat_mini :: "'k kernel \<Rightarrow> addr \<Rightarrow> u32 \<Rightarrow> 'k mst \<Rightarrow> u32 \<times> 'k mst" where
  "creat_mini K pathname mode st = (let (ret, st1) = do_sys K (Sys_creat pathname mode) st in wrapper_val ret st1)"

definition link_mini :: "'k kernel \<Rightarrow> addr \<Rightarrow> addr \<Rightarrow> 'k mst \<Rightarrow> u32 \<times> 'k mst" where
  "link_mini K oldname newname st = (let (ret, st1) = do_sys K (Sys_link oldname newname) st in wrapper_val ret st1)"

definition unlink_mini :: "'k kernel \<Rightarrow> addr \<Rightarrow> 'k mst \<Rightarrow> u32 \<times> 'k mst" where
  "unlink_mini K pathname st = (let (ret, st1) = do_sys K (Sys_unlink pathname) st in wrapper_val ret st1)"

definition readlink_mini :: "'k kernel \<Rightarrow> addr \<Rightarrow> addr \<Rightarrow> u64 \<Rightarrow> 'k mst \<Rightarrow> u64 \<times> 'k mst" where
  "readlink_mini K path buf bufsz st = (let (ret, st1) = do_sys K (Sys_readlink path buf bufsz) st in wrapper_val ret st1)"

definition chmod_mini :: "'k kernel \<Rightarrow> addr \<Rightarrow> u32 \<Rightarrow> 'k mst \<Rightarrow> u32 \<times> 'k mst" where
  "chmod_mini K filename mode st = (let (ret, st1) = do_sys K (Sys_chmod filename mode) st in wrapper_val ret st1)"

definition chown_mini :: "'k kernel \<Rightarrow> addr \<Rightarrow> u32 \<Rightarrow> u32 \<Rightarrow> 'k mst \<Rightarrow> u32 \<times> 'k mst" where
  "chown_mini K filename usr grp st = (let (ret, st1) = do_sys K (Sys_chown filename usr grp) st in wrapper_val ret st1)"

definition umask_mini :: "'k kernel \<Rightarrow> u32 \<Rightarrow> 'k mst \<Rightarrow> u32 \<times> 'k mst" where
  "umask_mini K msk st = (let (ret, st1) = do_sys K (Sys_umask msk) st in wrapper_val ret st1)"

definition gettimeofday_mini :: "'k kernel \<Rightarrow> addr \<Rightarrow> addr \<Rightarrow> 'k mst \<Rightarrow> u32 \<times> 'k mst" where
  "gettimeofday_mini K tv tz st = (let (ret, st1) = do_sys K (Sys_gettimeofday tv tz) st in wrapper_val ret st1)"

definition getuid_mini :: "'k kernel \<Rightarrow> 'k mst \<Rightarrow> u32 \<times> 'k mst" where
  "getuid_mini K st = (let (ret, st1) = do_sys K Sys_getuid st in wrapper_val ret st1)"

definition getgid_mini :: "'k kernel \<Rightarrow> 'k mst \<Rightarrow> u32 \<times> 'k mst" where
  "getgid_mini K st = (let (ret, st1) = do_sys K Sys_getgid st in wrapper_val ret st1)"

definition setuid_mini :: "'k kernel \<Rightarrow> u32 \<Rightarrow> 'k mst \<Rightarrow> u32 \<times> 'k mst" where
  "setuid_mini K uid st = (let (ret, st1) = do_sys K (Sys_setuid uid) st in wrapper_val ret st1)"

definition setgid_mini :: "'k kernel \<Rightarrow> u32 \<Rightarrow> 'k mst \<Rightarrow> u32 \<times> 'k mst" where
  "setgid_mini K gid st = (let (ret, st1) = do_sys K (Sys_setgid gid) st in wrapper_val ret st1)"

definition geteuid_mini :: "'k kernel \<Rightarrow> 'k mst \<Rightarrow> u32 \<times> 'k mst" where
  "geteuid_mini K st = (let (ret, st1) = do_sys K Sys_geteuid st in wrapper_val ret st1)"

definition getegid_mini :: "'k kernel \<Rightarrow> 'k mst \<Rightarrow> u32 \<times> 'k mst" where
  "getegid_mini K st = (let (ret, st1) = do_sys K Sys_getegid st in wrapper_val ret st1)"

definition alarm_mini :: "'k kernel \<Rightarrow> u32 \<Rightarrow> 'k mst \<Rightarrow> u32 \<times> 'k mst" where
  "alarm_mini K seconds st = (let (ret, st1) = do_sys K (Sys_alarm seconds) st in wrapper_val ret st1)"

text \<open>\<open>exit\<close> has no result and no wrapper macro: should the kernel come back, it returns.\<close>

definition exit_mini :: "'k kernel \<Rightarrow> u32 \<Rightarrow> 'k mst \<Rightarrow> 'k mst" where
  "exit_mini K code st = snd (do_sys K (Sys_exit code) st)"

section \<open>The errno contract\<close>

definition errno_spec :: "u64 \<Rightarrow> u64" where
  "errno_spec ret = (if sint ret < 0 then - ret else 0)"

lemma errno_spec_0 [simp]: "errno_spec ret = 0 \<longleftrightarrow> \<not> sint ret < 0"
  by (auto simp: errno_spec_def)

lemma wrapper_val_simps:
  "\<not> sint ret < 0 \<Longrightarrow> wrapper_val ret st = (ucast ret, st\<lparr>errno := 0\<rparr>)"
  "sint ret < 0 \<Longrightarrow> wrapper_val ret st = (- 1, st\<lparr>errno := - ret\<rparr>)"
  by (simp_all add: wrapper_val_def)

lemma wrapper_ptr_simps:
  "\<not> sint ret < 0 \<Longrightarrow> wrapper_ptr ret st = (ret, st\<lparr>errno := 0\<rparr>)"
  "sint ret < 0 \<Longrightarrow> wrapper_ptr ret st = (NULL, st\<lparr>errno := - ret\<rparr>)"
  by (simp_all add: wrapper_ptr_def)

lemmas wrapper_simps = wrapper_val_simps wrapper_ptr_simps

text \<open>What every wrapper owes its caller, stated once: on success the kernel's value and a
  cleared \<open>errno\<close>, on failure the error value and the negated code; memory and kernel are as
  the one system call \<open>c\<close> left them.\<close>

locale errno_wrapper =
  fixes K :: "'k kernel" and c :: syscall
    and w :: "'k mst \<Rightarrow> 'a::len word \<times> 'k mst" and failure :: "'a word"
  assumes ok: "do_sys K c st = (ret, st1) \<Longrightarrow> \<not> sint ret < 0 \<Longrightarrow> w st = (ucast ret, st1\<lparr>errno := 0\<rparr>)"
    and err: "do_sys K c st = (ret, st1) \<Longrightarrow> sint ret < 0 \<Longrightarrow> w st = (failure, st1\<lparr>errno := - ret\<rparr>)"
begin

lemma state_after: "snd (w st) = (snd (do_sys K c st))\<lparr>errno := errno_spec (fst (do_sys K c st))\<rparr>"
  by (cases "do_sys K c st"; cases "sint (fst (do_sys K c st)) < 0") (auto simp: ok err errno_spec_def)

lemma result: "fst (w st) = (if sint (fst (do_sys K c st)) < 0 then failure else ucast (fst (do_sys K c st)))"
  by (cases "do_sys K c st") (auto simp: ok err)

lemma answer: "w st = (if sint (fst (do_sys K c st)) < 0 then failure else ucast (fst (do_sys K c st)),
    (snd (do_sys K c st))\<lparr>errno := errno_spec (fst (do_sys K c st))\<rparr>)"
  by (rule prod_eqI) (simp_all add: result state_after)

lemma failure_iff_errno:
  "ucast (fst (do_sys K c st)) \<noteq> failure \<Longrightarrow> fst (w st) = failure \<longleftrightarrow> errno (snd (w st)) \<noteq> 0"
  by (simp add: answer)

lemma errno_cleared_iff: "errno (snd (w st)) = 0 \<longleftrightarrow> \<not> sint (fst (do_sys K c st)) < 0"
  by (simp add: state_after)

end

interpretation read_w: errno_wrapper K "Sys_read fd buf count"
  "read_mini K fd buf count" "- 1" for K fd buf count
  by unfold_locales (simp_all add: read_mini_def wrapper_simps)

interpretation write_w: errno_wrapper K "Sys_write fd buf count"
  "write_mini K fd buf count" "- 1" for K fd buf count
  by unfold_locales (simp_all add: write_mini_def wrapper_simps)

interpretation close_w: errno_wrapper K "Sys_close fd"
  "close_mini K fd" "- 1" for K fd
  by unfold_locales (simp_all add: close_mini_def wrapper_simps)

interpretation mmap_w: errno_wrapper K "Sys_mmap a len prot flags fd off"
  "mmap_mini K a len prot flags fd off" "0" for K a len prot flags fd off
  by unfold_locales (simp_all add: mmap_mini_def wrapper_simps)

interpretation mprotect_w: errno_wrapper K "Sys_mprotect a len prot"
  "mprotect_mini K a len prot" "- 1" for K a len prot
  by unfold_locales (simp_all add: mprotect_mini_def wrapper_simps)

interpretation munmap_w: errno_wrapper K "Sys_munmap a len"
  "munmap_mini K a len" "- 1" for K a len
  by unfold_locales (simp_all add: munmap_mini_def wrapper_simps)

interpretation pipe_w: errno_wrapper K "Sys_pipe filedes"
  "pipe_mini K filedes" "- 1" for K filedes
  by unfold_locales (simp_all add: pipe_mini_def wrapper_simps)

interpretation dup_w: errno_wrapper K "Sys_dup filedes"
  "dup_mini K filedes" "- 1" for K filedes
  by unfold_locales (simp_all add: dup_mini_def wrapper_simps)

interpretation dup2_w: errno_wrapper K "Sys_dup2 oldfd newfd"
  "dup2_mini K oldfd newfd" "- 1" for K oldfd newfd
  by unfold_locales (simp_all add: dup2_mini_def wrapper_simps)

interpretation pause_w: errno_wrapper K Sys_pause
  "pause_mini K" "- 1" for K 
  by unfold_locales (simp_all add: pause_mini_def wrapper_simps)

interpretation nanosleep_w: errno_wrapper K "Sys_nanosleep rqtp rmtp"
  "nanosleep_mini K rqtp rmtp" "- 1" for K rqtp rmtp
  by unfold_locales (simp_all add: nanosleep_mini_def wrapper_simps)

interpretation fork_w: errno_wrapper K Sys_fork
  "fork_mini K" "- 1" for K 
  by unfold_locales (simp_all add: fork_mini_def wrapper_simps)

interpretation getcwd_w: errno_wrapper K "Sys_getcwd buf sz"
  "getcwd_mini K buf sz" "0" for K buf sz
  by unfold_locales (simp_all add: getcwd_mini_def wrapper_simps)

interpretation chdir_w: errno_wrapper K "Sys_chdir pathname"
  "chdir_mini K pathname" "- 1" for K pathname
  by unfold_locales (simp_all add: chdir_mini_def wrapper_simps)

interpretation rename_w: errno_wrapper K "Sys_rename oldname newname"
  "rename_mini K oldname newname" "- 1" for K oldname newname
  by unfold_locales (simp_all add: rename_mini_def wrapper_simps)

interpretation mkdir_w: errno_wrapper K "Sys_mkdir pathname mode"
  "mkdir_mini K pathname mode" "- 1" for K pathname mode
  by unfold_locales (simp_all add: mkdir_mini_def wrapper_simps)

interpretation rmdir_w: errno_wrapper K "Sys_rmdir pathname"
  "rmdir_mini K pathname" "- 1" for K pathname
  by unfold_locales (simp_all add: rmdir_mini_def wrapper_simps)

interpretation creat_w: errno_wrapper K "Sys_creat pathname mode"
  "creat_mini K pathname mode" "- 1" for K pathname mode
  by unfold_locales (simp_all add: creat_mini_def wrapper_simps)

interpretation link_w: errno_wrapper K "Sys_link oldname newname"
  "link_mini K oldname newname" "- 1" for K oldname newname
  by unfold_locales (simp_all add: link_mini_def wrapper_simps)

interpretation unlink_w: errno_wrapper K "Sys_unlink pathname"
  "unlink_mini K pathname" "- 1" for K pathname
  by unfold_locales (simp_all add: unlink_mini_def wrapper_simps)

interpretation readlink_w: errno_wrapper K "Sys_readlink path buf bufsz"
  "readlink_mini K path buf bufsz" "- 1" for K path buf bufsz
  by unfold_locales (simp_all add: readlink_mini_def wrapper_simps)

interpretation chmod_w: errno_wrapper K "Sys_chmod filename mode"
  "chmod_mini K filename mode" "- 1" for K filename mode
  by unfold_locales (simp_all add: chmod_mini_def wrapper_simps)

interpretation chown_w: errno_wrapper K "Sys_chown filename usr grp"
  "chown_mini K filename usr grp" "- 1" for K filename usr grp
  by unfold_locales (simp_all add: chown_mini_def wrapper_simps)

interpretation umask_w: errno_wrapper K "Sys_umask msk"
  "umask_mini K msk" "- 1" for K msk
  by unfold_locales (simp_all add: umask_mini_def wrapper_simps)

interpretation gettimeofday_w: errno_wrapper K "Sys_gettimeofday tv tz"
  "gettimeofday_mini K tv tz" "- 1" for K tv tz
  by unfold_locales (simp_all add: gettimeofday_mini_def wrapper_simps)

interpretation getuid_w: errno_wrapper K Sys_getuid
  "getuid_mini K" "- 1" for K 
  by unfold_locales (simp_all add: getuid_mini_def wrapper_simps)

interpretation getgid_w: errno_wrapper K Sys_getgid
  "getgid_mini K" "- 1" for K 
  by unfold_locales (simp_all add: getgid_mini_def wrapper_simps)

interpretation setuid_w: errno_wrapper K "Sys_setuid uid"
  "setuid_mini K uid" "- 1" for K uid
  by unfold_locales (simp_all add: setuid_mini_def wrapper_simps)

interpretation setgid_w: errno_wrapper K "Sys_setgid gid"
  "setgid_mini K gid" "- 1" for K gid
  by unfold_locales (simp_all add: setgid_mini_def wrapper_simps)

interpretation geteuid_w: errno_wrapper K Sys_geteuid
  "geteuid_mini K" "- 1" for K 
  by unfold_locales (simp_all add: geteuid_mini_def wrapper_simps)

interpretation getegid_w: errno_wrapper K Sys_getegid
  "getegid_mini K" "- 1" for K 
  by unfold_locales (simp_all add: getegid_mini_def wrapper_simps)

interpretation alarm_w: errno_wrapper K "Sys_alarm seconds"
  "alarm_mini K seconds" "- 1" for K seconds
  by unfold_locales (simp_all add: alarm_mini_def wrapper_simps)

lemma sint_of_nat_small: "n < 2 ^ 31 \<Longrightarrow> sint (of_nat n :: u64) = int n"
  by (simp add: signed_of_nat signed_take_bit_int_eq_self)

section \<open>Properties\<close>

text \<open>The conversion to 32 bits: a user id of 4294967295 reads as -1 with
  \<open>errno\<close> clear.\<close>

lemma getuid_truncates:
  "getuid_mini (\<lambda>c m k. (0xFFFFFFFF, m, k)) st = (- 1, st\<lparr>errno := 0\<rparr>)"
  by (simp add: getuid_mini_def do_sys_def wrapper_val_def)

text \<open>\<open>getcwd\<close> returns the kernel's answer as a pointer; the answer of the system call is
  the length of the path, so the result is that number and not the caller's buffer.\<close>

lemma getcwd_returns_length:
  assumes "K (Sys_getcwd buf sz) (mem st) (kern st) = (of_nat n, m', k')" and "n < 2 ^ 31"
  shows "getcwd_mini K buf sz st = (of_nat n, st\<lparr>errno := 0, mem := m', kern := k'\<rparr>)"
  using assms by (simp add: getcwd_mini_def do_sys_def wrapper_ptr_def sint_of_nat_small)

lemma getcwd_returns_length_witness:
  "fst (getcwd_mini (\<lambda>c m k. (of_nat 2, m(4096 := 47, 4097 := 0), k)) 4096 64
     \<lparr>errno = 0, mem = (\<lambda>_. 1), kern = ()\<rparr>) = 2"
  using getcwd_returns_length [of "\<lambda>c m k. (of_nat 2, m(4096 := 47, 4097 := 0), k)" 4096 64
      "\<lparr>errno = 0, mem = (\<lambda>_. 1), kern = ()\<rparr>" 2]
  by simp

end
