(* ===== verification/Libmini_Memory.thy ===== *)
theory Libmini_Memory
  imports Libmini_Syscall
begin

text \<open>
  The byte loops of \<open>libmini.c\<close>: \<open>bzero\<close>, \<open>memset\<close> and \<open>strlen\<close> over byte memory.
  \<open>size_t\<close> is \<open>long long\<close> in \<open>libmini.h\<close>, so the loop guards compare signed values.
  \<open>strlen\<close> runs until it meets a zero byte or an address that is not readable, neither of which
  is certain: it is a \<open>partial_function\<close> whose \<open>None\<close> is a loop that never returns.
\<close>

section \<open>The loops\<close>

text \<open>\<open>while (size-- > 0) *ptr++ = '\0';\<close>\<close>

function bzero_loop :: "memory \<Rightarrow> addr \<Rightarrow> u64 \<Rightarrow> memory" where
  "bzero_loop m ptr sz =
     (if 0 < sint sz then bzero_loop (m(ptr := 0)) (ptr + 1) (sz - 1) else m)"
  by pat_completeness auto
termination bzero_loop
  by (relation "measure (\<lambda>(m, ptr, sz). nat (sint sz))") (auto simp: sint_dec)

definition bzero :: "addr \<Rightarrow> u64 \<Rightarrow> 'k mst \<Rightarrow> 'k mst" where
  "bzero s sz st = st\<lparr>mem := bzero_loop (mem st) s sz\<rparr>"

text \<open>\<open>while (len-- > 0) *ptr++ = val;\<close> stores the low byte of the \<open>int\<close>.\<close>

function memset_loop :: "memory \<Rightarrow> addr \<Rightarrow> u32 \<Rightarrow> u64 \<Rightarrow> memory" where
  "memset_loop m ptr val len =
     (if 0 < sint len then memset_loop (m(ptr := ucast val)) (ptr + 1) val (len - 1) else m)"
  by pat_completeness auto
termination memset_loop
  by (relation "measure (\<lambda>(m, ptr, val, len). nat (sint len))") (auto simp: sint_dec)

definition memset :: "addr \<Rightarrow> u32 \<Rightarrow> u64 \<Rightarrow> 'k mst \<Rightarrow> addr \<times> 'k mst" where
  "memset dest val len st = (dest, st\<lparr>mem := memset_loop (mem st) dest val len\<rparr>)"

text \<open>\<open>while (*s++) count++;\<close>. The addresses in \<open>R\<close> are those the process may read; reading another
  one faults. The results are None when the loop never ends, \<open>Some None\<close> for a fault and
  \<open>Some (Some n)\<close> when it returns \<open>n\<close>.\<close>

partial_function (option) strlen_loop :: "addr set \<Rightarrow> memory \<Rightarrow> addr \<Rightarrow> u64 \<Rightarrow> u64 option option" where
  "strlen_loop R m s count =
     (if s \<notin> R then Some None
      else if m s = 0 then Some (Some count)
      else strlen_loop R m (s + 1) (count + 1))"

definition strlen :: "addr set \<Rightarrow> memory \<Rightarrow> addr \<Rightarrow> u64 option option" where
  "strlen R m s = strlen_loop R m s 0"

declare bzero_loop.simps [simp del] memset_loop.simps [simp del]

section \<open>What the loops do\<close>

text \<open>Bytes at distance less than \<open>len\<close> from the start are overwritten, no other is: for
  a negative \<open>len\<close> none.\<close>

lemma memset_loop_byte [mem_simps]:
  "memset_loop m p v n a = (if uint (a - p) < sint n then ucast v else m a)"
proof (induction m p v n rule: memset_loop.induct)
  case (1 m p v n)
  show ?case
  proof (cases "0 < sint n")
    case True
    have "memset_loop m p v n a = memset_loop (m(p := ucast v)) (p + 1) v (n - 1) a"
      using True by (subst memset_loop.simps) simp
    also have "\<dots> = (if uint (a - (p + 1)) < sint n - 1 then ucast v else (m(p := ucast v)) a)"
      by (simp only: "1.IH" [OF True] sint_dec [OF True])
    finally show ?thesis using within_step [OF True, of a p] by auto
  next
    case False
    moreover have "\<not> uint (a - p) < sint n" using False uint_ge_0 [of "a - p"] by linarith
    ultimately show ?thesis by (subst memset_loop.simps) simp
  qed
qed

lemma bzero_loop_memset: "bzero_loop m p n = memset_loop m p 0 n"
proof (induction m p n rule: bzero_loop.induct)
  case (1 m p n)
  have "ucast (0 :: u32) = (0 :: u8)" by simp
  with "1.IH" show ?case
    unfolding bzero_loop.simps [of m p n] memset_loop.simps [of m p 0 n] by metis
qed

lemma memset_loop_8 [mem_simps]:
  "memset_loop m p v 8 a = (if a - p < 8 then ucast v else m a)"
  by (simp add: memset_loop_byte word_less_def)

text \<open>A zero-terminated string \<open>bs\<close> stored at \<open>s\<close>, readable with its zero.\<close>

definition cstr_at :: "addr set \<Rightarrow> memory \<Rightarrow> addr \<Rightarrow> u8 list \<Rightarrow> bool" where
  "cstr_at R m s bs \<longleftrightarrow> 0 \<notin> set bs \<and> (\<forall>i \<le> length bs. s + of_nat i \<in> R) \<and>
     (\<forall>i < length bs. m (s + of_nat i) = bs ! i) \<and> m (s + of_nat (length bs)) = 0"

definition read_bytes :: "memory \<Rightarrow> addr \<Rightarrow> nat \<Rightarrow> u8 list" where
  "read_bytes m a n = map (\<lambda>i. m (a + of_nat i)) [0..<n]"

lemma read_cstr [mem_simps]: "cstr_at R m s bs \<Longrightarrow> read_bytes m s (length bs) = bs"
  by (auto simp: cstr_at_def read_bytes_def intro: nth_equalityI)

text \<open>The first \<open>k\<close> bytes can be read and are not zero.\<close>

definition nonzero_upto :: "addr set \<Rightarrow> memory \<Rightarrow> addr \<Rightarrow> nat \<Rightarrow> bool" where
  "nonzero_upto R m s k \<longleftrightarrow> (\<forall>i < k. s + of_nat i \<in> R \<and> m (s + of_nat i) \<noteq> 0)"

lemma strlen_loop_skip:
  "nonzero_upto R m s k \<Longrightarrow> strlen_loop R m s c = strlen_loop R m (s + of_nat k) (c + of_nat k)"
proof (induction k)
  case (Suc k)
  have here: "s + of_nat k \<in> R" "m (s + of_nat k) \<noteq> 0" and "nonzero_upto R m s k"
    using Suc.prems by (auto simp: nonzero_upto_def)
  then have "strlen_loop R m s c = strlen_loop R m (s + of_nat k) (c + of_nat k)" using Suc.IH by simp
  also have "\<dots> = strlen_loop R m (s + of_nat (Suc k)) (c + of_nat (Suc k))"
    using here by (subst strlen_loop.simps) (simp add: ac_simps)
  finally show ?case .
qed simp

lemma strlen_fault: "nonzero_upto R m s k \<Longrightarrow> s + of_nat k \<notin> R \<Longrightarrow> strlen R m s = Some None"
  unfolding strlen_def by (subst strlen_loop_skip, assumption) (simp add: strlen_loop.simps)

lemma strlen_return:
  "nonzero_upto R m s k \<Longrightarrow> s + of_nat k \<in> R \<Longrightarrow> m (s + of_nat k) = 0 \<Longrightarrow> strlen R m s = Some (Some (of_nat k))"
  unfolding strlen_def by (subst strlen_loop_skip, assumption) (simp add: strlen_loop.simps)

lemma nonzero_cstr: "cstr_at R m s bs \<Longrightarrow> nonzero_upto R m s (length bs)"
  by (auto simp: cstr_at_def nonzero_upto_def) (metis nth_mem)

lemma strlen_cstr: "cstr_at R m s bs \<Longrightarrow> strlen R m s = Some (Some (of_nat (length bs)))"
  using strlen_return [OF nonzero_cstr] by (auto simp: cstr_at_def)

lemma cstr_nonzero:
  "nonzero_upto R m s k \<Longrightarrow> s + of_nat k \<in> R \<Longrightarrow> m (s + of_nat k) = 0 \<Longrightarrow> cstr_at R m s (read_bytes m s k)"
  by (auto simp: cstr_at_def read_bytes_def nonzero_upto_def le_less)

text \<open>A loop that ends has met such an address.\<close>

lemma strlen_loop_ends: "strlen_loop R m s c = Some r \<Longrightarrow> \<exists>a. a \<notin> R \<or> m a = 0"
  by (rule strlen_loop.raw_induct [where P = "\<lambda>R m s c r. \<exists>a. a \<notin> R \<or> m a = 0"])
    (auto split: if_splits)

text \<open>The string that starts at \<open>s\<close> ends at the first address that is zero or not readable.\<close>

lemma first_stop:
  assumes "a \<notin> R \<or> m a = 0"
  shows "\<exists>k. nonzero_upto R m s k \<and> (s + of_nat k \<notin> R \<or> m (s + of_nat k) = 0)"
proof -
  let ?P = "\<lambda>n. s + of_nat n \<notin> R \<or> m (s + of_nat n) = 0"
  let ?n = "LEAST n. ?P n"
  have "?P (unat (a - s))" using assms by simp
  then have "?P ?n" by (rule LeastI)
  moreover have "nonzero_upto R m s ?n"
    using not_less_Least [of _ ?P] unfolding nonzero_upto_def by blast
  ultimately show ?thesis by blast
qed

section \<open>Properties\<close>

text \<open>\<open>memset\<close> stores the low byte of \<open>val\<close> in the \<open>len\<close> bytes from \<open>dest\<close> (none when \<open>len\<close>,
  a signed number, is not positive), leaves every other byte and \<open>errno\<close> alone, makes no system
  call and returns \<open>dest\<close>; \<open>bzero\<close> is \<open>memset\<close> with 0.\<close>

lemma memset_fills:
  "memset dest val len st =
     (dest, st\<lparr>mem := \<lambda>a. if uint (a - dest) < sint len then ucast val else mem st a\<rparr>) \<and>
   bzero dest len st = snd (memset dest 0 len st)"
  by (simp add: memset_def bzero_def bzero_loop_memset fun_eq_iff memset_loop_byte)

text \<open>C22. \<open>strlen\<close> returns \<open>n\<close> if a zero-terminated string of that length stands at its argument and can
  be read; it faults if an address that cannot be read comes before any
  zero byte, and it never returns if all of memory can be read and has no zero byte. Nothing
  else happens: each of the three holds only in its case.\<close>

theorem strlen_outcome:
  "(strlen R m s = Some (Some n) \<longleftrightarrow> (\<exists>bs. cstr_at R m s bs \<and> n = of_nat (length bs))) \<and>
   (strlen R m s = Some None \<longleftrightarrow> (\<exists>k. nonzero_upto R m s k \<and> s + of_nat k \<notin> R)) \<and>
   (strlen R m s = None \<longleftrightarrow> (\<forall>a. a \<in> R \<and> m a \<noteq> 0))"
proof (cases "\<forall>a. a \<in> R \<and> m a \<noteq> 0")
  case True
  then have "strlen R m s = None"
    using strlen_loop_ends [of R m s 0] by (cases "strlen R m s") (auto simp: strlen_def)
  then show ?thesis using True strlen_cstr [of R m s] strlen_fault [of R m s] by auto
next
  case False
  then obtain k where k: "nonzero_upto R m s k" "s + of_nat k \<notin> R \<or> m (s + of_nat k) = 0"
    using first_stop [of _ R m s] by blast
  show ?thesis
  proof (cases "s + of_nat k \<in> R")
    case readable: True
    then have "cstr_at R m s (read_bytes m s k)" using k cstr_nonzero by blast
    then show ?thesis
      using False strlen_cstr [of R m s] strlen_fault [of R m s] by fastforce
  next
    case unreadable: False
    then show ?thesis using False k strlen_cstr [of R m s] strlen_fault [of R m s] by fastforce
  qed
qed

end
