(* ===== verification/Libmini_Signal.thy ===== *)
theory Libmini_Signal
  imports Libmini_Memory
begin

text \<open>
  The signal functions of \<open>libmini.c\<close>: the \<open>sigset_t\<close> operations, \<open>signal\<close>, \<open>sigaction\<close>,
  \<open>sigprocmask\<close> and \<open>sigpending\<close>. A signal set lives in memory as \<open>val[0]\<close>, one 64-bit word;
  its abstraction is the set of signal numbers from 1 to 64. A \<open>struct sigaction\<close> is four
  8-byte fields: handler at offset 0, flags at 8, restorer at 16, mask at 24. Access through
  a null \<open>struct sigaction\<close> pointer is a fault, the value \<open>None\<close>.
\<close>

section \<open>Constants of libmini.h\<close>

definition EINVAL :: u64 where "EINVAL = 22"
definition NSIG :: int where "NSIG = 64 + 1"
definition SIG_ERR :: addr where "SIG_ERR = - 1"
definition SA_RESTART :: u64 where "SA_RESTART = 0x10000000"
definition SA_RESTORER :: u64 where "SA_RESTORER = 0x04000000"
definition sizeof_sigset :: u64 where "sizeof_sigset = 8"

definition set_errno :: "u64 \<Rightarrow> 'k mst \<Rightarrow> 'k mst" where
  "set_errno v st = st\<lparr>errno := v\<rparr>"

text \<open>\<open>((unsigned long int)1) << (sig - 1)\<close>\<close>

definition sigmask :: "u32 \<Rightarrow> u64" where
  "sigmask sig = push_bit (nat (sint (sig - 1))) 1"

section \<open>Signal sets\<close>

definition sigemptyset :: "addr \<Rightarrow> 'k mst \<Rightarrow> u32 \<times> 'k mst" where
  "sigemptyset s st =
     (if s = NULL then (- 1, set_errno EINVAL st)
      else (0, snd (memset s 0 sizeof_sigset st)))"

definition sigfillset :: "addr \<Rightarrow> 'k mst \<Rightarrow> u32 \<times> 'k mst" where
  "sigfillset s st =
     (if s = NULL then (- 1, set_errno EINVAL st)
      else (0, snd (memset s 0xff sizeof_sigset st)))"

definition bad_sig :: "u32 \<Rightarrow> bool" where
  "bad_sig signo \<longleftrightarrow> sint signo \<le> 0 \<or> NSIG \<le> sint signo"

definition sigaddset :: "addr \<Rightarrow> u32 \<Rightarrow> 'k mst \<Rightarrow> u32 \<times> 'k mst" where
  "sigaddset s signo st =
     (if s = NULL \<or> bad_sig signo then (- 1, set_errno EINVAL st)
      else (0, st\<lparr>mem := store64 (mem st) s (load64 (mem st) s OR sigmask signo)\<rparr>))"

definition sigdelset :: "addr \<Rightarrow> u32 \<Rightarrow> 'k mst \<Rightarrow> u32 \<times> 'k mst" where
  "sigdelset s signo st =
     (if s = NULL \<or> bad_sig signo then (- 1, set_errno EINVAL st)
      else (0, st\<lparr>mem := store64 (mem st) s (load64 (mem st) s AND NOT (sigmask signo))\<rparr>))"

definition sigismember :: "addr \<Rightarrow> u32 \<Rightarrow> 'k mst \<Rightarrow> u32 \<times> 'k mst" where
  "sigismember s signo st =
     (if s = NULL \<or> bad_sig signo then (- 1, set_errno EINVAL st)
      else (if load64 (mem st) s AND sigmask signo \<noteq> 0 then 1 else 0, st))"

section \<open>Signal actions\<close>

text \<open>\<open>sigaction\<close> completes the caller's structure before it calls the kernel; \<open>myrt\<close> is the
  address of the restorer in \<open>libmini64.asm\<close>. There is no test for a null \<open>act\<close>.\<close>

definition sigaction :: "'k kernel \<Rightarrow> addr \<Rightarrow> u32 \<Rightarrow> addr \<Rightarrow> addr \<Rightarrow> 'k mst \<Rightarrow> (u32 \<times> 'k mst) option" where
  "sigaction K myrt sig act oact st =
     (if act = NULL then None
      else
        let m1 = store64 (mem st) (act + 8) (load64 (mem st) (act + 8) OR SA_RESTORER);
            m2 = store64 m1 (act + 16) myrt;
            (ret, st1) = do_sys K (Sys_rt_sigaction sig act oact 8) (st\<lparr>mem := m2\<rparr>)
        in Some (wrapper_val ret st1))"

text \<open>\<open>signal\<close> builds its structure in the local variables \<open>act\<close> and \<open>oact\<close>, whose stack
  addresses are parameters here.\<close>

definition signal :: "'k kernel \<Rightarrow> addr \<Rightarrow> addr \<Rightarrow> addr \<Rightarrow> u32 \<Rightarrow> addr \<Rightarrow> 'k mst \<Rightarrow> (addr \<times> 'k mst) option" where
  "signal K myrt act oact sig handler st =
     (if handler = SIG_ERR \<or> sint sig < 1 \<or> NSIG \<le> sint sig
      then Some (SIG_ERR, set_errno EINVAL st)
      else
        let st1 = st\<lparr>mem := store64 (mem st) act handler\<rparr>;
            st2 = snd (sigemptyset (act + 24) st1);
            st3 = snd (sigaddset (act + 24) sig st2);
            st4 = st3\<lparr>mem := store64 (mem st3) (act + 8) SA_RESTART\<rparr>
        in case sigaction K myrt sig act oact st4 of
             None \<Rightarrow> None
           | Some (r, st5) \<Rightarrow>
               if sint r < 0 then Some (SIG_ERR, st5) else Some (load64 (mem st5) oact, st5))"

definition sigprocmask :: "'k kernel \<Rightarrow> u32 \<Rightarrow> addr \<Rightarrow> addr \<Rightarrow> 'k mst \<Rightarrow> u32 \<times> 'k mst" where
  "sigprocmask K how s oset st =
     (let (ret, st1) = do_sys K (Sys_rt_sigprocmask how s oset 8) st in wrapper_val ret st1)"

definition sigpending :: "'k kernel \<Rightarrow> addr \<Rightarrow> 'k mst \<Rightarrow> u32 \<times> 'k mst" where
  "sigpending K s st =
     (let (ret, st1) = do_sys K (Sys_rt_sigpending s 8) st in wrapper_val ret st1)"

interpretation sigprocmask_w: errno_wrapper K "Sys_rt_sigprocmask how s oset 8"
  "sigprocmask K how s oset" "- 1" for K how s oset
  by unfold_locales (simp_all add: sigprocmask_def wrapper_simps)

interpretation sigpending_w: errno_wrapper K "Sys_rt_sigpending s 8"
  "sigpending K s" "- 1" for K s
  by unfold_locales (simp_all add: sigpending_def wrapper_simps)

section \<open>Signal sets as sets of signal numbers\<close>

definition sigset :: "memory \<Rightarrow> addr \<Rightarrow> int set" where
  "sigset m p = {s. 1 \<le> s \<and> s \<le> 64 \<and> bit (load64 m p) (nat (s - 1))}"

lemma valid_sig: "\<not> bad_sig s \<longleftrightarrow> 1 \<le> sint s \<and> sint s \<le> 64"
  by (auto simp: bad_sig_def NSIG_def)

lemma bit_sigmask [mem_simps]:
  "\<not> bad_sig s \<Longrightarrow> bit (sigmask s) n \<longleftrightarrow> n = nat (sint s - 1)"
  by (auto simp: valid_sig sigmask_def sint_dec bit_simps nat_less_iff)

lemma sigset_store: "sigset (store64 m p w) p = {s. 1 \<le> s \<and> s \<le> 64 \<and> bit w (nat (s - 1))}"
  by (simp add: sigset_def)

lemma sigset_apart: "apart p q \<Longrightarrow> sigset (store64 m p w) q = sigset m q"
  by (simp add: sigset_def mem_simps)

lemma sigset_fill:
  "sigset (memset_loop m p v 8) p = {s. 1 \<le> s \<and> s \<le> 64 \<and> bit v (nat (s - 1) mod 8)}"
  by (auto simp: sigset_def bit_load64 memset_loop_8 bit_simps nat_less_iff)

lemma sigset_fill_apart: "apart p q \<Longrightarrow> sigset (memset_loop m p v 8) q = sigset m q"
proof -
  assume "apart p q"
  then have "load64 (memset_loop m p v 8) q = load64 m q"
    by (intro load64_cong) (simp add: memset_loop_8 apart_offset)
  then show ?thesis by (simp add: sigset_def)
qed

lemma bit_255: "bit (0xff :: u32) n \<longleftrightarrow> n < 8"
proof -
  have "(0xff :: u32) = Bit_Operations.mask 8" by (simp add: mask_numeral)
  then show ?thesis by (simp only: bit_mask_iff) auto
qed

lemma and_sigmask: "\<not> bad_sig s \<Longrightarrow> w AND sigmask s \<noteq> 0 \<longleftrightarrow> bit w (nat (sint s - 1))"
  by (subst bit_eq_iff) (auto simp: bit_simps bit_sigmask valid_sig nat_less_iff)

lemma nat_pred_eq: "1 \<le> s \<Longrightarrow> 1 \<le> t \<Longrightarrow> nat (s - 1) = nat (t - 1) \<longleftrightarrow> s = t" for s t :: int
  by linarith

text \<open>The interface the rest of the library and its users see: sets of signal numbers at
  addresses, with the laws of the five operations and their independence of other sets.\<close>

locale signal_sets =
  fixes abs :: "memory \<Rightarrow> addr \<Rightarrow> int set"
    and emp full :: "addr \<Rightarrow> 'k mst \<Rightarrow> u32 \<times> 'k mst"
    and add del ismem :: "addr \<Rightarrow> u32 \<Rightarrow> 'k mst \<Rightarrow> u32 \<times> 'k mst"
  assumes emp: "p \<noteq> NULL \<Longrightarrow> fst (emp p st) = 0 \<and> abs (mem (snd (emp p st))) p = {}"
    and full: "p \<noteq> NULL \<Longrightarrow> fst (full p st) = 0 \<and> abs (mem (snd (full p st))) p = {1..64}"
    and add: "p \<noteq> NULL \<Longrightarrow> \<not> bad_sig s \<Longrightarrow> fst (add p s st) = 0 \<and>
        abs (mem (snd (add p s st))) p = insert (sint s) (abs (mem st) p)"
    and del: "p \<noteq> NULL \<Longrightarrow> \<not> bad_sig s \<Longrightarrow> fst (del p s st) = 0 \<and>
        abs (mem (snd (del p s st))) p = abs (mem st) p - {sint s}"
    and ismem: "p \<noteq> NULL \<Longrightarrow> \<not> bad_sig s \<Longrightarrow>
        ismem p s st = (if sint s \<in> abs (mem st) p then 1 else 0, st)"
    and apart_add: "apart p q \<Longrightarrow> abs (mem (snd (add p s st))) q = abs (mem st) q"
    and apart_del: "apart p q \<Longrightarrow> abs (mem (snd (del p s st))) q = abs (mem st) q"
    and apart_emp: "apart p q \<Longrightarrow> abs (mem (snd (emp p st))) q = abs (mem st) q"
    and apart_full: "apart p q \<Longrightarrow> abs (mem (snd (full p st))) q = abs (mem st) q"
begin

definition add_all :: "addr \<Rightarrow> u32 list \<Rightarrow> 'k mst \<Rightarrow> 'k mst" where
  "add_all p ss st = foldl (\<lambda>st s. snd (add p s st)) st ss"

lemma ismem_add: "p \<noteq> NULL \<Longrightarrow> \<not> bad_sig s \<Longrightarrow> \<not> bad_sig t \<Longrightarrow>
    fst (ismem p t (snd (add p s st))) = (if sint t = sint s then 1 else fst (ismem p t st))"
  by (simp add: add ismem)

lemma ismem_del: "p \<noteq> NULL \<Longrightarrow> \<not> bad_sig s \<Longrightarrow> \<not> bad_sig t \<Longrightarrow>
    fst (ismem p t (snd (del p s st))) = (if sint t = sint s then 0 else fst (ismem p t st))"
  by (simp add: del ismem)

lemma del_add: "p \<noteq> NULL \<Longrightarrow> \<not> bad_sig s \<Longrightarrow> sint s \<notin> abs (mem st) p \<Longrightarrow>
    abs (mem (snd (del p s (snd (add p s st))))) p = abs (mem st) p"
  by (simp add: add del)

lemma abs_add_all: "p \<noteq> NULL \<Longrightarrow> \<forall>s \<in> set ss. \<not> bad_sig s \<Longrightarrow>
    abs (mem (add_all p ss st)) p = sint ` set ss \<union> abs (mem st) p"
  by (induction ss arbitrary: st) (auto simp: add_all_def add)

lemma built_set: "p \<noteq> NULL \<Longrightarrow> \<forall>s \<in> set ss. \<not> bad_sig s \<Longrightarrow> \<not> bad_sig t \<Longrightarrow>
    fst (ismem p t (add_all p ss (snd (emp p st)))) = (if t \<in> set ss then 1 else 0)"
  by (auto simp: ismem abs_add_all emp dest: signed_word_eqI)

end

lemmas sigset_defs = sigemptyset_def sigfillset_def sigaddset_def sigdelset_def sigismember_def
  set_errno_def memset_def sizeof_sigset_def

interpretation ss: signal_sets sigset sigemptyset sigfillset sigaddset sigdelset sigismember
  apply unfold_locales
  subgoal by (simp add: sigset_defs sigset_fill)
  subgoal for p st
    using bit_255 by (simp add: sigset_defs sigset_fill set_eq_iff) 
  subgoal by (auto simp: sigset_defs sigset_store bit_simps bit_sigmask nat_pred_eq valid_sig)
     (auto simp: sigset_def)
  subgoal by (auto simp: sigset_defs sigset_store bit_simps bit_sigmask nat_pred_eq valid_sig)
     (auto simp: sigset_def)
  subgoal by (auto simp: sigset_defs and_sigmask sigset_def valid_sig)
  subgoal by (simp add: sigset_defs sigset_apart)
  subgoal by (simp add: sigset_defs sigset_apart)
  subgoal by (simp add: sigset_defs sigset_fill_apart)
  subgoal by (simp add: sigset_defs sigset_fill_apart)
  done

section \<open>Installing a handler\<close>

definition sigaction_at :: "memory \<Rightarrow> addr \<Rightarrow> addr \<Rightarrow> u64 \<Rightarrow> addr \<Rightarrow> int set \<Rightarrow> bool" where
  "sigaction_at m act handler flags restorer blocked \<longleftrightarrow>
     load64 m act = handler \<and> load64 m (act + 8) = flags \<and>
     load64 m (act + 16) = restorer \<and> sigset m (act + 24) = blocked"

lemma apart_fields [mem_simps]:
  "apart a (a + 8)" "apart a (a + 16)" "apart a (a + 24)"
  "apart (a + 8) a" "apart (a + 16) a" "apart (a + 24) a"
  "apart (a + 8) (a + 16)" "apart (a + 8) (a + 24)" "apart (a + 16) (a + 24)"
  "apart (a + 16) (a + 8)" "apart (a + 24) (a + 8)" "apart (a + 24) (a + 16)"
  by (simp_all add: apart_def)

lemma sum_below_32: "y < 8 \<Longrightarrow> k \<le> 24 \<Longrightarrow> y + k < (32 :: u64)"
  using unat_plus_if' [of y k]
  by (simp add: word_less_nat_alt word_le_nat_alt split: if_splits)

lemma outside_struct: "\<not> x - a < 32 \<Longrightarrow> k \<le> 24 \<Longrightarrow> \<not> x - (a + k) < 8" for x a k :: u64
  using sum_below_32 [of "x - (a + k)" k] by (auto simp: algebra_simps)

lemma store64_outside: "\<not> x - a < 32 \<Longrightarrow> k \<le> 24 \<Longrightarrow> store64 m (a + k) w x = m x"
  by (simp add: store64_other outside_struct)

lemma memset_outside: "\<not> x - a < 32 \<Longrightarrow> k \<le> 24 \<Longrightarrow> memset_loop m (a + k) v 8 x = m x"
  by (simp add: memset_loop_8 outside_struct)

text \<open>The memory in which \<open>signal\<close> issues its system call.\<close>

definition signal_frame :: "addr \<Rightarrow> addr \<Rightarrow> u32 \<Rightarrow> addr \<Rightarrow> memory \<Rightarrow> memory" where
  "signal_frame myrt act sig handler m =
     (let m1 = store64 m act handler;
          m2 = memset_loop m1 (act + 24) 0 8;
          m3 = store64 m2 (act + 24) (load64 m2 (act + 24) OR sigmask sig);
          m4 = store64 m3 (act + 8) SA_RESTART;
          m5 = store64 m4 (act + 8) (load64 m4 (act + 8) OR SA_RESTORER)
      in store64 m5 (act + 16) myrt)"

lemma signal_frame_outside: "\<not> x - act < 32 \<Longrightarrow> signal_frame myrt act sig handler m x = m x"
  using store64_outside [of x act 0] by (simp add: signal_frame_def Let_def store64_outside memset_outside)

lemma load64_memset_apart: "apart a b \<Longrightarrow> load64 (memset_loop m a v 8) b = load64 m b"
  by (rule load64_cong) (simp add: memset_loop_8 apart_offset)

lemma signal_frame_struct: "\<not> bad_sig sig \<Longrightarrow>
    sigaction_at (signal_frame myrt act sig handler m) act handler (SA_RESTART OR SA_RESTORER) myrt {sint sig}"
proof -
  assume valid: "\<not> bad_sig sig"
  let ?m2 = "memset_loop (store64 m act handler) (act + 24) 0 8"
  have "sigset (store64 ?m2 (act + 24) (load64 ?m2 (act + 24) OR sigmask sig)) (act + 24)
      = insert (sint sig) (sigset ?m2 (act + 24))"
    using valid by (auto simp: sigset_store bit_simps bit_sigmask nat_pred_eq valid_sig sigset_def)
  moreover have "sigset ?m2 (act + 24) = {}" by (simp add: sigset_fill)
  ultimately show ?thesis
    by (simp add: sigaction_at_def signal_frame_def Let_def load64_store64_apart load64_memset_apart
        sigset_apart apart_fields)
qed

lemma signal_unfold:
  assumes "handler \<noteq> SIG_ERR" "\<not> bad_sig sig" "act \<noteq> NULL" "act + 24 \<noteq> NULL"
  shows "signal K myrt act oact sig handler st =
     (let (ret, st1) = do_sys K (Sys_rt_sigaction sig act oact 8)
                         (st\<lparr>mem := signal_frame myrt act sig handler (mem st)\<rparr>);
          (r, st2) = (wrapper_val ret st1 :: u32 \<times> _)
      in Some (if sint r < 0 then SIG_ERR else load64 (mem st2) oact, st2))"
  using assms
  by (simp add: signal_def sigaction_def sigset_defs signal_frame_def bad_sig_def Let_def
      split_beta not_le not_less)

section \<open>Properties\<close>

definition idle_process :: "unit mst" where
  "idle_process = \<lparr>errno = 0, mem = (\<lambda>_. 0), kern = ()\<rparr>"

lemma idle_process_simps [simp]:
  "errno idle_process = 0" "mem idle_process = (\<lambda>_. 0)" "kern idle_process = ()"
  by (simp_all add: idle_process_def)

text \<open>C20. On a non-null set and a signal number from 1 to 64 the bit operations of
  \<open>sigaddset\<close>, \<open>sigdelset\<close> and \<open>sigismember\<close> are insertion, removal and membership, and
  \<open>sigemptyset\<close> and \<open>sigfillset\<close> build the empty and the full set.\<close>

theorem sigset_operations:
  assumes "p \<noteq> NULL" and "\<not> bad_sig s"
  shows "sigset (mem (snd (sigemptyset p st))) p = {} \<and>
    sigset (mem (snd (sigfillset p st))) p = {1..64} \<and>
    sigset (mem (snd (sigaddset p s st))) p = insert (sint s) (sigset (mem st) p) \<and>
    sigset (mem (snd (sigdelset p s st))) p = sigset (mem st) p - {sint s} \<and>
    sigismember p s st = (if sint s \<in> sigset (mem st) p then 1 else 0, st)"
  using assms by (simp add: ss.emp ss.full ss.add ss.del ss.ismem)

theorem sigset_operations_witness:
  "sigset (mem (snd (sigaddset 4096 14 idle_process))) 4096
     = insert 14 (sigset (mem idle_process) 4096)"
  using sigset_operations [of 4096 14 idle_process] by (simp add: bad_sig_def NSIG_def)

definition build_sigset :: "addr \<Rightarrow> u32 list \<Rightarrow> 'k mst \<Rightarrow> 'k mst" where
  "build_sigset p sigs st = foldl (\<lambda>st s. snd (sigaddset p s st)) (snd (sigemptyset p st)) sigs"

lemma build_sigset_apart: "apart p q \<Longrightarrow> sigset (mem (build_sigset p sigs st)) q = sigset (mem st) q"
  for st :: "'k mst"
proof -
  assume "apart p q"
  then have "sigset (mem (foldl (\<lambda>st s. snd (sigaddset p s st)) st0 sigs)) q = sigset (mem st0) q"
    for st0 :: "'k mst"
    by (induction sigs arbitrary: st0) (simp_all add: ss.apart_add)
  with \<open>apart p q\<close> show ?thesis by (simp add: build_sigset_def ss.apart_emp)
qed

text \<open>A set built by \<open>sigemptyset\<close> and any sequence of \<open>sigaddset\<close> calls on valid signals
  answers \<open>sigismember\<close> with 1 exactly for the signals that were added, whatever memory held
  before, and leaves every other signal set of the process alone.\<close>

lemma sigset_built_by_adds:
  assumes "p \<noteq> NULL" and "\<forall>s \<in> set sigs. \<not> bad_sig s" and "\<not> bad_sig t" and "apart p q"
  shows "fst (sigismember p t (build_sigset p sigs st)) = (if t \<in> set sigs then 1 else 0) \<and>
    sigset (mem (build_sigset p sigs st)) q = sigset (mem st) q"
  using ss.built_set [of p sigs t st] assms build_sigset_apart [of p q sigs st]
  by (simp add: ss.add_all_def build_sigset_def)

lemma sigset_built_by_adds_witness:
  "fst (sigismember 4096 2 (build_sigset 4096 [14, 2] idle_process)) = 1"
  using sigset_built_by_adds [of 4096 "[14, 2]" 2 8192 idle_process]
  by (simp add: bad_sig_def NSIG_def apart_def)

text \<open>A null set or a signal number outside 1 to 64 makes the three per-signal operations
  return -1 with \<open>errno\<close> set to \<open>EINVAL\<close>, and changes nothing else.\<close>

lemma sigset_rejects:
  assumes "p = NULL \<or> sint s \<le> 0 \<or> 65 \<le> sint s"
  shows "sigaddset p s st = (- 1, st\<lparr>errno := 22\<rparr>) \<and> sigdelset p s st = (- 1, st\<lparr>errno := 22\<rparr>) \<and>
    sigismember p s st = (- 1, st\<lparr>errno := 22\<rparr>)"
  using assms by (auto simp: sigset_defs bad_sig_def NSIG_def EINVAL_def)

lemma sigset_rejects_witness:
  "sigaddset 4096 65 idle_process = (- 1, idle_process\<lparr>errno := 22\<rparr>)"
  using sigset_rejects [of 4096 65 idle_process] by simp

text \<open>C19. \<open>signal\<close> hands the kernel a structure with the handler, the flags
  \<open>SA_RESTART | SA_RESTORER\<close>, the restorer \<open>myrt\<close> and a mask that blocks exactly the signal
  itself, in the 32 bytes of its local variable; it returns the previous handler the kernel
  wrote to \<open>oact\<close>, or \<open>SIG_ERR\<close> with \<open>errno\<close> when the kernel refuses.\<close>

theorem signal_installs:
  assumes "handler \<noteq> SIG_ERR" "\<not> bad_sig sig" "act \<noteq> NULL" "act + 24 \<noteq> NULL"
  shows "\<exists>m. sigaction_at m act handler (SA_RESTART OR SA_RESTORER) myrt {sint sig} \<and>
    (\<forall>x. x - act < 32 \<or> m x = mem st x) \<and>
    (\<forall>ret m' k'. K (Sys_rt_sigaction sig act oact 8) m (kern st) = (ret, m', k') \<longrightarrow>
       (ret = 0 \<longrightarrow> signal K myrt act oact sig handler st
           = Some (load64 m' oact, st\<lparr>errno := 0, mem := m', kern := k'\<rparr>)) \<and>
       (- 4095 \<le> sint ret \<and> sint ret < 0 \<longrightarrow> signal K myrt act oact sig handler st
           = Some (SIG_ERR, st\<lparr>errno := - ret, mem := m', kern := k'\<rparr>)))"
proof (intro exI conjI allI impI)
  let ?m = "signal_frame myrt act sig handler (mem st)"
  show "sigaction_at ?m act handler (SA_RESTART OR SA_RESTORER) myrt {sint sig}"
    using assms by (intro signal_frame_struct) auto
  show "x - act < 32 \<or> ?m x = mem st x" for x
    using signal_frame_outside by blast
  fix ret m' k'
  assume K: "K (Sys_rt_sigaction sig act oact 8) ?m (kern st) = (ret, m', k')"
  show "signal K myrt act oact sig handler st
      = Some (load64 m' oact, st\<lparr>errno := 0, mem := m', kern := k'\<rparr>)" if "ret = 0"
    using K that by (simp add: signal_unfold [OF assms] do_sys_def wrapper_val_def)
  show "signal K myrt act oact sig handler st
      = Some (SIG_ERR, st\<lparr>errno := - ret, mem := m', kern := k'\<rparr>)"
    if "- 4095 \<le> sint ret \<and> sint ret < 0"
    using K that by (simp add: signal_unfold [OF assms] do_sys_def wrapper_val_def)
qed

theorem signal_installs_witness:
  "\<exists>m. sigaction_at m 8192 4660 (SA_RESTART OR SA_RESTORER) 77 {2} \<and>
     (\<forall>x. x - 8192 < 32 \<or> m x = 0) \<and>
     signal (\<lambda>c m k. (0, m, k)) 77 8192 12288 2 4660 idle_process
       = Some (load64 m 12288, idle_process\<lparr>mem := m\<rparr>)"
proof -
  have "(4660 :: addr) \<noteq> SIG_ERR" "\<not> bad_sig 2" "(8192 :: addr) \<noteq> NULL" "(8192 :: addr) + 24 \<noteq> NULL"
    by (simp_all add: SIG_ERR_def bad_sig_def NSIG_def)
  from signal_installs [OF this, of 77 idle_process "\<lambda>c m k. (0, m, k)" 12288]
  show ?thesis by (auto simp: idle_process_def)
qed

text \<open>\<open>signal\<close> refuses \<open>SIG_ERR\<close> as a handler and signal numbers outside 1 to 64 without
  calling the kernel: only \<open>errno\<close> changes.\<close>

lemma signal_rejects:
  assumes "handler = SIG_ERR \<or> bad_sig sig"
  shows "signal K myrt act oact sig handler st = Some (SIG_ERR, st\<lparr>errno := 22\<rparr>)"
  using assms by (auto simp: signal_def bad_sig_def set_errno_def EINVAL_def NSIG_def)

lemma signal_rejects_witness:
  "signal (\<lambda>c m k. (0, m, k)) 77 8192 12288 0 4660 idle_process = Some (- 1, idle_process\<lparr>errno := 22\<rparr>)"
  using signal_rejects [of 4660 0 "\<lambda>c m k. (0, m, k)" 77 8192 12288 idle_process]
  by (simp add: bad_sig_def SIG_ERR_def)

text \<open>\<open>sigaction\<close> faults exactly on a null \<open>act\<close>, which the system call itself allows for
  asking about the current action. Otherwise it hands the kernel the caller's structure with
  \<open>SA_RESTORER\<close> added to the flags and \<open>myrt\<close> as restorer, handler and mask unchanged.\<close>

lemma sigaction_completes:
  "(sigaction K myrt sig act oact st = None \<longleftrightarrow> act = NULL) \<and>
   (act \<noteq> NULL \<longrightarrow> (\<exists>m.
      sigaction_at m act (load64 (mem st) act) (load64 (mem st) (act + 8) OR SA_RESTORER) myrt
        (sigset (mem st) (act + 24)) \<and>
      sigaction K myrt sig act oact st =
        Some (let (ret, st1) = do_sys K (Sys_rt_sigaction sig act oact 8) (st\<lparr>mem := m\<rparr>)
              in wrapper_val ret st1)))"
proof -
  let ?m = "store64 (store64 (mem st) (act + 8) (load64 (mem st) (act + 8) OR SA_RESTORER)) (act + 16) myrt"
  have "sigaction_at ?m act (load64 (mem st) act) (load64 (mem st) (act + 8) OR SA_RESTORER) myrt
      (sigset (mem st) (act + 24))"
    by (simp add: sigaction_at_def load64_store64_apart sigset_apart apart_fields)
  then show ?thesis by (auto simp: sigaction_def Let_def split_beta)
qed

lemma sigaction_completes_witness:
  "\<exists>m. sigaction_at m 4096 0 SA_RESTORER 77 {} \<and>
     sigaction (\<lambda>c m k. (- 22, m, k)) 77 9 4096 0 idle_process
       = Some (- 1, idle_process\<lparr>errno := 22, mem := m\<rparr>)"
proof -
  have "load64 (mem idle_process) a = 0" for a by (rule bit_word_eqI) (simp add: bit_load64)
  moreover have "sigset (mem idle_process) a = {}" for a by (simp add: sigset_def bit_load64)
  ultimately show ?thesis
    using sigaction_completes [of "\<lambda>c m k. (- 22, m, k)" 77 9 4096 0 idle_process]
    by (auto simp: do_sys_def wrapper_val_def idle_process_def)
qed

end
