(* ===== verification/Libmini_Asm.thy ===== *)
theory Libmini_Asm
  imports Libmini_Signal
begin

text \<open>
  The hand-written part of the library, \<open>libmini64.asm\<close>: \<open>setjmp\<close>, \<open>longjmp\<close>, \<open>open\<close> and
  \<open>sleep\<close> as lists of instructions, run on the registers they use and on byte memory. A
  \<open>call sys_X\<close> is one instruction: the stub saves and restores \<open>r10\<close>, makes the system call
  and returns the answer in \<open>rax\<close>.
\<close>

section \<open>Instructions\<close>

datatype reg = RAX | RBX | RCX | RDX | RSI | RDI | RBP | RSP | R8 | R10 | R12 | R13 | R14 | R15

record 'k cpu =
  reg :: "reg \<Rightarrow> u64"
  rip :: addr
  proc :: "'k mst"

datatype operand = Reg reg | Imm u64 | Mem reg u64

datatype instr =
    MOV operand operand
  | LEA reg reg u64
  | PUSH operand
  | POP operand
  | ADD reg u64
  | SUB reg u64
  | NEG reg
  | INC reg
  | CALL "u64 \<Rightarrow> u64 \<Rightarrow> u64 \<Rightarrow> u64 \<Rightarrow> syscall"
  | RET

definition set_reg :: "reg \<Rightarrow> u64 \<Rightarrow> 'k cpu \<Rightarrow> 'k cpu" where
  "set_reg r v c = c\<lparr>reg := (reg c)(r := v)\<rparr>"

definition set_mem :: "addr \<Rightarrow> u64 \<Rightarrow> 'k cpu \<Rightarrow> 'k cpu" where
  "set_mem a v c = c\<lparr>proc := (proc c)\<lparr>mem := store64 (mem (proc c)) a v\<rparr>\<rparr>"

definition get_mem :: "addr \<Rightarrow> 'k cpu \<Rightarrow> u64" where
  "get_mem a c = load64 (mem (proc c)) a"

fun val_of :: "operand \<Rightarrow> 'k cpu \<Rightarrow> u64" where
  "val_of (Reg r) c = reg c r"
| "val_of (Imm i) c = i"
| "val_of (Mem r d) c = get_mem (reg c r + d) c"

fun assign :: "operand \<Rightarrow> u64 \<Rightarrow> 'k cpu \<Rightarrow> 'k cpu" where
  "assign (Reg r) v c = set_reg r v c"
| "assign (Imm i) v c = c"
| "assign (Mem r d) v c = set_mem (reg c r + d) v c"

definition push :: "u64 \<Rightarrow> 'k cpu \<Rightarrow> 'k cpu" where
  "push v c = set_mem (reg c RSP - 8) v (set_reg RSP (reg c RSP - 8) c)"

text \<open>The stub of \<open>gensys\<close>, called with the system call \<open>s\<close> that its registers spell out:
  the call pushes its return address \<open>ra\<close>, and the \<open>syscall\<close> instruction leaves the address
  \<open>nxt\<close> of its successor in \<open>rcx\<close>.\<close>

definition stub :: "'k kernel \<Rightarrow> addr \<Rightarrow> addr \<Rightarrow> syscall \<Rightarrow> 'k cpu \<Rightarrow> 'k cpu" where
  "stub K ra nxt s c =
     (let c1 = push (reg c R10) (push ra c);
          (r, p) = do_sys K s (proc c1)
      in c1\<lparr>reg := (reg c1)(RAX := r, RCX := nxt,
             R10 := load64 (mem p) (reg c1 RSP), RSP := reg c1 RSP + 16), proc := p\<rparr>)"

fun exec1 :: "'k kernel \<Rightarrow> addr \<Rightarrow> addr \<Rightarrow> instr \<Rightarrow> 'k cpu \<Rightarrow> 'k cpu" where
  "exec1 K ra nxt (MOV d s) c = assign d (val_of s c) c"
| "exec1 K ra nxt (LEA r b d) c = set_reg r (reg c b + d) c"
| "exec1 K ra nxt (PUSH s) c = push (val_of s c) c"
| "exec1 K ra nxt (POP d) c =
     assign d (get_mem (reg c RSP) c) (set_reg RSP (reg c RSP + 8) c)"
| "exec1 K ra nxt (ADD r i) c = set_reg r (reg c r + i) c"
| "exec1 K ra nxt (SUB r i) c = set_reg r (reg c r - i) c"
| "exec1 K ra nxt (NEG r) c = set_reg r (- reg c r) c"
| "exec1 K ra nxt (INC r) c = set_reg r (reg c r + 1) c"
| "exec1 K ra nxt (CALL s) c = stub K ra nxt (s (reg c RDI) (reg c RSI) (reg c RDX) (reg c RCX)) c"
| "exec1 K ra nxt RET c = (set_reg RSP (reg c RSP + 8) c)\<lparr>rip := get_mem (reg c RSP) c\<rparr>"

fun exec :: "'k kernel \<Rightarrow> addr \<Rightarrow> addr \<Rightarrow> instr list \<Rightarrow> 'k cpu \<Rightarrow> 'k cpu" where
  "exec K ra nxt [] c = c"
| "exec K ra nxt (i # is) c = exec K ra nxt is (exec1 K ra nxt i c)"

section \<open>The routines\<close>

definition sys_rt_sigprocmask :: instr where
  "sys_rt_sigprocmask = CALL (\<lambda>rdi rsi rdx rcx. Sys_rt_sigprocmask (ucast rdi) rsi rdx rcx)"

definition sys_open :: instr where
  "sys_open = CALL (\<lambda>rdi rsi rdx rcx. Sys_open rdi (ucast rsi) rdx)"

definition sys_nanosleep :: instr where
  "sys_nanosleep = CALL (\<lambda>rdi rsi rdx rcx. Sys_nanosleep rdi rsi)"

definition setjmp :: "instr list" where
  "setjmp = [
     LEA R8 RSP 8,
     MOV (Mem RDI (0 * 8)) (Reg RBX),
     MOV (Mem RDI (1 * 8)) (Reg R8),
     MOV (Mem RDI (2 * 8)) (Reg RBP),
     MOV (Mem RDI (3 * 8)) (Reg R12),
     MOV (Mem RDI (4 * 8)) (Reg R13),
     MOV (Mem RDI (5 * 8)) (Reg R14),
     MOV (Mem RDI (6 * 8)) (Reg R15),
     PUSH (Mem RSP 0),
     POP (Mem RDI (7 * 8)),
     PUSH (Reg RDI),
     PUSH (Reg RSI),
     PUSH (Reg RDX),
     PUSH (Reg RCX),
     SUB RSP 8,
     MOV (Reg RDI) (Imm 0),
     MOV (Reg RSI) (Imm 0),
     MOV (Reg RDX) (Reg RSP),
     MOV (Reg RCX) (Imm 8),
     sys_rt_sigprocmask,
     POP (Reg R8),
     POP (Reg RCX),
     POP (Reg RDX),
     POP (Reg RSI),
     POP (Reg RDI),
     MOV (Mem RDI (8 * 8)) (Reg R8),
     MOV (Reg RAX) (Imm 0),
     RET]"

definition longjmp_body :: "instr list" where
  "longjmp_body = [
     MOV (Reg RBX) (Mem RDI (0 * 8)),
     MOV (Reg RSP) (Mem RDI (1 * 8)),
     MOV (Reg RBP) (Mem RDI (2 * 8)),
     MOV (Reg R12) (Mem RDI (3 * 8)),
     MOV (Reg R13) (Mem RDI (4 * 8)),
     MOV (Reg R14) (Mem RDI (5 * 8)),
     MOV (Reg R15) (Mem RDI (6 * 8)),
     PUSH (Reg RDI),
     PUSH (Reg RSI),
     PUSH (Reg RDX),
     PUSH (Reg RCX),
     ADD RDI (8 * 8),
     MOV (Reg RSI) (Reg RDI),
     MOV (Reg RDI) (Imm 2),
     MOV (Reg RDX) (Imm 0),
     MOV (Reg RCX) (Imm 8),
     sys_rt_sigprocmask,
     POP (Reg RCX),
     POP (Reg RDX),
     POP (Reg RSI),
     POP (Reg RDI),
     PUSH (Mem RDI (7 * 8)),
     MOV (Reg RAX) (Reg RSI)]"

text \<open>\<open>cmp rax, 0; jne longjmpret; inc rax\<close>\<close>

definition longjmp :: "'k kernel \<Rightarrow> addr \<Rightarrow> addr \<Rightarrow> 'k cpu \<Rightarrow> 'k cpu" where
  "longjmp K ra nxt c0 =
     (let c = exec K ra nxt longjmp_body c0
      in exec K ra nxt (if reg c RAX \<noteq> 0 then [RET] else [INC RAX, RET]) c)"

text \<open>\<open>errno\<close> is reached through the global offset table; its address is left in \<open>rdi\<close>.\<close>

definition set_errno_reg :: "addr \<Rightarrow> u64 \<Rightarrow> 'k cpu \<Rightarrow> 'k cpu" where
  "set_errno_reg ep v c = (set_reg RDI ep c)\<lparr>proc := (proc c)\<lparr>errno := v\<rparr>\<rparr>"

definition open_mini :: "'k kernel \<Rightarrow> addr \<Rightarrow> addr \<Rightarrow> addr \<Rightarrow> 'k cpu \<Rightarrow> 'k cpu" where
  "open_mini K ep ra nxt c0 =
     (let c = exec K ra nxt [sys_open] c0;
          c = (if 0 \<le> sint (reg c RAX) then set_errno_reg ep 0 c
               else let c = exec K ra nxt [NEG RAX] c
                    in set_reg RAX (- 1) (set_errno_reg ep (reg c RAX) c))
      in exec K ra nxt [RET] c)"

definition sleep_body :: "instr list" where
  "sleep_body = [
     SUB RSP 32,
     MOV (Mem RSP 0) (Reg RDI),
     MOV (Mem RSP 8) (Imm 0),
     MOV (Reg RDI) (Reg RSP),
     LEA RSI RSP 16,
     sys_nanosleep]"

definition sleep_mini :: "'k kernel \<Rightarrow> addr \<Rightarrow> addr \<Rightarrow> 'k cpu \<Rightarrow> 'k cpu" where
  "sleep_mini K ra nxt c0 =
     (let c = exec K ra nxt sleep_body c0;
          c = (if 0 \<le> sint (reg c RAX) then c
               else let c = exec K ra nxt [NEG RAX] c
                    in if reg c RAX = 4 then exec K ra nxt [LEA RSI RSP 16, MOV (Reg RAX) (Mem RSI 0)] c
                       else exec K ra nxt [MOV (Reg RAX) (Imm 0)] c)
      in exec K ra nxt [ADD RSP 32, RET] c)"

text \<open>The restorer of signal handlers. \<open>rt_sigreturn\<close> puts back the registers the kernel saved on the
  stack when it called the handler, so the \<open>ret\<close> behind it runs only if the call fails.\<close>

definition myrt :: "('k cpu \<Rightarrow> 'k cpu option) \<Rightarrow> 'k kernel \<Rightarrow> addr \<Rightarrow> addr \<Rightarrow> 'k cpu \<Rightarrow> 'k cpu" where
  "myrt rt_sigreturn K ra nxt c0 =
     (let c = exec K ra nxt [MOV (Reg RAX) (Imm 15)] c0
      in case rt_sigreturn c of Some c' \<Rightarrow> c' | None \<Rightarrow> exec K ra nxt [RET] c)"

text \<open>\<open>start.asm\<close>: \<open>main\<close> is called with \<open>argc\<close> and \<open>argv\<close>, and its result is the exit code.\<close>

definition start_body :: "('k cpu \<Rightarrow> 'k cpu) \<Rightarrow> 'k kernel \<Rightarrow> addr \<Rightarrow> addr \<Rightarrow> 'k cpu \<Rightarrow> 'k mst" where
  "start_body main K ra nxt c0 =
     (let c = exec K ra nxt [MOV (Reg RDI) (Mem RSP 0), LEA RSI RSP 8] c0;
          c = main (push ra c);
          c = exec K ra nxt [MOV (Reg RDI) (Reg RAX)] c
      in exit_mini K (ucast (reg c RDI)) (proc c))"

lemmas instr_defs = set_reg_def set_mem_def get_mem_def push_def stub_def do_sys_def
  sys_rt_sigprocmask_def sys_open_def sys_nanosleep_def Let_def split_beta

section \<open>The saved environment\<close>

text \<open>What a \<open>jmp_buf\<close> at \<open>jb\<close> holds about the state \<open>c0\<close> at the entry of \<open>setjmp\<close>: the
  callee-saved registers, the stack pointer and the return address of its caller, and the
  signal mask \<open>w\<close>.\<close>

definition env_saved :: "memory \<Rightarrow> addr \<Rightarrow> (reg \<Rightarrow> u64) \<Rightarrow> addr \<Rightarrow> u64 \<Rightarrow> bool" where
  "env_saved m jb r back w \<longleftrightarrow>
     load64 m jb = r RBX \<and> load64 m (jb + 8) = r RSP + 8 \<and> load64 m (jb + 16) = r RBP \<and>
     load64 m (jb + 24) = r R12 \<and> load64 m (jb + 32) = r R13 \<and> load64 m (jb + 40) = r R14 \<and>
     load64 m (jb + 48) = r R15 \<and> load64 m (jb + 56) = back \<and> load64 m (jb + 64) = w"

text \<open>The nine words of the buffer and the eight stack words the two routines write, from
  \<open>sp - 56\<close> to \<open>sp\<close>, do not overlap.\<close>

definition off_stack :: "addr \<Rightarrow> addr \<Rightarrow> bool" where
  "off_stack jb sp \<longleftrightarrow>
     (\<forall>a \<in> {jb, jb + 8, jb + 16, jb + 24, jb + 32, jb + 40, jb + 48, jb + 56, jb + 64}.
      \<forall>b \<in> {sp, sp - 8, sp - 16, sp - 24, sp - 32, sp - 40, sp - 48, sp - 56}.
        apart a b \<and> apart b a)"

text \<open>The kernel's contract for \<open>rt_sigprocmask\<close>: with a null set it stores the current mask,
  with \<open>SIG_SETMASK\<close> it installs the given one.\<close>

definition masks :: "'k kernel \<Rightarrow> ('k \<Rightarrow> u64) \<Rightarrow> (u64 \<Rightarrow> 'k \<Rightarrow> 'k) \<Rightarrow> bool" where
  "masks K cur setm \<longleftrightarrow>
     (\<forall>m k p. p \<noteq> NULL \<longrightarrow> K (Sys_rt_sigprocmask 0 0 p 8) m k = (0, store64 m p (cur k), k)) \<and>
     (\<forall>m k p. p \<noteq> NULL \<longrightarrow> K (Sys_rt_sigprocmask 2 p 0 8) m k = (0, m, setm (load64 m p) k))"

lemma apart_words [mem_simps]:
  "apart a (a + 32)" "apart a (a + 40)" "apart a (a + 48)" "apart a (a + 56)" "apart a (a + 64)"
  by (simp_all add: apart_def)

lemma apart_shift [mem_simps]:
  "apart (a + b) (a + c) \<longleftrightarrow> apart b c" "apart (a - b) (a - c) \<longleftrightarrow> apart c b"
  "apart (a - b) a \<longleftrightarrow> apart 0 b" "apart a (a - b) \<longleftrightarrow> apart 0 b"
  "apart (a + b) a \<longleftrightarrow> apart 0 b" "apart a (a + b) \<longleftrightarrow> apart 0 b"
  by (auto simp: apart_def algebra_simps)

lemma apart_numerals [mem_simps]:
  "apart (numeral m) (numeral n) \<longleftrightarrow> 8 \<le> (numeral m - numeral n :: u64) \<and> 8 \<le> (numeral n - numeral m :: u64)"
  "apart 0 (numeral n) \<longleftrightarrow> 8 \<le> (- numeral n :: u64) \<and> 8 \<le> (numeral n :: u64)"
  by (simp_all add: apart_def)

lemmas asm_simps = instr_defs load64_store64_apart apart_shift apart_numerals

lemma setjmp_saves:
  assumes "masks K cur setm" and "off_stack (reg c0 RDI) (reg c0 RSP)" and "reg c0 RSP - 40 \<noteq> NULL"
  shows "env_saved (mem (proc (exec K ra nxt setjmp c0))) (reg c0 RDI) (reg c0)
      (load64 (mem (proc c0)) (reg c0 RSP)) (cur (kern (proc c0)))"
  using assms
  by (simp add: setjmp_def asm_simps masks_def env_saved_def off_stack_def)

lemma setjmp_returns:
  assumes "masks K cur setm" and "off_stack (reg c0 RDI) (reg c0 RSP)" and "reg c0 RSP - 40 \<noteq> NULL"
  shows "reg (exec K ra nxt setjmp c0) RAX = 0 \<and>
    rip (exec K ra nxt setjmp c0) = load64 (mem (proc c0)) (reg c0 RSP) \<and>
    reg (exec K ra nxt setjmp c0) RSP = reg c0 RSP + 8 \<and>
    kern (proc (exec K ra nxt setjmp c0)) = kern (proc c0) \<and>
    (\<forall>r \<in> {RBX, RBP, R12, R13, R14, R15, RDI}. reg (exec K ra nxt setjmp c0) r = reg c0 r)"
  using assms
  by (simp add: setjmp_def asm_simps masks_def off_stack_def)

lemma longjmp_restores:
  assumes "masks K cur setm" and "env_saved (mem (proc c)) (reg c RDI) r back w"
    and "off_stack (reg c RDI) (r RSP)" and "reg c RDI + 64 \<noteq> NULL"
  shows "\<forall>x \<in> {RBX, RBP, R12, R13, R14, R15}. reg (longjmp K ra nxt c) x = r x"
    and "reg (longjmp K ra nxt c) RSP = r RSP + 8" and "rip (longjmp K ra nxt c) = back"
    and "reg (longjmp K ra nxt c) RAX = (if reg c RSI = 0 then 1 else reg c RSI)"
    and "kern (proc (longjmp K ra nxt c)) = setm w (kern (proc c))"
  using assms
  by (simp_all add: longjmp_def longjmp_body_def asm_simps masks_def env_saved_def off_stack_def)

lemma below_72: "k \<le> 64 \<Longrightarrow> i < 8 \<Longrightarrow> k + of_nat i < (72 :: u64)"
  using unat_plus_if' [of k "of_nat i"]
  by (simp add: word_less_nat_alt word_le_nat_alt split: if_splits)

lemma env_saved_cong:
  assumes "env_saved m jb r back w" and "\<forall>x. x - jb < 72 \<longrightarrow> m' x = m x"
  shows "env_saved m' jb r back w"
proof -
  have "load64 m' (jb + k) = load64 m (jb + k)" if "k \<le> 64" for k
    using that assms(2) by (intro load64_cong) (simp add: below_72 add.assoc)
  from this [of 0] this [of 8] this [of 16] this [of 24] this [of 32] this [of 40]
    this [of 48] this [of 56] this [of 64]
  show ?thesis using assms(1) by (simp add: env_saved_def)
qed

lemmas asm_jump_defs = open_mini_def sleep_mini_def sleep_body_def set_errno_reg_def

section \<open>Properties\<close>

text \<open>C18. \<open>longjmp\<close> undoes whatever happened since \<open>setjmp\<close>: as long as the nine words of the
  buffer are intact, the process continues where \<open>setjmp\<close> returned, with the callee-saved
  registers, the stack pointer and the signal mask it had then, and sees the return value
  \<open>val\<close>, or 1 when \<open>val\<close> is 0.\<close>

theorem setjmp_longjmp:
  assumes "masks K cur setm" and "\<forall>k k'. cur (setm (cur k) k') = cur k"
    and "off_stack (reg c0 RDI) (reg c0 RSP)"
    and "reg c0 RSP - 40 \<noteq> NULL" and "reg c0 RDI + 64 \<noteq> NULL"
    and "reg c RDI = reg c0 RDI"
    and "\<forall>x. x - reg c0 RDI < 72 \<longrightarrow> mem (proc c) x = mem (proc (exec K ra nxt setjmp c0)) x"
  shows "(\<forall>x \<in> {RBX, RBP, RSP, R12, R13, R14, R15}.
      reg (longjmp K ra nxt c) x = reg (exec K ra nxt setjmp c0) x) \<and>
    rip (longjmp K ra nxt c) = rip (exec K ra nxt setjmp c0) \<and>
    reg (exec K ra nxt setjmp c0) RAX = 0 \<and>
    reg (longjmp K ra nxt c) RAX = (if reg c RSI = 0 then 1 else reg c RSI) \<and>
    cur (kern (proc (longjmp K ra nxt c))) = cur (kern (proc c0))"
proof -
  have "env_saved (mem (proc c)) (reg c RDI) (reg c0)
      (load64 (mem (proc c0)) (reg c0 RSP)) (cur (kern (proc c0)))"
    using env_saved_cong [OF setjmp_saves [OF assms(1,3,4)]] assms(6,7) by simp
  from longjmp_restores [OF assms(1) this, of ra nxt] setjmp_returns [OF assms(1,3,4), of ra nxt]
  show ?thesis using assms by simp
qed

definition mask_kernel :: "u64 kernel" where
  "mask_kernel c m k =
     (case c of
        Sys_rt_sigprocmask how s oset sz \<Rightarrow>
          (if how = 0 then (0, store64 m oset k, k) else (0, m, load64 m s))
      | _ \<Rightarrow> (0, m, k))"

definition calling_setjmp :: "u64 cpu" where
  "calling_setjmp = \<lparr>reg = (\<lambda>_. 7)(RDI := 4096, RSP := 65536), rip = 0,
     proc = \<lparr>errno = 0, mem = (\<lambda>_. 1), kern = 6\<rparr>\<rparr>"

theorem setjmp_longjmp_witness:
  "reg (longjmp mask_kernel 0 0 (set_reg RSI 5 (set_reg RDI 4096
      (exec mask_kernel 0 0 setjmp calling_setjmp)))) RAX = 5"
proof -
  let ?c1 = "exec mask_kernel 0 0 setjmp calling_setjmp"
  have "masks mask_kernel (\<lambda>k. k) (\<lambda>w k. w)" by (simp add: masks_def mask_kernel_def)
  moreover have "off_stack 4096 65536" by (simp add: off_stack_def apart_def)
  ultimately show ?thesis
    using setjmp_longjmp [of mask_kernel "\<lambda>k. k" "\<lambda>w k. w" calling_setjmp
        "set_reg RSI 5 (set_reg RDI 4096 ?c1)" 0 0]
    by (simp add: calling_setjmp_def set_reg_def)
qed

text \<open>What \<open>main\<close> gets, and that its result reaches the kernel as the exit code.\<close>

lemma start_exits:
  "\<exists>c. reg c RDI = load64 (mem (proc c0)) (reg c0 RSP) \<and> reg c RSI = reg c0 RSP + 8 \<and>
    start_body main K ra nxt c0 = snd (do_sys K (Sys_exit (ucast (reg (main c) RAX))) (proc (main c)))"
  by (intro exI [of _ "push ra (exec K ra nxt [MOV (Reg RDI) (Mem RSP 0), LEA RSI RSP 8] c0)"])
    (simp add: start_body_def exit_mini_def set_reg_def push_def set_mem_def get_mem_def Let_def)

text \<open>\<open>open\<close> returns the descriptor with \<open>errno\<close> cleared, or -1 with \<open>errno\<close> the negated
  answer of the kernel, to its caller, with the stack pointer restored.\<close>

lemma open_result:
  assumes "\<forall>m. K (Sys_open (reg c RDI) (ucast (reg c RSI)) (reg c RDX)) m (kern (proc c)) = (r, m, k')"
  shows "reg (open_mini K ep ra nxt c) RAX = (if sint r < 0 then - 1 else r) \<and>
    errno (proc (open_mini K ep ra nxt c)) = (if sint r < 0 then - r else 0) \<and>
    rip (open_mini K ep ra nxt c) = load64 (mem (proc c)) (reg c RSP) \<and>
    reg (open_mini K ep ra nxt c) RSP = reg c RSP + 8"
  using assms by (simp add: asm_jump_defs asm_simps)

lemma open_result_witness:
  "reg (open_mini (\<lambda>c m k. (- 2, m, k)) 9 0 0 calling_setjmp) RAX = - 1 \<and>
   errno (proc (open_mini (\<lambda>c m k. (- 2, m, k)) 9 0 0 calling_setjmp)) = 2"
  using open_result [of "\<lambda>c m k. (- 2, m, k)" calling_setjmp "- 2" "kern (proc calling_setjmp)" 9 0 0]
  by simp

text \<open>\<open>sleep\<close> asks the kernel for the seconds in its argument and no nanoseconds, and
  returns 0 after a full sleep, the seconds the kernel left in the second structure when a
  signal interrupted it, and 0 after any other error; its caller resumes with its stack.\<close>

lemma sleep_result:
  "\<exists>m. load64 m (reg c RSP - 32) = reg c RDI \<and> load64 m (reg c RSP - 24) = 0 \<and>
     (\<forall>r m' k'. K (Sys_nanosleep (reg c RSP - 32) (reg c RSP - 16)) m (kern (proc c)) = (r, m', k') \<longrightarrow>
        reg (sleep_mini K ra nxt c) RAX =
          (if 0 \<le> sint r then r else if r = - 4 then load64 m' (reg c RSP - 16) else 0) \<and>
        rip (sleep_mini K ra nxt c) = load64 m' (reg c RSP) \<and>
        reg (sleep_mini K ra nxt c) RSP = reg c RSP + 8)"
proof -
  let ?sp = "reg c RSP"
  let ?m = "store64 (store64 (store64 (store64 (mem (proc c)) (?sp - 32) (reg c RDI)) (?sp - 24) 0)
    (?sp - 40) ra) (?sp - 48) (reg c R10)"
  have "- r = 4 \<longleftrightarrow> r = - 4" for r :: u64 by (metis minus_minus)
  then show ?thesis
    by (intro exI [of _ ?m]) (auto simp: asm_jump_defs asm_simps)
qed

lemma sleep_result_witness:
  "reg (sleep_mini (\<lambda>c m k. (case c of Sys_nanosleep a b \<Rightarrow> (- 4, store64 m b 3, k) | _ \<Rightarrow> (0, m, k)))
     0 0 calling_setjmp) RAX = 3"
  using sleep_result [of calling_setjmp "\<lambda>c m k. (case c of Sys_nanosleep a b \<Rightarrow> (- 4, store64 m b 3, k)
      | _ \<Rightarrow> (0, m, k))" 0 0]
  by auto

end
