(* ===== verification/Libmini_Perror.thy ===== *)
theory Libmini_Perror
  imports Libmini_Memory "HOL-Library.Monad_Syntax"
begin

text \<open>
  \<open>perror\<close> of \<open>libmini.c\<close> and its table of messages. String literals live in the read-only
  data of the library, at addresses the linker chooses: the parameter \<open>lit\<close>. \<open>R\<close> is the set
  of addresses that can be read. \<open>None\<close> is a call that does not return: a fault, by an index
  outside \<open>errmsg\<close> or in \<open>strlen\<close>, or a \<open>strlen\<close> that never ends.
\<close>

section \<open>Model\<close>

definition errmsg :: "string list" where
  "errmsg = [
    ''Success'',
    ''Operation not permitted'',
    ''No such file or directory'',
    ''No such process'',
    ''Interrupted system call'',
    ''I/O error'',
    ''No such device or address'',
    ''Argument list too long'',
    ''Exec format error'',
    ''Bad file number'',
    ''No child processes'',
    ''Try again'',
    ''Out of memory'',
    ''Permission denied'',
    ''Bad address'',
    ''Block device required'',
    ''Device or resource busy'',
    ''File exists'',
    ''Cross-device link'',
    ''No such device'',
    ''Not a directory'',
    ''Is a directory'',
    ''Invalid argument'',
    ''File table overflow'',
    ''Too many open files'',
    ''Not a typewriter'',
    ''Text file busy'',
    ''File too large'',
    ''No space left on device'',
    ''Illegal seek'',
    ''Read-only file system'',
    ''Too many links'',
    ''Broken pipe'',
    ''Math argument out of domain of func'',
    ''Math result not representable'']"

definition PERRMSG_MIN :: int where "PERRMSG_MIN = 0"
definition PERRMSG_MAX :: int where "PERRMSG_MAX = 34"

definition newline :: string where "newline = [CHR 0x0A]"

text \<open>\<open>errmsg[i]\<close>: the address of the message, if the index is inside the array.\<close>

definition errmsg_at :: "(string \<Rightarrow> addr) \<Rightarrow> u64 \<Rightarrow> addr option" where
  "errmsg_at lit i =
     (if 0 \<le> sint i \<and> sint i < int (length errmsg) then Some (lit (errmsg ! nat (sint i))) else None)"

text \<open>\<open>write(2, s, strlen(s))\<close>\<close>

definition write_str :: "addr set \<Rightarrow> 'k kernel \<Rightarrow> addr \<Rightarrow> 'k mst \<Rightarrow> 'k mst option" where
  "write_str R K s st = do { r \<leftarrow> strlen R (mem st) s; n \<leftarrow> r; Some (snd (write_mini K 2 s n st)) }"

definition perror :: "addr set \<Rightarrow> 'k kernel \<Rightarrow> (string \<Rightarrow> addr) \<Rightarrow> addr \<Rightarrow> 'k mst \<Rightarrow> 'k mst option" where
  "perror R K lit prefix st = do {
     let backup = errno st;
     st1 \<leftarrow> (if prefix \<noteq> NULL
             then do {
               st1 \<leftarrow> write_str R K prefix st;
               Some (snd (write_mini K 2 (lit '': '') 2 st1)) }
             else Some st);
     st2 \<leftarrow> (if sint (errno st1) < PERRMSG_MIN \<or> PERRMSG_MAX < sint (errno st1)
             then write_str R K (lit ''Unknown'') st1
             else do { s \<leftarrow> errmsg_at lit backup; write_str R K s st1 });
     Some (snd (write_mini K 2 (lit newline) 1 st2)) }"

section \<open>Output on a kernel that writes\<close>

definition bytes :: "string \<Rightarrow> u8 list" where
  "bytes s = map of_char s"

lemma length_bytes [simp]: "length (bytes s) = length s"
  by (simp add: bytes_def)

text \<open>What \<open>perror\<close> relies on: its literals are in memory, and \<open>write(2)\<close> outputs the bytes
  of the buffer, returns their number and leaves the memory of the process as it is.\<close>

definition literals :: "string set" where
  "literals = set errmsg \<union> {'': '', ''Unknown'', newline}"

definition rodata :: "addr set \<Rightarrow> (string \<Rightarrow> addr) \<Rightarrow> memory \<Rightarrow> bool" where
  "rodata R lit m \<longleftrightarrow> (\<forall>s \<in> literals. cstr_at R m (lit s) (bytes s))"

definition writes :: "'k kernel \<Rightarrow> (u8 list \<Rightarrow> 'k \<Rightarrow> 'k) \<Rightarrow> bool" where
  "writes K emit \<longleftrightarrow> (\<forall>buf n m k. 0 \<le> sint n \<longrightarrow>
     K (Sys_write 2 buf n) m k = (n, m, emit (read_bytes m buf (unat n)) k))"

lemma write_mini_emit:
  assumes "writes K emit" and "cstr_at R (mem st) s bs" and "int (length bs) < 2 ^ 63"
  shows "write_mini K 2 s (of_nat (length bs)) st
    = (of_nat (length bs), st\<lparr>errno := 0, kern := emit bs (kern st)\<rparr>)"
proof -
  have "sint (of_nat (length bs) :: u64) = int (length bs)"
    using assms(3) by (simp add: signed_of_nat signed_take_bit_int_eq_self)
  moreover have "unat (of_nat (length bs) :: u64) = length bs"
    using assms(3) by (simp add: unat_of_nat)
  ultimately show ?thesis
    using assms(1,2) by (simp add: write_mini_def do_sys_def wrapper_val_def writes_def read_cstr)
qed

lemma write_str_emit:
  "writes K emit \<Longrightarrow> cstr_at R (mem st) s bs \<Longrightarrow> int (length bs) < 2 ^ 63 \<Longrightarrow>
    write_str R K s st = Some (st\<lparr>errno := 0, kern := emit bs (kern st)\<rparr>)"
  by (simp add: write_str_def strlen_cstr write_mini_emit)

lemma literal_short: "s \<in> literals \<Longrightarrow> length s \<le> 40"
  by (auto simp: literals_def errmsg_def newline_def)

lemma write_literal:
  assumes "writes K emit" and "rodata R lit (mem st)" and "s \<in> literals"
  shows "write_str R K (lit s) st = Some (st\<lparr>errno := 0, kern := emit (bytes s) (kern st)\<rparr>)"
    and "write_mini K 2 (lit s) (of_nat (length s)) st
      = (of_nat (length s), st\<lparr>errno := 0, kern := emit (bytes s) (kern st)\<rparr>)"
  using assms literal_short [OF assms(3)] write_str_emit [of K emit R st "lit s" "bytes s"]
    write_mini_emit [of K emit R st "lit s" "bytes s"]
  by (simp_all add: rodata_def)

lemma errmsg_at_literal:
  "errmsg_at lit i = Some a \<Longrightarrow> \<exists>s \<in> literals. s = errmsg ! nat (sint i) \<and> a = lit s"
  by (auto simp: errmsg_at_def literals_def split: if_splits)

lemma length_errmsg [simp]: "length errmsg = 35"
  by (simp add: errmsg_def)

lemma write_colon:
  "writes K emit \<Longrightarrow> rodata R lit (mem st) \<Longrightarrow>
    write_mini K 2 (lit '': '') 2 st = (2, st\<lparr>errno := 0, kern := emit (bytes '': '') (kern st)\<rparr>)"
  using write_literal(2) [of K emit R lit st "'': ''"] by (simp add: literals_def)

lemma write_newline:
  "writes K emit \<Longrightarrow> rodata R lit (mem st) \<Longrightarrow>
    write_mini K 2 (lit newline) 1 st = (1, st\<lparr>errno := 0, kern := emit (bytes newline) (kern st)\<rparr>)"
  using write_literal(2) [of K emit R lit st newline] by (simp add: literals_def newline_def)

lemma errmsg_at_in: "0 \<le> sint i \<Longrightarrow> sint i \<le> 34 \<Longrightarrow> errmsg_at lit i = Some (lit (errmsg ! nat (sint i)))"
  by (simp add: errmsg_at_def)

lemma write_errmsg:
  "writes K emit \<Longrightarrow> rodata R lit (mem st) \<Longrightarrow> 0 \<le> sint i \<Longrightarrow> sint i \<le> 34 \<Longrightarrow>
    write_str R K (lit (errmsg ! nat (sint i))) st
      = Some (st\<lparr>errno := 0, kern := emit (bytes (errmsg ! nat (sint i))) (kern st)\<rparr>)"
  by (simp add: write_literal literals_def)

section \<open>A concrete image and a console\<close>

text \<open>A kernel whose \<open>write\<close> appends to a console, and a memory that holds a table of strings
  at multiples of 64, for evaluating the functions on concrete input.\<close>

definition console :: "u8 list kernel" where
  "console c m k =
     (case c of Sys_write fd buf n \<Rightarrow> (n, m, k @ read_bytes m buf (unat n)) | _ \<Rightarrow> (0, m, k))"

fun index_of :: "string list \<Rightarrow> string \<Rightarrow> nat" where
  "index_of [] s = 0"
| "index_of (t # ts) s = (if s = t then 0 else Suc (index_of ts s))"

definition str_image :: "string list \<Rightarrow> memory" where
  "str_image tbl a =
     (let i = unat a div 64; j = unat a mod 64
      in if i < length tbl \<and> j < length (tbl ! i) then of_char (tbl ! i ! j) else 0)"

definition image_lit :: "string list \<Rightarrow> string \<Rightarrow> addr" where
  "image_lit tbl s = of_nat (64 * index_of tbl s)"

definition demo_table :: "string list" where
  "demo_table = [] # ''demo'' # '': '' # ''Unknown'' # newline # errmsg"

definition demo_process :: "u64 \<Rightarrow> u8 list mst" where
  "demo_process e = \<lparr>errno = e, mem = str_image demo_table, kern = []\<rparr>"

lemma console_writes: "writes console (\<lambda>bs k. k @ bs)"
  by (simp add: writes_def console_def)

lemma index_of_nth: "s \<in> set tbl \<Longrightarrow> index_of tbl s < length tbl \<and> tbl ! index_of tbl s = s"
  by (induction tbl) auto

lemma str_image_byte:
  assumes "i < length tbl" and "length tbl < 1000" and "j < 64"
  shows "str_image tbl (of_nat (64 * i + j)) = (if j < length (tbl ! i) then of_char (tbl ! i ! j) else 0)"
proof -
  have "64 * i + j < 2 ^ 64" using assms by simp
  then have "unat (of_nat (64 * i + j) :: u64) = 64 * i + j"
    by (simp add: unat_of_nat del: of_nat_add)
  moreover have "(64 * i + j) div 64 = i" "(64 * i + j) mod 64 = j" using assms(3) by simp_all
  ultimately show ?thesis using assms(1) by (simp add: str_image_def del: of_nat_add)
qed

lemma str_image_cstr:
  assumes "s \<in> set tbl" and "length tbl < 1000" and "length s < 64" and "0 \<notin> set (bytes s)"
  shows "cstr_at UNIV (str_image tbl) (image_lit tbl s) (bytes s)"
proof -
  have "image_lit tbl s + of_nat k = of_nat (64 * index_of tbl s + k)" for k
    by (simp add: image_lit_def)
  then show ?thesis
    using index_of_nth [OF assms(1)] assms str_image_byte [of "index_of tbl s" tbl]
    by (simp add: cstr_at_def del: of_nat_add) (simp add: bytes_def)
qed

lemma demo_literal: "s \<in> set demo_table \<Longrightarrow> cstr_at UNIV (str_image demo_table) (image_lit demo_table s) (bytes s)"
  by (rule str_image_cstr) (auto simp: demo_table_def errmsg_def bytes_def newline_def of_char_def)

lemma demo_rodata: "rodata UNIV (image_lit demo_table) (mem (demo_process e))"
  unfolding rodata_def demo_process_def
  by (auto simp: literals_def demo_table_def intro: demo_literal [unfolded demo_table_def])

lemma demo_prefix:
  "image_lit demo_table ''demo'' \<noteq> NULL"
  "cstr_at UNIV (mem (demo_process e)) (image_lit demo_table ''demo'') (bytes ''demo'')"
  using demo_literal [of "''demo''"]
  by (simp_all add: demo_process_def) (simp_all add: demo_table_def image_lit_def)

section \<open>Properties\<close>

text \<open>For an error number from 0 to 34 \<open>perror\<close> prints the prefix, a colon and a space,
  the message of that number and a newline on descriptor 2, in this order.\<close>

lemma perror_prefixed:
  assumes "writes K emit" and "rodata R lit (mem st)"
    and "prefix \<noteq> NULL" and "cstr_at R (mem st) prefix bs" and "int (length bs) < 2 ^ 63"
    and "0 \<le> sint (errno st)" and "sint (errno st) \<le> 34"
  shows "perror R K lit prefix st = Some (st\<lparr>errno := 0, kern :=
    emit (bytes newline) (emit (bytes (errmsg ! nat (sint (errno st))))
      (emit (bytes '': '') (emit bs (kern st))))\<rparr>)"
  using assms
  by (simp add: perror_def Let_def write_str_emit write_colon write_newline errmsg_at_in
      write_errmsg PERRMSG_MIN_def PERRMSG_MAX_def)

lemma perror_prefixed_witness:
  "map_option kern (perror UNIV console (image_lit demo_table) (image_lit demo_table ''demo'') (demo_process 2))
     = Some (bytes (''demo: No such file or directory'' @ newline))"
  using perror_prefixed [OF console_writes demo_rodata demo_prefix, of 2]
  by (simp add: demo_process_def errmsg_def bytes_def)

text \<open>Without a prefix \<open>perror\<close> tests the error number it was called with: it prints the
  message of a number from 0 to 34 and \<open>Unknown\<close> for any other.\<close>

lemma perror_without_prefix:
  assumes "writes K emit" and "rodata R lit (mem st)"
  shows "perror R K lit NULL st = Some (st\<lparr>errno := 0, kern := emit (bytes newline) (emit (bytes
    (if 0 \<le> sint (errno st) \<and> sint (errno st) \<le> 34 then errmsg ! nat (sint (errno st))
     else ''Unknown'')) (kern st))\<rparr>)"
  using assms write_literal(1) [of K emit R lit st "''Unknown''"]
  by (simp add: perror_def Let_def write_newline errmsg_at_in write_errmsg PERRMSG_MIN_def
      PERRMSG_MAX_def literals_def not_le not_less)

lemma perror_without_prefix_witness:
  "map_option kern (perror UNIV console (image_lit demo_table) NULL (demo_process 38))
     = Some (bytes (''Unknown'' @ newline))"
  using perror_without_prefix [OF console_writes demo_rodata, of 38]
  by (simp add: demo_process_def bytes_def)

text \<open>C21. With a prefix the range test reads the \<open>errno\<close> that the first two \<open>write\<close> calls have
  already cleared: for any error number above 34 the table is read out of bounds.\<close>

theorem perror_reads_out_of_bounds:
  assumes "writes K emit" and "rodata R lit (mem st)"
    and "prefix \<noteq> NULL" and "cstr_at R (mem st) prefix bs" and "int (length bs) < 2 ^ 63"
    and "34 < sint (errno st)"
  shows "perror R K lit prefix st = None"
  using assms
  by (simp add: perror_def Let_def write_str_emit write_colon PERRMSG_MIN_def PERRMSG_MAX_def
      errmsg_at_def)

theorem perror_reads_out_of_bounds_witness:
  "perror UNIV console (image_lit demo_table) (image_lit demo_table ''demo'') (demo_process 38) = None"
  using perror_reads_out_of_bounds [OF console_writes demo_rodata demo_prefix, of 38]
  by (simp add: demo_process_def)

end
