(* ===== verification/Libmini_Demos.thy ===== *)
theory Libmini_Demos
  imports Libmini_Asm Libmini_Perror
begin

text \<open>
  The programs of hw3 that use the library: \<open>write1.c\<close>, \<open>alarm1.c\<close>, \<open>alarm2.c\<close> and
  \<open>alarm3.c\<close>. Their string literals are at the addresses \<open>lit\<close>, their local variables at
  addresses that are arguments, and \<open>R\<close> is the set of addresses that can be read.
\<close>

section \<open>Writing strings\<close>

text \<open>\<open>write(1, s, strlen(s))\<close>\<close>

definition write_out :: "addr set \<Rightarrow> 'k kernel \<Rightarrow> addr \<Rightarrow> 'k mst \<Rightarrow> 'k mst option" where
  "write_out R K s st = do { r \<leftarrow> strlen R (mem st) s; n \<leftarrow> r; Some (snd (write_mini K 1 s n st)) }"

definition hello_list :: "string list" where
  "hello_list = [''Hello'', '' '', ''world'', ''!'' @ newline]"

fun write_list :: "addr set \<Rightarrow> 'k kernel \<Rightarrow> addr list \<Rightarrow> 'k mst \<Rightarrow> 'k mst option" where
  "write_list R K [] st = Some st"
| "write_list R K (s # ss) st = do { st \<leftarrow> write_out R K s st; write_list R K ss st }"

definition write1_main :: "addr set \<Rightarrow> 'k kernel \<Rightarrow> (string \<Rightarrow> addr) \<Rightarrow> 'k mst \<Rightarrow> 'k mst option" where
  "write1_main R K lit st = write_list R K (map lit hello_list) st"

section \<open>Alarms\<close>

definition SIG_BLOCK :: u32 where "SIG_BLOCK = 0"
definition SIGINT :: u32 where "SIGINT = 2"
definition SIGALRM :: u32 where "SIGALRM = 14"
definition SIG_IGN :: addr where "SIG_IGN = 1"

definition alarm1_main :: "'k kernel \<Rightarrow> 'k mst \<Rightarrow> 'k mst" where
  "alarm1_main K st = snd (pause_mini K (snd (alarm_mini K 3 st)))"

definition block_alarm :: "'k kernel \<Rightarrow> addr \<Rightarrow> 'k mst \<Rightarrow> 'k mst" where
  "block_alarm K s st =
     (let st = snd (sigemptyset s st); st = snd (sigaddset s SIGALRM st)
      in snd (sigprocmask K SIG_BLOCK s NULL st))"

text \<open>The arrays \<open>m\<close>: the text with its NUL, which \<open>sizeof\<close> counts.\<close>

fun store_bytes :: "memory \<Rightarrow> addr \<Rightarrow> u8 list \<Rightarrow> memory" where
  "store_bytes m a [] = m"
| "store_bytes m a (b # bs) = store_bytes (m(a := b)) (a + 1) bs"

definition pending_text :: "bool \<Rightarrow> u8 list" where
  "pending_text p = bytes ((if p then ''sigalrm is pending.'' else ''sigalrm is not pending.'') @ newline) @ [0]"

definition report_pending :: "addr set \<Rightarrow> 'k kernel \<Rightarrow> (string \<Rightarrow> addr) \<Rightarrow> addr \<Rightarrow> addr \<Rightarrow> 'k mst \<Rightarrow> 'k mst option" where
  "report_pending R K lit s ma st = do {
     let (r, st) = sigpending K s st;
     st \<leftarrow> (if sint r < 0 then perror R K lit (lit ''sigpending'') st else Some st);
     let (r, st) = sigismember s SIGALRM st;
     let t = pending_text (r \<noteq> 0);
     let st = st\<lparr>mem := store_bytes (mem st) ma t\<rparr>;
     Some (snd (write_mini K 1 ma (of_nat (length t)) st)) }"

text \<open>\<open>sleep\<close> is called with the stack pointer \<open>sp\<close>.\<close>

definition sleep_call :: "'k kernel \<Rightarrow> addr \<Rightarrow> addr \<Rightarrow> addr \<Rightarrow> u64 \<Rightarrow> 'k mst \<Rightarrow> 'k mst" where
  "sleep_call K ra nxt sp seconds st =
     proc (sleep_mini K ra nxt \<lparr>reg = (\<lambda>_. 0)(RDI := seconds, RSP := sp), rip = 0, proc = st\<rparr>)"

definition alarm2_main ::
  "addr set \<Rightarrow> 'k kernel \<Rightarrow> (string \<Rightarrow> addr) \<Rightarrow> addr \<Rightarrow> addr \<Rightarrow> addr \<Rightarrow> addr \<Rightarrow> addr \<Rightarrow> 'k mst \<Rightarrow> 'k mst option" where
  "alarm2_main R K lit s ma ra nxt sp st =
     (let st = block_alarm K s st;
          st = snd (alarm_mini K 3 st);
          st = sleep_call K ra nxt sp 5 st
      in report_pending R K lit s ma st)"

definition alarm3_main ::
  "addr set \<Rightarrow> 'k kernel \<Rightarrow> (string \<Rightarrow> addr) \<Rightarrow> addr \<Rightarrow> addr \<Rightarrow> addr \<Rightarrow> addr \<Rightarrow> addr \<Rightarrow> addr \<Rightarrow> 'k mst \<Rightarrow> 'k mst option" where
  "alarm3_main R K lit restorer act oact handler s ma st = do {
     let st = block_alarm K s st;
     (_, st) \<leftarrow> signal K restorer act oact SIGALRM SIG_IGN st;
     (_, st) \<leftarrow> signal K restorer act oact SIGINT handler st;
     let st = snd (alarm_mini K 1 st);
     let st = snd (pause_mini K st);
     report_pending R K lit s ma st }"

section \<open>What the strings need\<close>

text \<open>\<open>write(1)\<close> outputs the bytes of the buffer, returns their number and changes no memory.\<close>

definition writes_out :: "'k kernel \<Rightarrow> (u8 list \<Rightarrow> 'k \<Rightarrow> 'k) \<Rightarrow> bool" where
  "writes_out K emit \<longleftrightarrow> (\<forall>buf n m k. 0 \<le> sint n \<longrightarrow>
     K (Sys_write 1 buf n) m k = (n, m, emit (read_bytes m buf (unat n)) k))"

lemma write_out_emit:
  assumes "writes_out K emit" and "cstr_at R (mem st) a (bytes t)" and "int (length t) < 2 ^ 63"
  shows "write_out R K a st = Some (st\<lparr>errno := 0, kern := emit (bytes t) (kern st)\<rparr>)"
proof -
  have "sint (of_nat (length t) :: u64) = int (length t)" "unat (of_nat (length t) :: u64) = length t"
    using assms(3) by (simp_all add: signed_of_nat signed_take_bit_int_eq_self unat_of_nat)
  then show ?thesis
    using assms(1,2) read_cstr [OF assms(2)]
    by (simp add: write_out_def strlen_cstr write_mini_def do_sys_def wrapper_val_def writes_out_def)
qed

lemma write_list_emit:
  assumes "writes_out K emit"
  shows "\<forall>t \<in> set ts. cstr_at R (mem st) (lit t) (bytes t) \<and> int (length t) < 2 ^ 63 \<Longrightarrow> errno st = 0 \<Longrightarrow>
    write_list R K (map lit ts) st = Some (st\<lparr>kern := fold emit (map bytes ts) (kern st)\<rparr>)"
proof (induction ts arbitrary: st)
  case (Cons t ts)
  then show ?case using write_out_emit [OF assms, of R st "lit t" t] by simp
qed simp

section \<open>Reports\<close>

lemma store_bytes_other: "\<forall>i < length bs. x \<noteq> a + of_nat i \<Longrightarrow> store_bytes m a bs x = m x"
proof (induction bs arbitrary: m a)
  case (Cons b bs)
  have "\<forall>i < length bs. x \<noteq> a + 1 + of_nat i"
  proof (intro allI impI)
    fix i assume "i < length bs"
    then show "x \<noteq> a + 1 + of_nat i" using Cons.prems [rule_format, of "Suc i"] by (simp add: algebra_simps)
  qed
  moreover have "x \<noteq> a" using Cons.prems [rule_format, of 0] by simp
  ultimately show ?case using Cons.IH by simp
qed simp

lemma small_offset: "i < 1000 \<Longrightarrow> j < 1000 \<Longrightarrow> of_nat i = (of_nat j :: u64) \<longleftrightarrow> i = j"
proof -
  assume "i < 1000" "j < 1000"
  then have "unat (of_nat i :: u64) = i" "unat (of_nat j :: u64) = j" by (simp_all add: unat_of_nat)
  then show ?thesis by metis
qed

lemma store_bytes_nth: "length bs < 1000 \<Longrightarrow> i < length bs \<Longrightarrow> store_bytes m a bs (a + of_nat i) = bs ! i"
proof (induction bs arbitrary: m a i)
  case (Cons b bs)
  show ?case
  proof (cases i)
    case 0
    have "\<forall>j < length bs. a \<noteq> a + 1 + of_nat j"
    proof (intro allI impI)
      fix j assume "j < length bs"
      then show "a \<noteq> a + 1 + of_nat j" using small_offset [of 0 "Suc j"] Cons.prems by (simp add: add.assoc)
    qed
    then show ?thesis using 0 store_bytes_other by simp
  next
    case (Suc k)
    then show ?thesis using Cons.IH [of k "m(a := b)" "a + 1"] Cons.prems
      by (simp add: ac_simps del: fun_upd_apply)
  qed
qed simp

lemma read_store_bytes: "length bs < 1000 \<Longrightarrow> read_bytes (store_bytes m a bs) a (length bs) = bs"
  by (auto simp: read_bytes_def store_bytes_nth intro: nth_equalityI)

lemma report_pending_writes:
  assumes "writes_out K emit" and "s \<noteq> NULL"
    and "\<forall>m k. K (Sys_rt_sigpending s 8) m k = (0, store64 m s (pend k), k)"
  shows "map_option kern (report_pending R K lit s ma st) = Some (emit (pending_text (bit (pend (kern st)) 13)) (kern st))"
proof -
  let ?t = "pending_text (bit (pend (kern st)) 13)"
  have short: "length ?t < 1000" by (simp add: pending_text_def newline_def)
  have "sint (of_nat (length ?t) :: u64) = int (length ?t)" "unat (of_nat (length ?t) :: u64) = length ?t"
    using short by (simp_all add: signed_of_nat signed_take_bit_int_eq_self unat_of_nat)
  then have wr: "kern (snd (write_mini K 1 ma (of_nat (length ?t)) (st'\<lparr>mem := store_bytes m ma ?t\<rparr>))) =
      emit ?t (kern st')" for st' m
    using assms(1) read_store_bytes [OF short]
    by (simp add: write_mini_def do_sys_def wrapper_val_def writes_out_def)
  have "sigpending K s st = (0, st\<lparr>errno := 0, mem := store64 (mem st) s (pend (kern st))\<rparr>)"
    using assms(3) by (cases st) (simp add: sigpending_def do_sys_def wrapper_val_def)
  moreover have "fst (sigismember s SIGALRM st') \<noteq> 0 \<longleftrightarrow> bit (load64 (mem st') s) 13" for st' :: "'a mst"
    using assms(2) and_sigmask [of SIGALRM] by (simp add: sigismember_def SIGALRM_def bad_sig_def NSIG_def)
  moreover have "snd (sigismember s SIGALRM st') = st'" for st' :: "'a mst"
    using assms(2) by (simp add: sigismember_def SIGALRM_def bad_sig_def NSIG_def)
  ultimately show ?thesis
    by (simp add: report_pending_def Let_def split_def wr)
qed

lemma block_alarm_set:
  assumes "s \<noteq> NULL"
  shows "\<exists>m. load64 m s = 0x2000 \<and> block_alarm K s st = snd (sigprocmask K SIG_BLOCK s NULL (st\<lparr>mem := m\<rparr>))"
proof -
  let ?m = "memset_loop (mem st) s 0 8"
  have "load64 ?m s = 0" by (rule bit_word_eqI) (simp add: bit_load64 memset_loop_8)
  then have "load64 (store64 ?m s (load64 ?m s OR sigmask SIGALRM)) s = 0x2000"
    by (simp add: sigmask_def SIGALRM_def)
  then show ?thesis
    using assms
    by (intro exI [of _ "store64 ?m s (load64 ?m s OR sigmask SIGALRM)"])
      (simp add: block_alarm_def sigset_defs bad_sig_def SIGALRM_def NSIG_def Let_def)
qed

section \<open>Properties\<close>

text \<open>C36. \<open>alarm2\<close> gives the kernel the set of exactly \<open>SIGALRM\<close> to block, and writes at the end whether
  the kernel then reports \<open>SIGALRM\<close> as pending. The NUL of the text, which \<open>sizeof\<close> counts,
  is written too.\<close>

theorem alarm2_reports:
  assumes "writes_out K emit" and "s \<noteq> NULL"
    and "\<forall>m k. K (Sys_rt_sigpending s 8) m k = (0, store64 m s (pend k), k)"
  shows "\<exists>m. load64 m s = 0x2000 \<and>
    (let k = kern (sleep_call K ra nxt sp 5 (snd (alarm_mini K 3 (snd (sigprocmask K SIG_BLOCK s NULL (st\<lparr>mem := m\<rparr>))))))
     in map_option kern (alarm2_main R K lit s ma ra nxt sp st) = Some (emit (pending_text (bit (pend k) 13)) k))"
proof -
  obtain m where m: "load64 m s = 0x2000"
      "block_alarm K s st = snd (sigprocmask K SIG_BLOCK s NULL (st\<lparr>mem := m\<rparr>))"
    using block_alarm_set [OF assms(2)] by blast
  then show ?thesis
    using report_pending_writes [OF assms] by (intro exI [of _ m]) (simp add: alarm2_main_def Let_def)
qed

text \<open>A kernel that keeps the set of blocked signals, makes an alarm pending at once, and has a console.\<close>

definition alarm_kernel :: "(u64 \<times> u64 \<times> u8 list) kernel" where
  "alarm_kernel c m k =
     (case (c, k) of
        (Sys_rt_sigprocmask how s oset sz, (b, p, txt)) \<Rightarrow> (0, m, (b OR load64 m s, p, txt))
      | (Sys_alarm n, (b, p, txt)) \<Rightarrow> (0, m, (b, p OR (b AND 0x2000), txt))
      | (Sys_rt_sigpending s sz, (b, p, txt)) \<Rightarrow> (0, store64 m s p, (b, p, txt))
      | (Sys_write fd buf n, (b, p, txt)) \<Rightarrow> (n, m, (b, p, txt @ read_bytes m buf (unat n)))
      | _ \<Rightarrow> (0, m, k))"

theorem alarm2_reports_witness:
  "\<exists>k. map_option kern (alarm2_main UNIV alarm_kernel (\<lambda>_. 0) 64 128 0 0 4096
      \<lparr>errno = 0, mem = (\<lambda>_. 0), kern = (0, 0, [])\<rparr>) = Some k \<and> snd (snd k) = pending_text True"
proof -
  let ?emit = "\<lambda>bs (b, p, txt). (b, p, txt @ bs)"
  have w: "writes_out alarm_kernel ?emit" by (auto simp: writes_out_def alarm_kernel_def)
  have p: "\<forall>m k. alarm_kernel (Sys_rt_sigpending 64 8) m k = (0, store64 m 64 ((\<lambda>(b, p, txt). p) k), k)"
    by (auto simp: alarm_kernel_def)
  obtain m where m: "load64 m 64 = 0x2000" and out: "let k = kern (sleep_call alarm_kernel 0 0 4096 5
       (snd (alarm_mini alarm_kernel 3 (snd (sigprocmask alarm_kernel SIG_BLOCK 64 NULL
         (\<lparr>errno = 0, mem = (\<lambda>_. 0), kern = (0, 0, [])\<rparr>\<lparr>mem := m\<rparr>))))))
     in map_option kern (alarm2_main UNIV alarm_kernel (\<lambda>_. 0) 64 128 0 0 4096 \<lparr>errno = 0, mem = (\<lambda>_. 0), kern = (0, 0, [])\<rparr>) =
       Some (?emit (pending_text (bit ((\<lambda>(b, p, txt). p) k) 13)) k)"
    using alarm2_reports [OF w _ p, of 0 0 4096 "\<lparr>errno = 0, mem = (\<lambda>_. 0), kern = (0, 0, [])\<rparr>" UNIV "\<lambda>_. 0" 128] by auto
  have "kern (sleep_call alarm_kernel 0 0 4096 5 st) = kern st" for st
    by (cases "kern st") (simp add: sleep_call_def asm_jump_defs asm_simps alarm_kernel_def)
  then show ?thesis using out m
    by (simp add: alarm_mini_def sigprocmask_def do_sys_def wrapper_val_def alarm_kernel_def) blast
qed

end
