(* ===== verification/Format.thy ===== *)
theory Format
  imports Prelude
begin

text \<open>
  Numbers as text, as \<open>printf\<close> and the stream operators write them and as \<open>strtoul\<close> and
  \<open>atoi\<close> read them back, and the field padding the output lines use. This is the part of the
  C standard library the programs' output rests on.
\<close>

section \<open>Bytes and characters\<close>

definition chr_of :: "u8 \<Rightarrow> char" where "chr_of b = char_of (unat b)"
definition byte :: "char \<Rightarrow> u8" where "byte c = of_nat (of_char c)"

lemma unat_byte [simp]: "unat (byte c) = of_char c"
  by (simp add: byte_def unat_of_nat of_char_mod_256 take_bit_nat_eq_self)

lemma chr_of_byte [simp]: "chr_of (byte c) = c"
  by (simp add: chr_of_def)

lemma byte_chr_of [simp]: "byte (chr_of b) = b"
proof -
  have "unat b < 256" using unsigned_less [of b, where 'a = nat] by simp
  then show ?thesis by (simp add: byte_def chr_of_def)
qed

section \<open>Writing numbers\<close>

definition digit :: "nat \<Rightarrow> char" where
  "digit d = (if d < 10 then char_of (48 + d) else char_of (87 + d))"

fun show_nat :: "nat \<Rightarrow> nat \<Rightarrow> string" where
  "show_nat b n = (if b < 2 \<or> n < b then [digit n] else show_nat b (n div b) @ [digit (n mod b)])"

declare show_nat.simps [simp del]

definition show_dec :: "nat \<Rightarrow> string" where "show_dec n = show_nat 10 n"
definition show_hex :: "nat \<Rightarrow> string" where "show_hex n = show_nat 16 n"
definition show_oct :: "nat \<Rightarrow> string" where "show_oct n = show_nat 8 n"

definition show_int :: "int \<Rightarrow> string" where
  "show_int i = (if i < 0 then CHR ''-'' # show_dec (nat (- i)) else show_dec (nat i))"

section \<open>Reading numbers\<close>

definition digit_val :: "char \<Rightarrow> nat option" where
  "digit_val c =
     (let k = (of_char c :: nat) in
      if 48 \<le> k \<and> k \<le> 57 then Some (k - 48)
      else if 97 \<le> k \<and> k \<le> 122 then Some (k - 87)
      else if 65 \<le> k \<and> k \<le> 90 then Some (k - 55)
      else None)"

text \<open>The longest prefix of digits below the base, accumulated from the left; the second
  component is the unread rest.\<close>

fun read_digits :: "nat \<Rightarrow> nat \<Rightarrow> string \<Rightarrow> nat \<times> string" where
  "read_digits b acc [] = (acc, [])"
| "read_digits b acc (c # cs) =
     (case digit_val c of
        Some d \<Rightarrow> if d < b then read_digits b (acc * b + d) cs else (acc, c # cs)
      | None \<Rightarrow> (acc, c # cs))"

definition isspace :: "char \<Rightarrow> bool" where
  "isspace c \<longleftrightarrow> c \<in> {CHR '' '', CHR 0x09, CHR 0x0A, CHR 0x0B, CHR 0x0C, CHR 0x0D}"

definition isprint :: "char \<Rightarrow> bool" where
  "isprint c \<longleftrightarrow> 32 \<le> (of_char c :: nat) \<and> (of_char c :: nat) \<le> 126"

text \<open>An optional sign after white space.\<close>

definition read_sign :: "string \<Rightarrow> bool \<times> string" where
  "read_sign s =
     (case dropWhile isspace s of
        [] \<Rightarrow> (False, [])
      | c # cs \<Rightarrow> if c = CHR ''-'' then (True, cs) else if c = CHR ''+'' then (False, cs) else (False, c # cs))"

text \<open>The prefix \<open>0x\<close> of base 16, if a hexadecimal digit follows it.\<close>

fun skip_0x :: "string \<Rightarrow> string" where
  "skip_0x (z # x # d # cs) =
     (if z = CHR ''0'' \<and> (x = CHR ''x'' \<or> x = CHR ''X'') \<and>
         (case digit_val d of Some k \<Rightarrow> k < 16 | None \<Rightarrow> False)
      then d # cs else z # x # d # cs)"
| "skip_0x s = s"

text \<open>\<open>strtoul(s, NULL, 16)\<close> and \<open>strtoull\<close>: saturation at the largest value, and negation in
  unsigned arithmetic.\<close>

definition strtoul16 :: "string \<Rightarrow> u64" where
  "strtoul16 s =
     (let (neg, r) = read_sign s; n = fst (read_digits 16 0 (skip_0x r))
      in if 2 ^ 64 \<le> n then - 1 else if neg then - of_nat n else of_nat n)"

text \<open>\<open>atoi\<close>: \<open>strtol\<close> in base 10, converted to \<open>int\<close>.\<close>

definition atoi :: "string \<Rightarrow> u32" where
  "atoi s =
     (let (neg, r) = read_sign s; n = int (fst (read_digits 10 0 r));
          v = (if neg then max (- (2 ^ 63)) (- n) else min (2 ^ 63 - 1) n)
      in word_of_int v)"

section \<open>Padding\<close>

definition pad_left :: "char \<Rightarrow> nat \<Rightarrow> string \<Rightarrow> string" where
  "pad_left f n s = replicate (n - length s) f @ s"

definition pad_right :: "char \<Rightarrow> nat \<Rightarrow> string \<Rightarrow> string" where
  "pad_right f n s = s @ replicate (n - length s) f"

lemma pad_0 [simp]: "pad_left f 0 s = s" "pad_right f 0 s = s"
  by (simp_all add: pad_left_def pad_right_def)

lemma length_pad [fmt_simps]: "length (pad_left f n s) = max n (length s)"
  "length (pad_right f n s) = max n (length s)"
  by (simp_all add: pad_left_def pad_right_def)

section \<open>Reading back what was written\<close>

lemma digit_val_digit: "d < 16 \<Longrightarrow> digit_val (digit d) = Some d"
  by (auto simp: digit_val_def digit_def of_char_of Let_def)

lemma read_digits_append:
  "(\<forall>c \<in> set s. \<exists>d < b. digit_val c = Some d) \<Longrightarrow>
    read_digits b acc (s @ t) = read_digits b (fst (read_digits b acc s)) t"
  by (induction s arbitrary: acc) auto

lemma show_nat_digits: "2 \<le> b \<Longrightarrow> b \<le> 16 \<Longrightarrow> c \<in> set (show_nat b n) \<Longrightarrow> \<exists>d < b. digit_val c = Some d"
proof (induction b n rule: show_nat.induct)
  case (1 b n)
  have "n mod b < b" using "1.prems" by simp
  moreover have "n mod b < 16" using calculation "1.prems" by linarith
  ultimately show ?case
    using 1 digit_val_digit [of n] digit_val_digit [of "n mod b"]
    by (subst (asm) show_nat.simps) (auto split: if_splits)
qed

lemma read_show: "2 \<le> b \<Longrightarrow> b \<le> 16 \<Longrightarrow> fst (read_digits b 0 (show_nat b n)) = n"
proof (induction b n rule: show_nat.induct)
  case (1 b n)
  show ?case
  proof (cases "n < b")
    case True
    then show ?thesis using "1.prems" by (subst show_nat.simps) (simp add: digit_val_digit)
  next
    case False
    then have "fst (read_digits b 0 (show_nat b (n div b))) = n div b" using 1 by simp
    moreover have "\<forall>c \<in> set (show_nat b (n div b)). \<exists>d < b. digit_val c = Some d"
      using show_nat_digits "1.prems" by blast
    moreover have "n mod b < b" "n mod b < 16" using "1.prems" mod_less_divisor [of b n] by linarith+
    ultimately show ?thesis
      using False "1.prems" by (subst show_nat.simps) (simp add: read_digits_append digit_val_digit)
  qed
qed

lemma show_nat_not_Nil [simp]: "show_nat b n \<noteq> []"
  by (subst show_nat.simps) simp

lemma hex_char: "c \<in> set (show_hex n) \<Longrightarrow> \<not> isspace c \<and> c \<noteq> CHR ''-'' \<and> c \<noteq> CHR ''+'' \<and> c \<noteq> CHR ''x'' \<and> c \<noteq> CHR ''X''"
  using show_nat_digits [of 16 c n]
  by (auto simp: show_hex_def isspace_def digit_val_def Let_def)

lemma read_sign_digits:
  "s \<noteq> [] \<Longrightarrow> \<forall>c \<in> set s. \<not> isspace c \<and> c \<noteq> CHR ''-'' \<and> c \<noteq> CHR ''+'' \<Longrightarrow> read_sign s = (False, s)"
  by (cases s) (auto simp: read_sign_def)

lemma skip_0x_digits: "\<forall>c \<in> set s. c \<noteq> CHR ''x'' \<and> c \<noteq> CHR ''X'' \<Longrightarrow> skip_0x s = s"
  by (induction s rule: skip_0x.induct) auto

lemma skip_0x_prefix:
  assumes "s \<noteq> []" and "\<forall>c \<in> set s. \<exists>d < 16. digit_val c = Some d"
  shows "skip_0x (CHR ''0'' # CHR ''x'' # s) = s"
  using assms by (cases s) auto

lemma strtoul16_hex [fmt_simps]: "strtoul16 (show_hex (unat a)) = a"
proof -
  have "unat a < 2 ^ 64" using unsigned_less [of a, where 'a = nat] by simp
  then show ?thesis
    using hex_char [of _ "unat a"] read_show [of 16 "unat a"]
    by (simp add: strtoul16_def read_sign_digits skip_0x_digits show_hex_def not_le)
qed

lemma strtoul16_0x [fmt_simps]: "strtoul16 (''0x'' @ show_hex (unat a)) = a"
proof -
  have "unat a < 2 ^ 64" using unsigned_less [of a, where 'a = nat] by simp
  moreover have "read_sign (''0x'' @ show_hex (unat a)) = (False, ''0x'' @ show_hex (unat a))"
    by (simp add: read_sign_def isspace_def)
  moreover have "skip_0x (''0x'' @ show_hex (unat a)) = show_hex (unat a)"
    using show_nat_digits [of 16 _ "unat a"]
    by (simp only: append.simps) (rule skip_0x_prefix, auto simp: show_hex_def)
  ultimately show ?thesis
    using read_show [of 16 "unat a"] by (simp add: strtoul16_def show_hex_def not_le)
qed

section \<open>Words and lines\<close>

text \<open>The words \<open>>>\<close> reads from a stream into strings.\<close>

function words :: "string \<Rightarrow> string list" where
  "words s = (case dropWhile isspace s of
     [] \<Rightarrow> []
   | c # cs \<Rightarrow> takeWhile (\<lambda>c. \<not> isspace c) (c # cs) # words (dropWhile (\<lambda>c. \<not> isspace c) (c # cs)))"
  by auto
termination
proof (relation "measure length", goal_cases)
  case (2 s c cs)
  then have "\<not> isspace c" by (metis dropWhile_eq_Cons_conv)
  moreover have "length (dropWhile isspace s) \<le> length s" by (rule length_dropWhile_le)
  ultimately show ?case
    using 2 length_dropWhile_le [of "\<lambda>c. \<not> isspace c" cs] by simp
qed simp

declare words.simps [simp del]

definition line_end :: char where "line_end = CHR 0x0A"

text \<open>The lines \<open>getline\<close> reads from a file, the last one also without its end.\<close>

function text_lines :: "string \<Rightarrow> string list" where
  "text_lines s = (if s = [] then []
     else takeWhile (\<lambda>c. c \<noteq> line_end) s # text_lines (drop 1 (dropWhile (\<lambda>c. c \<noteq> line_end) s)))"
  by auto
termination
proof (relation "measure length", goal_cases)
  case (2 s)
  then show ?case
    using length_dropWhile_le [of "\<lambda>c. c \<noteq> line_end" s] by (cases s) (auto simp: le_diff_conv less_Suc_eq_le)
qed simp

declare text_lines.simps [simp del]

definition word_ok :: "string \<Rightarrow> bool" where
  "word_ok w \<longleftrightarrow> w \<noteq> [] \<and> (\<forall>c \<in> set w. \<not> isspace c)"

lemma words_word: "word_ok w \<Longrightarrow> words (w @ CHR '' '' # r) = w # words r"
proof -
  assume w: "word_ok w"
  then have "dropWhile isspace (w @ CHR '' '' # r) = w @ CHR '' '' # r"
    by (cases w) (auto simp: word_ok_def)
  moreover have "takeWhile (\<lambda>c. \<not> isspace c) (w @ CHR '' '' # r) = w"
    "dropWhile (\<lambda>c. \<not> isspace c) (w @ CHR '' '' # r) = CHR '' '' # r"
    using w by (auto simp: word_ok_def takeWhile_append2 dropWhile_append2 isspace_def)
  moreover have "words (CHR '' '' # r) = words r"
    by (subst (1 2) words.simps) (simp add: isspace_def)
  ultimately show ?thesis using w by (subst words.simps) (cases w; simp add: word_ok_def)
qed

lemma words_Nil [simp]: "words [] = []"
  by (subst words.simps) simp

lemma words_last: "word_ok w \<Longrightarrow> words w = [w]"
proof -
  assume "word_ok w"
  then obtain c cs where w: "w = c # cs" "\<not> isspace c" "\<forall>c \<in> set cs. \<not> isspace c"
    by (cases w) (auto simp: word_ok_def)
  have "takeWhile (\<lambda>c. \<not> isspace c) cs = cs" and rest: "dropWhile (\<lambda>c. \<not> isspace c) cs = []"
    using w by (auto simp: takeWhile_eq_all_conv dropWhile_eq_Nil_conv)
  with w show ?thesis by (subst words.simps) (simp, simp only: rest words_Nil)
qed

lemma show_digits_word: "2 \<le> b \<Longrightarrow> b \<le> 16 \<Longrightarrow> word_ok (show_nat b n)"
proof -
  assume b: "2 \<le> b" "b \<le> 16"
  have "show_nat b n \<noteq> []" by (subst show_nat.simps) simp
  moreover have "\<not> isspace c" if "c \<in> set (show_nat b n)" for c
    using show_nat_digits [OF b that] by (auto simp: isspace_def digit_val_def)
  ultimately show ?thesis by (simp add: word_ok_def)
qed

lemma atoi_dec: "n < 2 ^ 31 \<Longrightarrow> sint (atoi (show_dec n)) = int n"
proof -
  assume n: "n < 2 ^ 31"
  have w: "word_ok (show_nat 10 n)" by (rule show_digits_word) auto
  obtain c cs where c: "show_nat 10 n = c # cs" "\<not> isspace c" using w by (cases "show_nat 10 n") (auto simp: word_ok_def)
  have "c \<noteq> CHR ''-''" "c \<noteq> CHR ''+''"
    using show_nat_digits [of 10 c n] c by (auto simp: digit_val_def)
  then have "read_sign (show_dec n) = (False, show_dec n)"
    using c by (simp add: read_sign_def show_dec_def)
  then have "atoi (show_dec n) = of_nat n"
    using read_show [of 10 n] n by (simp add: atoi_def Let_def show_dec_def min_def)
  then show ?thesis using n by (simp only: signed_of_nat) (simp add: signed_take_bit_int_eq_self)
qed

end
