(* ===== verification/Results.thy ===== *)
theory Results
  imports Main
begin

text \<open>
  How a step of a program ends, for the debugger and for the file lister: sequencing, loops
  over a list, and the predicate \<open>safe\<close> their invariants are proved with.
\<close>

section \<open>Outcomes\<close>

text \<open>The process may go on, leave through \<open>exit\<close>, be replaced by \<open>execvp\<close>, or fault on an
  invalid memory access.\<close>

datatype 's result = Go 's | Exit int 's | Exec string 's | Fault

fun and_then :: "'s result \<Rightarrow> ('s \<Rightarrow> 's result) \<Rightarrow> 's result" where
  "and_then (Go s) f = f s"
| "and_then (Exit n s) f = Exit n s"
| "and_then (Exec p s) f = Exec p s"
| "and_then Fault f = Fault"

fun for_each :: "'a list \<Rightarrow> ('a \<Rightarrow> 's \<Rightarrow> 's result) \<Rightarrow> 's \<Rightarrow> 's result" where
  "for_each [] f s = Go s"
| "for_each (x # xs) f s = and_then (f x s) (for_each xs f)"

section \<open>Reasoning about results\<close>

lemma and_then_id [simp]: "and_then r Go = r" "and_then r (for_each [] f) = r"
  by (cases r; auto)+

text \<open>No fault, and \<open>P\<close> of the state the process goes on with.\<close>

fun safe :: "('s \<Rightarrow> bool) \<Rightarrow> 's result \<Rightarrow> bool" where
  "safe P (Go s) = P s"
| "safe P (Exit n s) = True"
| "safe P (Exec p s) = True"
| "safe P Fault = False"

lemma safe_and_then: "safe P r \<Longrightarrow> (\<And>s. P s \<Longrightarrow> safe Q (f s)) \<Longrightarrow> safe Q (and_then r f)"
  by (cases r) auto

lemma safe_for_each:
  "(\<And>x s. x \<in> set xs \<Longrightarrow> P s \<Longrightarrow> safe P (f x s)) \<Longrightarrow> P s \<Longrightarrow> safe P (for_each xs f s)"
proof (induction xs arbitrary: s)
  case (Cons x xs)
  have "safe P (f x s)" using Cons.prems by simp
  then show ?case
    using Cons.IH Cons.prems(1) by (auto intro: safe_and_then [where P = P])
qed simp

lemma safe_mono: "safe P r \<Longrightarrow> (\<And>s. P s \<Longrightarrow> Q s) \<Longrightarrow> safe Q r"
  by (cases r) auto

text \<open>\<open>P\<close> of the last state, whether the process goes on or ends, unless it faults.\<close>

fun ends :: "('s \<Rightarrow> bool) \<Rightarrow> 's result \<Rightarrow> bool" where
  "ends P (Go s) = P s"
| "ends P (Exit n s) = P s"
| "ends P (Exec p s) = P s"
| "ends P Fault = True"

lemma ends_and_then: "ends P r \<Longrightarrow> (\<And>s. P s \<Longrightarrow> ends P (f s)) \<Longrightarrow> ends P (and_then r f)"
  by (cases r) auto

lemma ends_for_each:
  "(\<And>x s. x \<in> set xs \<Longrightarrow> P s \<Longrightarrow> ends P (f x s)) \<Longrightarrow> P s \<Longrightarrow> ends P (for_each xs f s)"
proof (induction xs arbitrary: s)
  case (Cons x xs)
  have "ends P (f x s)" using Cons.prems by simp
  then show ?case
    using Cons.IH Cons.prems(1) by (auto intro: ends_and_then [where P = P])
qed simp

text \<open>\<open>P\<close> of the state if the process goes on.\<close>

fun goes :: "('s \<Rightarrow> bool) \<Rightarrow> 's result \<Rightarrow> bool" where
  "goes P (Go s) = P s"
| "goes P r = True"

lemma goes_and_then: "goes P r \<Longrightarrow> (\<And>s. P s \<Longrightarrow> goes Q (f s)) \<Longrightarrow> goes Q (and_then r f)"
  by (cases r) auto

lemma goes_for_each:
  "(\<And>x s. P s \<Longrightarrow> goes P (f x s)) \<Longrightarrow> P s \<Longrightarrow> goes P (for_each xs f s)"
  by (induction xs arbitrary: s) (auto intro: goes_and_then [where P = P])

lemma safe_goes: "safe P r \<Longrightarrow> goes P r"
  by (cases r) auto

lemma goes_mono: "goes P r \<Longrightarrow> (\<And>s. P s \<Longrightarrow> Q s) \<Longrightarrow> goes Q r"
  by (cases r) auto

lemma goes_if: "goes P x \<Longrightarrow> goes P y \<Longrightarrow> goes P (if c then x else y)"
  by simp

lemma and_then_Go: "and_then r f = Go t \<longleftrightarrow> (\<exists>s. r = Go s \<and> f s = Go t)"
  by (cases r) auto

end
