(* ===== verification/Sdb_State.thy ===== *)
theory Sdb_State
  imports Format Results
begin

text \<open>
  The state of the instruction-level debugger of hw4 and its two output streams. What the
  debugger asks of the system (\<open>ptrace\<close>, \<open>waitpid\<close>, \<open>fork\<close> with \<open>execvp\<close>, the files, the
  capstone disassembler) is the record \<open>os\<close> of functions on the state \<open>'w\<close> of the world, a
  parameter of every operation that uses it.
\<close>

section \<open>Streams\<close>

text \<open>The manipulators of a stream persist from one statement to the next, except the width.\<close>

datatype chan = Cout | Cerr

datatype tok = Str string | Num int | U64 u64 | Dec | Hex | Left | Right | SetW nat | SetFill char

record fmt =
  hex_base :: bool
  left_adj :: bool
  fill_chr :: char

definition default_fmt :: fmt where
  "default_fmt = \<lparr>hex_base = False, left_adj = False, fill_chr = CHR '' ''\<rparr>"

definition field :: "fmt \<Rightarrow> nat \<Rightarrow> string \<Rightarrow> string" where
  "field f w s = (if left_adj f then pad_right (fill_chr f) w s else pad_left (fill_chr f) w s)"

text \<open>An \<open>int\<close> in hexadecimal is written as its 32-bit unsigned value.\<close>

definition show_cint :: "fmt \<Rightarrow> int \<Rightarrow> string" where
  "show_cint f i = (if hex_base f then show_hex (nat (i mod 2 ^ 32)) else show_int i)"

definition show_u64 :: "fmt \<Rightarrow> u64 \<Rightarrow> string" where
  "show_u64 f a = (if hex_base f then show_hex (unat a) else show_dec (unat a))"

fun render :: "fmt \<Rightarrow> nat \<Rightarrow> tok list \<Rightarrow> string \<times> fmt" where
  "render f w [] = ([], f)"
| "render f w (Str s # ts) = (let (r, f') = render f 0 ts in (field f w s @ r, f'))"
| "render f w (Num i # ts) = (let (r, f') = render f 0 ts in (field f w (show_cint f i) @ r, f'))"
| "render f w (U64 a # ts) = (let (r, f') = render f 0 ts in (field f w (show_u64 f a) @ r, f'))"
| "render f w (Dec # ts) = render (f\<lparr>hex_base := False\<rparr>) w ts"
| "render f w (Hex # ts) = render (f\<lparr>hex_base := True\<rparr>) w ts"
| "render f w (Left # ts) = render (f\<lparr>left_adj := True\<rparr>) w ts"
| "render f w (Right # ts) = render (f\<lparr>left_adj := False\<rparr>) w ts"
| "render f w (SetW n # ts) = render f n ts"
| "render f w (SetFill c # ts) = render (f\<lparr>fill_chr := c\<rparr>) w ts"

abbreviation endl :: tok where "endl \<equiv> Str [CHR 0x0A]"

lemma field_0 [simp]: "field f 0 s = s"
  by (simp add: field_def pad_left_def pad_right_def)

section \<open>The debugger\<close>

datatype dbg_state = NONLOAD | LOADED | RUNNING

record bp_t =
  bp_id :: int
  bp_addr :: u64
  orig_code :: u64

text \<open>The ELF structures are kept as the bytes that \<open>fread\<close> put into them.\<close>

record elf_t =
  ehdr :: "u8 list"
  str_shdr :: "u8 list"
  str_tab :: "u8 list option"
  text_shdr :: "u8 list"

record 'w sdb =
  state :: dbg_state
  file_path :: string
  pid :: int
  code :: "u8 list option"
  code_size :: int
  bp_list :: "bp_t list"
  elf :: elf_t
  cout_fmt :: fmt
  cerr_fmt :: fmt
  out :: "(chan \<times> string) list"
  world :: 'w

section \<open>The system\<close>

datatype ureg = U_rax | U_rbx | U_rcx | U_rdx | U_r8 | U_r9 | U_r10 | U_r11 | U_r12 | U_r13
  | U_r14 | U_r15 | U_rdi | U_rsi | U_rbp | U_rsp | U_rip | U_eflags

type_synonym user_regs = "ureg \<Rightarrow> u64"

record insn =
  i_address :: u64
  i_bytes :: "u8 list"
  i_mnemonic :: string
  i_op_str :: string

text \<open>\<open>fork\<close> returns 0 in the child; \<open>execvp\<close> returns (here: gives None) only when it fails.
  \<open>junk\<close> is the content of memory the code reads before it wrote it, \<open>line_null\<close> says whether
  the uninitialised \<open>line\<close> of \<open>vmmap\<close> happens to be a null pointer. \<open>cs_disasm\<close> gets the buffer,
  the offset of the first byte in it, the size, the address and the number of instructions;
  \<open>cs_reads\<close> is the number of bytes it reads from there, which depends on the instructions it finds.\<close>

record 'w os =
  ptrace_getregs :: "int \<Rightarrow> 'w \<Rightarrow> user_regs option"
  ptrace_setregs :: "int \<Rightarrow> user_regs \<Rightarrow> 'w \<Rightarrow> 'w option"
  ptrace_peektext :: "int \<Rightarrow> u64 \<Rightarrow> 'w \<Rightarrow> u64"
  ptrace_poketext :: "int \<Rightarrow> u64 \<Rightarrow> u64 \<Rightarrow> 'w \<Rightarrow> 'w option"
  ptrace_cont :: "int \<Rightarrow> 'w \<Rightarrow> 'w option"
  ptrace_singlestep :: "int \<Rightarrow> 'w \<Rightarrow> 'w option"
  ptrace_setoptions :: "int \<Rightarrow> 'w \<Rightarrow> 'w option"
  waitpid :: "int \<Rightarrow> 'w \<Rightarrow> (u32 \<times> 'w) option"
  fork :: "'w \<Rightarrow> int \<times> 'w"
  ptrace_traceme :: "'w \<Rightarrow> 'w option"
  execvp :: "string \<Rightarrow> 'w \<Rightarrow> 'w option"
  kill_term :: "int \<Rightarrow> 'w \<Rightarrow> 'w"
  read_file :: "string \<Rightarrow> 'w \<Rightarrow> u8 list option"
  read_maps :: "int \<Rightarrow> 'w \<Rightarrow> string list option"
  malloc_ok :: "u64 \<Rightarrow> 'w \<Rightarrow> bool"
  junk :: "nat \<Rightarrow> 'w \<Rightarrow> u8 list"
  line_null :: "'w \<Rightarrow> bool"
  cs_open :: "'w \<Rightarrow> bool"
  cs_disasm :: "u8 list \<Rightarrow> int \<Rightarrow> int \<Rightarrow> u64 \<Rightarrow> nat \<Rightarrow> insn list"
  cs_reads :: "u8 list \<Rightarrow> int \<Rightarrow> int \<Rightarrow> u64 \<Rightarrow> nat \<Rightarrow> nat"
  strerror :: "'w \<Rightarrow> string"

section \<open>Output and errors\<close>

definition put :: "chan \<Rightarrow> tok list \<Rightarrow> 'w sdb \<Rightarrow> 'w sdb" where
  "put ch ts s =
     (let (txt, f) = render (if ch = Cout then cout_fmt s else cerr_fmt s) 0 ts
      in if ch = Cout then s\<lparr>cout_fmt := f, out := out s @ [(Cout, txt)]\<rparr>
         else s\<lparr>cerr_fmt := f, out := out s @ [(Cerr, txt)]\<rparr>)"

abbreviation cout :: "tok list \<Rightarrow> 'w sdb \<Rightarrow> 'w sdb" where "cout \<equiv> put Cout"
abbreviation cerr :: "tok list \<Rightarrow> 'w sdb \<Rightarrow> 'w sdb" where "cerr \<equiv> put Cerr"

definition say :: "string \<Rightarrow> 'w sdb \<Rightarrow> 'w sdb" where
  "say msg = cout [Str msg, endl]"

text \<open>\<open>cerr << func << ": " << strerror(error_num) << endl; exit(-1);\<close>\<close>

definition error_exit :: "'w os \<Rightarrow> string \<Rightarrow> 'w sdb \<Rightarrow> 'w sdb result" where
  "error_exit os func s = Exit (- 1) (cerr [Str func, Str '': '', Str (strerror os (world s)), endl] s)"

text \<open>A request that changes the world, with the check the code writes after it.\<close>

definition request :: "'w os \<Rightarrow> string \<Rightarrow> ('w \<Rightarrow> 'w option) \<Rightarrow> 'w sdb \<Rightarrow> 'w sdb result" where
  "request os func f s =
     (case f (world s) of Some w \<Rightarrow> Go (s\<lparr>world := w\<rparr>) | None \<Rightarrow> error_exit os func s)"

definition with_regs :: "'w os \<Rightarrow> (user_regs \<Rightarrow> 'w sdb \<Rightarrow> 'w sdb result) \<Rightarrow> 'w sdb \<Rightarrow> 'w sdb result" where
  "with_regs os f s =
     (case ptrace_getregs os (pid s) (world s) of
        Some regs \<Rightarrow> f regs s
      | None \<Rightarrow> error_exit os ''ptrace(PTRACE_GETREGS)'' s)"

text \<open>\<open>put\<close> touches the output only.\<close>

lemma put_fields [simp]:
  "state (put ch ts s) = state s" "file_path (put ch ts s) = file_path s" "pid (put ch ts s) = pid s"
  "code (put ch ts s) = code s" "code_size (put ch ts s) = code_size s" "bp_list (put ch ts s) = bp_list s" "elf (put ch ts s) = elf s"
  "world (put ch ts s) = world s"
  by (simp_all add: put_def split_beta Let_def)

lemma say_fields [simp]:
  "state (say m s) = state s" "file_path (say m s) = file_path s" "pid (say m s) = pid s"
  "code (say m s) = code s" "code_size (say m s) = code_size s" "bp_list (say m s) = bp_list s" "elf (say m s) = elf s"
  "world (say m s) = world s"
  by (simp_all add: say_def)

text \<open>What has been written to a stream.\<close>

definition written :: "chan \<Rightarrow> 'w sdb \<Rightarrow> string" where
  "written ch s = concat (map snd (filter (\<lambda>(c, _). c = ch) (out s)))"

lemma put_text [fmt_simps]:
  "written ch (put ch ts s) = written ch s @ fst (render (if ch = Cout then cout_fmt s else cerr_fmt s) 0 ts)"
  "ch \<noteq> ch' \<Longrightarrow> written ch (put ch' ts s) = written ch s"
  by (cases ch; cases ch'; auto simp: put_def written_def split_beta Let_def)+

lemma written_frame [simp]:
  "written ch (s\<lparr>world := w\<rparr>) = written ch s" "written ch (s\<lparr>pid := p\<rparr>) = written ch s"
  "written ch (s\<lparr>state := q\<rparr>) = written ch s" "written ch (s\<lparr>bp_list := l\<rparr>) = written ch s"
  "written ch (s\<lparr>code := c\<rparr>) = written ch s" "written ch (s\<lparr>code_size := k\<rparr>) = written ch s"
  "written ch (s\<lparr>elf := e\<rparr>) = written ch s" "written ch (s\<lparr>file_path := f\<rparr>) = written ch s"
  by (simp_all add: written_def)

lemma put_fmt [fmt_simps]:
  "cerr_fmt (cerr ts s) = snd (render (cerr_fmt s) 0 ts)" "cout_fmt (cerr ts s) = cout_fmt s"
  "cout_fmt (cout ts s) = snd (render (cout_fmt s) 0 ts)" "cerr_fmt (cout ts s) = cerr_fmt s"
  by (auto simp: put_def split_beta Let_def)

section \<open>Results of requests\<close>

lemma safe_error_exit [simp]: "safe P (error_exit os f s)"
  by (simp add: error_exit_def)

lemma safe_request: "(\<And>w. g (world s) = Some w \<Longrightarrow> P (s\<lparr>world := w\<rparr>)) \<Longrightarrow> safe P (request os f g s)"
  by (simp add: request_def split: option.split)

lemma safe_with_regs: "(\<And>regs. ptrace_getregs os (pid s) (world s) = Some regs \<Longrightarrow> safe P (f regs s)) \<Longrightarrow>
    safe P (with_regs os f s)"
  by (simp add: with_regs_def split: option.split)

lemma request_Go: "request os f g s = Go t \<longleftrightarrow> (\<exists>w. g (world s) = Some w \<and> t = s\<lparr>world := w\<rparr>)"
  by (auto simp: request_def error_exit_def split: option.splits)

lemma with_regs_Go: "with_regs os f s = Go t \<longleftrightarrow>
    (\<exists>regs. ptrace_getregs os (pid s) (world s) = Some regs \<and> f regs s = Go t)"
  by (auto simp: with_regs_def error_exit_def split: option.splits)

lemmas Go_simps = and_then_Go request_Go with_regs_Go

end
