(* ===== verification/Sdb_Break.thy ===== *)
theory Sdb_Break
  imports Sdb_State
begin

text \<open>
  Breakpoints of the debugger: the list \<open>bp_list\<close>, the commands \<open>break\<close> (\<open>bp\<close>), \<open>delete\<close>
  (\<open>del\<close>) and \<open>list\<close>, and \<open>chkbp\<close>, which arms the breakpoints ahead of the program counter
  before the tracee runs. First the table of breakpoints on its own, then the code patching.
\<close>

section \<open>The text segment\<close>

definition le64 :: "u8 list \<Rightarrow> nat \<Rightarrow> u64" where
  "le64 bs off = join_bytes (take 8 (drop off bs))"

definition sh_addr :: "u8 list \<Rightarrow> u64" where "sh_addr sh = le64 sh 16"
definition sh_offset :: "u8 list \<Rightarrow> u64" where "sh_offset sh = le64 sh 24"
definition sh_size :: "u8 list \<Rightarrow> u64" where "sh_size sh = le64 sh 32"

definition intext :: "'w sdb \<Rightarrow> u64 \<Rightarrow> bool" where
  "intext s a \<longleftrightarrow>
     sh_addr (text_shdr (elf s)) \<le> a \<and>
     a < sh_addr (text_shdr (elf s)) + sh_size (text_shdr (elf s))"

section \<open>The table\<close>

lemma set_remove_nth: "distinct xs \<Longrightarrow> n < length xs \<Longrightarrow>
    set (take n xs @ drop (Suc n) xs) = set xs - {xs ! n}"
proof -
  assume "distinct xs" and "n < length xs"
  then have "xs = take n xs @ xs ! n # drop (Suc n) xs" by (simp add: id_take_nth_drop)
  with \<open>distinct xs\<close> show ?thesis
    by (metis Diff_insert_absorb Un_insert_right distinct.simps(2) distinct_append
        disjoint_insert(1) insert_iff list.simps(15) set_append Un_iff disjoint_iff)
qed

lemma distinct_take_drop: "distinct xs \<Longrightarrow> distinct (take n xs @ drop (Suc n) xs)"
  by (simp add: set_take_disj_set_drop_if_distinct)

definition bp_push :: "u64 \<Rightarrow> u64 \<Rightarrow> bp_t list \<Rightarrow> bp_t list" where
  "bp_push a w bps =
     (if \<exists>b \<in> set bps. bp_addr b = a then bps
      else bps @ [\<lparr>bp_id = int (length bps), bp_addr = a, orig_code = w\<rparr>])"

text \<open>The first index whose entry has the id.\<close>

fun bp_find :: "int \<Rightarrow> bp_t list \<Rightarrow> nat option" where
  "bp_find n [] = None"
| "bp_find n (b # bps) = (if bp_id b = n then Some 0 else map_option Suc (bp_find n bps))"

text \<open>Erase the entry at index \<open>n\<close>, then number the entries from index \<open>i\<close> on from \<open>n\<close>.\<close>

definition bp_erase :: "nat \<Rightarrow> nat \<Rightarrow> bp_t list \<Rightarrow> bp_t list" where
  "bp_erase n i bps =
     (let l = take n bps @ drop (Suc n) bps
      in map (\<lambda>j. if i \<le> j then (l ! j)\<lparr>bp_id := int n + int j - int i\<rparr> else l ! j) [0..<length l])"

definition ids_ok :: "bp_t list \<Rightarrow> bool" where
  "ids_ok bps \<longleftrightarrow> (\<forall>i < length bps. bp_id (bps ! i) = int i)"

definition table_ok :: "bp_t list \<Rightarrow> bool" where
  "table_ok bps \<longleftrightarrow> ids_ok bps \<and> distinct (map bp_addr bps)"

text \<open>What the commands rely on: ids are positions, addresses are distinct, and the
  operations act on the sequence of addresses as appending and removing.\<close>

locale breakpoint_table =
  fixes push :: "u64 \<Rightarrow> u64 \<Rightarrow> 't \<Rightarrow> 't" and find_id :: "int \<Rightarrow> 't \<Rightarrow> nat option"
    and erase :: "nat \<Rightarrow> nat \<Rightarrow> 't \<Rightarrow> 't" and addrs :: "'t \<Rightarrow> u64 list" and ok :: "'t \<Rightarrow> bool"
  assumes ok_push: "ok t \<Longrightarrow> ok (push a w t)"
    and ok_erase: "ok t \<Longrightarrow> n < length (addrs t) \<Longrightarrow> ok (erase n n t)"
    and addrs_push: "addrs (push a w t) = (if a \<in> set (addrs t) then addrs t else addrs t @ [a])"
    and addrs_erase: "n < length (addrs t) \<Longrightarrow> addrs (erase n n t) = take n (addrs t) @ drop (Suc n) (addrs t)"
    and find_id: "ok t \<Longrightarrow> find_id i t = (if 0 \<le> i \<and> i < int (length (addrs t)) then Some (nat i) else None)"
    and ok_distinct: "ok t \<Longrightarrow> distinct (addrs t)"
begin

lemma push_known: "a \<in> set (addrs t) \<Longrightarrow> addrs (push a w t) = addrs t"
  by (simp add: addrs_push)

lemma find_new: "ok t \<Longrightarrow> a \<notin> set (addrs t) \<Longrightarrow>
    find_id (int (length (addrs t))) (push a w t) = Some (length (addrs t))"
  by (simp add: find_id [OF ok_push] addrs_push)

lemma erase_new: "a \<notin> set (addrs t) \<Longrightarrow>
    addrs (erase (length (addrs t)) (length (addrs t)) (push a w t)) = addrs t"
  by (simp add: addrs_erase addrs_push)

lemma set_erase: "ok t \<Longrightarrow> n < length (addrs t) \<Longrightarrow>
    set (addrs (erase n n t)) = set (addrs t) - {addrs t ! n}"
  by (simp only: addrs_erase set_remove_nth ok_distinct)

end

lemma bp_find_numbered:
  "\<forall>j < length bps. bp_id (bps ! j) = k + int j \<Longrightarrow>
    bp_find n bps = (if k \<le> n \<and> n < k + int (length bps) then Some (nat (n - k)) else None)"
proof (induction bps arbitrary: k)
  case Nil
  then show ?case by simp
next
  case (Cons b bps)
  have head: "bp_id b = k" using Cons.prems [rule_format, of 0] by simp
  have "\<forall>j < length bps. bp_id (bps ! j) = (k + 1) + int j"
    using Cons.prems [rule_format, of "Suc _"] by simp
  from Cons.IH [OF this] head show ?case
    by (cases "n = k") (auto simp flip: Suc_nat_eq_nat_zadd1)
qed

lemma map_bp_addr_erase:
  "map bp_addr (bp_erase n i bps) = take n (map bp_addr bps) @ drop (Suc n) (map bp_addr bps)"
  by (rule nth_equalityI) (auto simp: bp_erase_def Let_def nth_append)

interpretation bt: breakpoint_table bp_push bp_find bp_erase "map bp_addr" table_ok
proof (unfold_locales, goal_cases)
  case (1 t a w)
  then show ?case
    by (auto simp: table_ok_def ids_ok_def bp_push_def nth_append less_Suc_eq)
next
  case (2 t n)
  have "ids_ok (bp_erase n n t)"
    using 2 by (auto simp: table_ok_def ids_ok_def bp_erase_def Let_def nth_append)
  moreover have "distinct (map bp_addr (bp_erase n n t))"
    using 2 unfolding map_bp_addr_erase by (intro distinct_take_drop) (simp add: table_ok_def)
  ultimately show ?case by (simp add: table_ok_def)
next
  case (3 a w t)
  then show ?case by (auto simp: bp_push_def)
next
  case (4 n t)
  then show ?case by (simp add: map_bp_addr_erase)
next
  case (5 t i)
  then show ?case using bp_find_numbered [of t 0 i] by (simp add: table_ok_def ids_ok_def)
next
  case (6 t)
  then show ?case by (simp add: table_ok_def)
qed

section \<open>The commands\<close>

definition bp :: "'w os \<Rightarrow> u64 \<Rightarrow> 'w sdb \<Rightarrow> 'w sdb result" where
  "bp os addr s =
     (if state s \<noteq> RUNNING then Go (say ''** state must be RUNNING'' s)
      else if \<not> intext s addr
        then Go (say ''** the address is out of the range of the text segment'' s)
      else
        let code = ptrace_peektext os (pid s) addr (world s)
        in if code AND 0xff = 0xcc then Go s
           else and_then
             (request os ''ptrace(POKETEXT)''
               (ptrace_poketext os (pid s) addr ((code AND 0xffffffffffffff00) OR 0xcc)) s)
             (\<lambda>s. Go (s\<lparr>bp_list := bp_push addr code (bp_list s)\<rparr>)))"

definition del :: "'w os \<Rightarrow> int \<Rightarrow> 'w sdb \<Rightarrow> 'w sdb result" where
  "del os n s =
     (if state s \<noteq> RUNNING then Go (say ''** state must be RUNNING'' s)
      else case bp_find n (bp_list s) of
        None \<Rightarrow> Go (cout [Str ''** breakpoint '', Num n, Str '' does not exist'', endl] s)
      | Some i \<Rightarrow>
          if n < 0 \<or> int (length (bp_list s)) \<le> n then Fault
          else and_then
            (request os ''ptrace(PTRACE_POKETEXT)''
              (ptrace_poketext os (pid s) (bp_addr (bp_list s ! nat n)) (orig_code (bp_list s ! nat n))) s)
            (\<lambda>s. Go (cout [Str ''** breakpoint '', Num n, Str '' deleted.'', endl]
                      (s\<lparr>bp_list := bp_erase (nat n) i (bp_list s)\<rparr>))))"

definition list_bps :: "'w sdb \<Rightarrow> 'w sdb" where
  "list_bps s = foldl (\<lambda>s b. cerr [Str ''  '', Num (bp_id b), Str '': '', Hex, U64 (bp_addr b), endl] s)
     s (bp_list s)"

text \<open>The body of the loop of \<open>chkbp\<close>. The bound of the loop is read once: \<open>bp\<close> on an address of
  the table leaves the table as it is (\<open>bp_known\<close> below).\<close>

definition arm_body :: "'w os \<Rightarrow> u64 \<Rightarrow> nat \<Rightarrow> 'w sdb \<Rightarrow> 'w sdb result" where
  "arm_body os rip i s =
     (if rip < bp_addr (bp_list s ! i) then bp os (bp_addr (bp_list s ! i)) s else Go s)"

definition chkbp :: "'w os \<Rightarrow> 'w sdb \<Rightarrow> 'w sdb result" where
  "chkbp os s =
     with_regs os (\<lambda>regs s. for_each [0..<length (bp_list s)] (arm_body os (regs U_rip)) s) s"

lemma bp_known:
  "bp os a s = Go s' \<Longrightarrow> a \<in> bp_addr ` set (bp_list s) \<Longrightarrow> bp_list s' = bp_list s"
  by (auto simp: bp_def request_def error_exit_def bp_push_def Let_def split: if_splits option.splits)

section \<open>The invariant of the table\<close>

definition bps_ok :: "'w sdb \<Rightarrow> bool" where
  "bps_ok s \<longleftrightarrow> table_ok (bp_list s) \<and> (\<forall>b \<in> set (bp_list s). intext s (bp_addr b))"

lemma intext_frame [simp]:
  "intext (put ch ts s) a = intext s a" "intext (say m s) a = intext s a"
  "intext (s\<lparr>world := w\<rparr>) a = intext s a" "intext (s\<lparr>bp_list := l\<rparr>) a = intext s a"
  "intext (s\<lparr>pid := p\<rparr>) a = intext s a" "intext (s\<lparr>state := q\<rparr>) a = intext s a"
  "intext (s\<lparr>code := c\<rparr>) a = intext s a" "intext (s\<lparr>code_size := k\<rparr>) a = intext s a"
  by (simp_all add: intext_def)

lemma bps_ok_frame [simp]:
  "bps_ok (put ch ts s) = bps_ok s" "bps_ok (say m s) = bps_ok s"
  "bps_ok (s\<lparr>world := w\<rparr>) = bps_ok s" "bps_ok (s\<lparr>pid := p\<rparr>) = bps_ok s"
  "bps_ok (s\<lparr>state := q\<rparr>) = bps_ok s" "bps_ok (s\<lparr>code := c\<rparr>) = bps_ok s"
  "bps_ok (s\<lparr>code_size := k\<rparr>) = bps_ok s"
  by (simp_all add: bps_ok_def)

lemma set_bp_erase_addr: "n < length l \<Longrightarrow> b \<in> set (bp_erase n i l) \<Longrightarrow> bp_addr b \<in> bp_addr ` set l"
proof -
  assume "b \<in> set (bp_erase n i l)"
  then have "bp_addr b \<in> set (map bp_addr (bp_erase n i l))" by simp
  then show ?thesis
    unfolding map_bp_addr_erase by (auto dest: in_set_takeD in_set_dropD)
qed

lemma safe_bp: "bps_ok s \<Longrightarrow> safe bps_ok (bp os a s)"
  using bt.ok_push
  by (auto simp: bp_def Let_def intro!: safe_and_then [where P = "\<lambda>s. bps_ok s \<and> intext s a"] safe_request)
    (auto simp: bps_ok_def bp_push_def)

lemma safe_del: "bps_ok s \<Longrightarrow> safe bps_ok (del os n s)"
proof -
  assume ok: "bps_ok s"
  then have table: "table_ok (bp_list s)" by (simp add: bps_ok_def)
  show ?thesis
  proof (cases "0 \<le> n \<and> n < int (length (bp_list s))")
    case True
    then have found: "bp_find n (bp_list s) = Some (nat n)" using bt.find_id [OF table] by simp
    have erased: "bps_ok (s\<lparr>world := w, bp_list := bp_erase (nat n) (nat n) (bp_list s)\<rparr>)" for w
      using ok True bt.ok_erase [OF table, of "nat n"] set_bp_erase_addr [of "nat n" "bp_list s" _ "nat n"]
      by (fastforce simp: bps_ok_def)
    show ?thesis
      using found True erased
      by (auto simp: del_def ok intro!: safe_and_then [where
            P = "\<lambda>t. \<exists>w. t = s\<lparr>world := w\<rparr>"] safe_request)
  next
    case False
    then have "bp_find n (bp_list s) = None" using bt.find_id [OF table] by simp
    then show ?thesis by (simp add: del_def ok)
  qed
qed

lemma safe_chkbp: "bps_ok s \<Longrightarrow> safe bps_ok (chkbp os s)"
  unfolding chkbp_def
  by (intro safe_with_regs safe_for_each) (auto simp: arm_body_def intro: safe_bp)

end
