(* ===== verification/Sdb_Patch.thy ===== *)
theory Sdb_Patch
  imports Sdb_Break
begin

text \<open>
  What the breakpoint commands do to the code of the tracee. \<open>ptrace\<close> moves 8-byte words;
  an armed breakpoint is the byte \<open>0xcc\<close> at its address. The effect of \<open>bp\<close> and \<open>chkbp\<close> is
  one byte per breakpoint; \<open>del\<close> writes back a whole word, which is right only when no other
  breakpoint lies in it.
\<close>

text \<open>The contract of \<open>ptrace\<close>: \<open>tm\<close> is the memory of the tracee, words are read and written
  in it, and writing text does not change the registers.\<close>

definition traces :: "'w os \<Rightarrow> (int \<Rightarrow> 'w \<Rightarrow> memory) \<Rightarrow> bool" where
  "traces os tm \<longleftrightarrow>
     (\<forall>p a w. ptrace_peektext os p a w = load64 (tm p w) a) \<and>
     (\<forall>p a v w w'. ptrace_poketext os p a v w = Some w' \<longrightarrow>
        tm p w' = store64 (tm p w) a v \<and> ptrace_getregs os p w' = ptrace_getregs os p w)"

section \<open>Patching one byte\<close>

lemma bit_low_mask: "bit (0xffffffffffffff00 :: u64) n \<longleftrightarrow> 8 \<le> n \<and> n < 64"
proof -
  have "(0xffffffffffffff00 :: u64) = NOT (Bit_Operations.mask 8)"
    by (simp add: mask_numeral)
  then show ?thesis by (simp only: bit_not_iff bit_mask_iff) auto
qed

lemma low_byte: "ucast ((w AND 0xffffffffffffff00) OR ucast b :: u64) = (b :: u8)"
  by (rule bit_word_eqI) (auto simp: bit_ucast_iff bit_or_iff bit_and_iff bit_low_mask simp del: bit_numeral_word_iff)

lemma ucast_cc: "(ucast (b :: u8) :: u64) = 0xcc \<longleftrightarrow> b = 0xcc"
proof
  assume "(ucast b :: u64) = 0xcc"
  then have "unat (ucast b :: u64) = 204" by simp
  moreover have "unat b < 2 ^ 64" using unsigned_less [of b, where 'a = nat] by simp
  ultimately have "unat b = unat (0xcc :: u8)"
    by (simp add: unsigned_ucast_eq take_bit_nat_eq_self)
  then show "b = 0xcc" by (simp only: word_unat_eq_iff)
qed simp

lemma high_bits: "8 \<le> n \<Longrightarrow> \<not> bit (ucast (b :: u8) :: u64) n"
  by (auto simp: bit_ucast_iff dest!: bit_imp_le_length)

lemma byte_split: "x - a < 8 \<Longrightarrow> a + of_nat (unat (x - a)) = x \<and> unat (x - a) < 8" for x a :: u64
  by (simp add: unat_less_8)

lemma byte_load64: "i < 8 \<Longrightarrow> byte_of (load64 m a) i = m (a + of_nat i)"
  by (rule bit_word_eqI) (auto simp: mem_simps)

lemma store_low:
  "store64 m a ((load64 m a AND 0xffffffffffffff00) OR ucast b) = m(a := b)" for b :: u8
proof
  fix x
  let ?w = "(load64 m a AND 0xffffffffffffff00) OR ucast b :: u64"
  show "store64 m a ?w x = (m(a := b)) x"
  proof (cases "x = a")
    case True
    then show ?thesis by (simp add: store64_low byte_of_def low_byte)
  next
    case False
    show ?thesis
    proof (cases "x - a < 8")
      case True
      let ?i = "unat (x - a)"
      have i: "?i < 8" "0 < ?i" using True False byte_split by (auto simp: unat_gt_0)
      have "byte_of ?w ?i = byte_of (load64 m a) ?i"
        using i by (intro bit_word_eqI) (auto simp: bit_byte_of bit_or_iff bit_and_iff bit_low_mask high_bits simp del: bit_numeral_word_iff)
      also have "\<dots> = m x" using i by (simp add: byte_load64)
      finally show ?thesis using True False by (simp add: store64_def)
    next
      case False
      then show ?thesis using \<open>x \<noteq> a\<close> by (simp add: store64_other)
    qed
  qed
qed

lemma store_patched:
  "store64 m a ((load64 m a AND 0xffffffffffffff00) OR 0xcc) = m(a := 0xcc)"
  using store_low [where b = "0xcc"] by simp

lemma store_load: "store64 m a (load64 m' a) x = (if x - a < 8 then m' x else m x)"
  using byte_split [of x a] by (auto simp: store64_def byte_load64)

lemma low_byte_test: "load64 m a AND 0xff = 0xcc \<longleftrightarrow> m a = 0xcc"
proof -
  have "(0xff :: u64) = Bit_Operations.mask 8" by (simp add: mask_numeral)
  then have "load64 m a AND 0xff = take_bit 8 (load64 m a)" by (simp only: take_bit_eq_mask)
  also have "take_bit 8 (load64 m a) = ucast (m a)"
  proof (rule bit_word_eqI)
    fix n
    show "bit (take_bit 8 (load64 m a)) n \<longleftrightarrow> bit (ucast (m a) :: u64) n" if "n < LENGTH(64)"
      using that by (cases "n < 8") (auto simp: bit_simps bit_load64 dest: bit_imp_le_length)
  qed
  finally show ?thesis by (simp add: ucast_cc)
qed

section \<open>Commands on the code of the tracee\<close>

definition text_of :: "(int \<Rightarrow> 'w \<Rightarrow> memory) \<Rightarrow> 'w sdb \<Rightarrow> memory" where
  "text_of tm s = tm (pid s) (world s)"

lemma bp_effect:
  assumes "traces os tm" and "state s = RUNNING" and "intext s a" and "bp os a s = Go s'"
  shows "text_of tm s' = (text_of tm s)(a := 0xcc)"
    and "bp_list s' = (if text_of tm s a = 0xcc then bp_list s
                       else bp_push a (load64 (text_of tm s) a) (bp_list s))"
    and "s' = s\<lparr>world := world s', bp_list := bp_list s'\<rparr>"
    and "ptrace_getregs os (pid s) (world s') = ptrace_getregs os (pid s) (world s)"
  using assms
  by (auto simp: bp_def Let_def Go_simps traces_def text_of_def low_byte_test store_patched
      split: if_splits)

lemma bp_frame:
  assumes "bp os a s = Go s'"
  shows "state s' = state s" "pid s' = pid s" "elf s' = elf s" "file_path s' = file_path s" "code s' = code s"
  using assms by (auto simp: bp_def Let_def Go_simps split: if_splits)

lemma del_effect:
  assumes "traces os tm" and "state s = RUNNING" and "table_ok (bp_list s)"
    and "0 \<le> n" "n < int (length (bp_list s))" and "del os n s = Go s'"
  shows "text_of tm s' = store64 (text_of tm s) (bp_addr (bp_list s ! nat n)) (orig_code (bp_list s ! nat n))"
    and "bp_list s' = bp_erase (nat n) (nat n) (bp_list s)"
    and "state s' = RUNNING" and "pid s' = pid s" and "elf s' = elf s"
  using assms bt.find_id [OF assms(3), of n]
  by (auto simp: del_def Go_simps traces_def text_of_def)

text \<open>The breakpoints are the only difference between the code of the tracee and the code \<open>m0\<close>
  it was loaded with, their saved words are words of \<open>m0\<close>, and no two of them share a word.\<close>

definition code_ok :: "memory \<Rightarrow> memory \<Rightarrow> bp_t list \<Rightarrow> bool" where
  "code_ok m0 m bps \<longleftrightarrow>
     (\<forall>b \<in> set bps. orig_code b = load64 m0 (bp_addr b)) \<and>
     (\<forall>x. m x = m0 x \<or> x \<in> bp_addr ` set bps \<and> m x = 0xcc) \<and>
     (\<forall>b \<in> set bps. \<forall>c \<in> set bps. bp_addr b = bp_addr c \<or> apart (bp_addr b) (bp_addr c))"

lemma apart_not_within: "apart a b \<Longrightarrow> \<not> b - a < 8"
  by (simp add: apart_def word_le_nat_alt word_less_nat_alt)

lemma code_ok_push:
  assumes "code_ok m0 m bps" and "\<forall>b \<in> set bps. bp_addr b = a \<or> apart (bp_addr b) a"
  shows "code_ok m0 (m(a := 0xcc)) (bp_push a (load64 m a) bps)"
proof (cases "\<exists>b \<in> set bps. bp_addr b = a")
  case True
  then show ?thesis using assms(1) by (auto simp: code_ok_def bp_push_def)
next
  case False
  have "load64 m a = load64 m0 a"
  proof (rule load64_cong)
    fix i :: nat
    assume "i < 8"
    have "a + of_nat i \<notin> bp_addr ` set bps"
    proof
      assume "a + of_nat i \<in> bp_addr ` set bps"
      then obtain b where "b \<in> set bps" "bp_addr b = a + of_nat i" by auto
      then have "apart a (a + of_nat i)" using assms(2) False apart_sym by metis
      then show False using \<open>i < 8\<close> apart_not_within [of a "a + of_nat i"] by simp
    qed
    then show "m (a + of_nat i) = m0 (a + of_nat i)" using assms(1) by (auto simp: code_ok_def)
  qed
  moreover have "\<forall>b \<in> set bps. apart (bp_addr b) a" using False assms(2) by blast
  moreover from this have "\<forall>b \<in> set bps. apart a (bp_addr b)" using apart_sym by blast
  moreover have "bp_push a (load64 m a) bps
      = bps @ [\<lparr>bp_id = int (length bps), bp_addr = a, orig_code = load64 m a\<rparr>]"
    using False by (auto simp: bp_push_def)
  ultimately show ?thesis using assms(1) by (auto simp: code_ok_def)
qed

lemma code_ok_erase:
  assumes ok: "code_ok m0 m bps" and table: "table_ok bps" and n: "n < length bps"
  shows "code_ok m0 (store64 m (bp_addr (bps ! n)) (orig_code (bps ! n))) (bp_erase n n bps)"
    and "store64 m (bp_addr (bps ! n)) (orig_code (bps ! n)) (bp_addr (bps ! n)) = m0 (bp_addr (bps ! n))"
proof -
  let ?a = "bp_addr (bps ! n)"
  let ?m = "store64 m ?a (orig_code (bps ! n))"
  have mem: "bps ! n \<in> set bps" using n by simp
  then have "orig_code (bps ! n) = load64 m0 ?a" using ok by (auto simp: code_ok_def)
  then have m: "?m x = (if x - ?a < 8 then m0 x else m x)" for x by (simp add: store_load)
  then show "?m ?a = m0 ?a" by simp
  have addrs: "bp_addr ` set (bp_erase n n bps) = bp_addr ` set bps - {?a}"
    using bt.set_erase [OF table, of n] n by simp
  have codes: "\<exists>c \<in> set bps. bp_addr b = bp_addr c \<and> orig_code b = orig_code c"
    if "b \<in> set (bp_erase n n bps)" for b
    using that n by (auto simp: bp_erase_def Let_def nth_append intro: bexI [of _ "bps ! _"])
  have "?m x = m0 x \<or> x \<in> bp_addr ` set (bp_erase n n bps) \<and> ?m x = 0xcc" for x
    using ok m [of x] addrs by (cases "x = ?a") (auto simp: code_ok_def)
  then show "code_ok m0 ?m (bp_erase n n bps)"
    using ok codes unfolding code_ok_def by metis
qed

section \<open>Arming before the tracee runs\<close>

text \<open>The code \<open>m\<close> with the breakpoints at the addresses \<open>as\<close> that the tracee has not
  yet reached (\<open>rip\<close> below them) armed.\<close>

definition arm_ahead :: "u64 \<Rightarrow> u64 set \<Rightarrow> memory \<Rightarrow> memory" where
  "arm_ahead rip as m = (\<lambda>x. if x \<in> as \<and> rip < x then 0xcc else m x)"

lemma bp_again:
  assumes "traces os tm" and "state s = RUNNING" and "intext s a" and "a \<in> bp_addr ` set (bp_list s)"
    and "bp os a s = Go s'"
  shows "\<exists>w. s' = s\<lparr>world := w\<rparr> \<and> tm (pid s) w = (tm (pid s) (world s))(a := 0xcc) \<and>
    ptrace_getregs os (pid s) w = ptrace_getregs os (pid s) (world s)"
proof -
  have "bp_push a v (bp_list s) = bp_list s" for v using assms(4) by (auto simp: bp_push_def)
  moreover have "(tm (pid s) (world s))(a := 0xcc) = tm (pid s) (world s)"
    if "tm (pid s) (world s) a = 0xcc" using that by auto
  ultimately show ?thesis
    using assms
    by (cases "tm (pid s) (world s) a = 0xcc")
      (auto simp: bp_def Let_def Go_simps traces_def low_byte_test store_patched intro: exI [of _ "world s"])
qed

lemma arm_loop:
  assumes "traces os tm"
  shows "state s = RUNNING \<Longrightarrow> bps_ok s \<Longrightarrow> set is \<subseteq> {..<length (bp_list s)} \<Longrightarrow>
    for_each is (arm_body os rip) s = Go s' \<Longrightarrow>
    \<exists>w. s' = s\<lparr>world := w\<rparr> \<and>
      tm (pid s) w = arm_ahead rip ((\<lambda>i. bp_addr (bp_list s ! i)) ` set is) (tm (pid s) (world s)) \<and>
      ptrace_getregs os (pid s) w = ptrace_getregs os (pid s) (world s)"
proof (induction "is" arbitrary: s)
  case Nil
  then show ?case by (intro exI [of _ "world s"]) (simp add: arm_ahead_def)
next
  case (Cons i "is")
  let ?a = "bp_addr (bp_list s ! i)"
  have mem: "bp_list s ! i \<in> set (bp_list s)" using Cons.prems(3) by auto
  then have a: "intext s ?a" "?a \<in> bp_addr ` set (bp_list s)" using Cons.prems(2) by (auto simp: bps_ok_def)
  obtain t where step: "arm_body os rip i s = Go t" and rest: "for_each is (arm_body os rip) t = Go s'"
    using Cons.prems(4) by (auto simp: and_then_Go)
  have "\<exists>w. t = s\<lparr>world := w\<rparr> \<and>
      tm (pid s) w = (if rip < ?a then (tm (pid s) (world s))(?a := 0xcc) else tm (pid s) (world s)) \<and>
      ptrace_getregs os (pid s) w = ptrace_getregs os (pid s) (world s)"
  proof (cases "rip < ?a")
    case True
    then show ?thesis using bp_again [OF assms Cons.prems(1) a, of t] step by (auto simp: arm_body_def)
  next
    case False
    then show ?thesis using step by (intro exI [of _ "world s"]) (simp add: arm_body_def)
  qed
  then obtain w where t: "t = s\<lparr>world := w\<rparr>"
    and w: "tm (pid s) w = (if rip < ?a then (tm (pid s) (world s))(?a := 0xcc) else tm (pid s) (world s))"
      "ptrace_getregs os (pid s) w = ptrace_getregs os (pid s) (world s)" by blast
  obtain v where "s' = t\<lparr>world := v\<rparr>"
    "tm (pid t) v = arm_ahead rip ((\<lambda>i. bp_addr (bp_list t ! i)) ` set is) (tm (pid t) (world t))"
    "ptrace_getregs os (pid t) v = ptrace_getregs os (pid t) (world t)"
    using Cons.IH [of t] Cons.prems rest t by auto
  then show ?case
    using t w by (intro exI [of _ v]) (auto simp: arm_ahead_def fun_eq_iff)
qed

lemma chkbp_effect:
  assumes "traces os tm" and "state s = RUNNING" and "bps_ok s" and "chkbp os s = Go s'"
  shows "\<exists>regs w. ptrace_getregs os (pid s) (world s) = Some regs \<and> s' = s\<lparr>world := w\<rparr> \<and>
    tm (pid s) w = arm_ahead (regs U_rip) (bp_addr ` set (bp_list s)) (tm (pid s) (world s)) \<and>
    ptrace_getregs os (pid s) w = Some regs"
proof -
  obtain regs where regs: "ptrace_getregs os (pid s) (world s) = Some regs"
    and loop: "for_each [0..<length (bp_list s)] (arm_body os (regs U_rip)) s = Go s'"
    using assms(4) by (auto simp: chkbp_def with_regs_Go)
  have "(\<lambda>i. bp_addr (bp_list s ! i)) ` {0..<length (bp_list s)} = bp_addr ` set (bp_list s)"
    using nth_image [of "length (bp_list s)" "bp_list s"] by (metis image_image order_refl take_all)
  then show ?thesis
    using arm_loop [OF assms(1,2,3) _ loop] regs by (auto simp: atLeast0LessThan)
qed

section \<open>A small machine\<close>

text \<open>A tracee on which the operations can be evaluated: every byte is a one-byte instruction;
  \<open>0xcc\<close> traps behind itself, \<open>0xf4\<close> exits with code 3, any other byte does nothing.\<close>

record machine =
  m_mem :: memory
  m_regs :: user_regs
  m_status :: u32

definition m_step :: "machine \<Rightarrow> machine" where
  "m_step m =
     (let b = m_mem m (m_regs m U_rip)
      in if b = 0xf4 then m\<lparr>m_status := 0x300\<rparr>
         else m\<lparr>m_regs := (m_regs m)(U_rip := m_regs m U_rip + 1), m_status := 0x57f\<rparr>)"

fun m_run :: "nat \<Rightarrow> machine \<Rightarrow> machine" where
  "m_run 0 m = m"
| "m_run (Suc n) m =
     (if m_mem m (m_regs m U_rip) \<in> {0xcc, 0xf4} then m_step m else m_run n (m_step m))"

text \<open>An ELF file with the string table behind the header, then the section headers of the string
  table and of \<open>.text\<close>, at address 0x1000 and with 0x100 bytes.\<close>

definition demo_shdr :: "u8 list" where
  "demo_shdr = [1, 0, 0, 0] @ replicate 12 0 @ [0, 0x10, 0, 0, 0, 0, 0, 0] @ replicate 8 0 @
     [0, 1, 0, 0, 0, 0, 0, 0] @ replicate 24 0"

definition demo_file :: "u8 list" where
  "demo_file = [0x7f, 0x45, 0x4c, 0x46, 2, 1, 1] @ replicate 17 0 @ [0, 0x10, 0, 0, 0, 0, 0, 0] @
     replicate 8 0 @ [72, 0, 0, 0, 0, 0, 0, 0] @ replicate 12 0 @ [2, 0, 0, 0] @
     [0, 0x2e, 0x74, 0x65, 0x78, 0x74, 0, 0] @
     (replicate 24 0 @ [64, 0, 0, 0, 0, 0, 0, 0] @ [7, 0, 0, 0, 0, 0, 0, 0] @ replicate 24 0) @
     demo_shdr @ replicate 56 0"

definition machine_os :: "machine os" where
  "machine_os = \<lparr>
     ptrace_getregs = \<lambda>p w. Some (m_regs w),
     ptrace_setregs = \<lambda>p r w. Some (w\<lparr>m_regs := r\<rparr>),
     ptrace_peektext = \<lambda>p a w. load64 (m_mem w) a,
     ptrace_poketext = \<lambda>p a v w. Some (w\<lparr>m_mem := store64 (m_mem w) a v\<rparr>),
     ptrace_cont = \<lambda>p w. Some (m_run 100 w),
     ptrace_singlestep = \<lambda>p w. Some (m_step w),
     ptrace_setoptions = \<lambda>p w. Some w,
     waitpid = \<lambda>p w. Some (m_status w, w),
     fork = \<lambda>w. (42, w\<lparr>m_regs := (m_regs w)(U_rip := 0x1000), m_status := 0x57f\<rparr>),
     ptrace_traceme = Some,
     execvp = \<lambda>f w. Some w,
     kill_term = \<lambda>p w. w\<lparr>m_status := 0xf\<rparr>,
     read_file = \<lambda>f w. Some demo_file,
     read_maps = \<lambda>p w. None,
     malloc_ok = \<lambda>n w. True,
     junk = \<lambda>n w. replicate n 0,
     line_null = \<lambda>w. True,
     cs_open = \<lambda>w. True,
     cs_disasm = \<lambda>bs off sz a n. [\<lparr>i_address = a, i_bytes = [0x90], i_mnemonic = ''nop'', i_op_str = []\<rparr>],
     cs_reads = \<lambda>bs off sz a n. 1,
     strerror = \<lambda>w. ''error''\<rparr>"

lemma machine_simps [simp]:
  "ptrace_getregs machine_os p w = Some (m_regs w)"
  "ptrace_setregs machine_os p r w = Some (w\<lparr>m_regs := r\<rparr>)"
  "ptrace_peektext machine_os p a w = load64 (m_mem w) a"
  "ptrace_poketext machine_os p a v w = Some (w\<lparr>m_mem := store64 (m_mem w) a v\<rparr>)"
  "ptrace_cont machine_os p w = Some (m_run 100 w)"
  "ptrace_singlestep machine_os p w = Some (m_step w)"
  "ptrace_setoptions machine_os p w = Some w"
  "waitpid machine_os p w = Some (m_status w, w)"
  "fork machine_os w = (42, w\<lparr>m_regs := (m_regs w)(U_rip := 0x1000), m_status := 0x57f\<rparr>)"
  "kill_term machine_os p w = w\<lparr>m_status := 0xf\<rparr>"
  "read_file machine_os f w = Some demo_file"
  "read_maps machine_os p w = None"
  "malloc_ok machine_os n w" "junk machine_os k w = replicate k 0" "line_null machine_os w"
  "cs_open machine_os w"
  "cs_disasm machine_os bs off sz a k = [\<lparr>i_address = a, i_bytes = [0x90], i_mnemonic = ''nop'', i_op_str = []\<rparr>]"
  "cs_reads machine_os bs off sz a k = 1"
  "strerror machine_os w = ''error''"
  by (simp_all add: machine_os_def)

lemma machine_traces: "traces machine_os (\<lambda>p w. m_mem w)"
  by (simp add: traces_def)

lemma machine_bp: "\<exists>s'. bp machine_os a s = Go s'"
  by (simp add: bp_def request_def Let_def)

lemma machine_del: "table_ok (bp_list s) \<Longrightarrow> \<exists>s'. del machine_os n s = Go s'"
  by (simp add: del_def request_def bt.find_id)

lemma for_each_total: "(\<And>x s. \<exists>s'. f x s = Go s') \<Longrightarrow> \<exists>s'. for_each xs f s = Go s'"
proof (induction xs arbitrary: s)
  case (Cons x xs)
  obtain t where "f x s = Go t" using Cons.prems by blast
  then show ?case using Cons.IH [OF Cons.prems, of t] by simp
qed simp

lemma machine_chkbp: "\<exists>s'. chkbp machine_os s = Go s'"
  unfolding chkbp_def with_regs_def
  by (simp, rule for_each_total) (simp add: arm_body_def machine_bp)

definition demo_dbg :: "machine sdb" where
  "demo_dbg = \<lparr>state = RUNNING, file_path = ''demo'', pid = 42, code = None, code_size = 0, bp_list = [],
     elf = \<lparr>ehdr = [], str_shdr = [], str_tab = None, text_shdr = demo_shdr\<rparr>,
     cout_fmt = default_fmt, cerr_fmt = default_fmt, out = [],
     world = \<lparr>m_mem = (\<lambda>_. 0x90), m_regs = (\<lambda>_. 0)(U_rip := 0x1000), m_status = 0x57f\<rparr>\<rparr>"

lemma demo_intext: "intext demo_dbg a \<longleftrightarrow> 0x1000 \<le> a \<and> a < 0x1100"
  by (simp add: intext_def demo_dbg_def demo_shdr_def sh_addr_def sh_size_def le64_def)

lemma demo_simps [simp]:
  "state demo_dbg = RUNNING" "bp_list demo_dbg = []" "pid demo_dbg = 42"
  "m_mem (world demo_dbg) = (\<lambda>_. 0x90)" "m_regs (world demo_dbg) = (\<lambda>_. 0)(U_rip := 0x1000)"
  by (simp_all add: demo_dbg_def)

lemma demo_bps_ok: "bps_ok demo_dbg"
  by (simp add: bps_ok_def table_ok_def ids_ok_def)

section \<open>Properties\<close>

text \<open>Setting a breakpoint at a new address of the text segment changes exactly one byte of
  the tracee, to \<open>0xcc\<close>, and appends an entry with the next id and the word that was there;
  nothing else of the debugger changes.\<close>

lemma bp_sets:
  assumes "traces os tm" and "state s = RUNNING" and "intext s a"
    and "text_of tm s a \<noteq> 0xcc" and "a \<notin> bp_addr ` set (bp_list s)" and "bp os a s = Go s'"
  shows "text_of tm s' = (text_of tm s)(a := 0xcc) \<and>
    bp_list s' = bp_list s @ [\<lparr>bp_id = int (length (bp_list s)), bp_addr = a,
      orig_code = load64 (text_of tm s) a\<rparr>] \<and>
    s' = s\<lparr>world := world s', bp_list := bp_list s'\<rparr>"
  using bp_effect [OF assms(1,2,3,6)] assms(4,5) by (auto simp: bp_push_def)

lemma bp_sets_witness:
  "\<exists>s'. bp machine_os 0x1005 demo_dbg = Go s' \<and>
    m_mem (world s') = (\<lambda>_. 0x90)(0x1005 := 0xcc) \<and> length (bp_list s') = 1"
proof -
  obtain s' where s': "bp machine_os 0x1005 demo_dbg = Go s'" using machine_bp by blast
  then show ?thesis
    using bp_sets [OF machine_traces, of demo_dbg "0x1005" s']
    by (simp add: demo_intext text_of_def)
qed

text \<open>C8. Deleting a breakpoint right after it was set undoes the setting: the code of the tracee
  and the list of breakpoints are what they were.\<close>

theorem bp_then_del:
  assumes "traces os tm" and "state s = RUNNING" and "bps_ok s" and "intext s a"
    and "text_of tm s a \<noteq> 0xcc" and "a \<notin> bp_addr ` set (bp_list s)"
    and "bp os a s = Go s1" and "del os (int (length (bp_list s))) s1 = Go s2"
  shows "text_of tm s2 = text_of tm s \<and> bp_list s2 = bp_list s"
proof -
  let ?n = "length (bp_list s)"
  have s1: "text_of tm s1 = (text_of tm s)(a := 0xcc)"
    "bp_list s1 = bp_list s @ [\<lparr>bp_id = int ?n, bp_addr = a, orig_code = load64 (text_of tm s) a\<rparr>]"
    using bp_sets [OF assms(1,2,4,5,6,7)] by auto
  have "state s1 = RUNNING" using bp_frame [OF assms(7)] assms(2) by simp
  moreover have "table_ok (bp_list s1)"
    using safe_bp [OF assms(3), of os a] assms(7) by (simp add: bps_ok_def)
  ultimately have s2: "text_of tm s2 = store64 (text_of tm s1) a (load64 (text_of tm s) a)"
    "bp_list s2 = bp_erase ?n ?n (bp_list s1)"
    using del_effect [OF assms(1), of s1 "int ?n" s2] assms(8) s1 by simp_all
  have "store64 (text_of tm s1) a (load64 (text_of tm s) a) = text_of tm s"
    using s1(1) by (auto simp: fun_eq_iff store_load)
  moreover have "bp_erase ?n ?n (bp_list s1) = bp_list s"
    using s1(2) by (auto simp: bp_erase_def Let_def intro: nth_equalityI)
  ultimately show ?thesis using s2 by simp
qed

theorem bp_then_del_witness:
  "\<exists>s1 s2. bp machine_os 0x1005 demo_dbg = Go s1 \<and> del machine_os 0 s1 = Go s2 \<and>
    m_mem (world s2) = (\<lambda>_. 0x90) \<and> bp_list s2 = []"
proof -
  obtain s1 where s1: "bp machine_os 0x1005 demo_dbg = Go s1" using machine_bp by blast
  then have "table_ok (bp_list s1)"
    using safe_bp [OF demo_bps_ok, of machine_os "0x1005"] by (simp add: bps_ok_def)
  then obtain s2 where s2: "del machine_os 0 s1 = Go s2" using machine_del by blast
  show ?thesis
    using bp_then_del [OF machine_traces, of demo_dbg "0x1005" s1 s2] s1 s2
    by (auto simp: demo_intext text_of_def demo_bps_ok)
qed

text \<open>C2. While no two breakpoints lie within eight bytes of each other, the breakpoints are the
  only difference between the code of the tracee and the code it started with: setting one
  that is apart from the others and deleting any one keep this, and the deleted one's byte is
  the original again.\<close>

theorem breakpoints_keep_code:
  assumes "traces os tm" and "state s = RUNNING" and "bps_ok s"
    and "code_ok m0 (text_of tm s) (bp_list s)"
  shows "(\<forall>a s'. intext s a \<and> (\<forall>b \<in> set (bp_list s). bp_addr b = a \<or> apart (bp_addr b) a) \<and>
        text_of tm s a \<noteq> 0xcc \<and> bp os a s = Go s' \<longrightarrow>
          code_ok m0 (text_of tm s') (bp_list s') \<and> text_of tm s' a = 0xcc) \<and>
    (\<forall>n s'. 0 \<le> n \<and> n < int (length (bp_list s)) \<and> del os n s = Go s' \<longrightarrow>
        code_ok m0 (text_of tm s') (bp_list s') \<and>
        text_of tm s' (bp_addr (bp_list s ! nat n)) = m0 (bp_addr (bp_list s ! nat n)))"
proof -
  have "code_ok m0 (text_of tm s') (bp_list s') \<and> text_of tm s' a = 0xcc"
    if "intext s a" and apart: "\<forall>b \<in> set (bp_list s). bp_addr b = a \<or> apart (bp_addr b) a"
      and "text_of tm s a \<noteq> 0xcc" and "bp os a s = Go s'" for a s'
  proof -
    have "text_of tm s' = (text_of tm s)(a := 0xcc)"
      "bp_list s' = bp_push a (load64 (text_of tm s) a) (bp_list s)"
      using bp_effect [OF assms(1,2)] that by auto
    then show ?thesis using code_ok_push [OF assms(4) apart] by simp
  qed
  moreover have "code_ok m0 (text_of tm s') (bp_list s') \<and>
      text_of tm s' (bp_addr (bp_list s ! nat n)) = m0 (bp_addr (bp_list s ! nat n))"
    if n: "0 \<le> n" "n < int (length (bp_list s))" and "del os n s = Go s'" for n s'
  proof -
    have table: "table_ok (bp_list s)" "nat n < length (bp_list s)" using assms(3) n by (auto simp: bps_ok_def)
    then have "text_of tm s' = store64 (text_of tm s) (bp_addr (bp_list s ! nat n)) (orig_code (bp_list s ! nat n))"
      "bp_list s' = bp_erase (nat n) (nat n) (bp_list s)"
      using del_effect [OF assms(1,2) _ that] by auto
    then show ?thesis using code_ok_erase [OF assms(4) table] by simp
  qed
  ultimately show ?thesis by blast
qed

theorem breakpoints_keep_code_witness:
  "\<exists>s'. bp machine_os 0x1005 demo_dbg = Go s' \<and> code_ok (\<lambda>_. 0x90) (m_mem (world s')) (bp_list s')"
proof -
  obtain s' where s': "bp machine_os 0x1005 demo_dbg = Go s'" using machine_bp by blast
  have "code_ok (\<lambda>_. 0x90) (text_of (\<lambda>p w. m_mem w) demo_dbg) (bp_list demo_dbg)"
    by (simp add: code_ok_def text_of_def)
  note keep = breakpoints_keep_code [OF machine_traces _ demo_bps_ok this]
  show ?thesis
    using conjunct1 [OF keep, rule_format, of "0x1005" s'] s' by (auto simp: demo_intext text_of_def)
qed

text \<open>C16. With two breakpoints less than eight bytes apart, deleting the first writes the word
  saved before the second was set: the second is still listed and no longer armed.\<close>

theorem del_disarms_neighbour:
  assumes "traces os tm" and "state s = RUNNING" and "bp_list s = []"
    and "intext s a" and "intext s b" and "b \<noteq> a" and "b - a < 8"
    and "text_of tm s a \<noteq> 0xcc" and "text_of tm s b \<noteq> 0xcc"
    and "bp os a s = Go s1" and "bp os b s1 = Go s2" and "del os 0 s2 = Go s3"
  shows "map bp_addr (bp_list s3) = [b] \<and> text_of tm s2 b = 0xcc \<and> text_of tm s3 b = text_of tm s b"
proof -
  have s1: "text_of tm s1 = (text_of tm s)(a := 0xcc)"
    "bp_list s1 = [\<lparr>bp_id = 0, bp_addr = a, orig_code = load64 (text_of tm s) a\<rparr>]"
    using bp_sets [OF assms(1,2,4,8) _ assms(10)] assms(3) by auto
  have f1: "state s1 = RUNNING" "intext s1 b"
    using bp_frame [OF assms(10)] assms(2,5) by (simp_all add: intext_def)
  have s2: "text_of tm s2 = (text_of tm s1)(b := 0xcc)"
    "bp_list s2 = bp_list s1 @ [\<lparr>bp_id = 1, bp_addr = b, orig_code = load64 (text_of tm s1) b\<rparr>]"
    using bp_sets [OF assms(1) f1 _ _ assms(11)] s1 assms(6,9) by auto
  have "state s2 = RUNNING" using bp_frame [OF assms(11)] f1 by simp
  moreover have "table_ok (bp_list s2)"
    using s1 s2 assms(6) by (auto simp: table_ok_def ids_ok_def nth_append less_Suc_eq)
  ultimately have "text_of tm s3 = store64 (text_of tm s2) a (load64 (text_of tm s) a)"
    "bp_list s3 = bp_erase 0 0 (bp_list s2)"
    using del_effect [OF assms(1), of s2 0 s3] assms(12) s1 s2 by simp_all
  then show ?thesis using s1 s2 assms(7) by (simp add: store_load bp_erase_def)
qed

theorem del_disarms_neighbour_witness:
  "\<exists>s1 s2 s3. bp machine_os 0x1005 demo_dbg = Go s1 \<and> bp machine_os 0x1006 s1 = Go s2 \<and>
     del machine_os 0 s2 = Go s3 \<and> map bp_addr (bp_list s3) = [0x1006] \<and> m_mem (world s3) 0x1006 = 0x90"
proof -
  obtain s1 where s1: "bp machine_os 0x1005 demo_dbg = Go s1" using machine_bp by blast
  obtain s2 where s2: "bp machine_os 0x1006 s1 = Go s2" using machine_bp by blast
  have "bps_ok s1" using safe_bp [OF demo_bps_ok, of machine_os "0x1005"] s1 by simp
  then have "table_ok (bp_list s2)" using safe_bp [of s1 machine_os "0x1006"] s2 by (simp add: bps_ok_def)
  then obtain s3 where s3: "del machine_os 0 s2 = Go s3" using machine_del by blast
  show ?thesis
    using del_disarms_neighbour [OF machine_traces, of demo_dbg "0x1005" "0x1006" s1 s2 s3] s1 s2 s3
    by (auto simp: demo_intext text_of_def)
qed

text \<open>C5. Before the tracee runs, \<open>chkbp\<close> writes \<open>0xcc\<close> at the listed addresses above the program
  counter and changes nothing else: after it the breakpoints above are armed, and every other byte
  of the tracee, its registers and the list are as before. So a breakpoint at or below the program
  counter that is armed stays armed, and one that a hit has restored is not armed again.\<close>

theorem chkbp_arms_ahead:
  assumes "traces os tm" and "state s = RUNNING" and "bps_ok s"
    and "ptrace_getregs os (pid s) (world s) = Some regs" and "chkbp os s = Go s'"
  shows "text_of tm s' = (\<lambda>x. if x \<in> bp_addr ` set (bp_list s) \<and> regs U_rip < x then 0xcc
      else text_of tm s x) \<and>
    s' = s\<lparr>world := world s'\<rparr> \<and> ptrace_getregs os (pid s) (world s') = Some regs"
  using chkbp_effect [OF assms(1,2,3,5)] assms(4) by (auto simp: text_of_def arm_ahead_def)

theorem chkbp_arms_ahead_witness:
  "\<exists>s'. chkbp machine_os (demo_dbg\<lparr>bp_list :=
       [\<lparr>bp_id = 0, bp_addr = 0x1000, orig_code = 0\<rparr>, \<lparr>bp_id = 1, bp_addr = 0x1008, orig_code = 0\<rparr>]\<rparr>)
     = Go s' \<and> m_mem (world s') = (\<lambda>_. 0x90)(0x1008 := 0xcc)"
proof -
  let ?s = "demo_dbg\<lparr>bp_list := [\<lparr>bp_id = 0, bp_addr = 0x1000, orig_code = 0\<rparr>,
    \<lparr>bp_id = 1, bp_addr = 0x1008, orig_code = 0\<rparr>]\<rparr>"
  have ok: "bps_ok ?s"
    by (auto simp: bps_ok_def table_ok_def ids_ok_def demo_intext less_Suc_eq)
  obtain s' where s': "chkbp machine_os ?s = Go s'" using machine_chkbp by blast
  show ?thesis
    using chkbp_arms_ahead [OF machine_traces _ ok _ s', of "(\<lambda>_. 0)(U_rip := 0x1000)"] s'
    by (auto simp: text_of_def fun_eq_iff)
qed

end
