(* ===== verification/Sdb_Inspect.thy ===== *)
theory Sdb_Inspect
  imports Sdb_Patch
begin

text \<open>
  The commands of the debugger that show the tracee and its registers: \<open>get\<close>, \<open>set\<close>,
  \<open>getregs\<close>, \<open>dump\<close>, \<open>disasm\<close>, \<open>vmmap\<close> and \<open>help\<close>.
\<close>

section \<open>Registers\<close>

text \<open>The chains of comparisons in \<open>get\<close> and in \<open>set\<close>.\<close>

definition get_val :: "string \<Rightarrow> user_regs \<Rightarrow> u64 option" where
  "get_val reg regs =
     (if reg = ''rax'' then Some (regs U_rax)
      else if reg = ''rbx'' then Some (regs U_rbx)
      else if reg = ''rcx'' then Some (regs U_rcx)
      else if reg = ''rdx'' then Some (regs U_rdx)
      else if reg = ''r8'' then Some (regs U_r8)
      else if reg = ''r9'' then Some (regs U_r9)
      else if reg = ''r10'' then Some (regs U_r10)
      else if reg = ''r11'' then Some (regs U_r11)
      else if reg = ''r12'' then Some (regs U_r12)
      else if reg = ''r13'' then Some (regs U_r13)
      else if reg = ''r14'' then Some (regs U_r14)
      else if reg = ''r15'' then Some (regs U_r15)
      else if reg = ''rdi'' then Some (regs U_rdi)
      else if reg = ''rsi'' then Some (regs U_rsi)
      else if reg = ''rbp'' then Some (regs U_rbp)
      else if reg = ''rsp'' then Some (regs U_rsp)
      else if reg = ''rip'' then Some (regs U_rip)
      else if reg = ''flags'' then Some (regs U_eflags)
      else None)"

definition set_val :: "string \<Rightarrow> u64 \<Rightarrow> user_regs \<Rightarrow> user_regs" where
  "set_val reg val regs =
     (if reg = ''rax'' then regs(U_rax := val)
      else if reg = ''rbx'' then regs(U_rbx := val)
      else if reg = ''rcx'' then regs(U_rcx := val)
      else if reg = ''rdx'' then regs(U_rdx := val)
      else if reg = ''r8'' then regs(U_r8 := val)
      else if reg = ''r9'' then regs(U_r9 := val)
      else if reg = ''r10'' then regs(U_r10 := val)
      else if reg = ''r11'' then regs(U_r11 := val)
      else if reg = ''r12'' then regs(U_r12 := val)
      else if reg = ''r13'' then regs(U_r13 := val)
      else if reg = ''r14'' then regs(U_r14 := val)
      else if reg = ''r15'' then regs(U_r15 := val)
      else if reg = ''rdi'' then regs(U_rdi := val)
      else if reg = ''rsi'' then regs(U_rsi := val)
      else if reg = ''rbp'' then regs(U_rbp := val)
      else if reg = ''rsp'' then regs(U_rsp := val)
      else if reg = ''rip'' then regs(U_rip := val)
      else if reg = ''flags'' then regs(U_eflags := val)
      else regs)"

definition get_reg :: "'w os \<Rightarrow> string \<Rightarrow> 'w sdb \<Rightarrow> 'w sdb result" where
  "get_reg os reg s =
     (if reg = [] then Go (say ''** no register is given'' s)
      else if state s \<noteq> RUNNING then Go (say ''** state must be RUNNING'' s)
      else with_regs os (\<lambda>regs s.
        case get_val reg regs of
          None \<Rightarrow> Go s
        | Some val \<Rightarrow> Go (cerr [Str reg, Str '' = '', Dec, U64 val, Str '' (0x'', Hex, U64 val,
                           Str ('')'' @ [CHR 0x0A])] s)) s)"

definition set_reg :: "'w os \<Rightarrow> string \<Rightarrow> u64 \<Rightarrow> 'w sdb \<Rightarrow> 'w sdb result" where
  "set_reg os reg val s =
     (if state s \<noteq> RUNNING then Go (say ''** state must be RUNNING'' s)
      else with_regs os (\<lambda>regs s.
        request os ''ptrace(PTRACE_SETREGS)'' (ptrace_setregs os (pid s) (set_val reg val regs)) s) s)"

abbreviation tab_char :: string where "tab_char \<equiv> [CHR 0x09]"
abbreviation newline :: string where "newline \<equiv> [CHR 0x0A]"

definition reg_col :: "string \<Rightarrow> u64 \<Rightarrow> string \<Rightarrow> tok list" where
  "reg_col name v sep = [Left, SetW 7, Str name, Left, SetW 10, U64 v, Str sep]"

definition getregs :: "'w os \<Rightarrow> 'w sdb \<Rightarrow> 'w sdb result" where
  "getregs os s =
     (if state s \<noteq> RUNNING then Go (say ''** state must be RUNNING'' s)
      else with_regs os (\<lambda>regs s.
        Go (cerr [SetFill (CHR '' '')]
          (cerr ([Hex] @
            reg_col ''RAX '' (regs U_rax) tab_char @ reg_col ''RBX '' (regs U_rbx) tab_char @
            reg_col ''RCX '' (regs U_rcx) tab_char @ reg_col ''RDX '' (regs U_rdx) newline @
            reg_col ''R8 '' (regs U_r8) tab_char @ reg_col ''R9 '' (regs U_r9) tab_char @
            reg_col ''R10 '' (regs U_r10) tab_char @ reg_col ''R11 '' (regs U_r11) newline @
            reg_col ''R12 '' (regs U_r12) tab_char @ reg_col ''R13 '' (regs U_r13) tab_char @
            reg_col ''R14 '' (regs U_r14) tab_char @ reg_col ''R15 '' (regs U_r15) newline @
            reg_col ''RDI '' (regs U_rdi) tab_char @ reg_col ''RSI '' (regs U_rsi) tab_char @
            reg_col ''RBP '' (regs U_rbp) tab_char @ reg_col ''RSP '' (regs U_rsp) newline @
            reg_col ''RIP '' (regs U_rip) tab_char @
            [Left, SetW 7, Str ''FLAGS '', Left, SetW 16, SetFill (CHR ''0''), Right,
             U64 (regs U_eflags), Str newline]) s))) s)"

section \<open>Memory\<close>

definition code_bytes :: "u64 \<Rightarrow> u8 list" where
  "code_bytes w = map (byte_of w) [0..<8]"

definition print8bytes :: "u64 \<Rightarrow> 'w sdb \<Rightarrow> 'w sdb" where
  "print8bytes w s =
     cerr [SetFill (CHR '' '')]
       (foldl (\<lambda>s b. cerr [Hex, SetW 2, SetFill (CHR ''0''), Num (uint b), Str '' ''] s) s (code_bytes w))"

definition print8ascii :: "u64 \<Rightarrow> 'w sdb \<Rightarrow> 'w sdb" where
  "print8ascii w s =
     foldl (\<lambda>s b. if isprint (chr_of b) then cerr [Str [chr_of b]] s else cerr [Str ''.''] s)
       s (code_bytes w)"

definition dump_row :: "'w os \<Rightarrow> u64 \<Rightarrow> 'w sdb \<Rightarrow> 'w sdb" where
  "dump_row os a s =
     (let code1 = ptrace_peektext os (pid s) a (world s);
          code2 = ptrace_peektext os (pid s) (a + 8) (world s);
          s = cerr [Hex, SetW 12, SetFill (CHR '' ''), Right, U64 a, Str '': ''] s;
          s = print8bytes code2 (print8bytes code1 s);
          s = cerr [Str ''|''] s;
          s = print8ascii code2 (print8ascii code1 s)
      in cerr [Str (''|'' @ newline)] s)"

fun dump_rows :: "'w os \<Rightarrow> nat \<Rightarrow> u64 \<Rightarrow> 'w sdb \<Rightarrow> 'w sdb" where
  "dump_rows os 0 a s = s"
| "dump_rows os (Suc n) a s = dump_rows os n (a + 16) (dump_row os a s)"

definition DUMP_MAX :: nat where "DUMP_MAX = 5"
definition DISASM_MAX :: nat where "DISASM_MAX = 10"

definition dump :: "'w os \<Rightarrow> u64 \<Rightarrow> 'w sdb \<Rightarrow> 'w sdb" where
  "dump os a s =
     (if a = 0 then say ''** no addr is given'' s
      else if state s \<noteq> RUNNING then say ''** state must be RUNNING'' s
      else if \<not> intext s a then say ''** the address is out of the range of the text segment'' s
      else dump_rows os DUMP_MAX a s)"

section \<open>Instructions\<close>

text \<open>The whole program file is read; without the file \<open>tellg\<close> gives -1 and \<open>malloc\<close> fails.\<close>

definition getcode :: "'w os \<Rightarrow> 'w sdb \<Rightarrow> 'w sdb result" where
  "getcode os s =
     (case read_file os (file_path s) (world s) of
        None \<Rightarrow> Go (s\<lparr>code_size := - 1\<rparr>)
      | Some bs \<Rightarrow>
          let sz = sint (of_nat (length bs) :: u32)
          in if 0 \<le> sz \<and> malloc_ok os (of_int sz) (world s)
             then Go (s\<lparr>code := Some (take (nat sz) bs), code_size := sz\<rparr>)
             else if 0 < sz then Fault else Go (s\<lparr>code_size := sz\<rparr>))"

fun print_insns :: "insn list \<Rightarrow> 'w sdb \<Rightarrow> 'w sdb result" where
  "print_insns [] s = Go s"
| "print_insns (i # is) s =
     (if 16 < length (i_bytes i) then Fault
      else if \<not> intext s (i_address i)
        then Go (say ''** the address is out of the range of the text segment'' s)
      else print_insns is
        (cerr [Hex, Right, SetW 12, U64 (i_address i), Str '':  '', Left, SetW 32,
           Str (concat (map (\<lambda>b. pad_left (CHR ''0'') 2 (show_hex (unat b)) @ '' '') (i_bytes i))),
           Left, SetW 7, Str (i_mnemonic i), Left, SetW 7, Str (i_op_str i), endl] s))"

text \<open>The pointer given to \<open>cs_disasm\<close> is \<open>offset\<close> bytes into the buffer but the size is that of the
  whole buffer: reading a byte before the buffer or behind its end is a fault. Without a buffer
  every read is one.\<close>

definition disasm_code :: "'w os \<Rightarrow> u64 \<Rightarrow> nat \<Rightarrow> 'w sdb \<Rightarrow> 'w sdb result" where
  "disasm_code os a count s =
     (let offset = sint (sh_offset (text_shdr (elf s)) + (a - sh_addr (text_shdr (elf s))))
      in if \<not> cs_open os (world s) then error_exit os ''cs_open'' s
         else
           let bs = (case code s of Some bs \<Rightarrow> bs | None \<Rightarrow> []);
               reads = cs_reads os bs offset (code_size s) a count
           in if 0 < reads \<and> (offset < 0 \<or> length bs < nat offset + reads) then Fault
              else
                let insns = cs_disasm os bs offset (code_size s) a count
                in if insns = [] then Go (say ''** can not disassemble code'' s)
                   else print_insns insns s)"

definition disasm :: "'w os \<Rightarrow> u64 \<Rightarrow> nat \<Rightarrow> 'w sdb \<Rightarrow> 'w sdb result" where
  "disasm os a count s =
     (if a = 0 then Go (say ''** no addr is given'' s)
      else if state s \<noteq> RUNNING then Go (say ''** state must be RUNNING'' s)
      else if \<not> intext s a
        then Go (say ''** the address is out of the range of the text segment'' s)
      else and_then (if code s = None then getcode os s else Go s) (disasm_code os a count))"

section \<open>Memory map\<close>

text \<open>\<open>strtok\<close>: the token, and the text the next call goes on with.\<close>

definition strtok :: "string \<Rightarrow> string \<Rightarrow> string option \<times> string" where
  "strtok delims s =
     (case dropWhile (\<lambda>c. c \<in> set delims) s of
        [] \<Rightarrow> (None, [])
      | c # cs \<Rightarrow> (Some (takeWhile (\<lambda>c. c \<notin> set delims) (c # cs)),
                   drop 1 (dropWhile (\<lambda>c. c \<notin> set delims) (c # cs))))"

definition show_tok :: "string option \<Rightarrow> (string \<Rightarrow> tok list) \<Rightarrow> 'w sdb \<Rightarrow> 'w sdb" where
  "show_tok t f s = (case t of Some token \<Rightarrow> cerr (f token) s | None \<Rightarrow> s)"

definition vmmap_line :: "string \<Rightarrow> 'w sdb \<Rightarrow> 'w sdb" where
  "vmmap_line line s =
     (let (t, r) = strtok ''-'' line;
          s = show_tok t (\<lambda>t. [SetW 16, SetFill (CHR ''0''), Right, Str t, Str ''-'']) s;
          (t, r) = strtok '' '' r;
          s = show_tok t (\<lambda>t. [SetW 16, SetFill (CHR ''0''), Right, Str t, Str '' '']) s;
          (t, r) = strtok '' p'' r;
          s = show_tok t (\<lambda>t. [SetFill (CHR '' ''), Str t, Str '' '']) s;
          (t, r) = strtok '' '' r;
          (t, r) = strtok '' '' r;
          (t, r) = strtok '' '' r;
          s = show_tok t (\<lambda>t. [SetW 9, Left, Str t]) s;
          (t, r) = strtok '' '' r
      in show_tok t (\<lambda>t. [Str t]) s)"

text \<open>\<open>read_maps\<close> gives the lines of \<open>/proc/PID/maps\<close>, each with its newline.\<close>

definition vmmap :: "'w os \<Rightarrow> 'w sdb \<Rightarrow> 'w sdb result" where
  "vmmap os s =
     (if state s \<noteq> RUNNING then Go (say ''** state must be RUNNING'' s)
      else case read_maps os (pid s) (world s) of
        None \<Rightarrow> error_exit os ''fopen'' s
      | Some lines \<Rightarrow>
          if \<not> line_null os (world s) then Fault
          else Go (foldl (\<lambda>s line. vmmap_line line s) s lines))"

section \<open>Help\<close>

definition help_text :: "'w sdb \<Rightarrow> 'w sdb" where
  "help_text s = foldl (\<lambda>s line. cerr [Str (line @ newline)] s) s
     [''- break {instruction-address}: add a break point'',
      ''- cont: continue execution'',
      ''- delete {break-point-id}: remove a break point'',
      ''- disasm addr: disassemble instructions in a file or a memory region'',
      ''- dump addr: dump memory content'',
      ''- exit: terminate the debugger'',
      ''- get reg: get a single value from a register'',
      ''- getregs: show registers'',
      ''- help: show this message'',
      ''- list: list break points'',
      ''- load {path/to/a/program}: load a program'',
      ''- run: run the program'',
      ''- vmmap: show memory layout'',
      ''- set reg val: get a single value to a register'',
      ''- si: step into instruction'',
      ''- start: start the program and stop at the first instruction'']"

section \<open>What the commands leave alone\<close>

lemma print_insns_frame:
  "print_insns is s = Go s' \<Longrightarrow> state s' = state s \<and> pid s' = pid s \<and> bp_list s' = bp_list s \<and>
    elf s' = elf s \<and> file_path s' = file_path s \<and> world s' = world s \<and> code s' = code s"
  by (induction "is" s rule: print_insns.induct) (auto split: if_splits)

lemma getcode_frame:
  "getcode os s = Go s' \<Longrightarrow> state s' = state s \<and> pid s' = pid s \<and> bp_list s' = bp_list s \<and>
    elf s' = elf s \<and> file_path s' = file_path s \<and> world s' = world s"
  by (auto simp: getcode_def Let_def split: option.splits if_splits)

lemma disasm_frame:
  assumes "disasm os a n s = Go s'"
  shows "state s' = state s" "pid s' = pid s" "bp_list s' = bp_list s" "elf s' = elf s"
    "file_path s' = file_path s" "world s' = world s"
proof -
  have "state s' = state s \<and> pid s' = pid s \<and> bp_list s' = bp_list s \<and> elf s' = elf s \<and>
    file_path s' = file_path s \<and> world s' = world s"
  proof (cases "a = 0 \<or> state s \<noteq> RUNNING \<or> \<not> intext s a")
    case True
    then show ?thesis using assms by (auto simp: disasm_def split: if_splits)
  next
    case False
    then obtain t where t: "(if code s = None then getcode os s else Go s) = Go t"
      and rest: "s' = say ''** can not disassemble code'' t \<or> (\<exists>is. print_insns is t = Go s')"
      using assms by (auto simp: disasm_def disasm_code_def Let_def and_then_Go error_exit_def split: if_splits option.splits)
    have "state t = state s \<and> pid t = pid s \<and> bp_list t = bp_list s \<and> elf t = elf s \<and>
      file_path t = file_path s \<and> world t = world s"
      using t getcode_frame [of os s t] by (auto split: if_splits)
    then show ?thesis using rest print_insns_frame [of _ t s'] by auto
  qed
  then show "state s' = state s" "pid s' = pid s" "bp_list s' = bp_list s" "elf s' = elf s"
    "file_path s' = file_path s" "world s' = world s" by simp_all
qed

section \<open>The text of a dump\<close>

definition hex2 :: "u8 \<Rightarrow> string" where
  "hex2 b = pad_left (CHR ''0'') 2 (show_hex (unat b))"

definition ascii :: "u8 \<Rightarrow> char" where
  "ascii b = (if isprint (chr_of b) then chr_of b else CHR ''.'')"

definition dump_line :: "memory \<Rightarrow> u64 \<Rightarrow> string" where
  "dump_line m a =
     (let bs = map (\<lambda>i. m (a + of_nat i)) [0..<16]
      in pad_left (CHR '' '') 12 (show_hex (unat a)) @ '': '' @ concat (map (\<lambda>b. hex2 b @ '' '') bs) @
         ''|'' @ map ascii bs @ ''|'' @ newline)"

lemma hex_byte [fmt_simps]: "hex_base f \<Longrightarrow> show_cint f (uint (b :: u8)) = show_hex (unat b)"
proof -
  have "uint b < 2 ^ 8" using uint_lt2p [of b] by simp
  then show "hex_base f \<Longrightarrow> ?thesis"
    by (simp add: show_cint_def unsigned_eq_0_iff nat_mod_distrib flip: nat_uint_eq)
qed

lemma hex_bytes_text:
  "\<not> left_adj (cerr_fmt s) \<Longrightarrow>
    (let t = foldl (\<lambda>s b. cerr [Hex, SetW 2, SetFill (CHR ''0''), Num (uint b), Str '' ''] s) s bs
     in written Cerr t = written Cerr s @ concat (map (\<lambda>b. hex2 (b :: u8) @ '' '') bs) \<and>
        \<not> left_adj (cerr_fmt t))"
proof (induction bs arbitrary: s)
  case (Cons b bs)
  let ?s = "cerr [Hex, SetW 2, SetFill (CHR ''0''), Num (uint b), Str '' ''] s"
  have "\<not> left_adj (cerr_fmt ?s)" "written Cerr ?s = written Cerr s @ hex2 b @ '' ''"
    using Cons.prems by (simp_all add: fmt_simps field_def hex2_def)
  then show ?case using Cons.IH [of ?s] by (simp add: Let_def)
qed simp

lemma ascii_text:
  "written Cerr (foldl (\<lambda>s b. if isprint (chr_of b) then cerr [Str [chr_of b]] s else cerr [Str ''.''] s) s bs)
    = written Cerr s @ map ascii bs"
  by (induction bs arbitrary: s) (auto simp: fmt_simps ascii_def)

lemma code_bytes_load: "code_bytes (load64 m a) = map (\<lambda>i. m (a + of_nat i)) [0..<8]"
  by (simp add: code_bytes_def byte_load64)

lemma print_fields [simp]:
  "state (print8bytes w s) = state s" "pid (print8bytes w s) = pid s" "world (print8bytes w s) = world s"
  "state (print8ascii w s) = state s" "pid (print8ascii w s) = pid s" "world (print8ascii w s) = world s"
proof -
  have "state (foldl f s bs) = state s \<and> pid (foldl f s bs) = pid s \<and> world (foldl f s bs) = world s"
    if "\<And>s b. state (f s b) = state s \<and> pid (f s b) = pid s \<and> world (f s b) = world s"
    for f :: "'a sdb \<Rightarrow> u8 \<Rightarrow> 'a sdb" and s bs
    using that by (induction bs arbitrary: s) auto
  then show "state (print8bytes w s) = state s" "pid (print8bytes w s) = pid s"
    "world (print8bytes w s) = world s" "state (print8ascii w s) = state s"
    "pid (print8ascii w s) = pid s" "world (print8ascii w s) = world s"
    by (simp_all add: print8bytes_def print8ascii_def)
qed

lemma print8bytes_text:
  assumes "\<not> left_adj (cerr_fmt s)"
  shows "written Cerr (print8bytes w s) = written Cerr s @ concat (map (\<lambda>b. hex2 b @ '' '') (code_bytes w))"
    and "\<not> left_adj (cerr_fmt (print8bytes w s))"
  using hex_bytes_text [OF assms, of "code_bytes w"] by (simp_all add: print8bytes_def Let_def fmt_simps)

lemma print8ascii_text: "written Cerr (print8ascii w s) = written Cerr s @ map ascii (code_bytes w)"
  by (simp add: print8ascii_def ascii_text)

lemma dump_row_fields [simp]:
  "state (dump_row os a s) = state s" "pid (dump_row os a s) = pid s" "world (dump_row os a s) = world s"
  by (simp_all add: dump_row_def Let_def)

lemma dump_row_text:
  assumes "traces os tm"
  shows "written Cerr (dump_row os a s) = written Cerr s @ dump_line (text_of tm s) a"
proof -
  have peek: "ptrace_peektext os (pid s) x (world s) = load64 (text_of tm s) x" for x
    using assms by (simp add: traces_def text_of_def)
  have eight: "map (\<lambda>i. m (a + of_nat i)) [0..<16] =
      map (\<lambda>i. m (a + of_nat i)) [0..<8] @ map (\<lambda>i. m (a + 8 + of_nat i)) [0..<8]" for m :: memory
    by (simp add: upt_rec add.commute)
  let ?s = "cerr [Hex, SetW 12, SetFill (CHR '' ''), Right, U64 a, Str '': ''] s"
  have left: "\<not> left_adj (cerr_fmt ?s)" by (simp add: fmt_simps)
  have head: "written Cerr ?s = written Cerr s @ pad_left (CHR '' '') 12 (show_hex (unat a)) @ '': ''"
    by (simp add: fmt_simps field_def show_u64_def)
  show ?thesis
    unfolding dump_row_def dump_line_def Let_def peek eight
    by (simp add: print8ascii_text print8bytes_text left head code_bytes_load fmt_simps comp_def)
      (simp add: field_def show_u64_def)
qed

lemma dump_rows_text:
  assumes "traces os tm"
  shows "written Cerr (dump_rows os n a s) =
    written Cerr s @ concat (map (\<lambda>k. dump_line (text_of tm s) (a + 16 * of_nat k)) [0..<n])"
proof (induction n arbitrary: a s)
  case (Suc n)
  have "text_of tm (dump_row os a s) = text_of tm s" by (simp add: text_of_def)
  moreover have "[0..<Suc n] = 0 # map Suc [0..<n]" by (simp add: upt_conv_Cons map_Suc_upt del: upt_Suc)
  ultimately show ?case
    by (simp add: Suc.IH dump_row_text [OF assms] comp_def algebra_simps del: upt_Suc)
qed simp

section \<open>Splitting a line of the memory map\<close>

lemma strtok_at:
  assumes "t \<noteq> []" and "\<forall>c \<in> set t. c \<notin> set delims" and "d \<in> set delims" and "\<forall>c \<in> set pre. c \<in> set delims"
  shows "strtok delims (pre @ t @ d # r) = (Some t, r)"
proof -
  have "dropWhile (\<lambda>c. c \<in> set delims) (pre @ t @ d # r) = t @ d # r"
    using assms by (cases t) (auto simp: dropWhile_append2)
  moreover have "takeWhile (\<lambda>c. c \<notin> set delims) (t @ d # r) = t"
    "dropWhile (\<lambda>c. c \<notin> set delims) (t @ d # r) = d # r"
    using assms by (auto simp: takeWhile_append2 dropWhile_append2)
  ultimately show ?thesis using assms(1) by (cases t) (auto simp: strtok_def)
qed

lemma strtok_end:
  assumes "t \<noteq> []" and "\<forall>c \<in> set t. c \<notin> set delims" and "\<forall>c \<in> set pre. c \<in> set delims"
  shows "strtok delims (pre @ t) = (Some t, [])"
proof -
  have "dropWhile (\<lambda>c. c \<in> set delims) (pre @ t) = t"
    using assms by (cases t) (auto simp: dropWhile_append2)
  moreover have "takeWhile (\<lambda>c. c \<notin> set delims) t = t" "dropWhile (\<lambda>c. c \<notin> set delims) t = []"
    using assms by (auto simp: takeWhile_eq_all_conv dropWhile_eq_Nil_conv)
  ultimately show ?thesis using assms(1) by (cases t) (auto simp: strtok_def)
qed

section \<open>Properties\<close>

text \<open>What \<open>PTRACE_SETREGS\<close> wrote is what \<open>PTRACE_GETREGS\<close> reads, but for the flags, of which
  the kernel lets only some bits change: they are as before if the old flags were written.\<close>

definition regs_read_back :: "'w os \<Rightarrow> bool" where
  "regs_read_back os \<longleftrightarrow>
     (\<forall>p r w w' old. ptrace_setregs os p r w = Some w' \<and> ptrace_getregs os p w = Some old \<longrightarrow>
        (\<exists>fl. ptrace_getregs os p w' = Some (r(U_eflags := fl)) \<and> (r U_eflags = old U_eflags \<longrightarrow> fl = old U_eflags)))"

lemma regs_written:
  assumes "regs_read_back os" and "ptrace_setregs os p r w = Some w'" and "ptrace_getregs os p w = Some old"
    and "r U_eflags = old U_eflags"
  shows "ptrace_getregs os p w' = Some r"
  using assms unfolding regs_read_back_def by (metis fun_upd_triv)

lemma machine_read_back: "regs_read_back machine_os"
  by (simp add: regs_read_back_def) (metis fun_upd_triv)

text \<open>The names of the registers as the user types them.\<close>

fun ureg_name :: "ureg \<Rightarrow> string" where
  "ureg_name U_rax = ''rax''"
| "ureg_name U_rbx = ''rbx''"
| "ureg_name U_rcx = ''rcx''"
| "ureg_name U_rdx = ''rdx''"
| "ureg_name U_r8 = ''r8''"
| "ureg_name U_r9 = ''r9''"
| "ureg_name U_r10 = ''r10''"
| "ureg_name U_r11 = ''r11''"
| "ureg_name U_r12 = ''r12''"
| "ureg_name U_r13 = ''r13''"
| "ureg_name U_r14 = ''r14''"
| "ureg_name U_r15 = ''r15''"
| "ureg_name U_rdi = ''rdi''"
| "ureg_name U_rsi = ''rsi''"
| "ureg_name U_rbp = ''rbp''"
| "ureg_name U_rsp = ''rsp''"
| "ureg_name U_rip = ''rip''"
| "ureg_name U_eflags = ''flags''"

lemma named_chains:
  "get_val (ureg_name r) regs = Some (regs r)" "set_val (ureg_name r) v regs = regs(r := v)"
  "ureg_name r \<noteq> []"
  by (cases r; simp add: get_val_def set_val_def)+

text \<open>C9. \<open>set\<close> with the name of a register changes this register of the tracee and no other, and
  \<open>get\<close> with the same name then prints the value in decimal and in hexadecimal, and the hexadecimal
  text it prints is text that \<open>set\<close> reads back as the same value. \<open>get\<close> of any register, the
  flags too, prints what the tracee has in it. (Of the flags the kernel lets only some bits change.)\<close>

theorem set_then_get:
  assumes "regs_read_back os" and "state s = RUNNING" and "r \<noteq> U_eflags"
    and "set_reg os (ureg_name r) v s = Go s'" and "get_reg os (ureg_name q) s' = Go t"
  shows "\<exists>regs. ptrace_getregs os (pid s) (world s) = Some regs \<and>
    ptrace_getregs os (pid s') (world s') = Some (regs(r := v)) \<and>
    written Cerr t = written Cerr s @ ureg_name q @ '' = '' @ show_dec (unat ((regs(r := v)) q)) @ '' (0x'' @
      show_hex (unat ((regs(r := v)) q)) @ '')'' @ newline \<and>
    strtoul16 (show_hex (unat v)) = v"
proof -
  obtain regs w where regs: "ptrace_getregs os (pid s) (world s) = Some regs"
    and w: "ptrace_setregs os (pid s) (regs(r := v)) (world s) = Some w" and s': "s' = s\<lparr>world := w\<rparr>"
    using assms(2,4) by (auto simp: set_reg_def Go_simps named_chains)
  have after: "ptrace_getregs os (pid s) w = Some (regs(r := v))"
    using regs_written [OF assms(1) w regs] assms(3) by simp
  let ?v = "(regs(r := v)) q"
  have "t = cerr [Str (ureg_name q), Str '' = '', Dec, U64 ?v, Str '' (0x'', Hex, U64 ?v, Str ('')'' @ newline)] s'"
    using assms(2,5) after s' by (simp add: get_reg_def with_regs_Go named_chains del: fun_upd_apply)
  then have "written Cerr t = written Cerr s' @ ureg_name q @ '' = '' @ show_dec (unat ?v) @ '' (0x'' @
      show_hex (unat ?v) @ '')'' @ newline"
    by (simp add: fmt_simps show_u64_def del: fun_upd_apply)
  moreover have "written Cerr s' = written Cerr s" by (simp add: s' written_def)
  ultimately show ?thesis using regs after s' strtoul16_hex [of v] by simp
qed

theorem set_then_get_witness:
  "\<exists>s' t. set_reg machine_os ''r10'' 0x2a demo_dbg = Go s' \<and> get_reg machine_os ''r10'' s' = Go t \<and>
    m_regs (world s') = (\<lambda>_. 0)(U_rip := 0x1000, U_r10 := 0x2a) \<and>
    written Cerr t = written Cerr demo_dbg @ ''r10 = 42 (0x2a)'' @ newline"
proof -
  obtain s' where s': "set_reg machine_os (ureg_name U_r10) 0x2a demo_dbg = Go s'"
    by (simp add: set_reg_def with_regs_def request_def)
  then have "state s' = RUNNING" by (auto simp: set_reg_def Go_simps)
  then obtain t where t: "get_reg machine_os (ureg_name U_r10) s' = Go t"
    by (simp add: get_reg_def with_regs_def get_val_def)
  have "show_dec 42 = ''42''" "show_hex 42 = ''2a''"
    by code_simp+
  then show ?thesis
    using set_then_get [OF machine_read_back _ _ s' t] s' t by auto
qed

text \<open>C10. \<open>dump\<close> prints five lines for eighty consecutive bytes of the tracee, each with the
  address, the sixteen bytes in order in hexadecimal and their printable characters, whatever
  manipulators earlier commands left on the stream; nothing of the tracee changes. The bytes are
  those in its memory: \<open>cc\<close> for a breakpoint that is armed, the original byte for a listed one that
  a hit has restored.\<close>

theorem dump_shows:
  assumes "traces os tm" and "state s = RUNNING" and "intext s a" and "a \<noteq> 0"
  shows "written Cerr (dump os a s) = written Cerr s @
      concat (map (\<lambda>k. dump_line (text_of tm s) (a + 16 * of_nat k)) [0..<5]) \<and>
    world (dump os a s) = world s"
proof -
  have "world (dump_rows os n a s) = world s" for n
    by (induction n arbitrary: a s) simp_all
  then show ?thesis
    using assms(2-4) by (simp add: dump_def dump_rows_text [OF assms(1)] DUMP_MAX_def del: upt_Suc)
qed

theorem dump_shows_witness:
  "written Cerr (dump machine_os 0x1010 demo_dbg) =
    written Cerr demo_dbg @ concat (map (\<lambda>k. dump_line (\<lambda>_. 0x90) (0x1010 + 16 * of_nat k)) [0..<5])"
  using dump_shows [OF machine_traces, of demo_dbg "0x1010"]
  by (simp add: demo_intext text_of_def del: upt_Suc)

text \<open>A line of \<open>/proc/PID/maps\<close> for a private mapping is shown as its two addresses,
  each padded with zeros to 16 columns, the permissions without their last letter, the inode and the path.\<close>

lemma vmmap_shows_line:
  assumes "lo \<noteq> []" "hi \<noteq> []" "perms \<noteq> []" "off \<noteq> []" "dev \<noteq> []" "inode \<noteq> []" "path \<noteq> []"
    and "CHR ''-'' \<notin> set lo" and "CHR '' '' \<notin> set hi" and "CHR '' '' \<notin> set perms" "CHR ''p'' \<notin> set perms"
    and "CHR '' '' \<notin> set off" "CHR '' '' \<notin> set dev" "CHR '' '' \<notin> set inode" "CHR '' '' \<notin> set path"
  shows "written Cerr (vmmap_line (lo @ ''-'' @ hi @ '' '' @ perms @ ''p '' @ off @ '' '' @ dev @ '' '' @
        inode @ '' '' @ replicate k (CHR '' '') @ path) s) =
    written Cerr s @ pad_left (CHR ''0'') 16 lo @ ''-'' @ pad_left (CHR ''0'') 16 hi @ '' '' @ perms @ '' '' @
      pad_right (CHR '' '') 9 inode @ path"
proof -
  have no: "\<forall>c \<in> set lo. c \<noteq> CHR ''-''" "\<forall>c \<in> set hi. c \<noteq> CHR '' ''"
    "\<forall>c \<in> set perms. c \<noteq> CHR '' '' \<and> c \<noteq> CHR ''p''" "\<forall>c \<in> set off. c \<noteq> CHR '' ''"
    "\<forall>c \<in> set dev. c \<noteq> CHR '' ''" "\<forall>c \<in> set inode. c \<noteq> CHR '' ''" "\<forall>c \<in> set path. c \<noteq> CHR '' ''"
    using assms(8-15) by metis+
  have toks: "strtok ''-'' (lo @ CHR ''-'' # r) = (Some lo, r)"
    "strtok '' '' (hi @ CHR '' '' # r) = (Some hi, r)"
    "strtok '' p'' (perms @ CHR ''p'' # r) = (Some perms, r)"
    "strtok '' '' (CHR '' '' # off @ CHR '' '' # r) = (Some off, r)"
    "strtok '' '' (dev @ CHR '' '' # r) = (Some dev, r)"
    "strtok '' '' (inode @ CHR '' '' # r) = (Some inode, r)"
    "strtok '' '' (replicate k (CHR '' '') @ path) = (Some path, [])" for r
    using assms(1-7) no strtok_at [of lo "''-''" "CHR ''-''" "[]"] strtok_at [of hi "'' ''" "CHR '' ''" "[]"]
      strtok_at [of perms "'' p''" "CHR ''p''" "[]"] strtok_at [of off "'' ''" "CHR '' ''" "'' ''"]
      strtok_at [of dev "'' ''" "CHR '' ''" "[]"] strtok_at [of inode "'' ''" "CHR '' ''" "[]"]
      strtok_end [of path "'' ''" "replicate k (CHR '' '')"]
    by auto
  show ?thesis
    unfolding vmmap_line_def Let_def append.simps toks split
    by (simp add: show_tok_def fmt_simps toks) (simp add: field_def)
qed

lemma vmmap_shows_line_witness:
  "written Cerr (vmmap_line ''00600000-00601000 rw-p 00000000 08:02 2622929   /hello64'' demo_dbg) =
    written Cerr demo_dbg @ ''0000000000600000-0000000000601000 rw- 2622929  /hello64''"
  using vmmap_shows_line [of "''00600000''" "''00601000''" "''rw-''" "''00000000''" "''08:02''" "''2622929''"
      "''/hello64''" 2 demo_dbg]
  by (simp add: pad_left_def pad_right_def numeral_eq_Suc)

end
