(* ===== verification/Sdb_Run.thy ===== *)
theory Sdb_Run
  imports Sdb_Inspect
begin

text \<open>
  Running the tracee: \<open>start\<close>, \<open>run\<close>, \<open>cont\<close>, \<open>si\<close> and \<open>quit\<close>. After the tracee was resumed
  the debugger waits for it and decodes the status: an exit ends the session of the tracee, a
  trap is looked up among the breakpoints.
\<close>

section \<open>Wait status\<close>

definition WTERMSIG :: "u32 \<Rightarrow> u32" where "WTERMSIG st = st AND 0x7f"
definition WIFEXITED :: "u32 \<Rightarrow> bool" where "WIFEXITED st \<longleftrightarrow> WTERMSIG st = 0"
definition WIFSIGNALED :: "u32 \<Rightarrow> bool" where
  "WIFSIGNALED st \<longleftrightarrow> 0 < sint (signed_drop_bit 1 (ucast ((st AND 0x7f) + 1) :: u8))"
definition WIFSTOPPED :: "u32 \<Rightarrow> bool" where "WIFSTOPPED st \<longleftrightarrow> st AND 0xff = 0x7f"
definition WSTOPSIG :: "u32 \<Rightarrow> u32" where "WSTOPSIG st = drop_bit 8 (st AND 0xff00)"
definition SIGTRAP :: u32 where "SIGTRAP = 5"

lemma exited_not_signaled: "WIFEXITED st \<Longrightarrow> \<not> WIFSIGNALED st"
  by (simp add: WIFEXITED_def WTERMSIG_def WIFSIGNALED_def)

lemma stopped_low: "WIFSTOPPED st \<Longrightarrow> st AND 0x7f = 0x7f"
proof -
  assume "WIFSTOPPED st"
  have "st AND 0x7f = (st AND 0xff) AND 0x7f" by (simp add: and.assoc)
  then show ?thesis using \<open>WIFSTOPPED st\<close> by (simp add: WIFSTOPPED_def)
qed

lemma exited_not_stopped: "WIFEXITED st \<Longrightarrow> \<not> WIFSTOPPED st"
  using stopped_low [of st] by (auto simp: WIFEXITED_def WTERMSIG_def)

lemma signaled_not_stopped: "WIFSIGNALED st \<Longrightarrow> \<not> WIFSTOPPED st"
proof
  assume "WIFSIGNALED st" and "WIFSTOPPED st"
  moreover have "sint (signed_drop_bit 1 (0x80 :: u8)) = - 64"
    by code_simp
  ultimately show False using stopped_low [of st] by (simp add: WIFSIGNALED_def)
qed

section \<open>After a stop\<close>

definition check_exit :: "u32 \<Rightarrow> 'w sdb \<Rightarrow> 'w sdb" where
  "check_exit status s =
     (if WIFEXITED status then
        let s = (if WIFSIGNALED status
                 then cout [Str ''** child process '', Num (pid s), Str '' terminiated by signal (code'',
                        Num (sint (WTERMSIG status)), Str '')'', endl] s
                 else cout [Str ''** child process '', Num (pid s), Str '' terminiated normally (code '',
                        Num (sint status), Str '')'', endl] s)
        in s\<lparr>pid := 0, state := LOADED\<rparr>
      else s)"

text \<open>The loop over the breakpoints after \<open>cont\<close>: the program counter is one past the trap. The
  registers \<open>regs\<close> are those of the loop, with \<open>rip\<close> decremented at each hit.\<close>

fun cont_hits :: "'w os \<Rightarrow> nat list \<Rightarrow> user_regs \<Rightarrow> 'w sdb \<Rightarrow> 'w sdb result" where
  "cont_hits os [] regs s = Go s"
| "cont_hits os (i # is) regs s =
     (let b = bp_list s ! i in
      if bp_addr b = regs U_rip - 1 then
        and_then (disasm os (bp_addr b) 1 (cout [Str ''** breakpoint @ ''] s)) (\<lambda>s.
        and_then (request os ''ptrace(PTRACE_POKETEXT)''
                   (ptrace_poketext os (pid s) (bp_addr b) (orig_code b)) s) (\<lambda>s.
        let regs = regs(U_rip := regs U_rip - 1) in
        and_then (request os ''ptrace(PTRACE_SETREGS)'' (ptrace_setregs os (pid s) regs) s)
          (cont_hits os is regs)))
      else cont_hits os is regs s)"

text \<open>The loop after \<open>si\<close>: the program counter is at the breakpoint.\<close>

fun si_hits :: "'w os \<Rightarrow> nat list \<Rightarrow> user_regs \<Rightarrow> 'w sdb \<Rightarrow> 'w sdb result" where
  "si_hits os [] regs s = Go s"
| "si_hits os (i # is) regs s =
     (let b = bp_list s ! i in
      if bp_addr b = regs U_rip then
        and_then (disasm os (bp_addr b) 1 (cout [Str ''** breakpoint @ ''] s)) (\<lambda>s.
        and_then (request os ''ptrace(PTRACE_POKETEXT)''
                   (ptrace_poketext os (pid s) (bp_addr b) (orig_code b)) s)
          (si_hits os is regs))
      else si_hits os is regs s)"

definition after_stop :: "('w os \<Rightarrow> nat list \<Rightarrow> user_regs \<Rightarrow> 'w sdb \<Rightarrow> 'w sdb result) \<Rightarrow>
    'w os \<Rightarrow> 'w sdb \<Rightarrow> 'w sdb result" where
  "after_stop hits os s =
     (case waitpid os (pid s) (world s) of
        None \<Rightarrow> error_exit os ''waitpid'' s
      | Some (status, w) \<Rightarrow>
          let s = check_exit status (s\<lparr>world := w\<rparr>)
          in if WIFSTOPPED status then
               if WSTOPSIG status = SIGTRAP
               then with_regs os (\<lambda>regs s. hits os [0..<length (bp_list s)] regs s) s
               else Go (cout [Str ''** child process '', Num (pid s), Str '' terminiated by signal (code'',
                          Num (sint (WSTOPSIG status)), Str '')'', endl] s)
             else Go s)"

text \<open>\<open>chkstat\<close> is never called; \<open>cont\<close> repeats its body.\<close>

definition chkstat :: "'w os \<Rightarrow> 'w sdb \<Rightarrow> 'w sdb result" where
  "chkstat os s = after_stop cont_hits os s"

section \<open>The commands\<close>

definition cont :: "'w os \<Rightarrow> 'w sdb \<Rightarrow> 'w sdb result" where
  "cont os s =
     (if state s \<noteq> RUNNING then Go (say ''** state must be RUNNING'' s)
      else and_then (chkbp os s) (\<lambda>s.
        and_then (request os ''ptrace(PTRACE_CONT)'' (ptrace_cont os (pid s)) s) (chkstat os)))"

definition si :: "'w os \<Rightarrow> 'w sdb \<Rightarrow> 'w sdb result" where
  "si os s =
     (if state s \<noteq> RUNNING then Go (say ''** state must be RUNNING'' s)
      else and_then (chkbp os s) (\<lambda>s.
        and_then (request os ''ptrace(PTRACE_SINGLESTEP)'' (ptrace_singlestep os (pid s)) s)
          (after_stop si_hits os)))"

text \<open>In the child \<open>fork\<close> returned 0: it asks to be traced and becomes the program.\<close>

definition start :: "'w os \<Rightarrow> 'w sdb \<Rightarrow> 'w sdb result" where
  "start os s =
     (if state s \<noteq> LOADED then Go (say ''** state must be LOADED'' s)
      else if pid s \<noteq> 0
        then Go (cerr [Str ''** program '', Str (file_path s), Str ('' is already running'' @ newline)] s)
      else
        let (p, w) = fork os (world s); s = s\<lparr>pid := p, world := w\<rparr>
        in if p < 0 then error_exit os ''fork'' s
           else if p = 0 then
             and_then (request os ''ptrace(PTRACE_TRACEME)'' (ptrace_traceme os) s) (\<lambda>s.
               case execvp os (file_path s) (world s) of
                 Some w \<Rightarrow> Exec (file_path s) (s\<lparr>world := w\<rparr>)
               | None \<Rightarrow> error_exit os ''execvp'' s)
           else
             case waitpid os p (world s) of
               None \<Rightarrow> error_exit os ''waitpid'' s
             | Some (status, w) \<Rightarrow>
                 and_then (request os ''ptrace(PTRACE_SETOPTIONS)'' (ptrace_setoptions os p) (s\<lparr>world := w\<rparr>))
                   (\<lambda>s. Go ((cout [Str ''** pid '', Dec, Num (pid s), endl] s)\<lparr>state := RUNNING\<rparr>)))"

definition run :: "'w os \<Rightarrow> 'w sdb \<Rightarrow> 'w sdb result" where
  "run os s =
     (if state s = RUNNING then cont os s
      else if state s = LOADED then and_then (start os s) (cont os)
      else Go (say ''** state must be RUNNING or LOADED'' s))"

definition quit :: "'w os \<Rightarrow> 'w sdb \<Rightarrow> 'w sdb result" where
  "quit os s =
     (let s = (if pid s \<noteq> 0 then s\<lparr>world := kill_term os (pid s) (world s), pid := 0\<rparr> else s)
      in Exit 0 (s\<lparr>code := None\<rparr>))"

section \<open>The session invariant\<close>

text \<open>The table is right, there is a tracee exactly in state RUNNING, there are no breakpoints
  before a program is loaded, and the ELF structures have their sizes.\<close>

definition session_ok :: "'w sdb \<Rightarrow> bool" where
  "session_ok s \<longleftrightarrow> bps_ok s \<and> (state s = RUNNING \<longleftrightarrow> pid s \<noteq> 0) \<and> (state s = NONLOAD \<longrightarrow> bp_list s = []) \<and>
     length (ehdr (elf s)) = 64 \<and> length (str_shdr (elf s)) = 64"

lemma session_ok_frame [simp]:
  "session_ok (put ch ts s) = session_ok s" "session_ok (say m s) = session_ok s"
  "session_ok (s\<lparr>world := w\<rparr>) = session_ok s" "session_ok (s\<lparr>code := c\<rparr>) = session_ok s"
  "session_ok (s\<lparr>code_size := k\<rparr>) = session_ok s"
  by (simp_all add: session_ok_def)

lemma keeps_disasm: "session_ok s \<Longrightarrow> goes session_ok (disasm os a n s)"
proof (cases "disasm os a n s")
  case (Go t)
  assume "session_ok s"
  then show ?thesis using Go disasm_frame [OF Go] by (simp add: session_ok_def bps_ok_def intext_def)
qed simp_all

lemma keeps_error_exit [simp]: "goes P (error_exit os f s)"
  by (simp add: error_exit_def)

lemma keeps_request: "(\<And>w. g (world s) = Some w \<Longrightarrow> P (s\<lparr>world := w\<rparr>)) \<Longrightarrow> goes P (request os f g s)"
  by (simp add: request_def split: option.split)

lemma keeps_with_regs: "(\<And>regs. goes P (f regs s)) \<Longrightarrow> goes P (with_regs os f s)"
  by (simp add: with_regs_def split: option.split)

lemma safe_bp_session: "session_ok s \<Longrightarrow> safe session_ok (bp os a s)"
proof (cases "state s = RUNNING")
  case True
  assume ok: "session_ok s"
  then have "safe bps_ok (bp os a s)" by (simp add: session_ok_def safe_bp)
  moreover have "session_ok s'" if "bp os a s = Go s'" "bps_ok s'" for s'
    using that ok True bp_frame [OF that(1)] by (simp add: session_ok_def)
  ultimately show ?thesis by (cases "bp os a s") simp_all
next
  case False
  assume "session_ok s"
  then show ?thesis using False by (simp add: bp_def)
qed

lemma safe_chkbp_session: "session_ok s \<Longrightarrow> safe session_ok (chkbp os s)"
  unfolding chkbp_def
  by (intro safe_with_regs safe_for_each) (auto simp: arm_body_def intro: safe_bp_session)

lemma keeps_hits:
  "session_ok s \<Longrightarrow> goes session_ok (cont_hits os is regs s)" "session_ok s \<Longrightarrow> goes session_ok (si_hits os is regs s)"
  by (induction "is" arbitrary: regs s)
    (auto simp: Let_def intro!: goes_and_then [where P = session_ok] keeps_disasm keeps_request)

lemma check_exit_ok: "session_ok s \<Longrightarrow> state s = RUNNING \<Longrightarrow> session_ok (check_exit st s)"
  by (simp add: check_exit_def session_ok_def Let_def)

lemma keeps_after_stop:
  assumes "session_ok s" and "state s = RUNNING"
    and "\<And>is regs s. session_ok s \<Longrightarrow> goes session_ok (hits os is regs s)"
  shows "goes session_ok (after_stop hits os s)"
  using assms
  by (auto simp: after_stop_def Let_def check_exit_ok intro!: keeps_with_regs split: option.split)

lemma chkbp_frame:
  assumes "chkbp os s = Go s'"
  shows "state s' = state s" "pid s' = pid s"
proof -
  have step: "arm_body os rip i s = Go t \<Longrightarrow> state t = state s \<and> pid t = pid s" for rip i s t
    using bp_frame [of os _ s t] by (auto simp: arm_body_def split: if_splits)
  have "for_each is (arm_body os rip) s = Go s' \<Longrightarrow> state s' = state s \<and> pid s' = pid s" for rip "is" s
  proof (induction "is" arbitrary: s)
    case (Cons i "is")
    then show ?case using step by (fastforce simp: and_then_Go)
  qed simp
  then show "state s' = state s" "pid s' = pid s"
    using assms by (auto simp: chkbp_def with_regs_Go)
qed

lemma keeps_resume:
  assumes ok: "session_ok s" "state s = RUNNING"
    and hits: "\<And>is regs s. session_ok s \<Longrightarrow> goes session_ok (hits os is regs s)"
  shows "goes session_ok (and_then (chkbp os s) (\<lambda>s. and_then (request os name (f (pid s)) s) (after_stop hits os)))"
proof -
  have "goes (\<lambda>t. session_ok t \<and> state t = RUNNING) (chkbp os s)"
    using safe_chkbp_session [OF ok(1), of os] chkbp_frame [of os s] ok(2) by (cases "chkbp os s") fastforce+
  moreover have "goes session_ok (and_then (request os name (f (pid t)) t) (after_stop hits os))"
    if "session_ok t \<and> state t = RUNNING" for t
    using that hits
    by (auto intro!: goes_and_then [where P = "\<lambda>t. session_ok t \<and> state t = RUNNING"] keeps_request keeps_after_stop)
  ultimately show ?thesis by (rule goes_and_then)
qed

lemma keeps_cont: "session_ok s \<Longrightarrow> goes session_ok (cont os s)"
  unfolding cont_def chkstat_def [abs_def] by (auto intro!: keeps_resume keeps_hits)

lemma keeps_si: "session_ok s \<Longrightarrow> goes session_ok (si os s)"
  unfolding si_def by (auto intro!: keeps_resume keeps_hits)

lemma start_running:
  assumes "session_ok s" and "state s = LOADED"
  shows "safe (\<lambda>t. state t = RUNNING \<and> session_ok t) (start os s)"
proof -
  let ?P = "\<lambda>t. pid t = fst (fork os (world s)) \<and> bps_ok t \<and> length (ehdr (elf t)) = 64 \<and> length (str_shdr (elf t)) = 64"
  have "bps_ok s" "pid s = 0" "length (ehdr (elf s)) = 64" "length (str_shdr (elf s)) = 64" using assms by (simp_all add: session_ok_def)
  then show ?thesis
    using assms(2)
    by (auto simp: start_def Let_def split_beta session_ok_def
        intro!: safe_and_then [where P = ?P] safe_request split: option.split)
qed

lemma safe_start: "session_ok s \<Longrightarrow> safe session_ok (start os s)"
  using start_running [of s os] safe_mono [of _ "start os s" session_ok]
  by (cases "state s = LOADED") (auto simp: start_def)

lemma keeps_run: "session_ok s \<Longrightarrow> goes session_ok (run os s)"
  by (auto simp: run_def intro: keeps_cont goes_and_then [OF safe_goes [OF safe_start]])

section \<open>A hit\<close>

text \<open>The contract of the tracee: the code changes by \<open>PTRACE_POKETEXT\<close> only, and the registers
  read are those written (the flags if they are the current ones).\<close>

definition tracer :: "'w os \<Rightarrow> (int \<Rightarrow> 'w \<Rightarrow> memory) \<Rightarrow> bool" where
  "tracer os tm \<longleftrightarrow> traces os tm \<and> regs_read_back os \<and>
     (\<forall>p r w w'. ptrace_setregs os p r w = Some w' \<longrightarrow> tm p w' = tm p w) \<and>
     (\<forall>p w st w'. waitpid os p w = Some (st, w') \<longrightarrow> tm p w' = tm p w)"

lemma code_ok_restore:
  assumes "code_ok m0 m bps" and "b \<in> set bps"
  shows "store64 m (bp_addr b) (orig_code b) = m(bp_addr b := m0 (bp_addr b))"
    and "code_ok m0 (m(bp_addr b := m0 (bp_addr b))) bps"
proof -
  let ?a = "bp_addr b"
  have "m x = m0 x" if "x - ?a < 8" and "x \<noteq> ?a" for x
  proof -
    have "x \<noteq> bp_addr c" if "c \<in> set bps" for c
      using assms that \<open>x - ?a < 8\<close> \<open>x \<noteq> ?a\<close> apart_not_within unfolding code_ok_def by metis
    then show ?thesis using assms(1) by (auto simp: code_ok_def)
  qed
  then show "store64 m ?a (orig_code b) = m(?a := m0 ?a)"
    using assms by (auto simp: fun_eq_iff code_ok_def store_load)
  show "code_ok m0 (m(?a := m0 ?a)) bps" using assms(1) by (auto simp: code_ok_def)
qed

lemma code_ok_before:
  assumes "code_ok m0 m bps" and "b \<in> set bps" "c \<in> set bps"
  shows "bp_addr c \<noteq> bp_addr b - 1"
proof
  assume c: "bp_addr c = bp_addr b - 1"
  then have "apart (bp_addr c) (bp_addr b)"
    using assms unfolding code_ok_def by (metis diff_eq_eq add_cancel_left_right one_neq_zero)
  then show False using apart_not_within [of "bp_addr c" "bp_addr b"] c by simp
qed

lemma cont_hits_skip:
  "\<forall>i \<in> set is. bp_addr (bp_list s ! i) \<noteq> regs U_rip - 1 \<Longrightarrow>
    cont_hits os (is @ js) regs s = cont_hits os js regs s"
  by (induction "is") auto

lemma si_hits_skip:
  "\<forall>i \<in> set is. bp_addr (bp_list s ! i) \<noteq> regs U_rip \<Longrightarrow> si_hits os is regs s = Go s"
  by (induction "is") auto

lemma cont_hits_at:
  assumes "tracer os tm" and "bp_addr (bp_list s ! i) = regs U_rip - 1"
    and "cont_hits os (i # is) regs s = Go s'" and "ptrace_getregs os (pid s) (world s) = Some regs"
  shows "\<exists>t. cont_hits os is (regs(U_rip := regs U_rip - 1)) t = Go s' \<and>
    text_of tm t = store64 (text_of tm s) (bp_addr (bp_list s ! i)) (orig_code (bp_list s ! i)) \<and>
    ptrace_getregs os (pid s) (world t) = Some (regs(U_rip := regs U_rip - 1)) \<and>
    bp_list t = bp_list s \<and> state t = state s \<and> pid t = pid s \<and> elf t = elf s"
proof -
  let ?b = "bp_list s ! i" let ?regs = "regs(U_rip := regs U_rip - 1)"
  obtain t0 w1 w2 where t0: "disasm os (bp_addr ?b) 1 (cout [Str ''** breakpoint @ ''] s) = Go t0"
    and w1: "ptrace_poketext os (pid t0) (bp_addr ?b) (orig_code ?b) (world t0) = Some w1"
    and w2: "ptrace_setregs os (pid t0) ?regs w1 = Some w2"
    and rest: "cont_hits os is ?regs (t0\<lparr>world := w2\<rparr>) = Go s'"
    using assms(2,3) by (auto simp: Let_def Go_simps)
  have "ptrace_getregs os (pid s) w1 = Some regs"
    using assms(1,4) w1 disasm_frame [OF t0] by (auto simp: tracer_def traces_def)
  then have "ptrace_getregs os (pid s) w2 = Some ?regs"
    using assms(1) w2 disasm_frame(2) [OF t0] regs_written [of os "pid s" ?regs w1 w2] by (simp add: tracer_def)
  moreover have "text_of tm (t0\<lparr>world := w2\<rparr>) = store64 (text_of tm s) (bp_addr ?b) (orig_code ?b)"
    using assms(1) w1 w2 disasm_frame [OF t0]
    by (auto simp: tracer_def traces_def text_of_def)
  ultimately show ?thesis
    using rest disasm_frame [OF t0] by (intro exI [of _ "t0\<lparr>world := w2\<rparr>"]) simp
qed

lemma chkstat_trap:
  assumes "waitpid os (pid s) (world s) = Some (st, w)" and "WIFSTOPPED st" and "WSTOPSIG st = SIGTRAP"
    and "ptrace_getregs os (pid s) w = Some regs"
  shows "after_stop hits os s = hits os [0..<length (bp_list s)] regs (s\<lparr>world := w\<rparr>)"
  using assms exited_not_stopped [of st]
  by (auto simp: after_stop_def check_exit_def with_regs_def Let_def)

lemma upt_at: "i < n \<Longrightarrow> [0..<n] = [0..<i] @ i # [Suc i..<n]"
  by (metis less_imp_le_nat upt_add_eq_append upt_conv_Cons le0 ordered_cancel_comm_monoid_diff_class.add_diff_inverse plus_nat.add_0)

lemma length_demo_file: "length demo_file = 256"
  by (simp add: demo_file_def demo_shdr_def)

lemma and_then_total: "\<exists>t. r = Go t \<Longrightarrow> (\<And>t. \<exists>s'. f t = Go s') \<Longrightarrow> \<exists>s'. and_then r f = Go s'"
  by auto

text \<open>The program of the example, read or not yet read: an address inside its text is a position of the file.\<close>

definition demo_prog :: "machine sdb \<Rightarrow> bool" where
  "demo_prog s \<longleftrightarrow> text_shdr (elf s) = demo_shdr \<and> (code s = None \<or> code s = Some demo_file)"

lemma demo_offset:
  assumes "0x1000 \<le> a" and "a < 0x1100"
  shows "0 \<le> sint (sh_offset demo_shdr + (a - sh_addr demo_shdr)) \<and>
    nat (sint (sh_offset demo_shdr + (a - sh_addr demo_shdr))) < length demo_file"
proof -
  have "unat (a - 0x1000) < 256" using assms by (simp add: word_le_nat_alt word_less_nat_alt unat_sub_if')
  moreover have "join_bytes (replicate 8 0) = 0" by (simp add: eval_nat_numeral)
  then have "sh_offset demo_shdr = 0" "sh_addr demo_shdr = 0x1000"
    by (simp_all add: demo_shdr_def sh_offset_def sh_addr_def le64_def)
  moreover have "sint (of_nat n :: u64) = int n" if "n < 256" for n
    using that by (simp only: signed_of_nat) (simp add: signed_take_bit_int_eq_self)
  from this [of "unat (a - 0x1000)"] have "unat (a - 0x1000) < 256 \<Longrightarrow> sint (a - 0x1000) = int (unat (a - 0x1000))"
    by simp
  ultimately show ?thesis by (simp add: length_demo_file)
qed

lemma machine_disasm: "demo_prog s \<Longrightarrow> \<exists>s'. disasm machine_os a n s = Go s' \<and> demo_prog s'"
proof -
  assume s: "demo_prog s"
  have read: "\<exists>t. (if code s = None then getcode machine_os s else Go s) = Go t \<and> text_shdr (elf t) = demo_shdr \<and>
      code t = Some demo_file"
    using s by (auto simp: demo_prog_def getcode_def Let_def length_demo_file)
  have "intext s a \<longleftrightarrow> 0x1000 \<le> a \<and> a < 0x1100"
    using s demo_intext [of a] by (simp add: demo_prog_def intext_def demo_dbg_def)
  moreover have "\<exists>s'. disasm_code machine_os a n t = Go s' \<and> demo_prog s'"
    if "text_shdr (elf t) = demo_shdr" "code t = Some demo_file" "0x1000 \<le> a" "a < 0x1100" for t
    using demo_offset [OF that(3,4)] that(1,2) by (auto simp: disasm_code_def Let_def demo_prog_def)
  ultimately show ?thesis using s read by (auto simp: disasm_def demo_prog_def)
qed

lemma machine_cont_hits: "demo_prog s \<Longrightarrow> \<exists>s'. cont_hits machine_os is regs s = Go s'"
proof (induction "is" arbitrary: regs s)
  case (Cons i "is")
  obtain t where t: "disasm machine_os (bp_addr (bp_list s ! i)) 1 (cout [Str ''** breakpoint @ ''] s) = Go t" "demo_prog t"
    using machine_disasm [of "cout [Str ''** breakpoint @ ''] s"] Cons.prems by (auto simp: demo_prog_def)
  have "demo_prog (t\<lparr>world := w\<rparr>)" for w using t(2) by (simp add: demo_prog_def)
  then show ?case
    using Cons t(1) by (auto simp: Let_def request_def)
qed simp

lemma machine_tracer: "tracer machine_os (\<lambda>p w. m_mem w)"
  using machine_traces machine_read_back by (auto simp: tracer_def)

declare cont_hits.simps(2) [simp del] si_hits.simps(2) [simp del]

lemma same_world: "world s = w \<Longrightarrow> s\<lparr>world := w\<rparr> = s"
  by (cases s) simp

lemma hit_restores:
  assumes "tracer os tm" and "state s = RUNNING" and "code_ok m0 (text_of tm s) (bp_list s)"
    and "b \<in> set (bp_list s)" and "table_ok (bp_list s)"
    and "waitpid os (pid s) (world s) = Some (st, w)" and "WIFSTOPPED st" and "WSTOPSIG st = SIGTRAP"
    and "ptrace_getregs os (pid s) w = Some regs" and "regs U_rip = bp_addr b + 1"
    and "chkstat os s = Go s'"
  shows "text_of tm s' = (text_of tm s)(bp_addr b := m0 (bp_addr b)) \<and>
    ptrace_getregs os (pid s) (world s') = Some (regs(U_rip := bp_addr b)) \<and>
    code_ok m0 (text_of tm s') (bp_list s') \<and> bp_list s' = bp_list s \<and> state s' = RUNNING \<and> pid s' = pid s \<and> elf s' = elf s"
proof -
  let ?bps = "bp_list s" let ?s = "s\<lparr>world := w\<rparr>" let ?regs = "regs(U_rip := bp_addr b)"
  obtain i where i: "i < length ?bps" "?bps ! i = b" using assms(4) by (auto simp: in_set_conv_nth)
  have other: "bp_addr (?bps ! j) \<noteq> bp_addr b" if "j < length ?bps" "j \<noteq> i" for j
    using assms(5) that i by (auto simp: table_ok_def distinct_conv_nth)
  have "cont_hits os [0..<length ?bps] regs ?s = Go s'"
    using chkstat_trap [OF assms(6-9), of cont_hits] assms(11) by (simp add: chkstat_def)
  also have "cont_hits os [0..<length ?bps] regs ?s = cont_hits os (i # [Suc i..<length ?bps]) regs ?s"
    unfolding upt_at [OF i(1)] by (rule cont_hits_skip) (use assms(10) i other in auto)
  finally obtain t where rest: "cont_hits os [Suc i..<length ?bps] ?regs t = Go s'"
    and t: "text_of tm t = store64 (text_of tm ?s) (bp_addr b) (orig_code b)"
      "ptrace_getregs os (pid s) (world t) = Some ?regs" "bp_list t = ?bps" "state t = RUNNING" "pid t = pid s" "elf t = elf s"
    using cont_hits_at [OF assms(1), of ?s i regs] i assms(2,9,10) by auto
  have "bp_addr (?bps ! j) \<noteq> bp_addr b - 1" if "j < length ?bps" for j
    using code_ok_before [OF assms(3,4)] that by simp
  then have "s' = t" using rest cont_hits_skip [of "[Suc i..<length ?bps]" t ?regs os "[]"] t(3) by simp
  moreover have "text_of tm ?s = text_of tm s"
    using assms(1,6) by (simp add: tracer_def text_of_def)
  ultimately show ?thesis using t code_ok_restore [OF assms(3,4)] by simp
qed

definition demo_hit :: "machine sdb" where
  "demo_hit = demo_dbg\<lparr>bp_list := [\<lparr>bp_id = 0, bp_addr = 0x1005, orig_code = load64 (\<lambda>_. 0x90) 0x1005\<rparr>],
     world := \<lparr>m_mem = (\<lambda>_. 0x90)(0x1005 := 0xcc), m_regs = (\<lambda>_. 0)(U_rip := 0x1006), m_status = 0x57f\<rparr>\<rparr>"

lemma demo_hit_prog: "demo_prog demo_hit" "demo_prog (demo_hit\<lparr>bp_list := l\<rparr>)"
  by (simp_all add: demo_prog_def demo_hit_def demo_dbg_def)

lemma trap_status: "WIFSTOPPED 0x57f" "WSTOPSIG 0x57f = SIGTRAP"
  by (simp_all add: WIFSTOPPED_def WSTOPSIG_def SIGTRAP_def)

lemma demo_hit_facts:
  "state demo_hit = RUNNING" "table_ok (bp_list demo_hit)" "bps_ok demo_hit"
  "code_ok (\<lambda>_. 0x90) (text_of (\<lambda>p w. m_mem w) demo_hit) (bp_list demo_hit)"
  "\<lparr>bp_id = 0, bp_addr = 0x1005, orig_code = load64 (\<lambda>_. 0x90) 0x1005\<rparr> \<in> set (bp_list demo_hit)"
  "waitpid machine_os (pid demo_hit) (world demo_hit) = Some (0x57f, world demo_hit)"
  "ptrace_getregs machine_os (pid demo_hit) (world demo_hit) = Some (m_regs (world demo_hit))"
  "m_regs (world demo_hit) U_rip = 0x1005 + 1"
  using demo_intext [of "0x1005"]
  by (auto simp: code_ok_def demo_hit_def text_of_def bps_ok_def table_ok_def ids_ok_def intext_def)

lemma demo_hit_stops: "\<exists>s'. chkstat machine_os demo_hit = Go s'"
proof -
  have "chkstat machine_os demo_hit = cont_hits machine_os [0..<1] (m_regs (world demo_hit)) demo_hit"
    using chkstat_trap [of machine_os demo_hit "0x57f" "world demo_hit" "m_regs (world demo_hit)" cont_hits] trap_status
    by (simp add: chkstat_def demo_hit_def)
  then show ?thesis using machine_cont_hits [OF demo_hit_prog(1)] by metis
qed

section \<open>Properties\<close>

text \<open>C4. A tracee stopped by a breakpoint (the trap leaves the program counter one past it) gets
  the original byte back at that address and the program counter set onto it; the other
  breakpoints stay as they are, and so does the rest of the code.\<close>

theorem breakpoint_hit:
  assumes "tracer os tm" and "state s = RUNNING" and "code_ok m0 (text_of tm s) (bp_list s)"
    and "b \<in> set (bp_list s)" and "table_ok (bp_list s)"
    and "waitpid os (pid s) (world s) = Some (st, w)" and "WIFSTOPPED st" and "WSTOPSIG st = SIGTRAP"
    and "ptrace_getregs os (pid s) w = Some regs" and "regs U_rip = bp_addr b + 1"
    and "chkstat os s = Go s'"
  shows "text_of tm s' = (text_of tm s)(bp_addr b := m0 (bp_addr b)) \<and>
    ptrace_getregs os (pid s) (world s') = Some (regs(U_rip := bp_addr b)) \<and>
    code_ok m0 (text_of tm s') (bp_list s') \<and> bp_list s' = bp_list s \<and> state s' = RUNNING \<and> pid s' = pid s"
  using hit_restores [OF assms] by blast

theorem breakpoint_hit_witness:
  "\<exists>s'. chkstat machine_os demo_hit = Go s' \<and> m_mem (world s') = (\<lambda>_. 0x90) \<and>
    m_regs (world s') U_rip = 0x1005 \<and> state s' = RUNNING"
proof -
  obtain s' where s': "chkstat machine_os demo_hit = Go s'" using demo_hit_stops by blast
  from breakpoint_hit [OF machine_tracer demo_hit_facts(1,4,5,2,6) trap_status demo_hit_facts(7) _ s'] s'
  show ?thesis by (auto simp: demo_hit_def text_of_def fun_eq_iff)
qed

text \<open>C6. A breakpoint that was hit is not armed again when the tracee goes on: the program counter
  stands on it and \<open>chkbp\<close> looks above the program counter only. It is still listed, and the code
  has its original byte, so a loop that comes back to it does not stop there.\<close>

theorem hit_not_rearmed:
  assumes "tracer os tm" and "state s = RUNNING" and "code_ok m0 (text_of tm s) (bp_list s)"
    and "b \<in> set (bp_list s)" and "bps_ok s"
    and "waitpid os (pid s) (world s) = Some (st, w)" and "WIFSTOPPED st" and "WSTOPSIG st = SIGTRAP"
    and "ptrace_getregs os (pid s) w = Some regs" and "regs U_rip = bp_addr b + 1"
    and "chkstat os s = Go s1" and "chkbp os s1 = Go s2"
  shows "b \<in> set (bp_list s2) \<and> text_of tm s2 (bp_addr b) = m0 (bp_addr b) \<and>
    (\<forall>c \<in> set (bp_list s2). bp_addr b < bp_addr c \<longrightarrow> text_of tm s2 (bp_addr c) = 0xcc)"
proof -
  have table: "table_ok (bp_list s)" using assms(5) by (simp add: bps_ok_def)
  note s1 = hit_restores [OF assms(1-4) table assms(6-11)]
  have "bps_ok s1" using assms(5) s1 by (simp add: bps_ok_def intext_def)
  moreover have "traces os tm" using assms(1) by (simp add: tracer_def)
  ultimately obtain v where "s2 = s1\<lparr>world := v\<rparr>"
    "tm (pid s1) v = arm_ahead (bp_addr b) (bp_addr ` set (bp_list s1)) (tm (pid s1) (world s1))"
    using chkbp_effect [of os tm s1 s2] s1 assms(12) by auto
  then show ?thesis using s1 assms(4) by (auto simp: arm_ahead_def text_of_def)
qed

theorem hit_not_rearmed_witness:
  "\<exists>s1 s2. chkstat machine_os demo_hit = Go s1 \<and> chkbp machine_os s1 = Go s2 \<and>
     0x1005 \<in> bp_addr ` set (bp_list s2) \<and> m_mem (world s2) 0x1005 = 0x90"
proof -
  obtain s1 where s1: "chkstat machine_os demo_hit = Go s1" using demo_hit_stops by blast
  obtain s2 where s2: "chkbp machine_os s1 = Go s2" using machine_chkbp by blast
  from hit_not_rearmed [OF machine_tracer demo_hit_facts(1,4,5,3,6) trap_status demo_hit_facts(7) _ s1 s2]
  have "\<lparr>bp_id = 0, bp_addr = 0x1005, orig_code = load64 (\<lambda>_. 0x90) 0x1005\<rparr> \<in> set (bp_list s2)"
    "m_mem (world s2) 0x1005 = 0x90"
    by (auto simp: demo_hit_facts(8) text_of_def)
  then show ?thesis using s1 s2 by (force intro: exI [of _ s1])
qed

text \<open>C15. With breakpoints at an address and, listed after it, at the address one below, a trap at
  the first counts for both: the loop compares with the program counter it has just moved, and
  the tracee is left one byte before the instruction it has to execute.\<close>

theorem adjacent_hit_counts_twice:
  assumes "tracer os tm" and "bp_list s = [b, c]" and "bp_addr c = bp_addr b - 1"
    and "waitpid os (pid s) (world s) = Some (st, w)" and "WIFSTOPPED st" and "WSTOPSIG st = SIGTRAP"
    and "ptrace_getregs os (pid s) w = Some regs" and "regs U_rip = bp_addr b + 1"
    and "chkstat os s = Go s'"
  shows "ptrace_getregs os (pid s) (world s') = Some (regs(U_rip := bp_addr b - 1))"
proof -
  have two: "[0..<length (bp_list s)] = [0, 1]" using assms(2) by (simp add: upt_rec)
  have "cont_hits os [0, 1] regs (s\<lparr>world := w\<rparr>) = Go s'"
    using chkstat_trap [OF assms(4-7), of cont_hits] assms(9) by (simp add: chkstat_def two)
  then obtain t where t: "cont_hits os [1] (regs(U_rip := bp_addr b)) t = Go s'" "bp_list t = [b, c]" "pid t = pid s"
    "ptrace_getregs os (pid t) (world t) = Some (regs(U_rip := bp_addr b))"
    using cont_hits_at [OF assms(1), of "s\<lparr>world := w\<rparr>" 0 regs] assms(2,7,8) by auto
  show ?thesis
    using cont_hits_at [OF assms(1) _ t(1) t(4)] t(2,3) assms(3) by auto
qed

theorem adjacent_hit_counts_twice_witness:
  "\<exists>s'. chkstat machine_os (demo_hit\<lparr>bp_list := bp_list demo_hit @
       [\<lparr>bp_id = 1, bp_addr = 0x1004, orig_code = load64 (\<lambda>_. 0x90) 0x1004\<rparr>]\<rparr>) = Go s' \<and>
     m_regs (world s') U_rip = 0x1004"
proof -
  let ?c = "\<lparr>bp_id = 1, bp_addr = 0x1004, orig_code = load64 (\<lambda>_. 0x90) 0x1004\<rparr>"
  let ?b = "\<lparr>bp_id = 0, bp_addr = 0x1005, orig_code = load64 (\<lambda>_. 0x90) 0x1005\<rparr>"
  let ?s = "demo_hit\<lparr>bp_list := bp_list demo_hit @ [?c]\<rparr>"
  have st: "WIFSTOPPED 0x57f" "WSTOPSIG 0x57f = SIGTRAP"
    by (simp_all add: WIFSTOPPED_def WSTOPSIG_def SIGTRAP_def)
  have "chkstat machine_os ?s = cont_hits machine_os [0..<2] (m_regs (world demo_hit)) ?s"
    using chkstat_trap [of machine_os ?s "0x57f" "world demo_hit" "m_regs (world demo_hit)" cont_hits] st
      same_world [of ?s "world demo_hit"]
    by (simp add: chkstat_def) (simp add: demo_hit_def eval_nat_numeral)
  then obtain s' where s': "chkstat machine_os ?s = Go s'" using machine_cont_hits [OF demo_hit_prog(2)] by metis
  show ?thesis
    using adjacent_hit_counts_twice [OF machine_tracer _ _ _ st _ _ s', of ?b ?c "world demo_hit"
        "m_regs (world demo_hit)"] s'
    by (simp add: demo_hit_def)
qed

text \<open>C14. When a tracee that was continued dies from a signal, \<open>cont\<close> prints nothing and stays in
  state RUNNING with the dead process: the branch for signals stands inside the test for a
  normal exit, which excludes it.\<close>

theorem killed_tracee_unnoticed:
  assumes "state s = RUNNING" and "chkbp os s = Go s1" and "ptrace_cont os (pid s1) (world s1) = Some w1"
    and "waitpid os (pid s1) w1 = Some (st, w)" and "WIFSIGNALED st"
  shows "cont os s = Go (s1\<lparr>world := w\<rparr>) \<and> state s1 = RUNNING \<and> pid s1 = pid s"
  using assms chkbp_frame [OF assms(2)] signaled_not_stopped [OF assms(5)] exited_not_signaled [of st]
  by (auto simp: cont_def chkstat_def after_stop_def request_def check_exit_def Let_def)

theorem killed_tracee_unnoticed_witness:
  "cont (machine_os\<lparr>waitpid := (\<lambda>p w. Some (9, w))\<rparr>) demo_dbg =
     Go (demo_dbg\<lparr>world := m_run 100 (world demo_dbg)\<rparr>)"
proof -
  let ?os = "machine_os\<lparr>waitpid := (\<lambda>p w. Some (9, w))\<rparr>"
  have "chkbp ?os demo_dbg = Go demo_dbg" by (simp add: chkbp_def with_regs_def)
  moreover have "WIFSIGNALED 9" by code_simp
  ultimately show ?thesis
    using killed_tracee_unnoticed [of demo_dbg ?os demo_dbg "m_run 100 (world demo_dbg)" 9 "m_run 100 (world demo_dbg)"]
    by simp
qed

text \<open>When the tracee exits with code \<open>c\<close> the debugger forgets its pid, goes back to state LOADED
  and prints the wait status, which is 256 times the code.\<close>

lemma exit_shows_status:
  assumes "waitpid os (pid s) (world s) = Some (of_nat (256 * c), w)" and "c < 256"
    and "\<not> hex_base (cout_fmt s)"
  shows "\<exists>s'. chkstat os s = Go s' \<and> pid s' = 0 \<and> state s' = LOADED \<and> bp_list s' = bp_list s \<and>
    written Cout s' = written Cout s @ ''** child process '' @ show_int (pid s) @
      '' terminiated normally (code '' @ show_dec (256 * c) @ '')'' @ newline"
proof -
  let ?st = "of_nat (256 * c) :: u32"
  have "?st AND 0x7f = take_bit 7 ?st" by (simp add: take_bit_eq_mask mask_numeral)
  also have "\<dots> = of_nat (take_bit 7 (256 * c))" by (simp only: of_nat_take_bit)
  also have "\<dots> = 0" by (simp add: take_bit_eq_mod mod_mult_left_eq [of 256 128, symmetric])
  finally have ex: "WIFEXITED ?st" by (simp add: WIFEXITED_def WTERMSIG_def)
  have "sint ?st = int (256 * c)" using assms(2) by (simp only: signed_of_nat) (simp add: signed_take_bit_int_eq_self)
  then show ?thesis
    using ex assms exited_not_stopped [OF ex] exited_not_signaled [OF ex]
    by (auto simp: chkstat_def after_stop_def check_exit_def Let_def fmt_simps show_cint_def show_int_def nat_mult_distrib)
qed

lemma exit_shows_status_witness:
  "\<exists>s'. chkstat machine_os (demo_dbg\<lparr>world := (world demo_dbg)\<lparr>m_status := 0x300\<rparr>\<rparr>) = Go s' \<and> pid s' = 0 \<and>
    written Cout s' = ''** child process 42 terminiated normally (code 768)'' @ newline"
proof -
  let ?s = "demo_dbg\<lparr>world := (world demo_dbg)\<lparr>m_status := 0x300\<rparr>\<rparr>"
  have "show_int 42 = ''42''" "show_dec 768 = ''768''" "written Cout ?s = []" "\<not> hex_base (cout_fmt ?s)"
    by (code_simp, code_simp, simp_all add: written_def demo_dbg_def default_fmt_def)
  then show ?thesis using exit_shows_status [of machine_os ?s 3 "world ?s"] by auto
qed

text \<open>C17. \<open>si\<close> looks for a breakpoint at the new program counter only. When it stepped onto no listed
  address it prints nothing and leaves the code as \<open>chkbp\<close> left it. In the example the current
  instruction has a breakpoint: the step executes the trap itself, is not reported, and the
  program counter ends one byte behind the start of the instruction.\<close>

theorem si_reports_new_rip_only:
  assumes "state s = RUNNING" and "chkbp os s = Go s1" and "ptrace_singlestep os (pid s1) (world s1) = Some w1"
    and "waitpid os (pid s1) w1 = Some (st, w)" and "WIFSTOPPED st" and "WSTOPSIG st = SIGTRAP"
    and "ptrace_getregs os (pid s1) w = Some regs" and "regs U_rip \<notin> bp_addr ` set (bp_list s1)"
  shows "si os s = Go (s1\<lparr>world := w\<rparr>)"
proof -
  have "si os s = after_stop si_hits os (s1\<lparr>world := w1\<rparr>)"
    using assms(1-3) by (simp add: si_def request_def)
  also have "\<dots> = si_hits os [0..<length (bp_list s1)] regs (s1\<lparr>world := w\<rparr>)"
    using chkstat_trap [of os "s1\<lparr>world := w1\<rparr>" st w regs si_hits] assms(4-7) by simp
  also have "\<dots> = Go (s1\<lparr>world := w\<rparr>)"
  proof (rule si_hits_skip)
    have "bp_addr (bp_list s1 ! i) \<noteq> regs U_rip" if "i < length (bp_list s1)" for i
      using assms(8) nth_mem [OF that] by (metis imageI)
    then show "\<forall>i \<in> set [0..<length (bp_list s1)]. bp_addr (bp_list (s1\<lparr>world := w\<rparr>) ! i) \<noteq> regs U_rip"
      by simp
  qed
  finally show ?thesis .
qed

theorem si_reports_new_rip_only_witness:
  "let s = demo_dbg\<lparr>bp_list := [\<lparr>bp_id = 0, bp_addr = 0x1000, orig_code = load64 (\<lambda>_. 0x90) 0x1000\<rparr>],
       world := \<lparr>m_mem = (\<lambda>_. 0x90)(0x1000 := 0xcc), m_regs = (\<lambda>_. 0)(U_rip := 0x1000), m_status = 0\<rparr>\<rparr>
   in \<exists>s'. si machine_os s = Go s' \<and> m_regs (world s') U_rip = 0x1001 \<and> m_mem (world s') 0x1000 = 0xcc \<and>
     out s' = out s"
proof -
  let ?s = "demo_dbg\<lparr>bp_list := [\<lparr>bp_id = 0, bp_addr = 0x1000, orig_code = load64 (\<lambda>_. 0x90) 0x1000\<rparr>],
       world := \<lparr>m_mem = (\<lambda>_. 0x90)(0x1000 := 0xcc), m_regs = (\<lambda>_. 0)(U_rip := 0x1000), m_status = 0\<rparr>\<rparr>"
  let ?w = "m_step (world ?s)"
  have w: "m_status ?w = 0x57f" "m_regs ?w U_rip = 0x1001" "m_mem ?w 0x1000 = 0xcc"
    by (simp_all add: m_step_def Let_def)
  have "chkbp machine_os ?s = Go ?s"
    by (simp add: chkbp_def with_regs_def arm_body_def)
  moreover have "WIFSTOPPED 0x57f" "WSTOPSIG 0x57f = SIGTRAP"
    by (simp_all add: WIFSTOPPED_def WSTOPSIG_def SIGTRAP_def)
  ultimately have "si machine_os ?s = Go (?s\<lparr>world := ?w\<rparr>)"
    using w by (intro si_reports_new_rip_only [of ?s machine_os ?s ?w "0x57f" ?w "m_regs ?w"]) simp_all
  then show ?thesis using w by (simp add: Let_def)
qed

end
