(* ===== verification/Sdb_Elf.thy ===== *)
theory Sdb_Elf
  imports Sdb_Run
begin

text \<open>
  The command \<open>load\<close>: it reads the ELF header, the section header of the section names, the
  names and the section headers up to the one called \<open>.text\<close>. The structures are the bytes in
  the file; a read past the end of the file leaves the tail of the buffer as it was.
\<close>

section \<open>Fields\<close>

definition le16 :: "u8 list \<Rightarrow> nat \<Rightarrow> nat" where
  "le16 bs off = unat (bs ! off) + 256 * unat (bs ! (off + 1))"

definition le32 :: "u8 list \<Rightarrow> nat \<Rightarrow> nat" where
  "le32 bs off = le16 bs off + 65536 * le16 bs (off + 2)"

definition e_entry :: "u8 list \<Rightarrow> u64" where "e_entry h = le64 h 24"
definition e_shoff :: "u8 list \<Rightarrow> u64" where "e_shoff h = le64 h 40"
definition e_shnum :: "u8 list \<Rightarrow> nat" where "e_shnum h = le16 h 60"
definition e_shstrndx :: "u8 list \<Rightarrow> nat" where "e_shstrndx h = le16 h 62"
definition sh_name :: "u8 list \<Rightarrow> nat" where "sh_name sh = le32 sh 0"

text \<open>The sizes of \<open>Elf64_Ehdr\<close> and of \<open>Elf64_Shdr\<close>.\<close>

definition EHDR :: nat where "EHDR = 64"
definition SHDR :: nat where "SHDR = 64"

section \<open>Files\<close>

text \<open>\<open>fread\<close> of as many bytes as the buffer has, and \<open>fseek\<close>, which fails on a negative
  offset. The position is a number of bytes.\<close>

definition fread :: "u8 list \<Rightarrow> nat \<Rightarrow> u8 list \<Rightarrow> u8 list \<times> nat" where
  "fread file pos buf =
     (let got = take (length buf) (drop pos file)
      in (got @ drop (length got) buf, pos + length got))"

definition fseek :: "int \<Rightarrow> nat \<Rightarrow> nat" where
  "fseek off pos = (if 0 \<le> off then nat off else pos)"

text \<open>\<open>strcmp(tab + off, ".text") == 0\<close>: byte by byte up to the first difference or the NUL; None
  is a read behind the end of the table.\<close>

fun strcmp_from :: "u8 list \<Rightarrow> nat \<Rightarrow> u8 list \<Rightarrow> bool option" where
  "strcmp_from tab off [] = Some True"
| "strcmp_from tab off (c # cs) =
     (if length tab \<le> off then None
      else if tab ! off \<noteq> c then Some False
      else strcmp_from tab (off + 1) cs)"

definition text_name :: "u8 list" where
  "text_name = [0x2e, 0x74, 0x65, 0x78, 0x74, 0]"

section \<open>Load\<close>

abbreviation quote :: string where "quote \<equiv> [CHR 0x27]"

text \<open>The search: \<open>sh\<close> is the local \<open>tmp_shdr\<close>, which keeps its bytes where the file ends. The
  result is None for a read out of bounds, and Some None when no section has the name.\<close>

fun find_text :: "u8 list \<Rightarrow> u8 list option \<Rightarrow> nat \<Rightarrow> nat \<Rightarrow> u8 list \<Rightarrow> u8 list option option" where
  "find_text file tab 0 pos sh = Some None"
| "find_text file tab (Suc n) pos sh =
     (let (sh, pos) = fread file pos sh in
      case tab of
        None \<Rightarrow> None
      | Some tab \<Rightarrow>
          (case strcmp_from tab (sh_name sh) text_name of
             None \<Rightarrow> None
           | Some True \<Rightarrow> Some (Some sh)
           | Some False \<Rightarrow> find_text file (Some tab) n pos sh))"

definition load_sections :: "'w os \<Rightarrow> u8 list \<Rightarrow> 'w sdb \<Rightarrow> 'w sdb result" where
  "load_sections os file s =
     (let h = ehdr (elf s);
          str_shdr_offset = sint (ucast (e_shoff h + of_nat (e_shstrndx h) * of_nat SHDR) :: u32);
          pos = fseek str_shdr_offset (min EHDR (length file));
          (sh, pos) = fread file pos (str_shdr (elf s));
          s = s\<lparr>elf := (elf s)\<lparr>str_shdr := sh\<rparr>\<rparr>;
          tab = (if malloc_ok os (sh_size sh) (world s) then Some (junk os (unat (sh_size sh)) (world s)) else None);
          pos = fseek (sint (sh_offset sh)) pos
      in if tab = None \<and> pos < length file \<and> sh_size sh \<noteq> 0 then Fault
         else
           let (tab, pos) = (case tab of None \<Rightarrow> (None, pos)
                             | Some t \<Rightarrow> let (t, pos) = fread file pos t in (Some t, pos));
               s = s\<lparr>elf := (elf s)\<lparr>str_tab := tab\<rparr>\<rparr>;
               pos = fseek (sint (e_shoff h)) pos
           in case find_text file tab (e_shnum h) pos (junk os SHDR (world s)) of
                None \<Rightarrow> Fault
              | Some None \<Rightarrow> Go s
              | Some (Some sh) \<Rightarrow> Go (s\<lparr>elf := (elf s)\<lparr>text_shdr := sh\<rparr>\<rparr>))"

definition load :: "'w os \<Rightarrow> string \<Rightarrow> 'w sdb \<Rightarrow> 'w sdb result" where
  "load os arg s =
     (if state s \<noteq> NONLOAD then Go (say ''** state must be NOT LOADED'' s)
      else if arg = [] then Go (say ''** no program path is given'' s)
      else
        let s = s\<lparr>elf := (elf s)\<lparr>str_tab := None\<rparr>\<rparr>
        in case read_file os arg (world s) of
             None \<Rightarrow> error_exit os ''fopen'' s
           | Some file \<Rightarrow>
               let h = fst (fread file 0 (ehdr (elf s))); s = s\<lparr>elf := (elf s)\<lparr>ehdr := h\<rparr>\<rparr>
               in if h ! 0 = 0x7f \<and> h ! 1 = 0x45 \<and> h ! 2 = 0x4c \<and> h ! 3 = 0x46 then
                    if h ! 4 = 2 then
                      and_then (load_sections os file s) (\<lambda>s.
                        Go ((cout [Str (''** program '' @ quote), Str arg, Str (quote @ '' loaded. entry point 0x''), Hex,
                                   U64 (e_entry (ehdr (elf s))), endl] s)
                            \<lparr>file_path := arg, state := LOADED\<rparr>))
                    else Go (say ''** Not 64-bits program'' s)
                  else Go (say ''** Not ELF file'' s))"

section \<open>What a file holds\<close>











section \<open>Load on a well-formed file\<close>









section \<open>Load in a session\<close>

lemma length_fread: "fread file pos buf = (b, pos') \<Longrightarrow> length b = length buf"
  by (auto simp: fread_def Let_def)

lemma load_sections_frame:
  assumes "load_sections os file s = Go s'"
  shows "bp_list s' = bp_list s" "pid s' = pid s" "state s' = state s" "ehdr (elf s') = ehdr (elf s)"
    "length (str_shdr (elf s')) = length (str_shdr (elf s))"
  using assms
  by (auto simp: load_sections_def Let_def length_fread split: option.splits if_splits prod.splits)

lemma load_frame:
  assumes "load os f s = Go s'"
  shows "bp_list s' = bp_list s" "pid s' = pid s" "state s \<noteq> NONLOAD \<Longrightarrow> elf s' = elf s \<and> state s' = state s"
    "state s = NONLOAD \<Longrightarrow> state s' = NONLOAD \<or> state s' = LOADED"
    "length (ehdr (elf s')) = length (ehdr (elf s))" "length (str_shdr (elf s')) = length (str_shdr (elf s))"
proof -
  have h: "length (fst (fread b 0 buf)) = length buf" for b buf
    using length_fread [of b 0 buf] by (cases "fread b 0 buf") simp
  show "bp_list s' = bp_list s" "pid s' = pid s" "state s \<noteq> NONLOAD \<Longrightarrow> elf s' = elf s \<and> state s' = state s"
    "state s = NONLOAD \<Longrightarrow> state s' = NONLOAD \<or> state s' = LOADED"
    "length (ehdr (elf s')) = length (ehdr (elf s))" "length (str_shdr (elf s')) = length (str_shdr (elf s))"
    using assms
    by (auto simp: load_def Let_def and_then_Go error_exit_def load_sections_frame h
        split: option.splits if_splits)
qed

lemma load_session:
  assumes "session_ok s" and "load os f s = Go s'"
  shows "session_ok s'"
proof (cases "state s = NONLOAD")
  case True
  then have "bp_list s' = []" "pid s' = 0" using assms load_frame [OF assms(2)] by (auto simp: session_ok_def)
  then show ?thesis
    using load_frame(4-6) [OF assms(2)] True assms(1)
    by (auto simp: session_ok_def bps_ok_def table_ok_def ids_ok_def)
next
  case False
  then show ?thesis
    using assms(1) load_frame [OF assms(2)] by (auto simp: session_ok_def bps_ok_def intext_def)
qed

lemma keeps_load: "session_ok s \<Longrightarrow> goes session_ok (load os f s)"
  using load_session [of s os f] by (cases "load os f s") simp_all

section \<open>The example file\<close>













definition demo_idle :: "machine sdb" where
  "demo_idle = demo_dbg\<lparr>state := NONLOAD, pid := 0, file_path := [],
     elf := \<lparr>ehdr = replicate 64 0, str_shdr = replicate 64 0, str_tab = None, text_shdr = replicate 64 0\<rparr>\<rparr>"

lemma demo_idle_simps [simp]:
  "state demo_idle = NONLOAD" "bp_list demo_idle = []" "pid demo_idle = 0"
  "elf demo_idle = \<lparr>ehdr = replicate 64 0, str_shdr = replicate 64 0, str_tab = None, text_shdr = replicate 64 0\<rparr>"
  by (simp_all add: demo_idle_def)


section \<open>Properties\<close>



end
