(* ===== verification/Sdb_Repl.thy ===== *)
theory Sdb_Repl
  imports Sdb_Elf
begin

text \<open>
  The command loop of the debugger: \<open>split\<close>, the dispatch of a command line, the arguments of
  \<open>main\<close>, and the loop over the lines of the script or of the standard input.
\<close>

section \<open>Command lines\<close>

definition split :: "string \<Rightarrow> string list" where
  "split cmd_line = words cmd_line"

definition execute :: "'w os \<Rightarrow> string \<Rightarrow> 'w sdb \<Rightarrow> 'w sdb result" where
  "execute os cmd_line s =
     (let cmd_table = split cmd_line;
          cmd = (if 1 \<le> length cmd_table then cmd_table ! 0 else []);
          arg1 = (if 2 \<le> length cmd_table then cmd_table ! 1 else []);
          arg2 = (if 3 \<le> length cmd_table then cmd_table ! 2 else [])
      in if cmd = ''break'' \<or> cmd = ''b'' then
           if arg1 = [] then Go (say ''** no address is given'' s) else bp os (strtoul16 arg1) s
         else if cmd = ''cont'' \<or> cmd = ''c'' then cont os s
         else if cmd = ''delete'' then
           if arg1 = [] then Go (say ''** no break-point-id is given'' s) else del os (sint (atoi arg1)) s
         else if cmd = ''disasm'' \<or> cmd = ''d'' then disasm os (strtoul16 arg1) DISASM_MAX s
         else if cmd = ''dump'' \<or> cmd = ''x'' then Go (dump os (strtoul16 arg1) s)
         else if cmd = ''exit'' \<or> cmd = ''q'' then quit os s
         else if cmd = ''get'' \<or> cmd = ''g'' then get_reg os arg1 s
         else if cmd = ''getregs'' then getregs os s
         else if cmd = ''help'' \<or> cmd = ''h'' then Go (help_text s)
         else if cmd = ''list'' \<or> cmd = ''l'' then Go (list_bps s)
         else if cmd = ''load'' then load os arg1 s
         else if cmd = ''run'' \<or> cmd = ''r'' then run os s
         else if cmd = ''vmmap'' \<or> cmd = ''m'' then vmmap os s
         else if cmd = ''set'' \<or> cmd = ''s'' then
           if arg1 = [] \<or> arg2 = [] then Go (say ''** Not enough input arguments'' s)
           else set_reg os arg1 (strtoul16 arg2) s
         else if cmd = ''si'' then si os s
         else if cmd = ''start'' then start os s
         else Go s)"

section \<open>The main program\<close>

text \<open>The arguments after the program name. An \<open>ifstream\<close> that is open already refuses a second
  script; \<open>-s\<close> as the last argument makes a string of the null pointer. The result has the text
  of the script, if there is one.\<close>

fun read_args :: "'w os \<Rightarrow> string list \<Rightarrow> string option \<Rightarrow> 'w sdb \<Rightarrow> string option \<times> 'w sdb result" where
  "read_args os [] script s = (script, Go s)"
| "read_args os (a # as) script s =
     (if a = ''-s'' then
        case as of
          [] \<Rightarrow> (script, Fault)
        | path # as' \<Rightarrow>
            (case (script, read_file os (''./'' @ path) (world s)) of
               (None, Some bytes) \<Rightarrow> read_args os as' (Some (map chr_of bytes)) s
             | _ \<Rightarrow> (script, Exit (- 1) (cerr [Str path, Str '': '', Str (strerror os (world s)), endl] s)))
      else
        case load os a s of
          Go s' \<Rightarrow> read_args os as script s'
        | r \<Rightarrow> (script, r))"

text \<open>\<open>getline\<close> on the standard input: the rest of the input, the end-of-file flag and the string
  \<open>cmd_line\<close>. With the flag set the stream is not read and the string keeps its value.\<close>

type_synonym cin = "string \<times> bool \<times> string"

fun getline_cin :: "cin \<Rightarrow> cin" where
  "getline_cin (inp, eof, cmd_line) =
     (if eof then (inp, True, cmd_line)
      else if line_end \<in> set inp
        then (drop 1 (dropWhile (\<lambda>c. c \<noteq> line_end) inp), False, takeWhile (\<lambda>c. c \<noteq> line_end) inp)
      else ([], True, inp))"

fun run_script :: "'w os \<Rightarrow> string list \<Rightarrow> 'w sdb \<Rightarrow> 'w sdb result" where
  "run_script os [] s = quit os s"
| "run_script os (l # ls) s = and_then (execute os l s) (run_script os ls)"

text \<open>The loop on the standard input does not test the stream; the first argument bounds the
  number of commands.\<close>

fun repl :: "nat \<Rightarrow> 'w os \<Rightarrow> cin \<Rightarrow> 'w sdb \<Rightarrow> 'w sdb result option" where
  "repl 0 os inp s = None"
| "repl (Suc n) os inp s =
     (let s = cout [Str ''sdb> ''] s;
          inp = getline_cin inp
      in case execute os (snd (snd inp)) s of
           Go s' \<Rightarrow> repl n os inp s'
         | r \<Rightarrow> Some r)"

definition sdb_main :: "nat \<Rightarrow> 'w os \<Rightarrow> string list \<Rightarrow> string \<Rightarrow> 'w sdb \<Rightarrow> 'w sdb result option" where
  "sdb_main n os args inp s =
     (case read_args os args None s of
        (Some script, Go s') \<Rightarrow> Some (run_script os (text_lines script) s')
      | (None, Go s') \<Rightarrow> repl n os (inp, False, []) s'
      | (_, r) \<Rightarrow> Some r)"

section \<open>Commands keep the session\<close>

lemma foldl_session:
  "(\<And>s x. session_ok s \<Longrightarrow> session_ok (f s x)) \<Longrightarrow> session_ok s \<Longrightarrow> session_ok (foldl f s xs)"
  by (induction xs arbitrary: s) auto

lemma show_tok_session [simp]: "session_ok (show_tok t f s) = session_ok s"
  by (simp add: show_tok_def split: option.split)

lemma text_session:
  "session_ok s \<Longrightarrow> session_ok (print8bytes w s)" "session_ok s \<Longrightarrow> session_ok (print8ascii w s)"
  "session_ok s \<Longrightarrow> session_ok (help_text s)" "session_ok s \<Longrightarrow> session_ok (list_bps s)"
  "session_ok s \<Longrightarrow> session_ok (vmmap_line line s)"
  by (auto simp: print8bytes_def print8ascii_def help_text_def list_bps_def vmmap_line_def Let_def split_beta
      intro!: foldl_session)

lemma dump_session: "session_ok s \<Longrightarrow> session_ok (dump os a s)"
proof -
  have "session_ok (dump_rows os n a s)" if "session_ok s" for n a and s :: "'a sdb"
    using that by (induction n arbitrary: a s) (simp_all add: dump_row_def Let_def text_session)
  then show "session_ok s \<Longrightarrow> ?thesis" by (simp add: dump_def)
qed

lemma safe_del_session: "session_ok s \<Longrightarrow> safe session_ok (del os n s)"
proof (cases "del os n s")
  case (Go t)
  assume ok: "session_ok s"
  have "state t = state s" "pid t = pid s" "elf t = elf s" "state s = NONLOAD \<Longrightarrow> bp_list t = bp_list s"
    using Go by (auto simp: del_def Go_simps split: if_splits option.splits)
  moreover have "bps_ok t" using safe_del [of s os n] ok Go by (simp add: session_ok_def)
  ultimately show ?thesis using ok Go by (simp add: session_ok_def)
next
  case Fault
  assume "session_ok s"
  then show ?thesis using safe_del [of s os n] Fault by (simp add: session_ok_def)
qed simp_all

lemma safe_inspect:
  "session_ok s \<Longrightarrow> safe session_ok (get_reg os reg s)" "session_ok s \<Longrightarrow> safe session_ok (set_reg os reg v s)"
  "session_ok s \<Longrightarrow> safe session_ok (getregs os s)"
  by (auto simp: get_reg_def set_reg_def getregs_def Let_def intro!: safe_with_regs safe_request split: option.split)

lemma keeps_vmmap: "session_ok s \<Longrightarrow> goes session_ok (vmmap os s)"
  by (auto simp: vmmap_def intro!: foldl_session text_session split: option.split)

lemma safe_if: "safe P x \<Longrightarrow> safe P y \<Longrightarrow> safe P (if c then x else y)"
  by simp

lemma safe_Go: "P s \<Longrightarrow> safe P (Go s)"
  by simp

lemma say_session: "session_ok s \<Longrightarrow> session_ok (say m s)"
  by simp

lemma safe_quit: "safe P (quit os s)"
  by (simp add: quit_def Let_def)

text \<open>The commands that never fault in a session that is in order, and all commands.\<close>

lemmas safe_commands = safe_bp_session safe_del_session safe_inspect safe_start safe_quit
lemmas keeps_commands = safe_commands [THEN safe_goes] keeps_cont keeps_disasm keeps_load keeps_run keeps_vmmap keeps_si

lemma keeps_execute: "session_ok s \<Longrightarrow> goes session_ok (execute os line s)"
  unfolding execute_def Let_def
  by (intro goes_if safe_Go [THEN safe_goes] keeps_commands text_session dump_session say_session)

text \<open>The commands that read a file into memory, or disassemble.\<close>

definition reading_commands :: "string list" where
  "reading_commands = [''disasm'', ''d'', ''cont'', ''c'', ''run'', ''r'', ''si'', ''load'', ''vmmap'', ''m'']"

lemma safe_execute:
  assumes "session_ok s" and "words line = [] \<or> hd (words line) \<notin> set reading_commands"
  shows "safe session_ok (execute os line s)"
proof -
  define cmd where "cmd = (if 1 \<le> length (split line) then split line ! 0 else [])"
  have "cmd \<notin> set reading_commands"
    using assms(2) by (cases "words line") (auto simp: cmd_def split_def reading_commands_def)
  then have "cmd \<noteq> ''disasm''" "cmd \<noteq> ''d''" "cmd \<noteq> ''cont''" "cmd \<noteq> ''c''" "cmd \<noteq> ''run''" "cmd \<noteq> ''r''"
    "cmd \<noteq> ''si''" "cmd \<noteq> ''load''" "cmd \<noteq> ''vmmap''" "cmd \<noteq> ''m''"
    by (auto simp: reading_commands_def)
  then show ?thesis
    unfolding execute_def Let_def cmd_def [symmetric]
    by (simp only: simp_thms if_False)
      (intro safe_if safe_Go safe_commands text_session dump_session say_session assms(1))
qed

section \<open>How the debugger exits\<close>

text \<open>Exit code 0 comes from \<open>quit\<close> only.\<close>

definition fails :: "'s result \<Rightarrow> bool" where
  "fails r \<longleftrightarrow> (\<forall>n s. r = Exit n s \<longrightarrow> n = - 1)"

lemma fails_simps [simp]: "fails (Go s)" "fails (Exec p s)" "fails Fault" "fails (Exit (- 1) s)"
  by (simp_all add: fails_def)

lemma fails_error_exit [simp]: "fails (error_exit os f s)"
  by (simp add: error_exit_def)

lemma fails_and_then: "fails r \<Longrightarrow> (\<And>s. fails (f s)) \<Longrightarrow> fails (and_then r f)"
  by (cases r) (auto simp: fails_def)

lemma fails_for_each: "(\<And>x s. fails (f x s)) \<Longrightarrow> fails (for_each xs f s)"
  by (induction xs arbitrary: s) (auto intro: fails_and_then)

lemma fails_request [simp]: "fails (request os f g s)"
  by (simp add: request_def split: option.split)

lemma fails_with_regs: "(\<And>r s. fails (f r s)) \<Longrightarrow> fails (with_regs os f s)"
  by (simp add: with_regs_def split: option.split)

lemma fails_bp: "fails (bp os a s)"
  by (auto simp: bp_def Let_def intro: fails_and_then)

lemma fails_disasm: "fails (disasm os a n s)"
proof -
  have "fails (print_insns is s)" for "is" and s :: "'a sdb"
    by (induction "is" s rule: print_insns.induct) auto
  moreover have "fails (getcode os s)" for s
    by (auto simp: getcode_def Let_def split: option.split)
  ultimately show ?thesis
    by (auto simp: disasm_def disasm_code_def Let_def intro!: fails_and_then split: option.split)
qed

lemma fails_chkbp: "fails (chkbp os s)"
  by (auto simp: chkbp_def arm_body_def intro!: fails_with_regs fails_for_each fails_bp)

lemma fails_hits: "fails (cont_hits os is r s)" "fails (si_hits os is r s)"
  by (induction "is" arbitrary: r s)
    (auto simp: cont_hits.simps si_hits.simps Let_def intro!: fails_and_then fails_disasm)

lemma fails_after_stop: "(\<And>is r s. fails (hits os is r s)) \<Longrightarrow> fails (after_stop hits os s)"
  by (auto simp: after_stop_def Let_def intro!: fails_with_regs split: option.split)

lemma fails_cont: "fails (cont os s)"
  by (auto simp: cont_def chkstat_def [abs_def] intro!: fails_and_then fails_chkbp fails_after_stop fails_hits)

lemma fails_si: "fails (si os s)"
  by (auto simp: si_def intro!: fails_and_then fails_chkbp fails_after_stop fails_hits)

lemma fails_start: "fails (start os s)"
  by (auto simp: start_def Let_def split_beta intro!: fails_and_then split: option.split)

lemma fails_load: "fails (load os f s)"
  by (auto simp: load_def load_sections_def Let_def intro!: fails_and_then split: option.split prod.split)

lemma fails_rest: "fails (del os n s)" "fails (get_reg os reg s)" "fails (set_reg os reg v s)"
  "fails (getregs os s)" "fails (vmmap os s)" "fails (run os s)"
  by (auto simp: del_def get_reg_def set_reg_def getregs_def vmmap_def run_def Let_def
      intro!: fails_and_then fails_with_regs fails_cont fails_start split: option.split)

lemmas fails_commands = fails_bp fails_disasm fails_cont fails_si fails_start fails_load fails_rest

lemma execute_exit:
  assumes "execute os line s = Exit 0 s'"
  shows "execute os line s = quit os s"
proof -
  have "fails r \<Longrightarrow> r \<noteq> Exit 0 s'" for r by (auto simp: fails_def)
  note no = fails_commands [THEN this]
  show ?thesis
    using assms unfolding execute_def Let_def by (simp only: no split: if_split_asm) simp_all
qed

section \<open>Reading back arguments\<close>

lemma break_line:
  "execute os (''break 0x'' @ show_hex (unat a)) s = bp os a s"
proof -
  have "word_ok (''0x'' @ show_hex (unat a))"
    using show_digits_word [of 16 "unat a"] by (auto simp: word_ok_def show_hex_def isspace_def)
  then have "words (''break 0x'' @ show_hex (unat a)) = [''break'', ''0x'' @ show_hex (unat a)]"
    using words_word [of "''break''" "''0x'' @ show_hex (unat a)"] words_last [of "''0x'' @ show_hex (unat a)"]
    by (simp add: word_ok_def isspace_def split_def)
  then show ?thesis using strtoul16_0x [of a] by (simp add: execute_def split_def)
qed

lemma delete_line:
  "n < 2 ^ 31 \<Longrightarrow> execute os (''delete '' @ show_dec n) s = del os (int n) s"
proof -
  assume n: "n < 2 ^ 31"
  have w: "word_ok (show_dec n)" using show_digits_word [of 10 n] by (simp add: show_dec_def)
  then have "words (''delete '' @ show_dec n) = [''delete'', show_dec n]"
    using words_word [of "''delete''" "show_dec n"] words_last [OF w] by (simp add: word_ok_def isspace_def split_def)
  then show ?thesis using atoi_dec [OF n] w by (auto simp: execute_def word_ok_def split_def)
qed

text \<open>A command repeated for as long as the process goes on; None means for all \<open>n\<close> rounds.\<close>

fun again :: "nat \<Rightarrow> ('s \<Rightarrow> 's result) \<Rightarrow> 's \<Rightarrow> 's result option" where
  "again 0 f s = None"
| "again (Suc n) f s = (case f s of Go t \<Rightarrow> again n f t | r \<Rightarrow> Some r)"

lemma execute_Nil: "execute os [] s = Go s"
  by (simp add: execute_def split_def)

lemma demo_idle_session: "session_ok demo_idle"
  by (simp add: session_ok_def bps_ok_def table_ok_def ids_ok_def)

section \<open>Properties\<close>

text \<open>C12. At the end of the standard input the loop goes on: a last line without a line end is the
  command of this round and of every later one (input that ends with a line end leads to the
  empty line). So the loop does what an endless repetition of that command does, and if the
  command does not itself end the debugger no number of rounds is enough.\<close>

theorem end_of_input_repeats:
  assumes "line_end \<notin> set line"
  shows "repl n os (line, False, prev) s = again n (\<lambda>s. execute os line (cout [Str ''sdb> ''] s)) s \<and>
    ((\<forall>s. \<exists>s'. execute os line s = Go s') \<longrightarrow> repl n os (line, False, prev) s = None)"
proof -
  let ?round = "\<lambda>s. execute os line (cout [Str ''sdb> ''] s)"
  have rounds: "repl n os ([], True, line) s = again n ?round s" for n s
    by (induction n arbitrary: s) (auto simp: Let_def split: result.split)
  have all: "repl n os (line, False, prev) s = again n ?round s"
    using assms by (cases n) (auto simp: Let_def rounds split: result.split)
  have "again n ?round s = None" if goes: "\<forall>s. \<exists>s'. execute os line s = Go s'" for n s
  proof (induction n arbitrary: s)
    case (Suc n)
    obtain s' where "?round s = Go s'" using goes by blast
    then show ?case by (simp add: Suc.IH)
  qed simp
  then show ?thesis using all by simp
qed

theorem end_of_input_repeats_witness:
  "repl 2 machine_os (''list'', False, []) demo_idle = again 2 (\<lambda>s. Go (list_bps (cout [Str ''sdb> ''] s))) demo_idle \<and>
   repl 1000 machine_os (''list'', False, []) demo_idle = None \<and> repl 1000 machine_os ([], False, []) demo_idle = None"
proof -
  have "split ''list'' = [''list'']" using words_last [of "''list''"] by (simp add: word_ok_def isspace_def split_def)
  then have "execute machine_os ''list'' s = Go (list_bps s)" for s by (simp add: execute_def split_def)
  moreover have ends: "line_end \<notin> set ''list''" "line_end \<notin> set []" by (simp_all add: line_end_def)
  ultimately show ?thesis
    using end_of_input_repeats [OF ends(1), of 2 machine_os "[]" demo_idle]
      conjunct2 [OF end_of_input_repeats [OF ends(1), of 1000 machine_os "[]" demo_idle]]
      conjunct2 [OF end_of_input_repeats [OF ends(2), of 1000 machine_os "[]" demo_idle]]
    by (simp add: execute_Nil)
qed

text \<open>\<open>break\<close> with an address printed in hexadecimal acts on that address, and \<open>delete\<close> with a
  number printed in decimal on that id.\<close>

lemma commands_read_back:
  assumes "n < 2 ^ 31"
  shows "execute os (''break 0x'' @ show_hex (unat a)) s = bp os a s \<and>
    execute os (''delete '' @ show_dec n) s = del os (int n) s"
  using break_line delete_line [OF assms] by blast

lemma commands_read_back_witness:
  "execute machine_os (''break 0x'' @ show_hex (unat (0x1005 :: u64))) demo_dbg = bp machine_os 0x1005 demo_dbg"
  using commands_read_back [of 3 machine_os "0x1005" demo_dbg] by simp

text \<open>C13. \<open>list\<close> switches the stream to hexadecimal with the first address and never back: only the
  id of the first line is in the base in use before, every other id is in hexadecimal, so the
  ids from ten on are shown in a form that \<open>delete\<close>, which reads decimal, does not take for them.\<close>

theorem list_ids_in_hex:
  assumes "table_ok (bp_list s)" and "length (bp_list s) < 2 ^ 31"
  shows "written Cerr (list_bps s) = written Cerr s @
    concat (map (\<lambda>(i, b). ''  '' @ (if i = 0 \<and> \<not> hex_base (cerr_fmt s) then show_dec i else show_hex i) @
      '': '' @ show_hex (unat (bp_addr b)) @ newline) (zip [0..<length (bp_list s)] (bp_list s)))"
proof -
  let ?row = "\<lambda>s b. cerr [Str ''  '', Num (bp_id b), Str '': '', Hex, U64 (bp_addr b), endl] s"
  let ?text = "\<lambda>dec i b. ''  '' @ (if dec then show_dec i else show_hex i) @ '': '' @ show_hex (unat (bp_addr b)) @ newline"
  have rows: "written Cerr (foldl ?row t bs) = written Cerr t @
      concat (map (\<lambda>(i, b). ?text (i = k \<and> \<not> hex_base (cerr_fmt t)) i b) (zip [k..<k + length bs] bs))"
    if "\<forall>j < length bs. bp_id (bs ! j) = int (k + j)" "k + length bs < 2 ^ 31" for k bs and t :: "'a sdb"
    using that
  proof (induction bs arbitrary: k t)
    case (Cons b bs)
    have ids: "\<forall>j < length bs. bp_id (bs ! j) = int (Suc k + j)" "bp_id b = int k"
      using Cons.prems(1) by (auto dest: spec [of _ "Suc _"] spec [of _ 0])
    have upt: "[k..<k + length (b # bs)] = k # [Suc k..<Suc k + length bs]" by (simp add: upt_conv_Cons del: upt_Suc)
    have "zip [Suc k..<Suc k + length bs] bs = map (\<lambda>(i, b). (i, b)) (zip [Suc k..<Suc k + length bs] bs)" by simp
    have "show_cint f (int k) = (if hex_base f then show_hex k else show_dec k)" for f
      using Cons.prems(2) by (simp add: show_cint_def show_int_def nat_mod_distrib)
    then have head: "written Cerr (?row t b) = written Cerr t @ ?text (\<not> hex_base (cerr_fmt t)) k b"
      "hex_base (cerr_fmt (?row t b))"
      using ids(2) by (simp_all add: fmt_simps show_u64_def)
    have "written Cerr (foldl ?row (?row t b) bs) = written Cerr (?row t b) @
        concat (map (\<lambda>(i, b). ?text False i b) (zip [Suc k..<Suc k + length bs] bs))"
      using Cons.IH [of "Suc k" "?row t b"] ids(1) Cons.prems(2) head(2) by simp
    also have "map (\<lambda>(i, b). ?text False i b) (zip [Suc k..<Suc k + length bs] bs) =
        map (\<lambda>(i, b). ?text (i = k \<and> \<not> hex_base (cerr_fmt t)) i b) (zip [Suc k..<Suc k + length bs] bs)"
      by (auto dest!: set_zip_leftD)
    finally show ?case unfolding upt by (simp only: foldl.simps head(1)) simp
  qed simp
  show ?thesis
    using rows [of "bp_list s" 0 s] assms by (simp add: list_bps_def table_ok_def ids_ok_def)
qed

theorem list_ids_in_hex_witness:
  "\<exists>pre. written Cerr (list_bps (demo_dbg\<lparr>bp_list := map (\<lambda>i. \<lparr>bp_id = int i, bp_addr = of_nat (0x1000 + i),
       orig_code = 0\<rparr>) [0..<11]\<rparr>)) = pre @ ''  a: 100a'' @ newline"
proof -
  let ?bps = "map (\<lambda>i. \<lparr>bp_id = int i, bp_addr = of_nat (0x1000 + i), orig_code = 0\<rparr>) [0..<11]"
  let ?s = "demo_dbg\<lparr>bp_list := ?bps\<rparr>"
  let ?text = "\<lambda>(i, b). ''  '' @ (if i = 0 \<and> \<not> hex_base (cerr_fmt ?s) then show_dec i else show_hex i) @
      '': '' @ show_hex (unat (bp_addr b)) @ newline"
  have zip: "zip [0..<11] ?bps = zip [0..<10] (take 10 ?bps) @ [(10, ?bps ! 10)]"
    by (simp add: upt_rec)
  have hex: "show_hex 10 = ''a''" "show_hex 0x100a = ''100a''" by code_simp+
  have addr: "of_nat (4096 + i) = (of_nat (4096 + j) :: u64) \<longleftrightarrow> i = j" if "i < 11" "j < 11" for i j :: nat
  proof -
    have "unat (of_nat (4096 + k) :: u64) = 4096 + k" if "k < 11" for k
      using that by (simp add: unat_of_nat del: of_nat_add)
    then show ?thesis using that by (metis add_left_cancel)
  qed
  have "table_ok (bp_list ?s)"
    using addr by (auto simp: table_ok_def ids_ok_def distinct_conv_nth simp del: of_nat_add)
  from list_ids_in_hex [OF this] have "written Cerr (list_bps ?s) = written Cerr ?s @ concat (map ?text (zip [0..<11] ?bps))"
    by simp
  then show ?thesis
    unfolding zip map_append concat_append by (simp add: hex)
qed

text \<open>In a session that is in order \<open>start\<close> never prints that the program is already running:
  that test comes after the test for state LOADED, in which there is no tracee.\<close>

lemma start_never_warns:
  assumes "session_ok s" and "start os s = Go s'"
  shows "written Cerr s' = written Cerr s \<and> (state s = LOADED \<longrightarrow> state s' = RUNNING \<and> 0 < pid s')"
proof (cases "state s = LOADED")
  case True
  then show ?thesis
    using assms by (auto simp: start_def session_ok_def Let_def split_beta Go_simps error_exit_def fmt_simps
        split: if_splits option.splits)
next
  case False
  then show ?thesis using assms by (auto simp: start_def say_def fmt_simps)
qed

lemma start_never_warns_witness:
  "\<exists>s'. start machine_os (demo_idle\<lparr>state := LOADED\<rparr>) = Go s' \<and> state s' = RUNNING \<and>
     written Cerr s' = written Cerr demo_idle"
proof -
  obtain s' where s': "start machine_os (demo_idle\<lparr>state := LOADED\<rparr>) = Go s'"
    by (simp add: start_def request_def)
  have "session_ok (demo_idle\<lparr>state := LOADED\<rparr>)"
    using demo_idle_session by (simp add: session_ok_def)
  then show ?thesis using start_never_warns [OF _ s'] s' by simp
qed

end
