(* ===== verification/Sdb_Session.thy ===== *)
theory Sdb_Session
  imports Sdb_Repl
begin

text \<open>
  The debugger as a state machine: one step is one command line that lets the process go on. The
  machine it refines has the three values of \<open>state\<close> and three moves. What every session keeps, and
  how it ends, is said over these steps.
\<close>

section \<open>The machine\<close>

inductive dbg_step :: "dbg_state \<Rightarrow> dbg_state \<Rightarrow> bool" where
  loads: "dbg_step NONLOAD LOADED"
| starts: "dbg_step LOADED RUNNING"
| ends: "dbg_step RUNNING LOADED"

inductive_simps dbg_step_simps: "dbg_step q q'"

inductive command :: "'w os \<Rightarrow> 'w sdb \<Rightarrow> 'w sdb \<Rightarrow> bool" for os where
  "execute os line s = Go t \<Longrightarrow> command os s t"

section \<open>What commands keep\<close>

text \<open>The program stays the one of \<open>s0\<close>, and the state is in \<open>Q\<close>.\<close>

definition stays :: "dbg_state set \<Rightarrow> 'w sdb \<Rightarrow> 'w sdb \<Rightarrow> bool" where
  "stays Q s0 t \<longleftrightarrow> elf t = elf s0 \<and> file_path t = file_path s0 \<and> state t \<in> Q"

lemma stays_frame [simp]:
  "stays Q s0 (put ch ts s) = stays Q s0 s" "stays Q s0 (say m s) = stays Q s0 s"
  "stays Q s0 (s\<lparr>world := w\<rparr>) = stays Q s0 s" "stays Q s0 (s\<lparr>code := c\<rparr>) = stays Q s0 s"
  "stays Q s0 (s\<lparr>code_size := k\<rparr>) = stays Q s0 s" "stays Q s0 (s\<lparr>bp_list := l\<rparr>) = stays Q s0 s"
  "stays Q s0 (s\<lparr>pid := p\<rparr>) = stays Q s0 s"
  by (simp_all add: stays_def)

lemma goes_error_exit [simp]: "goes P (error_exit os f s)"
  by (simp add: error_exit_def)

lemma goes_request: "stays Q s0 s \<Longrightarrow> goes (stays Q s0) (request os f g s)"
  by (simp add: request_def split: option.split)

lemma goes_with_regs: "(\<And>regs. goes P (f regs s)) \<Longrightarrow> goes P (with_regs os f s)"
  by (simp add: with_regs_def split: option.split)

lemma stays_foldl:
  "(\<And>s x. stays Q s0 s \<Longrightarrow> stays Q s0 (f s x)) \<Longrightarrow> stays Q s0 s \<Longrightarrow> stays Q s0 (foldl f s xs)"
  by (induction xs arbitrary: s) auto

lemma stays_text:
  "stays Q s0 s \<Longrightarrow> stays Q s0 (print8bytes w s)" "stays Q s0 s \<Longrightarrow> stays Q s0 (print8ascii w s)"
  "stays Q s0 s \<Longrightarrow> stays Q s0 (help_text s)" "stays Q s0 s \<Longrightarrow> stays Q s0 (list_bps s)"
  "stays Q s0 s \<Longrightarrow> stays Q s0 (vmmap_line line s)"
  by (auto simp: print8bytes_def print8ascii_def help_text_def list_bps_def vmmap_line_def show_tok_def Let_def
      split_beta intro!: stays_foldl split: option.split)

lemma stays_dump: "stays Q s0 s \<Longrightarrow> stays Q s0 (dump os a s)"
proof -
  have "stays Q s0 (dump_rows os n a s)" if "stays Q s0 s" for n a s
    using that by (induction n arbitrary: a s) (simp_all add: dump_row_def Let_def stays_text)
  then show "stays Q s0 s \<Longrightarrow> ?thesis" by (simp add: dump_def)
qed

lemma goes_bp: "stays Q s0 s \<Longrightarrow> goes (stays Q s0) (bp os a s)"
  by (auto simp: bp_def Let_def intro!: goes_and_then [OF goes_request])

lemma goes_del: "stays Q s0 s \<Longrightarrow> goes (stays Q s0) (del os n s)"
  by (auto simp: del_def intro!: goes_and_then [OF goes_request] split: option.split)

lemma goes_chkbp: "stays Q s0 s \<Longrightarrow> goes (stays Q s0) (chkbp os s)"
  by (auto simp: chkbp_def arm_body_def intro!: goes_with_regs goes_for_each goes_bp)

lemma goes_registers:
  "stays Q s0 s \<Longrightarrow> goes (stays Q s0) (get_reg os reg s)" "stays Q s0 s \<Longrightarrow> goes (stays Q s0) (set_reg os reg v s)"
  "stays Q s0 s \<Longrightarrow> goes (stays Q s0) (getregs os s)"
  by (auto simp: get_reg_def set_reg_def getregs_def Let_def intro!: goes_with_regs goes_request split: option.split)

lemma goes_vmmap: "stays Q s0 s \<Longrightarrow> goes (stays Q s0) (vmmap os s)"
  by (auto simp: vmmap_def intro!: stays_foldl stays_text split: option.split)

lemma goes_disasm: "stays Q s0 s \<Longrightarrow> goes (stays Q s0) (disasm os a n s)"
proof -
  have insns: "goes (stays Q s0) (print_insns is s)" if "stays Q s0 s" for "is" s
    using that by (induction "is" s rule: print_insns.induct) auto
  then have "goes (stays Q s0) (disasm_code os a n s)" if "stays Q s0 s" for s
    using that by (auto simp: disasm_code_def Let_def split: option.split)
  moreover have "goes (stays Q s0) (getcode os s)" if "stays Q s0 s" for s
    using that by (auto simp: getcode_def Let_def split: option.split)
  ultimately show "stays Q s0 s \<Longrightarrow> ?thesis" by (auto simp: disasm_def intro!: goes_and_then [where P = "stays Q s0"])
qed

section \<open>Commands that run the program\<close>

lemma goes_hits:
  "stays Q s0 s \<Longrightarrow> goes (stays Q s0) (cont_hits os is r s)" "stays Q s0 s \<Longrightarrow> goes (stays Q s0) (si_hits os is r s)"
  by (induction "is" arbitrary: r s)
    (auto simp: cont_hits.simps si_hits.simps Let_def intro!: goes_and_then [where P = "stays Q s0"] goes_disasm goes_request)

lemma goes_after_stop:
  assumes "\<And>is r s. stays {RUNNING, LOADED} s0 s \<Longrightarrow> goes (stays {RUNNING, LOADED} s0) (hits os is r s)"
    and "stays {RUNNING, LOADED} s0 s"
  shows "goes (stays {RUNNING, LOADED} s0) (after_stop hits os s)"
proof -
  have "stays {RUNNING, LOADED} s0 (check_exit st (s\<lparr>world := w\<rparr>))" for st w
    using assms(2) by (simp add: check_exit_def Let_def stays_def)
  then show ?thesis
    by (auto simp: after_stop_def Let_def intro!: goes_with_regs assms(1) split: option.split)
qed

lemma goes_cont: "stays {RUNNING, LOADED} s0 s \<Longrightarrow> goes (stays {RUNNING, LOADED} s0) (cont os s)"
  by (auto simp: cont_def chkstat_def [abs_def]
      intro!: goes_and_then [where P = "stays {RUNNING, LOADED} s0"] goes_chkbp goes_request goes_after_stop goes_hits)

lemma goes_si: "stays {RUNNING, LOADED} s0 s \<Longrightarrow> goes (stays {RUNNING, LOADED} s0) (si os s)"
  by (auto simp: si_def
      intro!: goes_and_then [where P = "stays {RUNNING, LOADED} s0"] goes_chkbp goes_request goes_after_stop goes_hits)

lemma goes_start: "stays {RUNNING, LOADED} s0 s \<Longrightarrow> goes (stays {RUNNING, LOADED} s0) (start os s)"
proof -
  assume s: "stays {RUNNING, LOADED} s0 s"
  have "stays {RUNNING, LOADED} s0 (t\<lparr>state := RUNNING\<rparr>)" if "stays {RUNNING, LOADED} s0 t" for t
    using that by (simp add: stays_def)
  then show ?thesis
    using s by (auto simp: start_def Let_def split_beta
        intro!: goes_and_then [where P = "stays {RUNNING, LOADED} s0"] goes_request split: option.split)
qed

lemma goes_run: "stays {RUNNING, LOADED} s0 s \<Longrightarrow> goes (stays {RUNNING, LOADED} s0) (run os s)"
  by (auto simp: run_def intro!: goes_and_then [where P = "stays {RUNNING, LOADED} s0"] goes_cont goes_start)

text \<open>Before a program is loaded only \<open>load\<close> moves.\<close>

lemma goes_idle:
  "stays {NONLOAD} s0 s \<Longrightarrow> goes (stays {NONLOAD} s0) (cont os s)"
  "stays {NONLOAD} s0 s \<Longrightarrow> goes (stays {NONLOAD} s0) (si os s)"
  "stays {NONLOAD} s0 s \<Longrightarrow> goes (stays {NONLOAD} s0) (start os s)"
  "stays {NONLOAD} s0 s \<Longrightarrow> goes (stays {NONLOAD} s0) (run os s)"
  by (auto simp: cont_def si_def start_def run_def stays_def)

lemma goes_load: "state s \<noteq> NONLOAD \<Longrightarrow> stays Q s0 s \<Longrightarrow> goes (stays Q s0) (load os f s)"
  by (simp add: load_def)

lemma goes_load_idle: "state s = NONLOAD \<Longrightarrow> goes (\<lambda>t. state t \<in> {NONLOAD, LOADED}) (load os f s)"
  using load_frame(4) [of os f s] by (cases "load os f s") auto

section \<open>Every command\<close>

lemma goes_quit: "goes P (quit os s)"
  by (simp add: quit_def Let_def)

lemma goes_Go: "P s \<Longrightarrow> goes P (Go s)"
  by simp

lemma stays_say: "stays Q s0 s \<Longrightarrow> stays Q s0 (say m s)"
  by simp

lemmas goes_commands = goes_bp goes_del goes_disasm goes_registers goes_vmmap

lemma execute_loaded:
  assumes "state s \<noteq> NONLOAD"
  shows "goes (stays {RUNNING, LOADED} s) (execute os line s)"
proof -
  have "stays {RUNNING, LOADED} s s" using assms by (cases "state s") (auto simp: stays_def)
  then show ?thesis
    unfolding execute_def Let_def
    by (intro goes_if goes_Go goes_quit goes_commands goes_cont goes_si goes_start goes_run goes_load [OF assms]
        stays_text stays_dump stays_say)
qed

lemma stays_moves: "goes (stays {NONLOAD} s0) r \<Longrightarrow> goes (\<lambda>t. state t \<in> {NONLOAD, LOADED}) r"
  by (erule goes_mono) (simp add: stays_def)

lemmas idle_commands = goes_commands [THEN stays_moves] goes_idle [THEN stays_moves] goes_Go [THEN stays_moves]

lemma execute_idle:
  assumes "state s = NONLOAD"
  shows "goes (\<lambda>t. state t \<in> {NONLOAD, LOADED}) (execute os line s)"
proof -
  have "stays {NONLOAD} s s" using assms by (simp add: stays_def)
  then show ?thesis
    unfolding execute_def Let_def
    by (intro goes_if goes_quit idle_commands goes_load_idle [OF assms] stays_text stays_dump stays_say)
qed

lemma command_moves:
  assumes "command os s t"
  shows "dbg_step\<^sup>=\<^sup>= (state s) (state t)" and "state s \<noteq> NONLOAD \<Longrightarrow> elf t = elf s \<and> file_path t = file_path s"
proof -
  obtain line where line: "execute os line s = Go t" using assms by (auto elim: command.cases)
  have loaded: "stays {RUNNING, LOADED} s t" if "state s \<noteq> NONLOAD"
    using execute_loaded [OF that, of os line] line by simp
  show "dbg_step\<^sup>=\<^sup>= (state s) (state t)"
  proof (cases "state s = NONLOAD")
    case True
    then have "state t \<in> {NONLOAD, LOADED}" using execute_idle [OF True, of os line] line by simp
    then show ?thesis using True by (auto simp: dbg_step_simps)
  next
    case False
    then show ?thesis using loaded by (cases "state s") (auto simp: dbg_step_simps stays_def)
  qed
  show "state s \<noteq> NONLOAD \<Longrightarrow> elf t = elf s \<and> file_path t = file_path s"
    using loaded by (simp add: stays_def)
qed

lemma dbg_step_loaded: "dbg_step\<^sup>=\<^sup>= q q' \<Longrightarrow> q \<noteq> NONLOAD \<Longrightarrow> q' \<noteq> NONLOAD"
  by (auto simp: dbg_step_simps)

lemma commands_refine:
  assumes "(command os)\<^sup>*\<^sup>* s t"
  shows "dbg_step\<^sup>*\<^sup>* (state s) (state t)"
    and "state s \<noteq> NONLOAD \<Longrightarrow> state t \<noteq> NONLOAD \<and> elf t = elf s \<and> file_path t = file_path s"
  using assms
proof (induction rule: rtranclp_induct)
  case (step t u)
  note move = command_moves [OF step.hyps(2)]
  show "dbg_step\<^sup>*\<^sup>* (state s) (state u)"
    using step.IH(1) move(1) by (auto intro: rtranclp.rtrancl_into_rtrancl)
  show "state u \<noteq> NONLOAD \<and> elf u = elf s \<and> file_path u = file_path s" if "state s \<noteq> NONLOAD"
    using step.IH(2) [OF that] move(2) dbg_step_loaded [OF move(1)] by auto
qed simp_all

section \<open>Properties\<close>

text \<open>C1. Whatever commands are typed, the session stays in order: after each of them the ids are the
  positions in the list, the addresses are distinct and inside the text, there is a tracee
  exactly in state RUNNING, and no breakpoint before a program is loaded. In such a session a
  command touches no memory the debugger does not own, \<open>delete\<close> with any number included; the
  exceptions are \<open>load\<close>, \<open>vmmap\<close> and \<open>disasm\<close>, and \<open>cont\<close>, \<open>run\<close> and \<open>si\<close>, which disassemble at a hit.\<close>

theorem session_invariant:
  assumes "session_ok s" and "(command os)\<^sup>*\<^sup>* s t"
  shows "session_ok t \<and>
    (execute os line t = Fault \<longrightarrow> words line \<noteq> [] \<and> hd (words line) \<in> set reading_commands)"
proof -
  have "session_ok u'" if "command os u u'" "session_ok u" for u u'
    using that keeps_execute [of u os] by (auto elim!: command.cases) (metis goes.simps(1))
  with assms(2,1) have "session_ok t" by (induction rule: rtranclp_induct) auto
  moreover have "words line \<noteq> [] \<and> hd (words line) \<in> set reading_commands" if "execute os line t = Fault"
    using safe_execute [OF \<open>session_ok t\<close>, of line os] that by auto
  ultimately show ?thesis by blast
qed

theorem session_invariant_witness:
  "\<exists>t. execute machine_os ''list'' demo_idle = Go t \<and> session_ok t \<and> execute machine_os ''delete 7'' t \<noteq> Fault"
proof -
  have line: "execute machine_os ''list'' demo_idle = Go (list_bps demo_idle)"
    using words_last [of "''list''"] by (simp add: execute_def split_def word_ok_def isspace_def)
  then have "(command machine_os)\<^sup>*\<^sup>* demo_idle (list_bps demo_idle)" by (blast intro: command.intros)
  note ok = session_invariant [OF demo_idle_session this]
  have "words ''delete 7'' = [''delete'', ''7'']"
    using words_word [of "''delete''" "''7''"] words_last [of "''7''"] by (simp add: word_ok_def isspace_def)
  then show ?thesis using line ok [of "''delete 7''"] by (auto simp: reading_commands_def)
qed

text \<open>C3. The debugger refines the machine of three states, whatever commands are typed: each command
  makes at most one of its moves, so a program runs only after it was loaded and never goes back
  to not loaded. From then on the ELF structures, hence the bounds of the text, and the path are
  those of the program that was loaded.\<close>

theorem session_refines:
  assumes "(command os)\<^sup>*\<^sup>* s t" and "command os t u"
  shows "dbg_step\<^sup>*\<^sup>* (state s) (state t) \<and> dbg_step\<^sup>=\<^sup>= (state t) (state u) \<and>
    (state s \<noteq> NONLOAD \<longrightarrow> state u \<noteq> NONLOAD \<and> elf u = elf s \<and> file_path u = file_path s)"
  using commands_refine [OF assms(1)] command_moves [OF assms(2)] dbg_step_loaded by metis

theorem session_refines_witness:
  "command machine_os demo_dbg (list_bps demo_dbg) \<and> state (list_bps demo_dbg) \<noteq> NONLOAD \<and>
   dbg_step\<^sup>=\<^sup>= RUNNING (state (list_bps demo_dbg))"
proof -
  have "execute machine_os ''list'' demo_dbg = Go (list_bps demo_dbg)"
    using words_last [of "''list''"] by (simp add: execute_def split_def word_ok_def isspace_def)
  then have step: "command machine_os demo_dbg (list_bps demo_dbg)" by (rule command.intros)
  moreover have "state demo_dbg = RUNNING" by (simp add: demo_dbg_def)
  ultimately show ?thesis using session_refines [OF rtranclp.rtrancl_refl step] by simp
qed

text \<open>C11. A debugger that leaves a script with exit code 0 does not leave the tracee running: if there
  was one when the command came that ended the debugger (or when the script ended), it is sent
  SIGTERM, otherwise nothing is done to the system; nothing more is printed.\<close>

theorem exit_kills_tracee:
  assumes "session_ok s" and "run_script os ls s = Exit 0 s'"
  shows "\<exists>t. (command os)\<^sup>*\<^sup>* s t \<and>
    world s' = (if state t = RUNNING then kill_term os (pid t) (world t) else world t) \<and>
    pid s' = 0 \<and> out s' = out t"
  using assms
proof (induction ls arbitrary: s)
  case Nil
  then show ?case
    by (intro exI [of _ s]) (auto simp: quit_def Let_def session_ok_def)
next
  case (Cons l ls)
  show ?case
  proof (cases "execute os l s")
    case (Go t)
    have "session_ok t" using keeps_execute [OF Cons.prems(1), of os l] Go by simp
    moreover have "command os s t" using Go by (rule command.intros)
    ultimately show ?thesis
      using Cons.IH [of t] Cons.prems(2) Go by (auto intro: converse_rtranclp_into_rtranclp)
  next
    case (Exit n t)
    then have "quit os s = Exit 0 s'" using Cons.prems(2) execute_exit [of os l s s'] by simp
    then show ?thesis
      using Cons.prems(1) by (intro exI [of _ s]) (auto simp: quit_def Let_def session_ok_def)
  qed (use Cons.prems(2) in auto)
qed

theorem exit_kills_tracee_witness:
  "\<exists>s'. run_script machine_os [''exit'', ''list''] (demo_dbg\<lparr>elf := elf demo_idle\<rparr>) = Exit 0 s' \<and>
     m_status (world s') = 0xf \<and> world s' = kill_term machine_os 42 (world demo_dbg) \<and> pid s' = 0"
proof -
  let ?s = "demo_dbg\<lparr>elf := elf demo_idle\<rparr>"
  have "split ''exit'' = [''exit'']"
    using words_last [of "''exit''"] by (simp_all add: word_ok_def isspace_def split_def)
  then obtain s' where s': "run_script machine_os [''exit'', ''list''] ?s = Exit 0 s'"
    and w: "world s' = kill_term machine_os 42 (world demo_dbg)"
    by (simp add: execute_def quit_def Let_def)
  have "session_ok ?s" by (simp add: session_ok_def bps_ok_def table_ok_def ids_ok_def)
  from exit_kills_tracee [OF this s'] show ?thesis using s' w by auto
qed

end
