(* ===== verification/Logger_So.thy ===== *)
theory Logger_So
  imports Format
begin

text \<open>
  The shared object of hw2 (\<open>hw2_so.c\<close>) that \<open>LD_PRELOAD\<close> puts between a program and the C
  library: eighteen file functions, each of which resolves the original with \<open>dlsym\<close>, calls it
  and writes one line to the log. The C library is the record \<open>libc\<close> of functions on the state
  \<open>'w\<close> of the world; None stands for a crash (a call through a null pointer, a read of memory
  that is not mapped).
\<close>

section \<open>The C library\<close>

text \<open>The calls, with path names as strings, buffers and streams as addresses. \<open>Open2\<close> and
  \<open>Open642\<close> are the calls with two arguments.\<close>

datatype call = Chmod string u32 | Chown string u32 u32 | Creat string u32 | Creat64 string u32
  | Fopen string string | Fopen64 string string | Fclose addr | Fread addr u64 u64 addr
  | Fwrite addr u64 u64 addr | Open string u32 u32 | Open2 string u32 | Open64 string u32 u32
  | Open642 string u32 | Close u32 | Read u32 addr u64 | Write u32 addr u64 | Remove string
  | Rename string string | Tmpfile | Tmpfile64

text \<open>\<open>orig\<close> gives the result as a 64-bit value (an \<open>int\<close> is its low half). \<open>mem\<close> is the mapped
  memory of the program, \<open>readlink\<close> the target of a symbolic link, \<open>app_puts\<close> writes to the
  standard output of the program. \<open>va_mode\<close> is what \<open>va_arg\<close> finds in the place of the third argument
  of an \<open>open\<close> that was called with two.\<close>

record 'w libc =
  orig :: "call \<Rightarrow> 'w \<Rightarrow> u64 \<times> 'w"
  dlopen_ok :: "'w \<Rightarrow> bool"
  dlsym_ok :: "string \<Rightarrow> 'w \<Rightarrow> bool"
  getenv :: "string \<Rightarrow> 'w \<Rightarrow> string option"
  fdopen :: "u32 \<Rightarrow> 'w \<Rightarrow> addr \<times> 'w"
  realpath :: "string \<Rightarrow> 'w \<Rightarrow> string option"
  readlink :: "string \<Rightarrow> 'w \<Rightarrow> string option"
  fileno :: "addr \<Rightarrow> 'w \<Rightarrow> u32 option"
  mem :: "'w \<Rightarrow> addr \<Rightarrow> u8 option"
  app_puts :: "string \<Rightarrow> 'w \<Rightarrow> 'w"
  va_mode :: "'w \<Rightarrow> u32"

text \<open>The state of the object: the pointers \<open>ori_*\<close> that are not null, the stream \<open>output\<close>, the
  static buffer \<open>link_dest\<close> of each function that has one, and the lines written to the log.\<close>

record 'w lg =
  ori :: "string set"
  lg_output :: addr
  link_dest :: "string \<Rightarrow> string"
  lg_lines :: "string list"
  lg_world :: 'w

definition DLSYM :: "'w libc \<Rightarrow> string \<Rightarrow> 'w lg \<Rightarrow> 'w lg" where
  "DLSYM lc fname s =
     (if dlopen_ok lc (lg_world s)
      then s\<lparr>ori := (if dlsym_ok lc fname (lg_world s) then insert fname (ori s) else ori s - {fname})\<rparr>
      else s)"

definition invoke :: "'w libc \<Rightarrow> string \<Rightarrow> call \<Rightarrow> 'w lg \<Rightarrow> (u64 \<times> 'w lg) option" where
  "invoke lc fname c s =
     (if fname \<in> ori s then let (ret, w) = orig lc c (lg_world s) in Some (ret, s\<lparr>lg_world := w\<rparr>) else None)"

text \<open>The stream of the log is opened at the first line.\<close>

definition open_log :: "'w libc \<Rightarrow> 'w lg \<Rightarrow> 'w lg option" where
  "open_log lc s =
     (case getenv lc ''LOGGER_OUTPUT'' (lg_world s) of
        Some log_output \<Rightarrow>
          map_option (\<lambda>(ret, s). s\<lparr>lg_output := ret\<rparr>)
            (invoke lc ''fopen'' (Fopen log_output ''w'') (DLSYM lc ''fopen'' s))
      | None \<Rightarrow>
          map_option (\<lambda>fd. let (ret, w) = fdopen lc (atoi fd) (lg_world s) in s\<lparr>lg_output := ret, lg_world := w\<rparr>)
            (getenv lc ''LOGGER_STDERR'' (lg_world s)))"

definition log_line :: "'w libc \<Rightarrow> string \<Rightarrow> 'w lg \<Rightarrow> 'w lg option" where
  "log_line lc text s =
     Option.bind (if lg_output s = NULL then open_log lc s else Some s) (\<lambda>s.
       if lg_output s = NULL then None
       else Some (s\<lparr>lg_lines := lg_lines s @ [''[logger] '' @ text]\<rparr>))"

text \<open>\<open>ret = ori_f(...); log(...); return ret;\<close>\<close>

definition logged :: "'w libc \<Rightarrow> string \<Rightarrow> call \<Rightarrow> (u64 \<Rightarrow> 'w lg \<Rightarrow> string) \<Rightarrow> 'w lg \<Rightarrow> (u64 \<times> 'w lg) option" where
  "logged lc fname c text s =
     Option.bind (invoke lc fname c s) (\<lambda>(ret, s).
       map_option (Pair ret) (log_line lc (text ret s) s))"

section \<open>Arguments as text\<close>

text \<open>\<open>%d\<close>, \<open>%o\<close>, \<open>%zu\<close>, \<open>%zd\<close>, \<open>%p\<close>, and a string between double quotes.\<close>

definition pd :: "u32 \<Rightarrow> string" where "pd v = show_int (sint v)"
definition po :: "u32 \<Rightarrow> string" where "po v = show_oct (unat v)"
definition pzu :: "u64 \<Rightarrow> string" where "pzu v = show_dec (unat v)"
definition pzd :: "u64 \<Rightarrow> string" where "pzd v = show_int (sint v)"
definition pp :: "addr \<Rightarrow> string" where "pp a = (if a = NULL then ''(nil)'' else ''0x'' @ show_hex (unat a))"
definition ret_d :: "u64 \<Rightarrow> string" where "ret_d r = pd (ucast r)"

definition quoted :: "string \<Rightarrow> string" where "quoted t = [CHR 0x22] @ t @ [CHR 0x22]"

definition line_of :: "string \<Rightarrow> string list \<Rightarrow> string \<Rightarrow> string" where
  "line_of func args ret =
     func @ ''('' @ (case args of [] \<Rightarrow> [] | a # as \<Rightarrow> a @ concat (map (\<lambda>x. '', '' @ x) as)) @ '') = '' @
     ret @ [CHR 0x0A]"

definition path_arg :: "'w libc \<Rightarrow> string \<Rightarrow> 'w \<Rightarrow> string" where
  "path_arg lc pathname w = quoted (case realpath lc pathname w of Some res \<Rightarrow> res | None \<Rightarrow> pathname)"

text \<open>The first argument is what is left of the 31 rounds.\<close>

fun charBuf :: "nat \<Rightarrow> (addr \<Rightarrow> u8 option) \<Rightarrow> addr \<Rightarrow> string option" where
  "charBuf 0 m ptr = Some []"
| "charBuf (Suc n) m ptr =
     (case m ptr of
        None \<Rightarrow> None
      | Some b \<Rightarrow>
          if isprint (chr_of b) then map_option (Cons (chr_of b)) (charBuf n m (ptr + 1))
          else if b = 0 then Some []
          else map_option (Cons (CHR ''.'')) (charBuf n m (ptr + 1)))"

definition PATH_MAX :: nat where "PATH_MAX = 4096"

definition getFileNameByFd :: "'w libc \<Rightarrow> u32 \<Rightarrow> string \<Rightarrow> 'w lg \<Rightarrow> 'w lg" where
  "getFileNameByFd lc fd func s =
     (case readlink lc (''/proc/self/fd/'' @ pd fd) (lg_world s) of
        None \<Rightarrow> s\<lparr>lg_world := app_puts lc (''fail to read link'' @ [CHR 0x0A]) (lg_world s)\<rparr>
      | Some l \<Rightarrow> s\<lparr>link_dest := (link_dest s)(func := take (PATH_MAX - 1) l)\<rparr>)"

section \<open>The functions\<close>

definition chmod_so :: "'w libc \<Rightarrow> string \<Rightarrow> u32 \<Rightarrow> 'w lg \<Rightarrow> (u64 \<times> 'w lg) option" where
  "chmod_so lc pathname mode s =
     (let s = DLSYM lc ''chmod'' s; res = path_arg lc pathname (lg_world s)
      in logged lc ''chmod'' (Chmod pathname mode) (\<lambda>ret s. line_of ''chmod'' [res, po mode] (ret_d ret)) s)"

definition chown_so :: "'w libc \<Rightarrow> string \<Rightarrow> u32 \<Rightarrow> u32 \<Rightarrow> 'w lg \<Rightarrow> (u64 \<times> 'w lg) option" where
  "chown_so lc pathname owner gid s =
     (let s = DLSYM lc ''chown'' s; res = path_arg lc pathname (lg_world s)
      in logged lc ''chown'' (Chown pathname owner gid)
           (\<lambda>ret s. line_of ''chown'' [res, pd owner, pd gid] (ret_d ret)) s)"

definition creat_so :: "'w libc \<Rightarrow> string \<Rightarrow> u32 \<Rightarrow> 'w lg \<Rightarrow> (u64 \<times> 'w lg) option" where
  "creat_so lc path mode s =
     (let s = DLSYM lc ''creat'' s; res = path_arg lc path (lg_world s)
      in logged lc ''creat'' (Creat path mode) (\<lambda>ret s. line_of ''creat'' [res, po mode] (ret_d ret)) s)"

definition creat64_so :: "'w libc \<Rightarrow> string \<Rightarrow> u32 \<Rightarrow> 'w lg \<Rightarrow> (u64 \<times> 'w lg) option" where
  "creat64_so lc path mode s =
     (let s = DLSYM lc ''creat64'' s; res = path_arg lc path (lg_world s)
      in logged lc ''creat64'' (Creat64 path mode) (\<lambda>ret s. line_of ''creat64'' [res, po mode] (ret_d ret)) s)"

definition fopen_so :: "'w libc \<Rightarrow> string \<Rightarrow> string \<Rightarrow> 'w lg \<Rightarrow> (u64 \<times> 'w lg) option" where
  "fopen_so lc pathname mode s =
     (let s = DLSYM lc ''fopen'' s; res = path_arg lc pathname (lg_world s)
      in logged lc ''fopen'' (Fopen pathname mode) (\<lambda>ret s. line_of ''fopen'' [res, quoted mode] (pp ret)) s)"

definition fopen64_so :: "'w libc \<Rightarrow> string \<Rightarrow> string \<Rightarrow> 'w lg \<Rightarrow> (u64 \<times> 'w lg) option" where
  "fopen64_so lc pathname mode s =
     (let s = DLSYM lc ''fopen64'' s; res = path_arg lc pathname (lg_world s)
      in logged lc ''fopen64'' (Fopen64 pathname mode) (\<lambda>ret s. line_of ''fopen64'' [res, quoted mode] (pp ret)) s)"

definition fclose_so :: "'w libc \<Rightarrow> addr \<Rightarrow> 'w lg \<Rightarrow> (u64 \<times> 'w lg) option" where
  "fclose_so lc stream s =
     (let s = DLSYM lc ''fclose'' s
      in Option.bind (fileno lc stream (lg_world s)) (\<lambda>fd.
           logged lc ''fclose'' (Fclose stream)
             (\<lambda>ret s. line_of ''fclose'' [quoted (link_dest s ''fclose'')] (ret_d ret))
             (getFileNameByFd lc fd ''fclose'' s)))"

definition fread_so :: "'w libc \<Rightarrow> addr \<Rightarrow> u64 \<Rightarrow> u64 \<Rightarrow> addr \<Rightarrow> 'w lg \<Rightarrow> (u64 \<times> 'w lg) option" where
  "fread_so lc ptr sz nmemb stream s =
     (let s = DLSYM lc ''fread'' s
      in Option.bind (charBuf 31 (mem lc (lg_world s)) ptr) (\<lambda>char_buf.
         Option.bind (fileno lc stream (lg_world s)) (\<lambda>fd.
           logged lc ''fread'' (Fread ptr sz nmemb stream)
             (\<lambda>ret s. line_of ''fread'' [quoted char_buf, pzu sz, pzu nmemb, quoted (link_dest s ''fread'')] (pzu ret))
             (getFileNameByFd lc fd ''fread'' s))))"

definition fwrite_so :: "'w libc \<Rightarrow> addr \<Rightarrow> u64 \<Rightarrow> u64 \<Rightarrow> addr \<Rightarrow> 'w lg \<Rightarrow> (u64 \<times> 'w lg) option" where
  "fwrite_so lc ptr sz nmemb stream s =
     (let s = DLSYM lc ''fwrite'' s
      in Option.bind (charBuf 31 (mem lc (lg_world s)) ptr) (\<lambda>char_buf.
         Option.bind (fileno lc stream (lg_world s)) (\<lambda>fd.
           logged lc ''fwrite'' (Fwrite ptr sz nmemb stream)
             (\<lambda>ret s. line_of ''fwrite'' [quoted char_buf, pzu sz, pzu nmemb, quoted (link_dest s ''fwrite'')] (pzu ret))
             (getFileNameByFd lc fd ''fwrite'' s))))"

definition O_CREAT :: u32 where "O_CREAT = 0x40"
definition O_TMPFILE :: u32 where "O_TMPFILE = 0x410000"

definition needs_mode :: "u32 \<Rightarrow> bool" where
  "needs_mode flags \<longleftrightarrow> flags AND O_CREAT = O_CREAT \<or> flags AND O_TMPFILE = O_TMPFILE"

definition open_so :: "'w libc \<Rightarrow> string \<Rightarrow> u32 \<Rightarrow> u32 \<Rightarrow> 'w lg \<Rightarrow> (u64 \<times> 'w lg) option" where
  "open_so lc pathname flags mode s =
     (let s = DLSYM lc ''open'' s; res = path_arg lc pathname (lg_world s)
      in if \<not> needs_mode flags
         then logged lc ''open'' (Open2 pathname flags) (\<lambda>ret s. line_of ''open'' [res, po flags] (ret_d ret)) s
         else logged lc ''open'' (Open pathname flags mode)
           (\<lambda>ret s. line_of ''open'' [res, po flags, po mode] (ret_d ret)) s)"

definition open64_so :: "'w libc \<Rightarrow> string \<Rightarrow> u32 \<Rightarrow> u32 \<Rightarrow> 'w lg \<Rightarrow> (u64 \<times> 'w lg) option" where
  "open64_so lc pathname flags mode s =
     (let s = DLSYM lc ''open64'' s; res = path_arg lc pathname (lg_world s)
      in if \<not> needs_mode flags
         then logged lc ''open64'' (Open642 pathname flags) (\<lambda>ret s. line_of ''open64'' [res, po flags] (ret_d ret)) s
         else logged lc ''open64'' (Open64 pathname flags mode)
           (\<lambda>ret s. line_of ''open64'' [res, po flags, po mode] (ret_d ret)) s)"

definition close_so :: "'w libc \<Rightarrow> u32 \<Rightarrow> 'w lg \<Rightarrow> (u64 \<times> 'w lg) option" where
  "close_so lc fd s =
     (let s = DLSYM lc ''close'' s
      in logged lc ''close'' (Close fd)
           (\<lambda>ret s. line_of ''close'' [quoted (link_dest s ''close'')] (ret_d ret))
           (getFileNameByFd lc fd ''close'' s))"

definition read_so :: "'w libc \<Rightarrow> u32 \<Rightarrow> addr \<Rightarrow> u64 \<Rightarrow> 'w lg \<Rightarrow> (u64 \<times> 'w lg) option" where
  "read_so lc fd buf count s =
     (let s = DLSYM lc ''read'' s
      in Option.bind (charBuf 31 (mem lc (lg_world s)) buf) (\<lambda>char_buf.
           logged lc ''read'' (Read fd buf count)
             (\<lambda>ret s. line_of ''read'' [quoted (link_dest s ''read''), quoted char_buf, pzu count] (pzd ret))
             (getFileNameByFd lc fd ''read'' s)))"

definition write_so :: "'w libc \<Rightarrow> u32 \<Rightarrow> addr \<Rightarrow> u64 \<Rightarrow> 'w lg \<Rightarrow> (u64 \<times> 'w lg) option" where
  "write_so lc fd buf count s =
     (let s = DLSYM lc ''write'' s
      in Option.bind (charBuf 31 (mem lc (lg_world s)) buf) (\<lambda>char_buf.
           logged lc ''write'' (Write fd buf count)
             (\<lambda>ret s. line_of ''write'' [quoted (link_dest s ''write''), quoted char_buf, pzu count] (pzd ret))
             (getFileNameByFd lc fd ''write'' s)))"

definition remove_so :: "'w libc \<Rightarrow> string \<Rightarrow> 'w lg \<Rightarrow> (u64 \<times> 'w lg) option" where
  "remove_so lc path s =
     (let s = DLSYM lc ''remove'' s; res = path_arg lc path (lg_world s)
      in logged lc ''remove'' (Remove path) (\<lambda>ret s. line_of ''remove'' [res] (ret_d ret)) s)"

definition rename_so :: "'w libc \<Rightarrow> string \<Rightarrow> string \<Rightarrow> 'w lg \<Rightarrow> (u64 \<times> 'w lg) option" where
  "rename_so lc oldpath newpath s =
     (let s = DLSYM lc ''rename'' s; res1 = path_arg lc oldpath (lg_world s); res2 = path_arg lc newpath (lg_world s)
      in logged lc ''rename'' (Rename oldpath newpath) (\<lambda>ret s. line_of ''rename'' [res1, res2] (ret_d ret)) s)"

definition tmpfile_so :: "'w libc \<Rightarrow> 'w lg \<Rightarrow> (u64 \<times> 'w lg) option" where
  "tmpfile_so lc s =
     logged lc ''tmpfile'' Tmpfile (\<lambda>ret s. line_of ''tmpfile'' [] (pp ret)) (DLSYM lc ''tmpfile'' s)"

definition tmpfile64_so :: "'w libc \<Rightarrow> 'w lg \<Rightarrow> (u64 \<times> 'w lg) option" where
  "tmpfile64_so lc s =
     logged lc ''tmpfile64'' Tmpfile64 (\<lambda>ret s. line_of ''tmpfile64'' [] (pp ret)) (DLSYM lc ''tmpfile64'' s)"

end
