(* ===== verification/Logger_Spec.thy ===== *)
theory Logger_Spec
  imports Logger_So
begin

text \<open>
  What the shared object promises: seen from the program, a call through it is the call to the C
  library, and the log gets one line per call. The contract of a single call is the locale
  \<open>interposer\<close>, in which runs of calls are compared; it is interpreted on the eighteen functions.
\<close>

section \<open>Interposed calls\<close>

text \<open>A run through the object and the run the program would have without it.\<close>

primrec run_so :: "('c \<Rightarrow> 's \<Rightarrow> ('r \<times> 's) option) \<Rightarrow> 'c list \<Rightarrow> 's \<Rightarrow> ('r list \<times> 's) option" where
  "run_so step [] s = Some ([], s)"
| "run_so step (c # cs) s =
     Option.bind (step c s) (\<lambda>(r, s). map_option (\<lambda>(rs, s). (r # rs, s)) (run_so step cs s))"

primrec run_orig :: "('c \<Rightarrow> 'w \<Rightarrow> 'r \<times> 'w) \<Rightarrow> 'c list \<Rightarrow> 'w \<Rightarrow> 'r list \<times> 'w" where
  "run_orig call [] w = ([], w)"
| "run_orig call (c # cs) w = (let (r, w) = call c w; (rs, w) = run_orig call cs w in (r # rs, w))"

primrec run_fits :: "('c \<Rightarrow> 'w \<Rightarrow> 'r \<times> 'w) \<Rightarrow> ('c \<Rightarrow> 'w \<Rightarrow> bool) \<Rightarrow> 'c list \<Rightarrow> 'w \<Rightarrow> bool" where
  "run_fits call fit [] w \<longleftrightarrow> True"
| "run_fits call fit (c # cs) w \<longleftrightarrow> fit c w \<and> run_fits call fit cs (snd (call c w))"

primrec run_lines :: "('c \<Rightarrow> 'w \<Rightarrow> 'r \<times> 'w) \<Rightarrow> ('c \<Rightarrow> 'r \<Rightarrow> 'w \<Rightarrow> 'l) \<Rightarrow> 'c list \<Rightarrow> 'w \<Rightarrow> 'l list" where
  "run_lines call line [] w = []"
| "run_lines call line (c # cs) w = line c (fst (call c w)) w # run_lines call line cs (snd (call c w))"

lemma length_run_lines [simp]: "length (run_lines call line cs w) = length cs"
  by (induction cs arbitrary: w) auto

locale interposer =
  fixes step :: "'c \<Rightarrow> 's \<Rightarrow> ('r \<times> 's) option" and call :: "'c \<Rightarrow> 'w \<Rightarrow> 'r \<times> 'w"
    and world_of :: "'s \<Rightarrow> 'w" and lines_of :: "'s \<Rightarrow> 'l list" and ready :: "'s \<Rightarrow> bool"
    and fit :: "'c \<Rightarrow> 'w \<Rightarrow> bool" and line :: "'c \<Rightarrow> 'r \<Rightarrow> 'w \<Rightarrow> 'l"
  assumes one: "ready s \<Longrightarrow> fit c (world_of s) \<Longrightarrow> call c (world_of s) = (r, w) \<Longrightarrow>
    \<exists>s'. step c s = Some (r, s') \<and> ready s' \<and> world_of s' = w \<and> lines_of s' = lines_of s @ [line c r (world_of s)]"
begin

lemma run:
  "ready s \<Longrightarrow> run_fits call fit cs (world_of s) \<Longrightarrow>
    \<exists>s'. run_so step cs s = Some (fst (run_orig call cs (world_of s)), s') \<and> ready s' \<and>
      world_of s' = snd (run_orig call cs (world_of s)) \<and>
      lines_of s' = lines_of s @ run_lines call line cs (world_of s)"
proof (induction cs arbitrary: s)
  case (Cons c cs)
  obtain r w where rw: "call c (world_of s) = (r, w)" by (cases "call c (world_of s)")
  then obtain s1 where s1: "step c s = Some (r, s1)" "ready s1" "world_of s1 = w"
    "lines_of s1 = lines_of s @ [line c r (world_of s)]"
    using one [OF Cons.prems(1) _ rw] Cons.prems(2) by auto
  have "run_fits call fit cs (world_of s1)" using Cons.prems(2) rw s1(3) by simp
  from Cons.IH [OF s1(2) this] show ?case
    using s1 rw by (auto simp: split_beta Let_def)
qed simp

end

section \<open>The eighteen functions as one\<close>

text \<open>In a call of \<open>open\<close> with two arguments the third is whatever \<open>va_arg\<close> finds.\<close>

fun call_so :: "'w libc \<Rightarrow> call \<Rightarrow> 'w lg \<Rightarrow> (u64 \<times> 'w lg) option" where
  "call_so lc (Chmod p m) s = chmod_so lc p m s"
| "call_so lc (Chown p u g) s = chown_so lc p u g s"
| "call_so lc (Creat p m) s = creat_so lc p m s"
| "call_so lc (Creat64 p m) s = creat64_so lc p m s"
| "call_so lc (Fopen p m) s = fopen_so lc p m s"
| "call_so lc (Fopen64 p m) s = fopen64_so lc p m s"
| "call_so lc (Fclose st) s = fclose_so lc st s"
| "call_so lc (Fread b k n st) s = fread_so lc b k n st s"
| "call_so lc (Fwrite b k n st) s = fwrite_so lc b k n st s"
| "call_so lc (Open p f m) s = open_so lc p f m s"
| "call_so lc (Open2 p f) s = open_so lc p f (va_mode lc (lg_world s)) s"
| "call_so lc (Open64 p f m) s = open64_so lc p f m s"
| "call_so lc (Open642 p f) s = open64_so lc p f (va_mode lc (lg_world s)) s"
| "call_so lc (Close fd) s = close_so lc fd s"
| "call_so lc (Read fd b n) s = read_so lc fd b n s"
| "call_so lc (Write fd b n) s = write_so lc fd b n s"
| "call_so lc (Remove p) s = remove_so lc p s"
| "call_so lc (Rename p q) s = rename_so lc p q s"
| "call_so lc Tmpfile s = tmpfile_so lc s"
| "call_so lc Tmpfile64 s = tmpfile64_so lc s"

text \<open>The C library can be loaded and has the functions, and \<open>open\<close> ignores a mode it does not need.\<close>

definition good_libc :: "'w libc \<Rightarrow> bool" where
  "good_libc lc \<longleftrightarrow> (\<forall>w. dlopen_ok lc w) \<and> (\<forall>f w. dlsym_ok lc f w) \<and>
     (\<forall>p f m w. \<not> needs_mode f \<longrightarrow> orig lc (Open p f m) w = orig lc (Open2 p f) w \<and>
        orig lc (Open64 p f m) w = orig lc (Open642 p f) w)"

definition lg_ready :: "'w libc \<Rightarrow> 'w lg \<Rightarrow> bool" where
  "lg_ready lc s \<longleftrightarrow> good_libc lc \<and> lg_output s \<noteq> NULL"

text \<open>What a call must be like for the object to be transparent: its buffer readable up to a NUL or
  31 bytes, its descriptor one with a name under \<open>/proc/self/fd\<close>, and a mode where \<open>open\<close> needs one.\<close>

definition fd_link :: "'w libc \<Rightarrow> u32 \<Rightarrow> 'w \<Rightarrow> string option" where
  "fd_link lc fd w = map_option (take (PATH_MAX - 1)) (readlink lc (''/proc/self/fd/'' @ pd fd) w)"

definition buf_text :: "'w libc \<Rightarrow> addr \<Rightarrow> 'w \<Rightarrow> string option" where
  "buf_text lc a w = charBuf 31 (mem lc w) a"

definition stream_link :: "'w libc \<Rightarrow> addr \<Rightarrow> 'w \<Rightarrow> string option" where
  "stream_link lc st w = Option.bind (fileno lc st w) (\<lambda>fd. fd_link lc fd w)"

fun fits :: "'w libc \<Rightarrow> call \<Rightarrow> 'w \<Rightarrow> bool" where
  "fits lc (Fclose st) w = (stream_link lc st w \<noteq> None)"
| "fits lc (Fread b k n st) w = (buf_text lc b w \<noteq> None \<and> stream_link lc st w \<noteq> None)"
| "fits lc (Fwrite b k n st) w = (buf_text lc b w \<noteq> None \<and> stream_link lc st w \<noteq> None)"
| "fits lc (Close fd) w = (fd_link lc fd w \<noteq> None)"
| "fits lc (Read fd b n) w = (buf_text lc b w \<noteq> None \<and> fd_link lc fd w \<noteq> None)"
| "fits lc (Write fd b n) w = (buf_text lc b w \<noteq> None \<and> fd_link lc fd w \<noteq> None)"
| "fits lc (Open2 p f) w = (\<not> needs_mode f)"
| "fits lc (Open642 p f) w = (\<not> needs_mode f)"
| "fits lc _ w = True"

text \<open>The line of a call: its arguments as they are before the call, and its result.\<close>

definition open_args :: "u32 \<Rightarrow> u32 \<Rightarrow> string list" where
  "open_args f m = (if needs_mode f then [po f, po m] else [po f])"

fun call_text :: "'w libc \<Rightarrow> call \<Rightarrow> u64 \<Rightarrow> 'w \<Rightarrow> string" where
  "call_text lc (Chmod p m) r w = line_of ''chmod'' [path_arg lc p w, po m] (ret_d r)"
| "call_text lc (Chown p u g) r w = line_of ''chown'' [path_arg lc p w, pd u, pd g] (ret_d r)"
| "call_text lc (Creat p m) r w = line_of ''creat'' [path_arg lc p w, po m] (ret_d r)"
| "call_text lc (Creat64 p m) r w = line_of ''creat64'' [path_arg lc p w, po m] (ret_d r)"
| "call_text lc (Fopen p m) r w = line_of ''fopen'' [path_arg lc p w, quoted m] (pp r)"
| "call_text lc (Fopen64 p m) r w = line_of ''fopen64'' [path_arg lc p w, quoted m] (pp r)"
| "call_text lc (Fclose st) r w = line_of ''fclose'' [quoted (the (stream_link lc st w))] (ret_d r)"
| "call_text lc (Fread b k n st) r w =
     line_of ''fread'' [quoted (the (buf_text lc b w)), pzu k, pzu n, quoted (the (stream_link lc st w))] (pzu r)"
| "call_text lc (Fwrite b k n st) r w =
     line_of ''fwrite'' [quoted (the (buf_text lc b w)), pzu k, pzu n, quoted (the (stream_link lc st w))] (pzu r)"
| "call_text lc (Open p f m) r w = line_of ''open'' (path_arg lc p w # open_args f m) (ret_d r)"
| "call_text lc (Open2 p f) r w = line_of ''open'' [path_arg lc p w, po f] (ret_d r)"
| "call_text lc (Open64 p f m) r w = line_of ''open64'' (path_arg lc p w # open_args f m) (ret_d r)"
| "call_text lc (Open642 p f) r w = line_of ''open64'' [path_arg lc p w, po f] (ret_d r)"
| "call_text lc (Close fd) r w = line_of ''close'' [quoted (the (fd_link lc fd w))] (ret_d r)"
| "call_text lc (Read fd b n) r w =
     line_of ''read'' [quoted (the (fd_link lc fd w)), quoted (the (buf_text lc b w)), pzu n] (pzd r)"
| "call_text lc (Write fd b n) r w =
     line_of ''write'' [quoted (the (fd_link lc fd w)), quoted (the (buf_text lc b w)), pzu n] (pzd r)"
| "call_text lc (Remove p) r w = line_of ''remove'' [path_arg lc p w] (ret_d r)"
| "call_text lc (Rename p q) r w = line_of ''rename'' [path_arg lc p w, path_arg lc q w] (ret_d r)"
| "call_text lc Tmpfile r w = line_of ''tmpfile'' [] (pp r)"
| "call_text lc Tmpfile64 r w = line_of ''tmpfile64'' [] (pp r)"

definition log_text :: "'w libc \<Rightarrow> call \<Rightarrow> u64 \<Rightarrow> 'w \<Rightarrow> string" where
  "log_text lc c r w = ''[logger] '' @ call_text lc c r w"

section \<open>One call\<close>

lemma fits_getenv: "fits (lc\<lparr>getenv := g\<rparr>) c w = fits lc c w"
  by (cases c) (simp_all add: buf_text_def stream_link_def fd_link_def)

lemma DLSYM_good: "good_libc lc \<Longrightarrow> DLSYM lc f s = s\<lparr>ori := insert f (ori s)\<rparr>"
  by (simp add: DLSYM_def good_libc_def)

lemma getFileName_link: "fd_link lc fd (lg_world s) = Some l \<Longrightarrow>
    getFileNameByFd lc fd f s = s\<lparr>link_dest := (link_dest s)(f := l)\<rparr>"
  by (auto simp: getFileNameByFd_def fd_link_def)

text \<open>A call in state \<open>s\<close> gave \<open>r\<close> and the world \<open>w\<close>, and \<open>txt\<close> is what is left to log.\<close>

definition logs :: "'w libc \<Rightarrow> 'w lg \<Rightarrow> u64 \<Rightarrow> 'w \<Rightarrow> string \<Rightarrow> (u64 \<times> 'w lg) option \<Rightarrow> bool" where
  "logs lc s r w txt res \<longleftrightarrow>
     (\<exists>t. lg_output t = lg_output s \<and> lg_world t = w \<and> lg_lines t = lg_lines s \<and>
       res = map_option (Pair r) (log_line lc txt t))"

lemma logs_logged:
  assumes "f \<in> ori t" and "orig lc c (lg_world t) = (r, w)" and "text r (t\<lparr>lg_world := w\<rparr>) = txt"
    and "lg_output t = lg_output s" "lg_lines t = lg_lines s"
  shows "logs lc s r w txt (logged lc f c text t)"
  using assms unfolding logs_def
  by (intro exI [of _ "t\<lparr>lg_world := w\<rparr>"]) (simp add: logged_def invoke_def)

lemmas so_defs = chmod_so_def chown_so_def creat_so_def creat64_so_def fopen_so_def fopen64_so_def
  fclose_so_def fread_so_def fwrite_so_def open_so_def open64_so_def close_so_def read_so_def write_so_def
  remove_so_def rename_so_def tmpfile_so_def tmpfile64_so_def

lemma call_so_logs:
  assumes "good_libc lc" and "fits lc c (lg_world s)" and "orig lc c (lg_world s) = (r, w)"
  shows "logs lc s r w (call_text lc c r (lg_world s)) (call_so lc c s)"
proof -
  have mode: "\<not> needs_mode f \<Longrightarrow> orig lc (Open p f m) v = orig lc (Open2 p f) v \<and>
        orig lc (Open64 p f m) v = orig lc (Open642 p f) v" for p f m v
    using assms(1) by (auto simp: good_libc_def)
  show ?thesis
    using assms(2,3)
    by (cases c)
      (auto simp: so_defs Let_def DLSYM_good [OF assms(1)] buf_text_def stream_link_def open_args_def
        getFileName_link mode bind_eq_Some_conv intro!: logs_logged)
qed

lemma log_line_ready: "lg_output t \<noteq> NULL \<Longrightarrow>
    log_line lc txt t = Some (t\<lparr>lg_lines := lg_lines t @ [''[logger] '' @ txt]\<rparr>)"
  by (simp add: log_line_def)

interpretation so: interposer "call_so lc" "orig lc" lg_world lg_lines "lg_ready lc" "fits lc" "log_text lc" for lc
proof
  fix s c r w
  assume "lg_ready lc s" and "fits lc c (lg_world s)" and "orig lc c (lg_world s) = (r, w)"
  then show "\<exists>s'. call_so lc c s = Some (r, s') \<and> lg_ready lc s' \<and> lg_world s' = w \<and>
      lg_lines s' = lg_lines s @ [log_text lc c r (lg_world s)]"
    using call_so_logs [of lc c s r w]
    by (auto simp: lg_ready_def logs_def log_line_ready log_text_def)
qed

section \<open>Text of a buffer\<close>

definition dotted :: "u8 \<Rightarrow> char" where
  "dotted b = (if isprint (chr_of b) then chr_of b else CHR ''.'')"

lemma chr_of_0: "\<not> isprint (chr_of 0)"
  by (simp add: chr_of_def isprint_def)

lemma charBuf_spec:
  assumes "\<forall>i < n. m (ptr + of_nat i) = Some (bs ! i)" and "length bs = n"
  shows "charBuf n m ptr = Some (map dotted (takeWhile (\<lambda>b. b \<noteq> 0) bs))"
  using assms
proof (induction n arbitrary: ptr bs)
  case (Suc n)
  obtain b cs where bs: "bs = b # cs" using Suc.prems(2) by (cases bs) auto
  have "m ptr = Some b" using Suc.prems(1) [rule_format, of 0] bs by simp
  moreover have "\<forall>i < n. m (ptr + 1 + of_nat i) = Some (cs ! i)"
  proof (intro allI impI)
    fix i assume "i < n"
    then show "m (ptr + 1 + of_nat i) = Some (cs ! i)"
      using Suc.prems(1) [rule_format, of "Suc i"] bs by (simp add: add.assoc)
  qed
  ultimately show ?case
    using Suc.IH [of "ptr + 1" cs] Suc.prems(2) bs chr_of_0 by (auto simp: dotted_def)
qed simp

section \<open>A small C library\<close>

text \<open>The world is the memory of the program and its standard output; \<open>read\<close> stores one letter,
  descriptor 3 is a file, no other descriptor is open.\<close>

type_synonym small_world = "(addr \<Rightarrow> u8) \<times> string"

fun small_orig :: "call \<Rightarrow> small_world \<Rightarrow> u64 \<times> small_world" where
  "small_orig (Read fd b n) (m, t) = (1, (m(b := 0x42), t))"
| "small_orig (Fopen p md) w = (0x5000, w)"
| "small_orig (Close fd) w = ((if fd = 3 then 0 else - 1), w)"
| "small_orig c w = (3, w)"

definition small_libc :: "small_world libc" where
  "small_libc = \<lparr>orig = small_orig, dlopen_ok = (\<lambda>w. True), dlsym_ok = (\<lambda>f w. True),
     getenv = (\<lambda>v w. if v = ''LOGGER_OUTPUT'' then Some ''log'' else None), fdopen = (\<lambda>fd w. (0x5000, w)),
     realpath = (\<lambda>p w. Some (''/home/'' @ p)),
     readlink = (\<lambda>p w. if p = ''/proc/self/fd/3'' then Some ''/tmp/a'' else None),
     fileno = (\<lambda>st w. Some 3), mem = (\<lambda>(m, t) a. Some (m a)), app_puts = (\<lambda>x (m, t). (m, t @ x)), va_mode = (\<lambda>w. 0x1a4)\<rparr>"

lemma small_simps [simp]:
  "orig small_libc = small_orig" "dlopen_ok small_libc w" "dlsym_ok small_libc f w"
  "getenv small_libc v w = (if v = ''LOGGER_OUTPUT'' then Some ''log'' else None)"
  "fdopen small_libc fd w = (0x5000, w)"
  "readlink small_libc p w = (if p = ''/proc/self/fd/3'' then Some ''/tmp/a'' else None)"
  "fileno small_libc st w = Some 3" "mem small_libc w a = Some (fst w a)"
  "app_puts small_libc x w = (fst w, snd w @ x)" "realpath small_libc p w = Some (''/home/'' @ p)"
  by (simp_all add: small_libc_def split_beta)

lemma small_good: "good_libc small_libc"
  by (simp add: good_libc_def)

lemma pd_3: "pd 3 = ''3''" and pd_7: "pd 7 = ''7''"
proof -
  have "show_dec 3 = ''3''" "show_dec 7 = ''7''" by code_simp+
  then show "pd 3 = ''3''" "pd 7 = ''7''" by (simp_all add: pd_def show_int_def)
qed

lemma dotted_values: "dotted 0x41 = CHR ''A''" "dotted 7 = CHR ''.''"
proof -
  have "char_of (65 :: nat) = CHR ''A''" by code_simp
  then show "dotted 0x41 = CHR ''A''" by (simp add: dotted_def chr_of_def isprint_def)
qed (simp add: dotted_def chr_of_def isprint_def)

definition small_state :: "addr \<Rightarrow> small_world lg" where
  "small_state p = \<lparr>ori = {}, lg_output = p, link_dest = (\<lambda>_. []), lg_lines = [], lg_world = (\<lambda>_. 0x41, [])\<rparr>"

lemma small_state_simps [simp]:
  "lg_output (small_state p) = p" "link_dest (small_state p) = (\<lambda>_. [])" "lg_lines (small_state p) = []"
  "lg_world (small_state p) = (\<lambda>_. 0x41, [])"
  by (simp_all add: small_state_def)

lemma small_mem: "mem small_libc w = (\<lambda>x. Some (fst w x))"
  by (rule ext) simp

lemma small_buf: "buf_text small_libc a w = charBuf 31 (\<lambda>x. Some (fst w x)) a"
  by (simp add: buf_text_def small_mem)

lemma charBuf_total: "charBuf n (\<lambda>x. Some (m x)) a \<noteq> None"
  by (induction n arbitrary: a) auto

section \<open>Properties\<close>

text \<open>C23. Once the log is open, a sequence of the eighteen calls, of any length and in any order, gives
  the program the results it would get without the object and leaves the same world, and the
  log grows by exactly one line per call, with the arguments as they were before the call and
  the result after it. What each call in it needs, in the world it is made in, is \<open>fits\<close>: a buffer that
  can be read up to a NUL or 31 bytes, an open descriptor, a mode if \<open>open\<close> may create a file.\<close>

theorem logger_transparent:
  assumes "good_libc lc" and "lg_output s \<noteq> NULL" and "run_fits (orig lc) (fits lc) cs (lg_world s)"
  shows "\<exists>s'. run_so (call_so lc) cs s = Some (fst (run_orig (orig lc) cs (lg_world s)), s') \<and>
    lg_world s' = snd (run_orig (orig lc) cs (lg_world s)) \<and>
    lg_lines s' = lg_lines s @ run_lines (orig lc) (log_text lc) cs (lg_world s) \<and>
    length (lg_lines s') = length (lg_lines s) + length cs"
  using so.run [of lc s cs] assms by (auto simp: lg_ready_def)

theorem logger_transparent_witness:
  "\<exists>s'. run_so (call_so small_libc) [Chmod ''a'' 0x1b6, Read 3 0x100 10, Close 3] (small_state 0x5000) =
      Some ([3, 1, 0], s') \<and> fst (lg_world s') 0x100 = 0x42 \<and> length (lg_lines s') = 3"
proof -
  let ?cs = "[Chmod ''a'' 0x1b6, Read 3 0x100 10, Close 3]"
  have fit: "run_fits (orig small_libc) (fits small_libc) ?cs (lg_world (small_state 0x5000))"
    by (simp add: fd_link_def pd_3 small_buf charBuf_total)
  show ?thesis
    using logger_transparent [OF small_good _ fit] by auto
qed

text \<open>C27. The first call opens the log, after the call itself: the world is the one the call left
  with the file named by \<open>LOGGER_OUTPUT\<close> opened for writing, and the log is ready for the next.\<close>

theorem first_call_opens_log:
  assumes "good_libc lc" and "lg_output s = NULL" and "fits lc c (lg_world s)" and "orig lc c (lg_world s) = (r, w)"
    and "getenv lc ''LOGGER_OUTPUT'' w = Some f" and "orig lc (Fopen f ''w'') w = (p, w')" and "p \<noteq> NULL"
  shows "\<exists>s'. call_so lc c s = Some (r, s') \<and> lg_output s' = p \<and> lg_world s' = w' \<and>
    lg_lines s' = lg_lines s @ [log_text lc c r (lg_world s)]"
  using call_so_logs [OF assms(1,3,4)] assms
  by (auto simp: logs_def log_line_def open_log_def invoke_def DLSYM_good log_text_def)

theorem first_call_opens_log_witness:
  "\<exists>s'. call_so small_libc (Remove ''a'') (small_state 0) = Some (3, s') \<and> lg_output s' = 0x5000 \<and>
     lg_lines s' = [''[logger] remove('' @ quoted ''/home/a'' @ '') = 3'' @ [CHR 0x0A]]"
proof -
  have "ret_d 3 = ''3''" using pd_3 by (simp add: ret_d_def)
  then show ?thesis
    using first_call_opens_log [OF small_good, of "small_state 0" "Remove ''a''" 3 "(\<lambda>_. 0x41, [])" "''log''"]
    by (auto simp: log_text_def line_of_def path_arg_def)
qed

text \<open>C30. Without \<open>LOGGER_OUTPUT\<close> and \<open>LOGGER_STDERR\<close> in the environment that the call of the C library
  leaves, the first call of the program crashes, whatever the call is. Nothing else is amiss: the
  same call in the same world with \<open>LOGGER_OUTPUT\<close> naming a file that can be opened
  returns what the C library returns.\<close>

theorem no_target_crashes:
  assumes "good_libc lc" and "lg_output s = NULL" and "fits lc c (lg_world s)" and "orig lc c (lg_world s) = (r, w)"
    and "getenv lc ''LOGGER_OUTPUT'' w = None" and "getenv lc ''LOGGER_STDERR'' w = None"
  shows "call_so lc c s = None \<and>
    (\<forall>g f p w'. g ''LOGGER_OUTPUT'' w = Some f \<and> orig lc (Fopen f ''w'') w = (p, w') \<and> p \<noteq> NULL \<longrightarrow>
      (\<exists>s'. call_so (lc\<lparr>getenv := g\<rparr>) c s = Some (r, s') \<and> lg_output s' = p \<and> lg_world s' = w'))"
proof (intro conjI allI impI)
  show "call_so lc c s = None"
    using call_so_logs [OF assms(1,3,4)] assms(2,5,6)
    by (auto simp: logs_def log_line_def open_log_def)
  fix g f p w'
  assume g: "g ''LOGGER_OUTPUT'' w = Some f \<and> orig lc (Fopen f ''w'') w = (p, w') \<and> p \<noteq> NULL"
  let ?lc = "lc\<lparr>getenv := g\<rparr>"
  have good: "good_libc ?lc" "fits ?lc c (lg_world s)" "orig ?lc c (lg_world s) = (r, w)"
    using assms(1,3,4) by (simp_all add: good_libc_def fits_getenv)
  show "\<exists>s'. call_so ?lc c s = Some (r, s') \<and> lg_output s' = p \<and> lg_world s' = w'"
    using call_so_logs [OF good] assms(2) g good(1)
    by (auto simp: logs_def log_line_def open_log_def invoke_def DLSYM_good)
qed

theorem no_target_crashes_witness:
  "call_so (small_libc\<lparr>getenv := \<lambda>v w. None\<rparr>) (Remove ''a'') (small_state 0) = None \<and>
   (\<exists>s'. call_so (small_libc\<lparr>getenv := \<lambda>v w. Some ''log''\<rparr>) (Remove ''a'') (small_state 0) = Some (3, s'))"
proof -
  have "good_libc (small_libc\<lparr>getenv := \<lambda>v w. None\<rparr>)" using small_good by (simp add: good_libc_def)
  then show ?thesis
    using no_target_crashes [of "small_libc\<lparr>getenv := \<lambda>v w. None\<rparr>" "small_state 0" "Remove ''a''"]
    by (auto dest: spec [of _ "\<lambda>v w. Some ''log''"])
qed

text \<open>C29. A buffer is shown as at most 31 characters, all printable: its bytes up to the first NUL,
  with a dot for each other byte that is not printable. The count of the call plays no part, so
  bytes behind the end of a shorter buffer are read and shown. (The specification of the homework
  shows up to 32 bytes, with a dot for every one that is not printable.)\<close>

theorem buffer_text:
  assumes "\<forall>i < 31. m (ptr + of_nat i) = Some (bs ! i)" and "length bs = 31"
  shows "charBuf 31 m ptr = Some (map dotted (takeWhile (\<lambda>b. b \<noteq> 0) bs)) \<and>
    length (the (charBuf 31 m ptr)) \<le> 31 \<and> (\<forall>c \<in> set (the (charBuf 31 m ptr)). isprint c)"
proof -
  have "length (takeWhile (\<lambda>b. b \<noteq> 0) bs) \<le> 31" using assms(2) by (metis length_takeWhile_le)
  moreover have "isprint (dotted b)" for b by (simp add: dotted_def isprint_def)
  ultimately show ?thesis using charBuf_spec [OF assms] by auto
qed

theorem buffer_text_witness:
  "charBuf 31 (\<lambda>a. Some (if a = 0x101 then 7 else if a = 0x103 then 0 else 0x41)) 0x100 = Some ''A.A''"
proof -
  let ?m = "\<lambda>a :: addr. Some (if a = 0x101 then 7 else if a = 0x103 then 0 else 0x41 :: u8)"
  let ?bs = "[0x41, 7, 0x41, 0] @ replicate 27 (0x41 :: u8)"
  have "?m (0x100 + of_nat i) = Some (?bs ! i)" if i: "i < 31" for i
  proof (cases "i < 4")
    case True
    then have "i = 0 \<or> i = 1 \<or> i = 2 \<or> i = 3" by auto
    then show ?thesis by (elim disjE) simp_all
  next
    case False
    have "unat (0x100 + of_nat i :: addr) = 0x100 + i" using i by (simp add: unat_word_ariths unat_of_nat)
    then have "0x100 + of_nat i \<noteq> (0x101 :: addr)" "0x100 + of_nat i \<noteq> (0x103 :: addr)"
      using False by (auto dest: arg_cong [of _ _ unat])
    then show ?thesis using False i by (simp add: nth_append nth_Cons')
  qed
  then show ?thesis using buffer_text [of ?m "0x100" ?bs] by (simp add: dotted_values)
qed

text \<open>C31. The line of \<open>read\<close> shows what the buffer held before the call, not what was read.\<close>

theorem read_shows_old_buffer:
  assumes "good_libc lc" and "lg_output s \<noteq> NULL" and "fd_link lc fd (lg_world s) = Some l"
    and "charBuf 31 (mem lc (lg_world s)) buf = Some old" and "orig lc (Read fd buf n) (lg_world s) = (r, w)"
  shows "\<exists>s'. read_so lc fd buf n s = Some (r, s') \<and> lg_world s' = w \<and>
    lg_lines s' = lg_lines s @ [''[logger] '' @ line_of ''read'' [quoted l, quoted old, pzu n] (pzd r)]"
  using so.one [of lc s "Read fd buf n" r w] assms by (auto simp: lg_ready_def buf_text_def log_text_def)

theorem read_shows_old_buffer_witness:
  "\<exists>s'. read_so small_libc 3 0x100 1 (small_state 0x5000) = Some (1, s') \<and> fst (lg_world s') 0x100 = 0x42 \<and>
    lg_lines s' = [''[logger] '' @ line_of ''read'' [quoted ''/tmp/a'', quoted (replicate 31 (CHR ''A'')), pzu 1] (pzd 1)]"
proof -
  have "charBuf 31 (mem small_libc (lg_world (small_state 0x5000))) 0x100 = Some (replicate 31 (CHR ''A''))"
    using charBuf_spec [of 31 "\<lambda>a. Some 0x41" "0x100" "replicate 31 0x41"] by (simp add: dotted_values small_mem)
  then show ?thesis
    using read_shows_old_buffer [OF small_good, of "small_state 0x5000" 3 "''/tmp/a''" "0x100"
        "replicate 31 (CHR ''A'')" 1 1 "((\<lambda>_. 0x41)(0x100 := 0x42), [])"]
    by (auto simp: fd_link_def pd_3 PATH_MAX_def)
qed

text \<open>C32. \<open>close\<close> of a descriptor that is not open writes a message to the standard output of the
  program, which the program alone would not do, and logs the name left by the last \<open>close\<close>.\<close>

theorem close_unknown_fd:
  assumes "good_libc lc" and "lg_output s \<noteq> NULL" and "fd_link lc fd (lg_world s) = None"
    and "orig lc (Close fd) (app_puts lc (''fail to read link'' @ [CHR 0x0A]) (lg_world s)) = (r, w)"
  shows "\<exists>s'. close_so lc fd s = Some (r, s') \<and> lg_world s' = w \<and>
    lg_lines s' = lg_lines s @ [''[logger] '' @ line_of ''close'' [quoted (link_dest s ''close'')] (ret_d r)]"
  using assms
  by (auto simp: close_so_def DLSYM_good getFileNameByFd_def fd_link_def logged_def invoke_def log_line_def)

theorem close_unknown_fd_witness:
  "\<exists>s'. close_so small_libc 7 (small_state 0x5000) = Some (- 1, s') \<and>
     snd (lg_world s') = ''fail to read link'' @ [CHR 0x0A]"
  using close_unknown_fd [OF small_good, of "small_state 0x5000" 7 "- 1"] by (auto simp: fd_link_def pd_7)

end
