(* ===== verification/Getopt.thy ===== *)
theory Getopt
  imports Main
begin

text \<open>
  \<open>getopt\<close> of the GNU C library, which moves the arguments that are no options behind the
  options: for the launcher of the logger, which looks at the command line afterwards, and for
  the file lister, which looks at it after every option.
\<close>

section \<open>getopt\<close>

text \<open>An option as \<open>getopt\<close> returns it: a letter and its argument, or the question mark.\<close>

datatype opt = Opt char string | Bad

text \<open>One argument that starts with a dash: the letters behind it. The result has the options
  and whether the last one takes the next argument of the command line.\<close>

fun cluster :: "char set \<Rightarrow> char set \<Rightarrow> string \<Rightarrow> (char \<times> string option) list \<times> char option" where
  "cluster plain arg [] = ([], None)"
| "cluster plain arg (c # cs) =
     (if c \<in> arg then
        if cs = [] then ([], Some c) else ([(c, Some cs)], None)
      else let (os, last) = cluster plain arg cs in ((c, None) # os, last))"

definition as_opt :: "char set \<Rightarrow> char \<times> string option \<Rightarrow> opt" where
  "as_opt plain x = (case x of (c, Some a) \<Rightarrow> Opt c a | (c, None) \<Rightarrow> if c \<in> plain then Opt c [] else Bad)"

definition dashes :: string where "dashes = ''--''"

definition is_option :: "string \<Rightarrow> bool" where
  "is_option a \<longleftrightarrow> 2 \<le> length a \<and> hd a = CHR ''-''"

text \<open>The calls of \<open>getopt\<close> until it returns -1: the options in their order, and the command line
  as it is afterwards, the options and their arguments in front of the rest.\<close>

fun getopt :: "char set \<Rightarrow> char set \<Rightarrow> string list \<Rightarrow> opt list \<times> string list \<times> string list" where
  "getopt plain arg [] = ([], [], [])"
| "getopt plain arg (a # as) =
     (if a = dashes then ([], [dashes], as)
      else if \<not> is_option a then
        let (os, front, rest) = getopt plain arg as in (os, front, a # rest)
      else
        let (xs, last) = cluster plain arg (tl a); os0 = map (as_opt plain) xs
        in case last of
             None \<Rightarrow> let (os, front, rest) = getopt plain arg as in (os0 @ os, a # front, rest)
           | Some c \<Rightarrow>
               (case as of
                  [] \<Rightarrow> (os0 @ [Bad], [a], [])
                | b # bs \<Rightarrow>
                    let (os, front, rest) = getopt plain arg bs in (os0 @ Opt c b # os, a # b # front, rest)))"

text \<open>The same, with the command line (behind \<open>argv[0]\<close>) as it is when each option is returned:
  the options before it, the arguments skipped so far, its own argument and what follows. The
  skipped arguments move behind an option only in the next call.\<close>

fun getopt_steps :: "char set \<Rightarrow> char set \<Rightarrow> string list \<Rightarrow> string list \<Rightarrow> string list \<Rightarrow> (opt \<times> string list) list" where
  "getopt_steps plain arg front skipped [] = []"
| "getopt_steps plain arg front skipped (a # as) =
     (if a = dashes then []
      else if \<not> is_option a then getopt_steps plain arg front (skipped @ [a]) as
      else
        let (xs, last) = cluster plain arg (tl a); argv = front @ skipped @ a # as;
            os0 = map (\<lambda>x. (as_opt plain x, argv)) xs
        in case last of
             None \<Rightarrow> os0 @ getopt_steps plain arg (front @ [a]) skipped as
           | Some c \<Rightarrow>
               (case as of
                  [] \<Rightarrow> os0 @ [(Bad, argv)]
                | b # bs \<Rightarrow> os0 @ (Opt c b, argv) # getopt_steps plain arg (front @ [a, b]) skipped bs))"

lemma getopt_steps_opts: "map fst (getopt_steps plain arg front skipped as) = fst (getopt plain arg as)"
proof (induction "length as" arbitrary: as front skipped rule: less_induct)
  case less
  show ?case
  proof (cases as)
    case (Cons b bs)
    have "map fst (getopt_steps plain arg front skipped xs) = fst (getopt plain arg xs)"
      if "length xs \<le> length bs" for front skipped xs
      using less that Cons by simp
    then show ?thesis
      using Cons by (auto simp: Let_def split_beta comp_def split: option.split list.split)
  qed simp
qed

section \<open>Command lines\<close>

text \<open>An option with its argument in the next place.\<close>

definition opt_arg :: "char \<times> string \<Rightarrow> string list" where
  "opt_arg x = (case x of (c, a) \<Rightarrow> [[CHR ''-'', c], a])"

lemma getopt_opts:
  "\<forall>(c, a) \<in> set xs. c \<in> arg \<and> c \<noteq> CHR ''-'' \<Longrightarrow>
    getopt plain arg (concat (map opt_arg xs) @ as) =
      (let (os, front, rest) = getopt plain arg as
       in (map (\<lambda>(c, a). Opt c a) xs @ os, concat (map opt_arg xs) @ front, rest))"
proof (induction xs)
  case (Cons x xs)
  obtain c a where x: "x = (c, a)" by (cases x)
  then have "c \<in> arg" "c \<noteq> CHR ''-''" using Cons.prems by auto
  then show ?case
    using Cons by (auto simp: x opt_arg_def dashes_def is_option_def Let_def split_beta)
qed (simp add: Let_def split_beta)

lemma getopt_words:
  "\<forall>a \<in> set as. \<not> is_option a \<Longrightarrow> getopt plain arg as = ([], [], as)"
  by (induction as) (auto simp: dashes_def is_option_def)

lemma getopt_steps_opts_first:
  "\<forall>(c, a) \<in> set xs. c \<in> arg \<and> c \<noteq> CHR ''-'' \<Longrightarrow>
    getopt_steps plain arg front [] (concat (map opt_arg xs)) =
      map (\<lambda>(c, a). (Opt c a, front @ concat (map opt_arg xs))) xs"
proof (induction xs arbitrary: front)
  case (Cons x xs)
  obtain c a where x: "x = (c, a)" by (cases x)
  then have "c \<in> arg" "c \<noteq> CHR ''-''" using Cons.prems by auto
  then show ?case
    using Cons by (auto simp: x opt_arg_def dashes_def is_option_def Let_def split_beta)
qed simp

end
