(* ===== verification/Logger_Launch.thy ===== *)
theory Logger_Launch
  imports Format Getopt
begin

text \<open>
  The launcher of hw2 (\<open>hw2.cpp\<close>): it reads its options with \<open>getopt\<close>, puts the library into
  the environment, looks for the argument \<open>--\<close> and starts the command behind it.
\<close>

section \<open>The launcher\<close>

type_synonym env = "string \<Rightarrow> string option"

text \<open>What \<open>main\<close> ends with: the usage message, the message that no command was given, or a child
  that runs the command in an environment (with what \<open>dup(2)\<close> gave) while the parent waits.\<close>

datatype launch = Usage | No_command | Run env "string list"

fun set_options :: "opt list \<Rightarrow> env \<Rightarrow> env option" where
  "set_options [] e = Some e"
| "set_options (Opt c a # os) e =
     (if c = CHR ''o'' then set_options os (e(''LOGGER_OUTPUT'' \<mapsto> a))
      else if c = CHR ''p'' then set_options os (e(''LD_PRELOAD'' \<mapsto> a))
      else set_options os e)"
| "set_options (Bad # os) e = None"

text \<open>The index behind the first \<open>--\<close> of \<open>argv\<close> (from index 1 on), 1 without one.\<close>

fun find_dashes :: "nat \<Rightarrow> string list \<Rightarrow> nat" where
  "find_dashes i [] = 1"
| "find_dashes i (a # as) = (if a = dashes then i + 1 else find_dashes (i + 1) as)"

definition launcher :: "int \<Rightarrow> string list \<Rightarrow> env \<Rightarrow> launch" where
  "launcher dup_fd args e =
     (let (os, front, rest) = getopt {} {CHR ''o'', CHR ''p''} args;
          argv = front @ rest
      in case set_options os (e(''LD_PRELOAD'' \<mapsto> ''./logger.so'')) of
           None \<Rightarrow> Usage
         | Some e \<Rightarrow>
             let cmdIndex = find_dashes 1 argv
             in if cmdIndex = length argv + 1 then No_command
                else Run (e(''LOGGER_STDERR'' \<mapsto> show_int dup_fd)) (drop (cmdIndex - 1) argv))"

section \<open>Command lines\<close>

lemma find_dashes_at: "dashes \<notin> set xs \<Longrightarrow> find_dashes i (xs @ dashes # ys) = i + length xs + 1"
  by (induction xs arbitrary: i) auto

lemma find_dashes_none: "dashes \<notin> set xs \<Longrightarrow> find_dashes i xs = 1"
  by (induction xs arbitrary: i) auto

text \<open>The environment the options ask for: the last one of each letter counts.\<close>

definition option_env :: "(char \<times> string) list \<Rightarrow> env \<Rightarrow> env" where
  "option_env xs e =
     foldl (\<lambda>e (c, a). e((if c = CHR ''o'' then ''LOGGER_OUTPUT'' else ''LD_PRELOAD'') \<mapsto> a)) e xs"

lemma set_options_env:
  "\<forall>(c, a) \<in> set xs. c = CHR ''o'' \<or> c = CHR ''p'' \<Longrightarrow>
    set_options (map (\<lambda>(c, a). Opt c a) xs) e = Some (option_env xs e)"
proof (induction xs arbitrary: e)
  case (Cons x xs)
  then show ?case by (cases x) (auto simp: option_env_def)
qed (simp add: option_env_def)

lemma no_dashes: "\<forall>(c, a) \<in> set xs. (c = CHR ''o'' \<or> c = CHR ''p'') \<and> a \<noteq> dashes \<Longrightarrow>
    dashes \<notin> set (concat (map opt_arg xs))"
  by (induction xs) (auto simp: opt_arg_def dashes_def)

lemma letters:
  assumes "\<forall>(c, a) \<in> set xs. (c = CHR ''o'' \<or> c = CHR ''p'') \<and> a \<noteq> dashes"
  shows "\<forall>(c, a) \<in> set xs. c \<in> {CHR ''o'', CHR ''p''} \<and> c \<noteq> CHR ''-''"
    and "\<forall>(c, a) \<in> set xs. c = CHR ''o'' \<or> c = CHR ''p''"
  using assms by (induction xs) auto

lemma plain_no_dashes: "\<forall>a \<in> set as. \<not> is_option a \<Longrightarrow> dashes \<notin> set as"
  by (induction as) (auto simp: is_option_def dashes_def)

section \<open>Properties\<close>

text \<open>C26. With options, \<open>--\<close> and a command, the launcher runs the command with exactly the arguments
  behind \<open>--\<close>, whatever they look like, and with the environment the options ask for.\<close>

theorem launch_command:
  assumes "\<forall>(c, a) \<in> set xs. (c = CHR ''o'' \<or> c = CHR ''p'') \<and> a \<noteq> dashes" and "cmd \<noteq> []"
  shows "launcher fd (concat (map opt_arg xs) @ dashes # cmd) e =
    Run ((option_env xs (e(''LD_PRELOAD'' \<mapsto> ''./logger.so'')))(''LOGGER_STDERR'' \<mapsto> show_int fd)) cmd"
proof -
  let ?arg = "{CHR ''o'', CHR ''p''}" let ?front = "concat (map opt_arg xs)"
  note opts = letters [OF assms(1)]
  have go: "getopt {} ?arg (?front @ dashes # cmd) = (map (\<lambda>(c, a). Opt c a) xs, ?front @ [dashes], cmd)"
    using getopt_opts [OF opts(1), of "{}" "dashes # cmd"] by simp
  have "find_dashes 1 (?front @ dashes # cmd) = length ?front + 2"
    using find_dashes_at [OF no_dashes [OF assms(1)], of 1 cmd] by simp
  then show ?thesis
    using assms(2) set_options_env [OF opts(2)] by (simp add: launcher_def go)
qed

theorem launch_command_witness:
  "launcher 3 [''-o'', ''log'', ''--'', ''ls'', ''-al''] Map.empty =
    Run [''LD_PRELOAD'' \<mapsto> ''./logger.so'', ''LOGGER_OUTPUT'' \<mapsto> ''log'', ''LOGGER_STDERR'' \<mapsto> show_int 3]
      [''ls'', ''-al'']"
  using launch_command [of "[(CHR ''o'', ''log'')]" "[''ls'', ''-al'']" 3 Map.empty]
  by (simp add: opt_arg_def dashes_def option_env_def)

text \<open>C33. Without \<open>--\<close> the launcher takes its first argument for the command: with options in front
  of a command of plain words it tries to run the option.\<close>

theorem launch_without_dashes:
  assumes "\<forall>(c, a) \<in> set xs. (c = CHR ''o'' \<or> c = CHR ''p'') \<and> a \<noteq> dashes"
    and "\<forall>a \<in> set cmd. \<not> is_option a" and "xs \<noteq> [] \<or> cmd \<noteq> []"
  shows "launcher fd (concat (map opt_arg xs) @ cmd) e =
    Run ((option_env xs (e(''LD_PRELOAD'' \<mapsto> ''./logger.so'')))(''LOGGER_STDERR'' \<mapsto> show_int fd))
      (concat (map opt_arg xs) @ cmd)"
proof -
  let ?arg = "{CHR ''o'', CHR ''p''}" let ?front = "concat (map opt_arg xs)"
  note opts = letters [OF assms(1)]
  have go: "getopt {} ?arg (?front @ cmd) = (map (\<lambda>(c, a). Opt c a) xs, ?front, cmd)"
    using getopt_opts [OF opts(1), of "{}" cmd] getopt_words [OF assms(2)] by simp
  have "dashes \<notin> set (?front @ cmd)"
    using no_dashes [OF assms(1)] plain_no_dashes [OF assms(2)] by simp
  from find_dashes_none [OF this] have "find_dashes 1 (?front @ cmd) = 1" .
  moreover have "?front @ cmd \<noteq> []" using assms(3) by (cases xs) (auto simp: opt_arg_def)
  ultimately show ?thesis
    using set_options_env [OF opts(2)] by (simp add: launcher_def go)
qed

theorem launch_without_dashes_witness:
  "\<exists>e. launcher 3 [''-o'', ''log'', ''ls''] Map.empty = Run e [''-o'', ''log'', ''ls'']"
  using launch_without_dashes [of "[(CHR ''o'', ''log'')]" "[''ls'']" 3 Map.empty]
  by (simp add: opt_arg_def dashes_def is_option_def)

end
