(* ===== verification/Lsof.thy ===== *)
theory Lsof
  imports Format Results Getopt
begin

text \<open>
  The file lister of hw1 (\<open>hw1.cpp\<close>, the program the Makefile builds): for every process under
  \<open>/proc\<close> one row for each of \<open>cwd\<close>, \<open>root\<close>, \<open>exe\<close>, the mapped files and the open descriptors,
  filtered by the options. What it reads of the system is the record \<open>sys\<close> of functions of the
  path, one snapshot of the file system; a failing call gives \<open>Inl\<close> of its error number.
\<close>

section \<open>The system\<close>

record stat_t =
  st_mode :: u32
  st_ino :: nat
  st_uid :: u32

record sys =
  sys_stat :: "string \<Rightarrow> int + stat_t"
  sys_lstat :: "string \<Rightarrow> int + stat_t"
  sys_readlink :: "string \<Rightarrow> int + string"
  sys_opendir :: "string \<Rightarrow> int + string list"
  sys_open :: "string \<Rightarrow> int + string"
  sys_user :: "u32 \<Rightarrow> string option"
  sys_strerror :: "int \<Rightarrow> string"
  regex_ok :: "string \<Rightarrow> bool"
  regex_match :: "string \<Rightarrow> string \<Rightarrow> bool"

definition ENOENT :: int where "ENOENT = 2"
definition EACCES :: int where "EACCES = 13"
definition EINVAL :: int where "EINVAL = 22"
definition PATH_MAX :: nat where "PATH_MAX = 4096"

section \<open>Rows\<close>

record process =
  p_pid :: int
  p_path :: string
  p_dir :: string
  p_cmd :: string
  p_user :: string
  p_type :: string
  p_fd :: string
  p_inode :: string
  p_name :: string

text \<open>\<open>filter\<close> and \<open>filtargu\<close>: None for a filter that is off. The state has \<open>errno\<close> and the lines
  printed, first on the standard output, then on the error output.\<close>

record filters =
  f_cmd :: "string option"
  f_type :: "string option"
  f_name :: "string option"

record lsof_state =
  errno :: int
  ls_out :: "string list"
  ls_err :: "string list"

definition deleted_mark :: string where "deleted_mark = ''(deleted)''"

text \<open>\<open>find\<close>: the first position of the pattern.\<close>

fun find_str :: "string \<Rightarrow> string \<Rightarrow> nat option" where
  "find_str pat [] = (if pat = [] then Some 0 else None)"
| "find_str pat (c # cs) =
     (if take (length pat) (c # cs) = pat then Some 0 else map_option Suc (find_str pat cs))"

lemma find_str_bound: "find_str pat s = Some i \<Longrightarrow> i + length pat \<le> length s"
proof (induction s arbitrary: i)
  case (Cons c cs)
  show ?case
  proof (cases "take (length pat) (c # cs) = pat")
    case True
    then have "length pat \<le> length (c # cs)" by (metis length_take min.cobounded1)
    then show ?thesis using True Cons.prems by auto
  next
    case False
    then show ?thesis using Cons by (auto split: if_splits)
  qed
qed (auto split: if_splits)

text \<open>The loop that cuts the marks out of the name.\<close>

function strip_deleted :: "process \<Rightarrow> process" where
  "strip_deleted f =
     (case find_str deleted_mark (p_name f) of
        None \<Rightarrow> f
      | Some i \<Rightarrow> strip_deleted (f\<lparr>p_name := take i (p_name f) @ drop (i + 9) (p_name f),
                                 p_fd := ''DEL'', p_type := ''unknown''\<rparr>))"
  by auto
termination
proof (relation "measure (length \<circ> p_name)", goal_cases)
  case (2 f i)
  then show ?case using find_str_bound [of deleted_mark "p_name f" i] by (simp add: deleted_mark_def)
qed simp

declare strip_deleted.simps [simp del]

definition row :: "string \<Rightarrow> string \<Rightarrow> string \<Rightarrow> string \<Rightarrow> string \<Rightarrow> string \<Rightarrow> string \<Rightarrow> string" where
  "row cmd pid user fd type inode name =
     (let sp = CHR '' ''
      in pad_right sp 15 cmd @ [sp] @ pad_left sp 3 pid @ [sp] @ pad_left sp 13 user @ [sp] @
         pad_left sp 4 fd @ [sp] @ pad_left sp 9 type @ [sp] @ pad_left sp 18 inode @ [sp] @
         pad_right sp 64 name @ [CHR 0x0A])"

definition any_pat :: "string \<Rightarrow> string" where
  "any_pat a = ''.*'' @ a @ ''.*''"

definition pattern_ok :: "sys \<Rightarrow> string option \<Rightarrow> bool" where
  "pattern_ok sy a \<longleftrightarrow> (case a of Some a \<Rightarrow> regex_ok sy (any_pat a) | None \<Rightarrow> True)"

definition matches :: "sys \<Rightarrow> string option \<Rightarrow> string \<Rightarrow> bool" where
  "matches sy a t \<longleftrightarrow> (case a of Some a \<Rightarrow> regex_match sy (any_pat a) t | None \<Rightarrow> True)"

definition fd_name :: "process \<Rightarrow> process" where
  "fd_name f =
     (if p_dir f = ''cwd'' then f\<lparr>p_fd := ''cwd''\<rparr>
      else if p_dir f = ''root'' then f\<lparr>p_fd := ''rtd''\<rparr>
      else if p_dir f = ''exe'' then f\<lparr>p_fd := ''txt''\<rparr> else f)"

text \<open>A pattern that is no regular expression ends the program with an exception.\<close>

definition print_result :: "sys \<Rightarrow> filters \<Rightarrow> process \<Rightarrow> lsof_state \<Rightarrow> lsof_state result" where
  "print_result sy fl f s =
     (if \<not> (pattern_ok sy (f_cmd fl) \<and> pattern_ok sy (f_type fl) \<and> pattern_ok sy (f_name fl)) then Fault
      else if matches sy (f_cmd fl) (p_cmd f) \<and> matches sy (f_type fl) (p_type f) \<and> matches sy (f_name fl) (p_name f)
      then let f = strip_deleted (fd_name f)
           in Go (s\<lparr>ls_out := ls_out s @ [row (p_cmd f) (show_int (p_pid f)) (p_user f) (p_fd f) (p_type f)
                                            (p_inode f) (p_name f)]\<rparr>)
      else Go s)"

section \<open>Types\<close>

definition type_of :: "u32 \<Rightarrow> string" where
  "type_of mode =
     (let t = mode AND 0xF000
      in if t = 0x4000 then ''DIR'' else if t = 0x8000 then ''REG'' else if t = 0x2000 then ''CHR''
         else if t = 0x1000 then ''FIFO'' else if t = 0xC000 then ''SOCK'' else ''unknown'')"

definition set_stat :: "stat_t \<Rightarrow> process \<Rightarrow> process" where
  "set_stat st f = f\<lparr>p_inode := show_dec (st_ino st), p_type := type_of (st_mode st)\<rparr>"

section \<open>One process\<close>

text \<open>\<open>cwd\<close>, \<open>root\<close> and \<open>exe\<close>. \<open>readlink\<close> may fill the whole buffer, and the NUL is then written
  behind it.\<close>

definition file_type :: "sys \<Rightarrow> filters \<Rightarrow> process \<Rightarrow> lsof_state \<Rightarrow> lsof_state result" where
  "file_type sy fl f s =
     (let path = p_path f @ p_dir f;
          (f, s) = (case sys_stat sy path of
                      Inr st \<Rightarrow> (set_stat st f, s)
                    | Inl e \<Rightarrow> (f\<lparr>p_type := ''unknown'', p_inode := []\<rparr>, s\<lparr>errno := e\<rparr>))
      in case sys_readlink sy path of
           Inl e \<Rightarrow>
             let s = s\<lparr>errno := e\<rparr>
             in if e = ENOENT then Go s
                else print_result sy fl
                       (f\<lparr>p_name := path @ '' (readlink: '' @ sys_strerror sy e @ '')''\<rparr>) s
         | Inr l \<Rightarrow>
             if PATH_MAX \<le> length l then Fault else print_result sy fl (f\<lparr>p_name := l\<rparr>) s)"

text \<open>The six strings \<open>>>\<close> fills from a line; those it does not reach keep their values.\<close>

type_synonym fields = "string list"

definition read_fields :: "string \<Rightarrow> fields \<Rightarrow> fields" where
  "read_fields line old = take 6 (words line) @ drop (length (take 6 (words line))) old"

fun maps_loop :: "sys \<Rightarrow> filters \<Rightarrow> string list \<Rightarrow> fields \<Rightarrow> process \<Rightarrow> lsof_state \<Rightarrow> lsof_state result" where
  "maps_loop sy fl [] fs f s = Go s"
| "maps_loop sy fl (line # ls) fs f s =
     (let fs = read_fields line fs;
          off = fs ! 2; device = fs ! 3; inode = fs ! 4; pathname = fs ! 5
      in if off = ''00000000'' \<and> inode \<noteq> ''0'' \<and> device \<noteq> ''00:00'' \<and> inode \<noteq> p_inode f
         then let f = f\<lparr>p_inode := inode, p_name := pathname\<rparr>
              in and_then (print_result sy fl f s) (maps_loop sy fl ls fs f)
         else maps_loop sy fl ls fs f s)"

definition file_maps :: "sys \<Rightarrow> filters \<Rightarrow> process \<Rightarrow> lsof_state \<Rightarrow> lsof_state result" where
  "file_maps sy fl f s =
     (let (f, s) = (case sys_stat sy (p_path f @ p_dir f) of
                      Inr st \<Rightarrow> (set_stat st f, s) | Inl e \<Rightarrow> (f, s\<lparr>errno := e\<rparr>));
          (f, s) = (case sys_stat sy (p_path f @ ''exe'') of
                      Inr st \<Rightarrow> (f\<lparr>p_inode := show_dec (st_ino st)\<rparr>, s) | Inl e \<Rightarrow> (f, s\<lparr>errno := e\<rparr>));
          f = f\<lparr>p_fd := ''mem''\<rparr>
      in case sys_open sy (p_path f @ ''maps'') of
           Inl e \<Rightarrow> Go (s\<lparr>errno := e\<rparr>)
         | Inr txt \<Rightarrow> maps_loop sy fl (text_lines txt) (replicate 6 []) f s)"

definition mode_letter :: "u32 \<Rightarrow> string" where
  "mode_letter mode =
     (if mode AND 0x180 = 0x180 then ''u''
      else if mode AND 0x100 = 0x100 then ''r''
      else if mode AND 0x80 = 0x80 then ''w'' else [])"

text \<open>The descriptors: the variable \<open>file\<close> is the same in all rounds.\<close>

fun fd_loop :: "sys \<Rightarrow> filters \<Rightarrow> string list \<Rightarrow> process \<Rightarrow> lsof_state \<Rightarrow> lsof_state result" where
  "fd_loop sy fl [] f s = Go s"
| "fd_loop sy fl (d # ds) f s =
     (if d = ''.'' \<or> d = ''..'' then fd_loop sy fl ds f s
      else
        let path = p_path f @ p_dir f @ ''/'' @ d
        in case sys_readlink sy path of
             Inl e \<Rightarrow> fd_loop sy fl ds f (s\<lparr>errno := e\<rparr>)
           | Inr l \<Rightarrow>
               if PATH_MAX \<le> length l then Fault
               else
                 let f = f\<lparr>p_name := l\<rparr>;
                     (f, s) = (case sys_stat sy path of
                                 Inr st \<Rightarrow> (set_stat st f, s)
                               | Inl e \<Rightarrow> (f\<lparr>p_type := ''unknown'', p_inode := []\<rparr>, s\<lparr>errno := e\<rparr>));
                     (f, s) = (case sys_lstat sy path of
                                 Inr st \<Rightarrow> (f\<lparr>p_fd := d @ mode_letter (st_mode st)\<rparr>, s)
                               | Inl e \<Rightarrow> (f, s\<lparr>errno := e\<rparr>))
                 in and_then (print_result sy fl f s) (fd_loop sy fl ds f))"

text \<open>\<open>opendir\<close> sets \<open>errno\<close> only when it fails, and \<open>closedir\<close> of the null pointer sets it to
  \<open>EINVAL\<close>; \<open>readdir\<close> of the null pointer faults.\<close>

definition file_fd :: "sys \<Rightarrow> filters \<Rightarrow> process \<Rightarrow> lsof_state \<Rightarrow> lsof_state result" where
  "file_fd sy fl f s =
     (let path = p_path f @ p_dir f;
          dp = sys_opendir sy path;
          s = (case dp of Inl e \<Rightarrow> s\<lparr>errno := e\<rparr> | Inr ds \<Rightarrow> s)
      in if errno s = EACCES then
           and_then
             (print_result sy fl
               (f\<lparr>p_type := [], p_inode := [], p_name := path @ '' (opendir: '' @ sys_strerror sy (errno s) @ '')'',
                  p_fd := ''NOFD''\<rparr>) s)
             (\<lambda>s. Go (case dp of Inl e \<Rightarrow> s\<lparr>errno := EINVAL\<rparr> | Inr ds \<Rightarrow> s))
         else case dp of Inl e \<Rightarrow> Fault | Inr ds \<Rightarrow> fd_loop sy fl ds f s)"

text \<open>The command is the second word of \<open>/proc/PID/stat\<close> without its first and its last
  character; \<open>substr(1, ...)\<close> of the empty string throws.\<close>

definition command_of :: "string \<Rightarrow> string" where
  "command_of txt = (case words txt of [] \<Rightarrow> [] | [w] \<Rightarrow> w | w # v # ws \<Rightarrow> v)"

definition lsof :: "sys \<Rightarrow> filters \<Rightarrow> process \<Rightarrow> lsof_state \<Rightarrow> lsof_state result" where
  "lsof sy fl f s =
     (let f = f\<lparr>p_path := ''/proc/'' @ show_int (p_pid f) @ ''/''\<rparr>;
          (f, s) = (case sys_stat sy (p_path f) of
                      Inr st \<Rightarrow> ((case sys_user sy (st_uid st) of Some u \<Rightarrow> f\<lparr>p_user := u\<rparr> | None \<Rightarrow> f), s)
                    | Inl e \<Rightarrow> (f, s\<lparr>errno := e\<rparr>))
      in case sys_open sy (p_path f @ ''stat'') of
           Inl e \<Rightarrow> Exit 1 (s\<lparr>errno := e, ls_err := ls_err s @ [''Can'' @ [CHR 0x27] @ ''t open the stat file!'' @ [CHR 0x0A]]\<rparr>)
         | Inr txt \<Rightarrow>
             let command = command_of txt
             in if command = [] then Fault
                else
                  let f = f\<lparr>p_cmd := take (length command - 2) (drop 1 command)\<rparr>
                  in and_then (file_type sy fl (f\<lparr>p_dir := ''cwd''\<rparr>) s) (\<lambda>s.
                     and_then (file_type sy fl (f\<lparr>p_dir := ''root''\<rparr>) s) (\<lambda>s.
                     and_then (file_type sy fl (f\<lparr>p_dir := ''exe''\<rparr>) s) (\<lambda>s.
                     and_then (file_maps sy fl (f\<lparr>p_dir := ''maps''\<rparr>) s)
                       (file_fd sy fl (f\<lparr>p_dir := ''fd''\<rparr>))))))"

section \<open>The main program\<close>

definition type_names :: "string list" where
  "type_names = [''REG'', ''CHR'', ''DIR'', ''FIFO'', ''SOCK'']"

text \<open>Option number \<open>i\<close> takes \<open>argv[2 * i + 2]\<close>, the element \<open>2 * i + 1\<close> behind \<open>argv[0]\<close>; behind
  the last one there is a null pointer.\<close>

fun set_filters :: "nat \<Rightarrow> (opt \<times> string list) list \<Rightarrow> filters \<Rightarrow> lsof_state \<Rightarrow> (filters \<times> lsof_state) result" where
  "set_filters i [] fl s = Go (fl, s)"
| "set_filters i ((o', argv) # os) fl s =
     (let arg = (if 2 * i + 1 < length argv then Some (argv ! (2 * i + 1)) else None)
      in case o' of
           Opt c a \<Rightarrow>
             if c = CHR ''c'' then
               (case arg of None \<Rightarrow> Fault | Some v \<Rightarrow> set_filters (i + 1) os (fl\<lparr>f_cmd := Some v\<rparr>) s)
             else if c = CHR ''t'' then
               (case arg of
                  None \<Rightarrow> Fault
                | Some v \<Rightarrow>
                    if v \<notin> set type_names
                    then Exit 1 (fl, s\<lparr>ls_out := ls_out s @ [''Invalid TYPE option.'' @ [CHR 0x0A]]\<rparr>)
                    else set_filters (i + 1) os (fl\<lparr>f_type := Some v\<rparr>) s)
             else if c = CHR ''f'' then
               (case arg of None \<Rightarrow> Fault | Some v \<Rightarrow> set_filters (i + 1) os (fl\<lparr>f_name := Some v\<rparr>) s)
             else set_filters (i + 1) os fl s
         | Bad \<Rightarrow> set_filters (i + 1) os fl s)"

definition no_filters :: filters where
  "no_filters = \<lparr>f_cmd = None, f_type = None, f_name = None\<rparr>"

definition new_process :: "int \<Rightarrow> process" where
  "new_process pid = \<lparr>p_pid = pid, p_path = [], p_dir = [], p_cmd = [], p_user = [], p_type = [], p_fd = [],
     p_inode = [], p_name = []\<rparr>"

definition list_entry :: "sys \<Rightarrow> filters \<Rightarrow> string \<Rightarrow> lsof_state \<Rightarrow> lsof_state result" where
  "list_entry sy fl d s =
     (if d = ''.'' \<or> d = ''..'' then Go s
      else let pid = sint (atoi d) in if pid = 0 then Go s else lsof sy fl (new_process pid) s)"

definition lsof_main :: "sys \<Rightarrow> string list \<Rightarrow> lsof_state \<Rightarrow> lsof_state result" where
  "lsof_main sy args s =
     (case set_filters 0 (getopt_steps {CHR ''?''} {CHR ''c'', CHR ''t'', CHR ''f''} [] [] args) no_filters s of
        Go (fl, s) \<Rightarrow>
          let s = s\<lparr>ls_out := ls_out s @ [row ''COMMAND'' ''PID'' ''USER'' ''FD'' ''TYPE'' ''NODE'' ''NAME'']\<rparr>
          in (case sys_opendir sy ''/proc/'' of
                Inl e \<Rightarrow> Fault
              | Inr ds \<Rightarrow> for_each ds (list_entry sy fl) s)
      | Exit n (fl, s) \<Rightarrow> Exit n s
      | _ \<Rightarrow> Fault)"

end
