(* ===== verification/Lsof_Spec.thy ===== *)
theory Lsof_Spec
  imports Lsof "HOL-Library.Sublist"
begin

text \<open>
  What the file lister prints: the marks of deleted files, the mapped files against a reference
  that removes repeated inodes, the rows of descriptors, and how it reads its options.
\<close>

section \<open>Names with a mark\<close>

lemma find_str_at: "find_str pat s = Some i \<Longrightarrow> take (length pat) (drop i s) = pat"
proof (induction s arbitrary: i)
  case (Cons c cs)
  then show ?case by (auto split: if_splits)
qed (auto split: if_splits)

lemma find_str_none: "find_str pat s = None \<longleftrightarrow> \<not> sublist pat s"
proof (induction s)
  case (Cons c cs)
  have "take (length pat) (c # cs) = pat \<longleftrightarrow> prefix pat (c # cs)"
    by (metis append_eq_conv_conj prefix_def take_is_prefix)
  then show ?case using Cons by (auto simp: sublist_Cons_right)
qed auto

lemma strip_deleted_result:
  "\<not> sublist deleted_mark (p_name (strip_deleted f)) \<and>
   (sublist deleted_mark (p_name f) \<longrightarrow>
      p_fd (strip_deleted f) = ''DEL'' \<and> p_type (strip_deleted f) = ''unknown'') \<and>
   (\<not> sublist deleted_mark (p_name f) \<longrightarrow> strip_deleted f = f) \<and>
   p_pid (strip_deleted f) = p_pid f \<and> p_cmd (strip_deleted f) = p_cmd f \<and>
   p_user (strip_deleted f) = p_user f \<and> p_inode (strip_deleted f) = p_inode f"
proof (induction f rule: strip_deleted.induct)
  case (1 f)
  show ?case
  proof (cases "find_str deleted_mark (p_name f)")
    case None
    then have "strip_deleted f = f" by (subst strip_deleted.simps) simp
    then show ?thesis using None find_str_none [of deleted_mark "p_name f"] by simp
  next
    case (Some i)
    let ?g = "f\<lparr>p_name := take i (p_name f) @ drop (i + 9) (p_name f), p_fd := ''DEL'', p_type := ''unknown''\<rparr>"
    have "strip_deleted f = strip_deleted ?g" using Some by (subst strip_deleted.simps) simp
    moreover have "sublist deleted_mark (p_name f)" using Some find_str_none [of deleted_mark "p_name f"] by auto
    ultimately show ?thesis
      using 1 [OF Some] by (cases "sublist deleted_mark (p_name ?g)") simp_all
  qed
qed

section \<open>Rows without filters\<close>

definition row_of :: "process \<Rightarrow> string" where
  "row_of f = (let f = strip_deleted (fd_name f)
     in row (p_cmd f) (show_int (p_pid f)) (p_user f) (p_fd f) (p_type f) (p_inode f) (p_name f))"

lemma print_unfiltered:
  "print_result sy no_filters f s = Go (s\<lparr>ls_out := ls_out s @ [row_of f]\<rparr>)"
  by (simp add: print_result_def no_filters_def pattern_ok_def matches_def row_of_def Let_def)

section \<open>Mapped files\<close>

text \<open>The reference: the inodes and paths of the lines that map the beginning of a file, and of
  those the ones whose inode is not that of the line before, starting with the inode \<open>x\<close>.\<close>

definition candidate :: "string list \<Rightarrow> bool" where
  "candidate w \<longleftrightarrow> w ! 2 = ''00000000'' \<and> w ! 4 \<noteq> ''0'' \<and> w ! 3 \<noteq> ''00:00''"

definition mapped :: "string list \<Rightarrow> (string \<times> string) list" where
  "mapped ls = map (\<lambda>w. (w ! 4, w ! 5)) (filter candidate (map words ls))"

fun changes :: "'a \<Rightarrow> ('a \<times> 'b) list \<Rightarrow> ('a \<times> 'b) list" where
  "changes x [] = []"
| "changes x ((y, b) # ps) = (if y = x then changes x ps else (y, b) # changes y ps)"

lemma changes_remdups: "map fst (changes x ps) = tl (remdups_adj (x # map fst ps))"
  by (induction x ps rule: changes.induct) (auto simp: remdups_adj_Cons split: list.split)

definition maps_line :: "string \<Rightarrow> bool" where
  "maps_line l \<longleftrightarrow> 6 \<le> length (words l) \<or> length (words l) = 5 \<and> words l ! 4 = ''0''"

lemma read_fields_line:
  assumes "maps_line l" and "length fs = 6"
  shows "length (read_fields l fs) = 6" and "i < 5 \<Longrightarrow> read_fields l fs ! i = words l ! i"
    and "words l ! 4 \<noteq> ''0'' \<Longrightarrow> read_fields l fs ! 5 = words l ! 5"
  using assms by (auto simp: maps_line_def read_fields_def nth_append min_def)

lemma maps_loop_unfiltered:
  assumes "\<forall>l \<in> set ls. maps_line l" and "length fs = 6"
  shows "maps_loop sy no_filters ls fs f s =
    Go (s\<lparr>ls_out := ls_out s @ map (\<lambda>(inode, path). row_of (f\<lparr>p_inode := inode, p_name := path\<rparr>))
                                 (changes (p_inode f) (mapped ls))\<rparr>)"
  using assms
proof (induction ls arbitrary: fs f s)
  case Nil
  then show ?case by (simp add: mapped_def)
next
  case (Cons l ls)
  let ?fs = "read_fields l fs" let ?w = "words l"
  have line: "maps_line l" and rest: "\<forall>l \<in> set ls. maps_line l" using Cons.prems(1) by auto
  note fields = read_fields_line [OF line Cons.prems(2)]
  have test: "?fs ! 2 = ?w ! 2" "?fs ! 3 = ?w ! 3" "?fs ! 4 = ?w ! 4" by (simp_all add: fields(2))
  show ?case
  proof (cases "candidate ?w \<and> ?w ! 4 \<noteq> p_inode f")
    case True
    then have "?fs ! 5 = ?w ! 5" by (intro fields(3)) (simp add: candidate_def)
    then show ?thesis
      using True Cons.IH [OF rest fields(1)]
      by (simp add: test candidate_def print_unfiltered mapped_def Let_def)
  next
    case False
    then have skip: "\<not> (?w ! 2 = ''00000000'' \<and> ?w ! 4 \<noteq> ''0'' \<and> ?w ! 3 \<noteq> ''00:00'' \<and> ?w ! 4 \<noteq> p_inode f)"
      by (simp add: candidate_def)
    have "changes (p_inode f) (mapped (l # ls)) = changes (p_inode f) (mapped ls)"
      using False by (auto simp: mapped_def)
    then show ?thesis using Cons.IH [OF rest fields(1), of f s] skip by (simp add: test Let_def del: de_Morgan_conj)
  qed
qed

section \<open>Modes\<close>

lemma mode_bits:
  "m AND 0x180 = 0x180 \<longleftrightarrow> bit m 8 \<and> bit m 7" "m AND 0x100 = 0x100 \<longleftrightarrow> bit m 8"
  "m AND 0x80 = 0x80 \<longleftrightarrow> bit m 7" for m :: u32
proof -
  have pow: "m AND push_bit k 1 = push_bit k 1 \<longleftrightarrow> bit m k" if "k < 32" for k
  proof
    assume "m AND push_bit k 1 = push_bit k 1"
    then have "bit (m AND push_bit k 1) k \<longleftrightarrow> bit (push_bit k 1 :: u32) k" by simp
    then show "bit m k" using that by (simp add: bit_and_iff bit_push_bit_iff bit_exp_iff)
  next
    assume "bit m k"
    then show "m AND push_bit k 1 = push_bit k 1"
      by (intro bit_word_eqI) (auto simp: bit_and_iff bit_push_bit_iff bit_1_iff bit_exp_iff)
  qed
  have or: "(0x180 :: u32) = push_bit 8 1 OR push_bit 7 1" by simp
  have both: "m AND 0x180 = 0x180 \<longleftrightarrow> bit m 8 \<and> bit m 7"
  proof
    assume "m AND 0x180 = 0x180"
    then have "bit (m AND 0x180) k \<longleftrightarrow> bit (0x180 :: u32) k" for k by simp
    from this [of 8] this [of 7] show "bit m 8 \<and> bit m 7" by (simp add: bit_and_iff)
  next
    assume "bit m 8 \<and> bit m 7"
    then have "m AND push_bit 8 1 = push_bit 8 1" "m AND push_bit 7 1 = push_bit 7 1"
      using pow [of 8] pow [of 7] by auto
    then show "m AND 0x180 = 0x180" by (simp only: or bit.conj_disj_distrib)
  qed
  show "m AND 0x180 = 0x180 \<longleftrightarrow> bit m 8 \<and> bit m 7" using both by simp
  show "m AND 0x100 = 0x100 \<longleftrightarrow> bit m 8" using pow [of 8] by simp
  show "m AND 0x80 = 0x80 \<longleftrightarrow> bit m 7" using pow [of 7] by simp
qed

section \<open>Descriptors\<close>

text \<open>The rows of descriptors, said for each entry of the directory alone. \<open>unmarked\<close> is a name
  without its marks.\<close>

function unmarked :: "string \<Rightarrow> string" where
  "unmarked l = (case find_str deleted_mark l of None \<Rightarrow> l | Some i \<Rightarrow> unmarked (take i l @ drop (i + 9) l))"
  by auto
termination
proof (relation "measure length", goal_cases)
  case (2 l i)
  then show ?case using find_str_bound [of deleted_mark l i] by (simp add: deleted_mark_def)
qed simp

declare unmarked.simps [simp del]

definition fd_path :: "process \<Rightarrow> string \<Rightarrow> string" where
  "fd_path f d = p_path f @ ''fd/'' @ d"

definition fd_readable :: "sys \<Rightarrow> process \<Rightarrow> string \<Rightarrow> bool" where
  "fd_readable sy f d \<longleftrightarrow> d \<noteq> ''.'' \<and> d \<noteq> ''..'' \<and> (\<exists>l. sys_readlink sy (fd_path f d) = Inr l)"

definition fd_letter :: "int + stat_t \<Rightarrow> string" where
  "fd_letter r = (case r of Inl e \<Rightarrow> [] | Inr st \<Rightarrow>
     if bit (st_mode st) 8 \<and> bit (st_mode st) 7 then ''u''
     else if bit (st_mode st) 8 then ''r'' else if bit (st_mode st) 7 then ''w'' else [])"

definition fd_row :: "sys \<Rightarrow> process \<Rightarrow> string \<Rightarrow> string" where
  "fd_row sy f d =
     (let path = fd_path f d;
          l = (case sys_readlink sy path of Inr l \<Rightarrow> l | Inl e \<Rightarrow> []);
          (type, inode) = (case sys_stat sy path of
             Inr st \<Rightarrow> (type_of (st_mode st), show_dec (st_ino st)) | Inl e \<Rightarrow> (''unknown'', []))
      in if sublist deleted_mark l
         then row (p_cmd f) (show_int (p_pid f)) (p_user f) ''DEL'' ''unknown'' inode (unmarked l)
         else row (p_cmd f) (show_int (p_pid f)) (p_user f) (d @ fd_letter (sys_lstat sy path)) type inode l)"

lemma strip_deleted_name: "p_name (strip_deleted f) = unmarked (p_name f)"
proof (induction f rule: strip_deleted.induct)
  case (1 f)
  show ?case
  proof (cases "find_str deleted_mark (p_name f)")
    case None
    then show ?thesis by (simp add: strip_deleted.simps [of f] unmarked.simps [of "p_name f"])
  next
    case (Some i)
    then show ?thesis
      using 1 [OF Some] by (simp add: strip_deleted.simps [of f] unmarked.simps [of "p_name f"])
  qed
qed

lemma row_of_marked:
  assumes "p_dir f = ''fd''"
  shows "row_of f = (if sublist deleted_mark (p_name f)
    then row (p_cmd f) (show_int (p_pid f)) (p_user f) ''DEL'' ''unknown'' (p_inode f) (unmarked (p_name f))
    else row (p_cmd f) (show_int (p_pid f)) (p_user f) (p_fd f) (p_type f) (p_inode f) (p_name f))"
proof -
  have "fd_name f = f" using assms by (simp add: fd_name_def)
  then show ?thesis using strip_deleted_result [of f] strip_deleted_name [of f] by (auto simp: row_of_def Let_def)
qed

text \<open>The process \<open>f\<close> of the loop differs from the one it started with in what every row sets anew.\<close>

definition same_process :: "process \<Rightarrow> process \<Rightarrow> bool" where
  "same_process f g \<longleftrightarrow> p_pid f = p_pid g \<and> p_cmd f = p_cmd g \<and> p_user f = p_user g \<and> p_path f = p_path g \<and>
     p_dir f = p_dir g"

lemma fd_loop_rows:
  assumes "\<forall>d \<in> set ds. \<forall>l. sys_readlink sy (fd_path f d) = Inr l \<longrightarrow>
      length l < PATH_MAX \<and> (\<exists>st. sys_lstat sy (fd_path f d) = Inr st)"
    and "same_process f g" and "p_dir f = ''fd''"
  shows "\<exists>e. fd_loop sy no_filters ds f s =
    Go (s\<lparr>errno := e, ls_out := ls_out s @ map (fd_row sy g) (filter (fd_readable sy g) ds)\<rparr>)"
  using assms
proof (induction ds arbitrary: f s)
  case Nil
  then show ?case by (intro exI [of _ "errno s"]) simp
next
  case (Cons d ds)
  have path: "p_path f @ p_dir f @ ''/'' @ d = fd_path g d" "fd_path f = fd_path g"
    using Cons.prems(2,3) by (simp_all add: fd_path_def same_process_def fun_eq_iff)
  have rest: "\<forall>d \<in> set ds. \<forall>l. sys_readlink sy (fd_path g d) = Inr l \<longrightarrow>
      length l < PATH_MAX \<and> (\<exists>st. sys_lstat sy (fd_path g d) = Inr st)"
    using Cons.prems(1) path by simp
  show ?case
  proof (cases "fd_readable sy g d")
    case False
    have skip: "\<exists>e. fd_loop sy no_filters (d # ds) f s = fd_loop sy no_filters ds f (s\<lparr>errno := e\<rparr>)"
      using False path(1) by (cases s) (auto simp: fd_readable_def Let_def split: sum.split)
    then obtain e where e: "fd_loop sy no_filters (d # ds) f s = fd_loop sy no_filters ds f (s\<lparr>errno := e\<rparr>)" by blast
    have "\<forall>d \<in> set ds. \<forall>l. sys_readlink sy (fd_path f d) = Inr l \<longrightarrow>
        length l < PATH_MAX \<and> (\<exists>st. sys_lstat sy (fd_path f d) = Inr st)" using Cons.prems(1) by simp
    from Cons.IH [OF this Cons.prems(2,3), of "s\<lparr>errno := e\<rparr>"] show ?thesis unfolding e using False by simp
  next
    case True
    then obtain l st where l: "sys_readlink sy (fd_path g d) = Inr l" "length l < PATH_MAX"
      and st: "sys_lstat sy (fd_path g d) = Inr st" and dots: "d \<noteq> ''.''" "d \<noteq> ''..''"
      using Cons.prems(1) path(2) by (auto simp: fd_readable_def)
    have letter: "mode_letter (st_mode st) = fd_letter (sys_lstat sy (fd_path g d))"
      using st by (simp add: mode_letter_def mode_bits fd_letter_def)
    have "\<exists>f' e. fd_loop sy no_filters (d # ds) f s =
        fd_loop sy no_filters ds f' (s\<lparr>errno := e, ls_out := ls_out s @ [fd_row sy g d]\<rparr>) \<and>
        same_process f' g \<and> p_dir f' = ''fd''"
    proof (cases "sys_stat sy (fd_path g d)")
      case (Inl e)
      let ?f = "f\<lparr>p_name := l, p_type := ''unknown'', p_inode := [], p_fd := d @ mode_letter (st_mode st)\<rparr>"
      have "row_of ?f = fd_row sy g d"
        using Inl l st Cons.prems(2,3) by (simp add: row_of_marked fd_row_def letter same_process_def)
      moreover have "fd_loop sy no_filters (d # ds) f s =
          fd_loop sy no_filters ds ?f (s\<lparr>errno := e, ls_out := ls_out s @ [row_of ?f]\<rparr>)"
        using Inl l st dots by (cases s) (simp add: path(1) [simplified] Let_def print_unfiltered)
      moreover have "same_process ?f g" "p_dir ?f = ''fd''"
        using Cons.prems(2,3) by (simp_all add: same_process_def)
      ultimately show ?thesis by metis
    next
      case (Inr st')
      let ?f = "(set_stat st' (f\<lparr>p_name := l\<rparr>))\<lparr>p_fd := d @ mode_letter (st_mode st)\<rparr>"
      have "row_of ?f = fd_row sy g d"
        using Inr l st Cons.prems(2,3) by (simp add: row_of_marked fd_row_def letter same_process_def set_stat_def)
      moreover have "fd_loop sy no_filters (d # ds) f s =
          fd_loop sy no_filters ds ?f (s\<lparr>errno := errno s, ls_out := ls_out s @ [row_of ?f]\<rparr>)"
        using Inr l st dots by (cases s) (simp add: path(1) [simplified] Let_def print_unfiltered)
      moreover have "same_process ?f g" "p_dir ?f = ''fd''"
        using Cons.prems(2,3) by (simp_all add: same_process_def set_stat_def)
      ultimately show ?thesis by metis
    qed
    then obtain f' e where next_round: "fd_loop sy no_filters (d # ds) f s =
        fd_loop sy no_filters ds f' (s\<lparr>errno := e, ls_out := ls_out s @ [fd_row sy g d]\<rparr>)"
      and f': "same_process f' g" "p_dir f' = ''fd''" by blast
    have "fd_path f' = fd_path g" using f' by (simp add: fd_path_def same_process_def fun_eq_iff)
    then have "\<forall>d \<in> set ds. \<forall>l. sys_readlink sy (fd_path f' d) = Inr l \<longrightarrow>
        length l < PATH_MAX \<and> (\<exists>st. sys_lstat sy (fd_path f' d) = Inr st)" using rest by simp
    from Cons.IH [OF this f', of "s\<lparr>errno := e, ls_out := ls_out s @ [fd_row sy g d]\<rparr>"] show ?thesis
      unfolding next_round using True by simp
  qed
qed

section \<open>A small system\<close>

definition small_sys :: sys where
  "small_sys = \<lparr>sys_stat = (\<lambda>p. Inr \<lparr>st_mode = 0x8180, st_ino = 7, st_uid = 0\<rparr>),
     sys_lstat = (\<lambda>p. Inr \<lparr>st_mode = 0xA180, st_ino = 8, st_uid = 0\<rparr>),
     sys_readlink = (\<lambda>p. Inr ''/tmp/a''), sys_opendir = (\<lambda>p. Inr [''.'', ''3'']),
     sys_open = (\<lambda>p. Inl ENOENT), sys_user = (\<lambda>u. Some ''root''), sys_strerror = (\<lambda>e. ''error''),
     regex_ok = (\<lambda>r. True), regex_match = (\<lambda>r t. False)\<rparr>"

lemma small_sys_simps [simp]:
  "sys_stat small_sys p = Inr \<lparr>st_mode = 0x8180, st_ino = 7, st_uid = 0\<rparr>"
  "sys_lstat small_sys p = Inr \<lparr>st_mode = 0xA180, st_ino = 8, st_uid = 0\<rparr>"
  "sys_readlink small_sys p = Inr ''/tmp/a''" "sys_opendir small_sys p = Inr [''.'', ''3'']"
  "sys_open small_sys p = Inl ENOENT" "sys_user small_sys u = Some ''root''"
  "sys_strerror small_sys e = ''error''" "regex_ok small_sys r"
  by (simp_all add: small_sys_def)

text \<open>A directory of descriptors with one of a deleted file and one whose link cannot be read.\<close>

definition fd_sys :: sys where
  "fd_sys = small_sys\<lparr>sys_readlink := (\<lambda>p. if p = ''fd/3'' then Inr ''/tmp/a''
     else if p = ''fd/4'' then Inr ''/tmp/b (deleted)'' else Inl EACCES)\<rparr>"

definition empty_lsof :: lsof_state where
  "empty_lsof = \<lparr>errno = 0, ls_out = [], ls_err = []\<rparr>"

lemma empty_lsof_simps [simp]: "errno empty_lsof = 0" "ls_out empty_lsof = []" "ls_err empty_lsof = []"
  by (simp_all add: empty_lsof_def)

section \<open>Options\<close>

definition add_filter :: "filters \<Rightarrow> char \<times> string \<Rightarrow> filters" where
  "add_filter fl x = (case x of (c, a) \<Rightarrow>
     if c = CHR ''c'' then fl\<lparr>f_cmd := Some a\<rparr>
     else if c = CHR ''t'' then fl\<lparr>f_type := Some a\<rparr> else fl\<lparr>f_name := Some a\<rparr>)"

definition filter_opt :: "char \<times> string \<Rightarrow> bool" where
  "filter_opt x \<longleftrightarrow> (case x of (c, a) \<Rightarrow>
     c = CHR ''c'' \<or> c = CHR ''f'' \<or> c = CHR ''t'' \<and> a \<in> set type_names)"

lemma nth_opt_args: "i < length xs \<Longrightarrow> concat (map opt_arg xs) ! (2 * i + 1) = snd (xs ! i)"
proof (induction xs arbitrary: i)
  case (Cons x xs)
  then show ?case by (cases i) (auto simp: opt_arg_def split_beta)
qed simp

lemma length_opt_args: "length (concat (map opt_arg xs)) = 2 * length xs"
  by (induction xs) (auto simp: opt_arg_def split_beta)

lemma set_filters_pairs:
  assumes "list_all filter_opt xs"
  shows "i + length ys = length xs \<Longrightarrow> ys = drop i xs \<Longrightarrow>
    set_filters i (map (\<lambda>(c, a). (Opt c a, concat (map opt_arg xs))) ys) fl s = Go (foldl add_filter fl ys, s)"
proof (induction ys arbitrary: i fl)
  case (Cons y ys)
  obtain c a where y: "y = (c, a)" by (cases y)
  have i: "i < length xs" using Cons.prems(1) by simp
  have "drop i xs = xs ! i # drop (i + 1) xs" using i by (simp add: Cons_nth_drop_Suc)
  then have at: "xs ! i = (c, a)" and rest: "ys = drop (i + 1) xs" using Cons.prems(2) y by auto
  have "filter_opt (c, a)" using assms i at by (metis list_all_length)
  moreover have "concat (map opt_arg xs) ! (2 * i + 1) = a" using nth_opt_args [OF i] at by simp
  moreover have "2 * i + 1 < length (concat (map opt_arg xs))" using i length_opt_args [of xs] by simp
  ultimately show ?case
    using Cons.IH [of "i + 1"] Cons.prems(1) rest y
    by (auto simp: filter_opt_def add_filter_def Let_def)
qed simp

section \<open>Properties\<close>

text \<open>C25. Without filters the mapped files that are printed are the lines of the map at offset 0 of a
  file, less those with the inode of the line printed before (the program file counts as
  printed before the first): the inodes are those of the reference that removes adjacent
  repetitions. A file that is mapped again after another one is printed again.\<close>

theorem maps_rows:
  assumes "\<forall>l \<in> set ls. maps_line l"
  shows "\<exists>ps. map fst ps = tl (remdups_adj (p_inode f # map fst (mapped ls))) \<and> set ps \<subseteq> set (mapped ls) \<and>
    maps_loop sy no_filters ls (replicate 6 []) f s =
      Go (s\<lparr>ls_out := ls_out s @ map (\<lambda>(inode, path). row_of (f\<lparr>p_inode := inode, p_name := path\<rparr>)) ps\<rparr>)"
proof -
  have "set (changes x ps) \<subseteq> set ps" for x :: string and ps :: "(string \<times> string) list"
    by (induction x ps rule: changes.induct) auto
  then show ?thesis
    using maps_loop_unfiltered [OF assms, of "replicate 6 []" sy f s] changes_remdups by (metis length_replicate)
qed

definition small_maps :: "string list" where
  "small_maps = map (\<lambda>p. ''0 r 00000000 08:02 '' @ p) [''1 a'', ''2 b'', ''1 a'']"

theorem maps_rows_witness:
  "\<exists>s'. maps_loop small_sys no_filters small_maps (replicate 6 []) (new_process 5) empty_lsof = Go s' \<and>
     length (ls_out s') = 3"
proof -
  have "words (''0 r 00000000 08:02 '' @ [i, CHR '' '', p]) = [''0'', ''r'', ''00000000'', ''08:02'', [i], [p]]"
    if "\<not> isspace i" "\<not> isspace p" for i p
    using that words_word [of "''0''" "''r 00000000 08:02 '' @ [i, CHR '' '', p]"]
      words_word [of "''r''" "''00000000 08:02 '' @ [i, CHR '' '', p]"]
      words_word [of "''00000000''" "''08:02 '' @ [i, CHR '' '', p]"]
      words_word [of "''08:02''" "[i, CHR '' '', p]"] words_word [of "[i]" "[p]"] words_last [of "[p]"]
    by (simp add: word_ok_def isspace_def)
  then have w: "map words small_maps = map (\<lambda>(i, p). [''0'', ''r'', ''00000000'', ''08:02'', [i], [p]])
      [(CHR ''1'', CHR ''a''), (CHR ''2'', CHR ''b''), (CHR ''1'', CHR ''a'')]"
    by (simp add: small_maps_def isspace_def)
  have "\<forall>x \<in> set (map words small_maps). length x = 6" unfolding w by simp
  then have lines: "\<forall>l \<in> set small_maps. maps_line l" by (simp add: maps_line_def)
  have "mapped small_maps = [(''1'', ''a''), (''2'', ''b''), (''1'', ''a'')]"
    unfolding mapped_def w by (simp add: candidate_def)
  moreover obtain ps where ps: "map fst ps = tl (remdups_adj (p_inode (new_process 5) # map fst (mapped small_maps)))"
    and go: "maps_loop small_sys no_filters small_maps (replicate 6 []) (new_process 5) empty_lsof =
      Go (empty_lsof\<lparr>ls_out := ls_out empty_lsof @
            map (\<lambda>(inode, path). row_of ((new_process 5)\<lparr>p_inode := inode, p_name := path\<rparr>)) ps\<rparr>)"
    using maps_rows [OF lines, of "new_process 5" small_sys empty_lsof] by blast
  ultimately have "length (map fst ps) = 3" by (simp add: new_process_def)
  then show ?thesis unfolding go by simp
qed

text \<open>A printed name has no mark \<open>(deleted)\<close> left. A row whose name had one is shown as DEL and
  unknown, whatever descriptor and type it had, and every other row is left as it is.\<close>

lemma deleted_rows:
  "\<not> sublist deleted_mark (p_name (strip_deleted f)) \<and>
   (if sublist deleted_mark (p_name f)
    then p_fd (strip_deleted f) = ''DEL'' \<and> p_type (strip_deleted f) = ''unknown'' else strip_deleted f = f) \<and>
   p_pid (strip_deleted f) = p_pid f \<and> p_cmd (strip_deleted f) = p_cmd f \<and>
   p_user (strip_deleted f) = p_user f \<and> p_inode (strip_deleted f) = p_inode f"
  using strip_deleted_result [of f] by simp

text \<open>C28. The descriptors of a process are shown in the order of the directory, one row for each entry
  whose link can be read and none for the others. The row has the target of the link, the inode
  and the type of the file (\<open>unknown\<close> without an inode if \<open>stat\<close> fails), and the number with a letter
  for the owner permissions of the link: \<open>u\<close> for reading and writing, \<open>r\<close> or \<open>w\<close> for one of them, none
  otherwise. A link with the mark of a deleted file loses the number, the letter and the
  type: it is shown as DEL and \<open>unknown\<close>, which the specification of the homework has for maps only.\<close>

theorem descriptor_rows:
  assumes "p_dir f = ''fd''"
    and "\<forall>d \<in> set ds. \<forall>l. sys_readlink sy (fd_path f d) = Inr l \<longrightarrow>
      length l < PATH_MAX \<and> (\<exists>st. sys_lstat sy (fd_path f d) = Inr st)"
  shows "\<exists>e. fd_loop sy no_filters ds f s =
    Go (s\<lparr>errno := e, ls_out := ls_out s @ map (fd_row sy f) (filter (fd_readable sy f) ds)\<rparr>)"
  using fd_loop_rows [OF assms(2) _ assms(1)] by (simp add: same_process_def)

theorem descriptor_rows_witness:
  "\<exists>s'. fd_loop fd_sys no_filters [''.'', ''3'', ''4'', ''5''] ((new_process 5)\<lparr>p_dir := ''fd''\<rparr>) empty_lsof = Go s' \<and>
     ls_out s' = [row [] ''5'' [] ''3u'' ''REG'' ''7'' ''/tmp/a'', row [] ''5'' [] ''DEL'' ''unknown'' ''7'' ''/tmp/b '']"
proof -
  let ?f = "(new_process 5)\<lparr>p_dir := ''fd''\<rparr>"
  have "show_int 5 = ''5''" "show_dec 7 = ''7''" by code_simp+
  moreover have "type_of 0x8180 = ''REG''" by (simp add: type_of_def Let_def)
  moreover have "sublist deleted_mark ''/tmp/b (deleted)''" "\<not> sublist deleted_mark ''/tmp/a''"
    "find_str deleted_mark ''/tmp/b (deleted)'' = Some 7" "find_str deleted_mark ''/tmp/b '' = None"
    by (simp_all add: deleted_mark_def sublist_Cons_right)
  ultimately have rows: "map (fd_row fd_sys ?f) (filter (fd_readable fd_sys ?f) [''.'', ''3'', ''4'', ''5'']) =
      [row [] ''5'' [] ''3u'' ''REG'' ''7'' ''/tmp/a'', row [] ''5'' [] ''DEL'' ''unknown'' ''7'' ''/tmp/b '']"
    by (simp add: fd_row_def fd_readable_def fd_path_def fd_letter_def fd_sys_def new_process_def Let_def
        unmarked.simps [of "''/tmp/b (deleted)''"] unmarked.simps [of "''/tmp/b ''"])
  have "p_dir ?f = ''fd''" "\<forall>d \<in> set [''.'', ''3'', ''4'', ''5'']. \<forall>l. sys_readlink fd_sys (fd_path ?f d) = Inr l \<longrightarrow>
      length l < PATH_MAX \<and> (\<exists>st. sys_lstat fd_sys (fd_path ?f d) = Inr st)"
    by (auto simp: fd_sys_def PATH_MAX_def)
  from descriptor_rows [OF this, of empty_lsof] show ?thesis unfolding rows by auto
qed

text \<open>C34. When \<open>errno\<close> is \<open>EACCES\<close> from an earlier call, the descriptors of a process are not listed
  although their directory can be read: one row NOFD is printed instead, and \<open>errno\<close> stays so
  for the next process.\<close>

theorem stale_errno_hides_descriptors:
  assumes "errno s = EACCES" and "sys_opendir sy (p_path f @ p_dir f) = Inr ds"
  shows "\<exists>f'. file_fd sy no_filters f s = Go (s\<lparr>ls_out := ls_out s @ [row_of f']\<rparr>) \<and> p_fd f' = ''NOFD'' \<and>
    p_type f' = [] \<and> errno (s\<lparr>ls_out := ls_out s @ [row_of f']\<rparr>) = EACCES"
  using assms
  by (intro exI [of _ "f\<lparr>p_type := [], p_inode := [], p_name := p_path f @ p_dir f @ '' (opendir: '' @ sys_strerror sy EACCES @ '')'',
      p_fd := ''NOFD''\<rparr>"]) (simp add: file_fd_def print_unfiltered Let_def)

theorem stale_errno_hides_descriptors_witness:
  "\<exists>s'. file_fd small_sys no_filters (new_process 5) (empty_lsof\<lparr>errno := EACCES\<rparr>) = Go s' \<and> length (ls_out s') = 1"
  using stale_errno_hides_descriptors [of "empty_lsof\<lparr>errno := EACCES\<rparr>" small_sys "new_process 5"] by auto

text \<open>Options with their arguments in the next places set the filters they name, the last one of
  each letter counting, if the types are among the five the program knows.\<close>

lemma options_set_filters:
  assumes "list_all filter_opt xs"
  shows "set_filters 0 (getopt_steps {CHR ''?''} {CHR ''c'', CHR ''t'', CHR ''f''} [] [] (concat (map opt_arg xs)))
      no_filters s = Go (foldl add_filter no_filters xs, s)"
proof -
  have "\<forall>(c, a) \<in> set xs. c \<in> {CHR ''c'', CHR ''t'', CHR ''f''} \<and> c \<noteq> CHR ''-''"
    using assms by (induction xs) (auto simp: filter_opt_def)
  from getopt_steps_opts_first [OF this, of "{CHR ''?''}" "[]"] show ?thesis
    using set_filters_pairs [OF assms, of 0 xs no_filters s] by (simp add: split_def)
qed

lemma options_set_filters_witness:
  "set_filters 0 (getopt_steps {CHR ''?''} {CHR ''c'', CHR ''t'', CHR ''f''} [] [] [''-c'', ''sh'', ''-t'', ''REG''])
     no_filters empty_lsof = Go (\<lparr>f_cmd = Some ''sh'', f_type = Some ''REG'', f_name = None\<rparr>, empty_lsof)"
  using options_set_filters [of "[(CHR ''c'', ''sh''), (CHR ''t'', ''REG'')]" empty_lsof]
  by (simp add: filter_opt_def opt_arg_def type_names_def add_filter_def no_filters_def)

text \<open>C35. An option with its argument attached makes the program read behind the end of \<open>argv\<close>: it
  looks for the argument at a fixed place of the command line, not where the option had it.\<close>

theorem attached_argument_faults:
  assumes "c \<in> {CHR ''c'', CHR ''t'', CHR ''f''}" and "a \<noteq> []"
  shows "lsof_main sy [CHR ''-'' # c # a] s = Fault"
proof -
  have opt: "getopt_steps {CHR ''?''} {CHR ''c'', CHR ''t'', CHR ''f''} [] [] [CHR ''-'' # c # a] =
      [(Opt c a, [CHR ''-'' # c # a])]"
    using assms by (auto simp: dashes_def is_option_def as_opt_def Let_def Suc_le_eq)
  then show ?thesis using assms(1) by (auto simp: lsof_main_def)
qed

theorem attached_argument_faults_witness:
  "lsof_main small_sys [''-csh''] empty_lsof = Fault"
  using attached_argument_faults [of "CHR ''c''" "''sh''" small_sys empty_lsof] by simp

text \<open>The option \<open>-t\<close> accepts exactly five types. Any other ends the program with a message and
  code 1, the type \<open>unknown\<close> included, which the program prints itself.\<close>

lemma type_option:
  "set_filters 0 (getopt_steps {CHR ''?''} {CHR ''c'', CHR ''t'', CHR ''f''} [] [] [''-t'', a]) no_filters s =
     (if a \<in> {''REG'', ''CHR'', ''DIR'', ''FIFO'', ''SOCK''} then Go (no_filters\<lparr>f_type := Some a\<rparr>, s)
      else Exit 1 (no_filters, s\<lparr>ls_out := ls_out s @ [''Invalid TYPE option.'' @ [CHR 0x0A]]\<rparr>))"
  by (auto simp: dashes_def is_option_def type_names_def)

text \<open>A process whose \<open>stat\<close> file is gone when the program comes to it ends the program with code 1:
  the processes behind it in \<open>/proc\<close> are not listed.\<close>

lemma vanished_process_ends:
  assumes "d \<noteq> ''.''" "d \<noteq> ''..''" and "sint (atoi d) \<noteq> 0"
    and "sys_open sy (''/proc/'' @ show_int (sint (atoi d)) @ ''/stat'') = Inl e"
  shows "\<exists>s'. for_each (d # ds) (list_entry sy fl) s = Exit 1 s' \<and> ls_out s' = ls_out s"
  using assms by (auto simp: list_entry_def lsof_def new_process_def Let_def split: sum.split option.split)

lemma vanished_process_ends_witness:
  "\<exists>s'. for_each [''5'', ''6''] (list_entry small_sys no_filters) empty_lsof = Exit 1 s' \<and> ls_out s' = []"
proof -
  have "show_dec 5 = ''5''" by code_simp
  then have "sint (atoi ''5'') \<noteq> 0" using atoi_dec [of 5] by simp
  then show ?thesis using vanished_process_ends [of "''5''" small_sys ENOENT "[''6'']" no_filters empty_lsof] by simp
qed

text \<open>The command of a row is the name in the \<open>stat\<close> file without its parentheses if the name has no
  space; of a name with a space only the first word is kept, without its last letter.\<close>

lemma command_name:
  assumes "word_ok pid" and "word_ok name"
  shows "command_of (pid @ '' ('' @ name @ '') '' @ rest) = ''('' @ name @ '')'' \<and>
    command_of (pid @ '' ('' @ name @ '' '' @ rest) = ''('' @ name \<and>
    take (length (''('' @ name @ '')'') - 2) (drop 1 (''('' @ name @ '')'')) = name \<and>
    take (length (''('' @ name) - 2) (drop 1 (''('' @ name)) = butlast name"
proof -
  have paren: "word_ok (''('' @ name @ '')'')" "word_ok (''('' @ name)"
    using assms(2) by (auto simp: word_ok_def isspace_def)
  have "words (pid @ '' ('' @ name @ '') '' @ rest) = pid # (''('' @ name @ '')'') # words rest"
    using words_word [OF assms(1), of "''('' @ name @ '') '' @ rest"] words_word [OF paren(1), of rest] by simp
  moreover have "words (pid @ '' ('' @ name @ '' '' @ rest) = pid # (''('' @ name) # words rest"
    using words_word [OF assms(1), of "''('' @ name @ '' '' @ rest"] words_word [OF paren(2), of rest] by simp
  moreover have "take (length name - 1) name = butlast name" by (simp add: butlast_conv_take)
  ultimately show ?thesis by (simp add: command_of_def)
qed

lemma command_name_witness:
  "command_of ''7 (sh) S'' = ''(sh)'' \<and> command_of ''7 (tmux: server) S'' = ''(tmux:''"
  using command_name [of "''7''" "''sh''" "''S''"] command_name [of "''7''" "''tmux:''" "''server) S''"]
  by (simp add: word_ok_def isspace_def)

end
