(* ===== verification/Lsof_Rows.thy ===== *)
theory Lsof_Rows
  imports Lsof_Spec
begin

text \<open>
  The whole run of the file lister: however it ends, every line it has printed is a row of its
  table, about a process under \<open>/proc\<close> and with what the filters let through.
\<close>

section \<open>Rows\<close>

definition types :: "string set" where
  "types = insert [] (insert ''unknown'' (set type_names))"

text \<open>The pids under \<open>/proc\<close>, and the command of a process, from its \<open>stat\<close> file.\<close>

definition proc_pids :: "sys \<Rightarrow> int set" where
  "proc_pids sy = {sint (atoi d) | d ds. sys_opendir sy ''/proc/'' = Inr ds \<and> d \<in> set ds} - {0}"

definition cmd_of :: "sys \<Rightarrow> int \<Rightarrow> string \<Rightarrow> bool" where
  "cmd_of sy pid cmd \<longleftrightarrow> (\<exists>txt. sys_open sy (''/proc/'' @ show_int pid @ ''/stat'') = Inr txt \<and>
     cmd = take (length (command_of txt) - 2) (drop 1 (command_of txt)))"

text \<open>A row: its process is one of those under \<open>/proc\<close> and its command that of the process, its type is
  one of the five, \<open>unknown\<close> or empty. The command has passed the filter, the type and the name too
  unless a mark was removed from the name; no mark is left in it.\<close>

definition typed_row :: "sys \<Rightarrow> filters \<Rightarrow> string \<Rightarrow> bool" where
  "typed_row sy fl r \<longleftrightarrow> (\<exists>cmd pid user fd type inode name.
     r = row cmd (show_int pid) user fd type inode name \<and> pid \<in> proc_pids sy \<and> cmd_of sy pid cmd \<and>
     type \<in> types \<and> matches sy (f_cmd fl) cmd \<and>
     (matches sy (f_type fl) type \<and> matches sy (f_name fl) name \<or> fd = ''DEL'' \<and> type = ''unknown'') \<and>
     \<not> sublist deleted_mark name)"

definition listed :: "sys \<Rightarrow> filters \<Rightarrow> string list \<Rightarrow> lsof_state \<Rightarrow> bool" where
  "listed sy fl out s \<longleftrightarrow> (\<exists>rows. ls_out s = out @ rows \<and> (\<forall>r \<in> set rows. typed_row sy fl r))"

lemma listed_simps [simp]:
  "listed sy fl out (s\<lparr>errno := e\<rparr>) = listed sy fl out s"
  "listed sy fl out (s\<lparr>errno := e, ls_err := es\<rparr>) = listed sy fl out s"
  by (simp_all add: listed_def)

lemma type_of_types [simp]: "type_of m \<in> types"
  by (simp add: type_of_def types_def type_names_def Let_def)

lemma types_consts [simp]: "[] \<in> types" "''unknown'' \<in> types"
  by (simp_all add: types_def)

text \<open>What every process record has when it is printed.\<close>

definition row_ok :: "sys \<Rightarrow> process \<Rightarrow> bool" where
  "row_ok sy f \<longleftrightarrow> p_pid f \<in> proc_pids sy \<and> cmd_of sy (p_pid f) (p_cmd f) \<and> p_type f \<in> types"

lemma row_ok_simps [simp]:
  "row_ok sy (f\<lparr>p_name := n\<rparr>) = row_ok sy f" "row_ok sy (f\<lparr>p_fd := d\<rparr>) = row_ok sy f"
  "row_ok sy (f\<lparr>p_inode := i\<rparr>) = row_ok sy f" "row_ok sy (f\<lparr>p_dir := n\<rparr>) = row_ok sy f"
  by (simp_all add: row_ok_def)

lemma print_result_ends:
  assumes "row_ok sy f" and "listed sy fl out s"
  shows "ends (listed sy fl out) (print_result sy fl f s)"
proof -
  let ?g = "strip_deleted (fd_name f)"
  have fd: "p_type (fd_name f) = p_type f" "p_pid (fd_name f) = p_pid f" "p_cmd (fd_name f) = p_cmd f"
    "p_name (fd_name f) = p_name f"
    by (simp_all add: fd_name_def)
  note strip = strip_deleted_result [of "fd_name f"]
  have "typed_row sy fl (row (p_cmd ?g) (show_int (p_pid ?g)) (p_user ?g) (p_fd ?g) (p_type ?g) (p_inode ?g) (p_name ?g))"
    if "matches sy (f_cmd fl) (p_cmd f)" "matches sy (f_type fl) (p_type f)" "matches sy (f_name fl) (p_name f)"
  proof -
    have "p_type ?g \<in> types \<and> (matches sy (f_type fl) (p_type ?g) \<and> matches sy (f_name fl) (p_name ?g) \<or>
        p_fd ?g = ''DEL'' \<and> p_type ?g = ''unknown'')"
      using strip that(2,3) assms(1) fd by (cases "sublist deleted_mark (p_name (fd_name f))") (auto simp: row_ok_def)
    then show ?thesis using strip that(1) assms(1) fd unfolding typed_row_def row_ok_def by metis
  qed
  then show ?thesis
    using assms(2) by (auto simp: print_result_def listed_def Let_def)
qed

section \<open>One process\<close>

lemma file_type_ends:
  "row_ok sy f \<Longrightarrow> listed sy fl out s \<Longrightarrow> ends (listed sy fl out) (file_type sy fl f s)"
  by (auto simp: file_type_def Let_def row_ok_def set_stat_def intro!: print_result_ends split: sum.split)

lemma maps_loop_ends:
  "row_ok sy f \<Longrightarrow> listed sy fl out s \<Longrightarrow> ends (listed sy fl out) (maps_loop sy fl ls fs f s)"
  by (induction ls arbitrary: fs f s) (auto simp: Let_def intro!: ends_and_then print_result_ends)

lemma file_maps_ends:
  "row_ok sy f \<Longrightarrow> listed sy fl out s \<Longrightarrow> ends (listed sy fl out) (file_maps sy fl f s)"
  by (auto simp: file_maps_def Let_def row_ok_def set_stat_def intro!: maps_loop_ends split: sum.split prod.split)

lemma fd_loop_ends:
  "row_ok sy f \<Longrightarrow> listed sy fl out s \<Longrightarrow> ends (listed sy fl out) (fd_loop sy fl ds f s)"
proof (induction ds arbitrary: f s)
  case (Cons d ds)
  then show ?case
    by (auto simp: Let_def row_ok_def set_stat_def intro!: ends_and_then print_result_ends split: sum.split)
qed simp

lemma file_fd_ends:
  "row_ok sy f \<Longrightarrow> listed sy fl out s \<Longrightarrow> ends (listed sy fl out) (file_fd sy fl f s)"
  by (auto simp: file_fd_def Let_def row_ok_def intro!: ends_and_then print_result_ends fd_loop_ends
      split: sum.split)

lemma lsof_ends:
  assumes "p_pid f \<in> proc_pids sy" and "p_type f = []" and "listed sy fl out s"
  shows "ends (listed sy fl out) (lsof sy fl f s)"
  using assms
  by (auto simp: lsof_def Let_def row_ok_def cmd_of_def
      intro!: ends_and_then file_type_ends file_maps_ends file_fd_ends split: sum.split option.split)

lemma list_entry_ends:
  "sys_opendir sy ''/proc/'' = Inr ds \<Longrightarrow> d \<in> set ds \<Longrightarrow> listed sy fl out s \<Longrightarrow>
    ends (listed sy fl out) (list_entry sy fl d s)"
  by (auto simp: list_entry_def Let_def new_process_def proc_pids_def intro!: lsof_ends)

section \<open>The whole program\<close>

abbreviation header_row :: string where
  "header_row \<equiv> row ''COMMAND'' ''PID'' ''USER'' ''FD'' ''TYPE'' ''NODE'' ''NAME''"

lemma lsof_main_ends:
  assumes "list_all filter_opt xs"
  shows "ends (listed sy (foldl add_filter no_filters xs) (ls_out s @ [header_row])) (lsof_main sy (concat (map opt_arg xs)) s)"
proof (cases "sys_opendir sy ''/proc/''")
  case (Inl e)
  then show ?thesis using options_set_filters [OF assms, of s] by (simp add: lsof_main_def Let_def)
next
  case (Inr ds)
  then show ?thesis
    using options_set_filters [OF assms, of s]
    by (auto simp: lsof_main_def listed_def intro!: ends_for_each list_entry_ends)
qed

section \<open>A system with one process\<close>

definition one_sys :: sys where
  "one_sys = small_sys\<lparr>sys_open := (\<lambda>p. if p = ''/proc/3/stat'' then Inr ''3 (sh) S'' else Inl ENOENT),
     regex_match := (\<lambda>r t. r = ''.*sh.*'' \<and> t = ''sh'')\<rparr>"

section \<open>Properties\<close>

text \<open>C24. However a run with options in the form the program expects ends (a fault apart), it has
  printed the header and behind it only rows: each is about a process with an entry in \<open>/proc\<close> and
  has the command of its \<open>stat\<close> file, the type is one of the five, \<open>unknown\<close> or empty, the command
  has passed the option \<open>-c\<close> and type and name have passed \<open>-t\<close> and \<open>-f\<close> unless the row is shown as
  DEL and unknown, and no name has a mark \<open>(deleted)\<close>.\<close>

theorem lister_rows:
  assumes "list_all filter_opt xs"
    and "lsof_main sy (concat (map opt_arg xs)) s = Go s' \<or> lsof_main sy (concat (map opt_arg xs)) s = Exit n s'"
  shows "\<exists>rows. ls_out s' = ls_out s @ header_row # rows \<and>
    (\<forall>r \<in> set rows. typed_row sy (foldl add_filter no_filters xs) r)"
  using lsof_main_ends [OF assms(1), of sy s] assms(2) by (auto simp: listed_def)

theorem lister_rows_witness:
  "\<exists>s' rows. lsof_main one_sys [''-c'', ''sh''] empty_lsof = Go s' \<and> ls_out s' = header_row # rows \<and>
     length rows = 4 \<and> (\<forall>r \<in> set rows. typed_row one_sys (no_filters\<lparr>f_cmd := Some ''sh''\<rparr>) r)"
proof -
  let ?xs = "[(CHR ''c'', ''sh'')]"
  have opts: "list_all filter_opt ?xs" by (simp add: filter_opt_def)
  have "show_dec 3 = ''3''" by code_simp
  then have pid: "sint (atoi ''3'') = 3" "show_int 3 = ''3''" using atoi_dec [of 3] by (simp_all add: show_int_def)
  have cmd: "command_of ''3 (sh) S'' = ''(sh)''"
    using command_name [of "''3''" "''sh''" "''S''"] by (simp add: word_ok_def isspace_def)
  have main: "lsof_main one_sys (concat (map opt_arg ?xs)) empty_lsof =
      list_entry one_sys (no_filters\<lparr>f_cmd := Some ''sh''\<rparr>) ''3'' (empty_lsof\<lparr>ls_out := [header_row]\<rparr>)"
  proof -
    have "sys_opendir one_sys p = Inr [''.'', ''3'']" for p by (simp add: one_sys_def)
    moreover have "list_entry sy fl ''.'' t = Go t" for sy fl t by (simp add: list_entry_def)
    ultimately show ?thesis
      using options_set_filters [OF opts, of empty_lsof] by (simp add: lsof_main_def add_filter_def Let_def)
  qed
  obtain s' where s': "lsof_main one_sys (concat (map opt_arg ?xs)) empty_lsof = Go s'" "length (ls_out s') = 5"
    unfolding main
    by (simp add: list_entry_def pid lsof_def new_process_def cmd file_type_def file_maps_def file_fd_def print_result_def
        pattern_ok_def matches_def any_pat_def no_filters_def Let_def one_sys_def PATH_MAX_def ENOENT_def EACCES_def set_stat_def)
  then obtain rows where "ls_out s' = ls_out empty_lsof @ header_row # rows"
    "\<forall>r \<in> set rows. typed_row one_sys (foldl add_filter no_filters ?xs) r"
    using lister_rows [OF opts, of one_sys empty_lsof s' 0] by blast
  then show ?thesis using s' by (auto simp: opt_arg_def add_filter_def)
qed

end
