(* ===== verification/Lsof_C.thy ===== *)
theory Lsof_C
  imports Lsof
begin

text \<open>
  The older file lister of hw1 in C (\<open>hw1.c\<close>): fixed arrays, two static link buffers and
  \<open>strtok\<close> instead of streams. The system is the record \<open>sys\<close> of the C++ version with what
  this one reads besides. \<open>Fault\<close> stands for every access outside of an object: a null pointer
  given to a string function, an array filled without its NUL, an index below 0.
\<close>

section \<open>The system\<close>

text \<open>\<open>reg_nomatch\<close>: \<open>regexec\<close> answers \<open>REG_NOMATCH\<close> for the pattern and the text.
  \<open>junk_inode\<close> and \<open>junk_file\<close> are what the arrays \<open>pre_inode\<close> and \<open>pre_file\<close> hold before the
  first assignment.\<close>

record csys = sys +
  reg_nomatch :: "string \<Rightarrow> string \<Rightarrow> bool"
  junk_inode :: string
  junk_file :: string

definition BUF_MAX :: nat where "BUF_MAX = 1024"
definition USER_DISPLAY_MAX :: nat where "USER_DISPLAY_MAX = 11"
definition CMD_DISPLAY_MAX :: nat where "CMD_DISPLAY_MAX = 10"

text \<open>\<open>option\<close> with \<open>arg1\<close> to \<open>arg3\<close>.\<close>

record copts =
  arg1 :: "string option"
  arg2 :: "string option"
  arg3 :: "string option"

text \<open>A link buffer is the list of its bytes up to the last one ever written; NULs follow.\<close>

record clister =
  file_buff :: string
  fd_buff :: string
  c_out :: "string list"
  c_err :: "string list"

text \<open>\<open>user\<close> and \<open>cmdline\<close> without the NULs behind them; \<open>path\<close> is the string in the array.\<close>

record pid_info_t =
  i_pid :: int
  i_user :: string
  i_cmdline :: string
  i_path :: string
  parent_length :: nat

text \<open>The arrays lie one behind the other in the structure: without a NUL in one of them \<open>%s\<close>
  reads on in the next.\<close>

definition cmdline_str :: "pid_info_t \<Rightarrow> string" where
  "cmdline_str info =
     (if length (i_cmdline info) < CMD_DISPLAY_MAX then i_cmdline info else i_cmdline info @ i_path info)"

definition user_str :: "pid_info_t \<Rightarrow> string" where
  "user_str info =
     (if length (i_user info) < USER_DISPLAY_MAX then i_user info else i_user info @ cmdline_str info)"

definition cut_path :: "nat \<Rightarrow> pid_info_t \<Rightarrow> pid_info_t" where
  "cut_path n info = info\<lparr>i_path := take n (i_path info)\<rparr>"

definition add_path :: "string \<Rightarrow> pid_info_t \<Rightarrow> pid_info_t" where
  "add_path t info = info\<lparr>i_path := i_path info @ t\<rparr>"

section \<open>Rows\<close>

definition c_row :: "string \<Rightarrow> string \<Rightarrow> string \<Rightarrow> string \<Rightarrow> string \<Rightarrow> string \<Rightarrow> string \<Rightarrow> string" where
  "c_row cmd pid user fd type inode name =
     (let sp = CHR '' ''
      in concat (map (\<lambda>t. pad_right sp 15 t @ [sp]) [cmd, pid, user, fd, type, inode]) @ name @ [CHR 0x0A])"

definition print_header :: "clister \<Rightarrow> clister" where
  "print_header s =
     s\<lparr>c_out := c_out s @ [c_row ''COMMAND'' ''PID'' ''USER'' ''FD'' ''TYPE'' ''NODE'' ''NAME'']\<rparr>"

text \<open>An argument that fills its array has no NUL.\<close>

definition arg_ok :: "string option \<Rightarrow> bool" where
  "arg_ok a \<longleftrightarrow> (case a of Some a \<Rightarrow> length a < BUF_MAX | None \<Rightarrow> True)"

definition nomatch :: "csys \<Rightarrow> string option \<Rightarrow> string \<Rightarrow> bool" where
  "nomatch sy a t \<longleftrightarrow> (case a of Some a \<Rightarrow> reg_nomatch sy a t | None \<Rightarrow> False)"

definition print_info ::
  "csys \<Rightarrow> copts \<Rightarrow> pid_info_t \<Rightarrow> string \<Rightarrow> string \<Rightarrow> string \<Rightarrow> string \<Rightarrow> clister \<Rightarrow> clister result" where
  "print_info sy op info fd type inode name s =
     (if \<not> (arg_ok (arg1 op) \<and> arg_ok (arg3 op)) then Fault
      else if \<not> nomatch sy (arg1 op) (cmdline_str info) \<and>
              (case arg2 op of Some t \<Rightarrow> type = t | None \<Rightarrow> True) \<and> \<not> nomatch sy (arg3 op) name
      then Go (s\<lparr>c_out := c_out s @ [c_row (cmdline_str info) (show_int (i_pid info)) (user_str info) fd type
                                       inode name]\<rparr>)
      else Go s)"

section \<open>Links\<close>

definition NUL :: char where "NUL = CHR 0x00"

definition cstr :: "string \<Rightarrow> string" where
  "cstr b = takeWhile (\<lambda>c. c \<noteq> NUL) b"

definition set_nul :: "nat \<Rightarrow> string \<Rightarrow> string" where
  "set_nul i b = (if i < length b then b[i := NUL] else b)"

text \<open>\<open>dirname\<close> of the C library: the index at which it puts the NUL, None for the string \<open>.\<close> it
  returns when there is no slash before the last component.\<close>

definition strip_slashes :: "string \<Rightarrow> string" where
  "strip_slashes p = rev (dropWhile (\<lambda>c. c = CHR ''/'') (rev p))"

definition up_to_slash :: "string \<Rightarrow> string" where
  "up_to_slash p = rev (dropWhile (\<lambda>c. c \<noteq> CHR ''/'') (rev p))"

definition dirname_cut :: "string \<Rightarrow> nat option" where
  "dirname_cut p =
     (let d = (if strip_slashes p = [] then p else up_to_slash (strip_slashes p)); r = strip_slashes d
      in if d = [] then None
         else if r \<noteq> [] then Some (length r)
         else Some (if length d = 2 then 2 else 1))"

definition dirname :: "string \<Rightarrow> string \<times> string" where
  "dirname b =
     (case dirname_cut (cstr b) of None \<Rightarrow> (''.'', b) | Some i \<Rightarrow> (take i (cstr b), set_nul i b))"

text \<open>\<open>readlink\<close> into the buffer, \<open>dirname\<close> of what the buffer then holds, and only then the NUL
  behind the link.\<close>

definition link_dir :: "string \<Rightarrow> string \<Rightarrow> string \<times> string" where
  "link_dir l b =
     (let n = min (PATH_MAX - 1) (length l); (dir, b) = dirname (take n l @ drop n b)
      in (dir, set_nul n b))"

definition pld :: "nat \<Rightarrow> string" where
  "pld n = show_int (sint (of_nat n :: u64))"

section \<open>One process\<close>

definition fd_label :: "string \<Rightarrow> string" where
  "fd_label name = (if name = ''cwd'' then ''cwd'' else if name = ''root'' then ''rtd'' else ''txt'')"

definition denied :: string where "denied = '' (Permission denied)''"

definition get_file :: "csys \<Rightarrow> copts \<Rightarrow> string \<Rightarrow> pid_info_t \<times> clister \<Rightarrow> (pid_info_t \<times> clister) result" where
  "get_file sy op name x =
     (let (info, s) = x;
          info = add_path name info;
          done_with = (\<lambda>info. map_result (Pair (cut_path (parent_length info) info)))
      in if name \<in> {''cwd'', ''root'', ''exe''} then
           (case sys_readlink sy (i_path info) of
              Inl e \<Rightarrow>
                let info = add_path denied info
                in done_with info (print_info sy op info (fd_label name) ''unknown'' [] (i_path info) s)
            | Inr l \<Rightarrow>
                let (dir, b) = link_dir l (file_buff s)
                in if BUF_MAX \<le> length dir then Fault
                   else
                     let s = s\<lparr>file_buff := b\<rparr>
                     in case sys_stat sy (i_path info) of
                          Inl e \<Rightarrow> Go (info, s)
                        | Inr st \<Rightarrow>
                            done_with info
                              (print_info sy op info (fd_label name) (type_of (st_mode st)) (pld (st_ino st)) dir s))
         else Go (cut_path (parent_length info) info, s))"

text \<open>\<open>strtok\<close>: the pieces between the separators.\<close>

definition tokens :: "char list \<Rightarrow> string \<Rightarrow> string list" where
  "tokens sep l =
     filter (\<lambda>t. t \<noteq> []) (foldr (\<lambda>c ts. if c \<in> set sep then [] # ts else (c # hd ts) # tl ts) l [[]])"

definition blanks :: "char list" where "blanks = [CHR '' '', CHR 0x09, CHR 0x0A]"

text \<open>The map, line by line. At the end of the file \<open>getline\<close> answers -1, which is true: the loop
  goes on with a buffer in which \<open>strtok\<close> finds at most one token, and the fifth one is a null
  pointer.\<close>

fun get_maps_loop ::
  "csys \<Rightarrow> copts \<Rightarrow> pid_info_t \<Rightarrow> string list \<Rightarrow> nat \<Rightarrow> string \<Rightarrow> string \<Rightarrow> clister \<Rightarrow> clister result" where
  "get_maps_loop sy op info [] brk pre_inode pre_file s = (if 4 \<le> brk then Go s else Fault)"
| "get_maps_loop sy op info (l # ls) brk pre_inode pre_file s =
     (let ts = tokens blanks (cstr l)
      in if 4 \<le> brk then Go s
         else if length ts < 5 \<or> BUF_MAX \<le> length (ts ! 4) then Fault
         else if ts ! 4 = pre_inode then get_maps_loop sy op info ls brk pre_inode pre_file s
         else if ts ! 4 = ''0'' then get_maps_loop sy op info ls (brk + 1) pre_inode pre_file s
         else if length ts < 6 \<or> PATH_MAX \<le> length (ts ! 5) then Fault
         else if ts ! 5 = pre_file then get_maps_loop sy op info ls 0 pre_inode pre_file s
         else
           and_then
             (if length ts = 6 then print_info sy op info ''mem'' ''REG'' (ts ! 4) (ts ! 5) s
              else if ts ! 6 = ''(deleted)'' then print_info sy op info ''DEL'' ''unknown'' (ts ! 4) (ts ! 5) s
              else Go s)
             (get_maps_loop sy op info ls 0 (ts ! 4) (ts ! 5)))"

definition get_maps :: "csys \<Rightarrow> copts \<Rightarrow> pid_info_t \<times> clister \<Rightarrow> (pid_info_t \<times> clister) result" where
  "get_maps sy op x =
     (let (info, s) = x;
          info = add_path ''maps'' info;
          back = cut_path (parent_length info) info
      in case sys_open sy (i_path info) of
           Inl e \<Rightarrow> Go (back, s)
         | Inr txt \<Rightarrow>
             map_result (Pair back)
               (get_maps_loop sy op info (text_lines txt) 0 (junk_inode sy) (junk_file sy) s))"

text \<open>The descriptors. The letter comes from the mode of the file, not of the link.\<close>

definition rw_letter :: "u32 \<Rightarrow> string" where
  "rw_letter mode =
     (if mode AND 0x180 = 0x180 then ''u''
      else if mode AND 0x180 = 0x100 then ''r''
      else if mode AND 0x180 = 0x80 then ''w'' else [])"

definition shown_path :: "string \<Rightarrow> string \<Rightarrow> nat \<Rightarrow> string" where
  "shown_path type path ino =
     (let path = (if path = ''.'' \<and> type = ''FIFO'' then ''pipe:['' @ pld ino @ '']'' else path)
      in if type = ''SOCK'' then ''socket:['' @ pld ino @ '']'' else path)"

fun get_fds_loop :: "csys \<Rightarrow> copts \<Rightarrow> string list \<Rightarrow> pid_info_t \<Rightarrow> clister \<Rightarrow> clister result" where
  "get_fds_loop sy op [] info s = Go s"
| "get_fds_loop sy op (d # ds) info s =
     (if d = ''.'' \<or> d = ''..'' then get_fds_loop sy op ds info s
      else
        let previous_length = length (i_path info);
            info = add_path d info
        in case sys_readlink sy (i_path info) of
             Inl e \<Rightarrow> Fault
           | Inr l \<Rightarrow>
               let (dir, b) = link_dir l (fd_buff s)
               in if BUF_MAX \<le> length dir then Fault
                  else
                    let s = s\<lparr>fd_buff := b\<rparr>
                    in case sys_stat sy (i_path info) of
                         Inl e \<Rightarrow> Go s
                       | Inr st \<Rightarrow>
                           and_then
                             (print_info sy op info (d @ rw_letter (st_mode st)) (type_of (st_mode st)) (pld (st_ino st))
                               (shown_path (type_of (st_mode st)) dir (st_ino st)) s)
                             (get_fds_loop sy op ds (cut_path previous_length info)))"

definition get_fds :: "csys \<Rightarrow> copts \<Rightarrow> pid_info_t \<times> clister \<Rightarrow> clister result" where
  "get_fds sy op x =
     (let (info, s) = x;
          info = add_path ''fd/'' info
      in case sys_opendir sy (i_path info) of
           Inl e \<Rightarrow>
             let info = add_path denied info
             in print_info sy op info ''NOFD'' [] [] (i_path info) s
         | Inr ds \<Rightarrow> get_fds_loop sy op ds info s)"

text \<open>The name is the second token of the first line of \<open>status\<close>. \<open>strncpy\<close> leaves no NUL when
  the name fills its array.\<close>

definition c_user :: "csys \<Rightarrow> string \<Rightarrow> string" where
  "c_user sy path =
     (case sys_stat sy path of
        Inr st \<Rightarrow>
          (case sys_user sy (st_uid st) of
             Some u \<Rightarrow> take USER_DISPLAY_MAX u
           | None \<Rightarrow> take (USER_DISPLAY_MAX - 1) (show_int (sint (st_uid st))))
      | Inl e \<Rightarrow> ''unknown'')"

definition status_name :: "string \<Rightarrow> string option" where
  "status_name txt =
     (case text_lines txt of
        [] \<Rightarrow> None
      | l # ls \<Rightarrow> (case tokens [CHR 0x09, CHR 0x0A] (cstr l) of a # b # ts \<Rightarrow> Some b | _ \<Rightarrow> None))"

definition lsof_dumpinfo :: "csys \<Rightarrow> copts \<Rightarrow> int \<Rightarrow> clister \<Rightarrow> clister result" where
  "lsof_dumpinfo sy op pid s =
     (let path = ''/proc/'' @ show_int pid @ ''/''
      in case sys_open sy (path @ ''status'') of
           Inl e \<Rightarrow> Go s
         | Inr txt \<Rightarrow>
             (case status_name txt of
                None \<Rightarrow> Fault
              | Some name \<Rightarrow>
                  let info = \<lparr>i_pid = pid, i_user = c_user sy path, i_cmdline = take CMD_DISPLAY_MAX name,
                              i_path = path, parent_length = length path\<rparr>
                  in (case and_then (get_file sy op ''cwd'' (info, s)) (\<lambda>x.
                           and_then (get_file sy op ''root'' x) (\<lambda>x.
                           and_then (get_file sy op ''exe'' x) (get_maps sy op))) of
                        Go x \<Rightarrow> get_fds sy op x
                      | Exit n x \<Rightarrow> Exit n (snd x)
                      | Exec p x \<Rightarrow> Exec p (snd x)
                      | Fault \<Rightarrow> Fault)))"

section \<open>The main program\<close>

definition c_types :: "string list" where
  "c_types = [''REG'', ''CHR'', ''DIR'', ''FIFO'', ''SOCK'', ''unknown'']"

text \<open>The arguments two by two. The argument behind the last one is a null pointer.\<close>

fun c_options :: "string list \<Rightarrow> copts \<Rightarrow> clister \<Rightarrow> (copts \<times> clister) result" where
  "c_options [] op s = Go (op, s)"
| "c_options [a] op s = (if a \<in> {''-c'', ''-t'', ''-f''} then Fault else Go (op, s))"
| "c_options (a # v # as) op s =
     (if a = ''-c'' then c_options as (op\<lparr>arg1 := Some (take BUF_MAX v)\<rparr>) s
      else if a = ''-t'' then
        (if v \<notin> set c_types
         then Exit 0 (op, s\<lparr>c_err := c_err s @ [''Invalid TYPE option.'' @ [CHR 0x0A]]\<rparr>)
         else c_options as (op\<lparr>arg2 := Some v\<rparr>) s)
      else if a = ''-f'' then c_options as (op\<lparr>arg3 := Some (take BUF_MAX v)\<rparr>) s
      else c_options as op s)"

definition pid_name :: "string \<Rightarrow> bool" where
  "pid_name d = (let r = snd (read_sign d) in r \<noteq> [] \<and> snd (read_digits 10 0 r) = [])"

definition c_entry :: "csys \<Rightarrow> copts \<Rightarrow> string \<Rightarrow> clister \<Rightarrow> clister result" where
  "c_entry sy op d s =
     (if d = ''.'' \<or> d = ''..'' \<or> \<not> pid_name d then Go s else lsof_dumpinfo sy op (sint (atoi d)) s)"

definition c_main :: "csys \<Rightarrow> string list \<Rightarrow> clister \<Rightarrow> clister result" where
  "c_main sy args s =
     (case sys_opendir sy ''/proc'' of
        Inl e \<Rightarrow> Go s
      | Inr ds \<Rightarrow>
          (case (if 2 \<le> length args then c_options args \<lparr>arg1 = None, arg2 = None, arg3 = None\<rparr> s
                 else Go (\<lparr>arg1 = None, arg2 = None, arg3 = None\<rparr>, s)) of
             Go (op, s) \<Rightarrow> for_each ds (c_entry sy op) (print_header s)
           | Exit n (op, s) \<Rightarrow> Exit n s
           | Exec p (op, s) \<Rightarrow> Exec p s
           | Fault \<Rightarrow> Fault))"

end
