(* ===== verification/Lsof_C_Spec.thy ===== *)
theory Lsof_C_Spec
  imports Lsof_C
begin

text \<open>
  What the file lister in C prints for a link and how it leaves the loop over a memory map.
\<close>

section \<open>Directory names\<close>

definition component :: "string \<Rightarrow> bool" where
  "component z \<longleftrightarrow> z \<noteq> [] \<and> CHR ''/'' \<notin> set z \<and> NUL \<notin> set z"

lemma cstr_nul: "NUL \<notin> set a \<Longrightarrow> cstr (a @ NUL # r) = a"
  unfolding cstr_def by (subst takeWhile_append2) auto

lemma cstr_all: "NUL \<notin> set a \<Longrightarrow> cstr a = a"
  unfolding cstr_def by (subst takeWhile_eq_all_conv) auto

lemma strip_slashes_id: "z \<noteq> [] \<Longrightarrow> last z \<noteq> CHR ''/'' \<Longrightarrow> strip_slashes z = z"
  by (cases z rule: rev_cases) (auto simp: strip_slashes_def)

lemma strip_slashes_one: "d \<noteq> [] \<Longrightarrow> last d \<noteq> CHR ''/'' \<Longrightarrow> strip_slashes (d @ ''/'') = d"
  by (cases d rule: rev_cases) (auto simp: strip_slashes_def)

lemma up_to_slash_component:
  "CHR ''/'' \<notin> set z \<Longrightarrow> up_to_slash (d @ CHR ''/'' # z) = d @ ''/''"
  unfolding up_to_slash_def by (subst rev_append, subst rev.simps, subst append_assoc, subst dropWhile_append2) auto

lemma dirname_cut_component:
  assumes "component z" and "d \<noteq> []" and "last d \<noteq> CHR ''/''"
  shows "dirname_cut (d @ CHR ''/'' # z) = Some (length d)"
proof -
  have "last z \<noteq> CHR ''/''" using assms(1) by (metis component_def last_in_set)
  then have "strip_slashes (d @ CHR ''/'' # z) = d @ CHR ''/'' # z"
    using assms(1) by (intro strip_slashes_id) (auto simp: component_def)
  moreover have "strip_slashes (d @ ''/'') = d" using assms(2,3) by (rule strip_slashes_one)
  ultimately show ?thesis
    using assms up_to_slash_component [of z d] by (simp add: dirname_cut_def component_def)
qed

lemma dirname_component:
  assumes "component z" and "d \<noteq> []" and "last d \<noteq> CHR ''/''" and "NUL \<notin> set d"
  shows "dirname (d @ CHR ''/'' # z @ NUL # r) = (d, d @ NUL # z @ NUL # r)"
    and "dirname (d @ CHR ''/'' # z) = (d, d @ NUL # z)"
proof -
  have "cstr (d @ CHR ''/'' # z @ NUL # r) = d @ CHR ''/'' # z" "cstr (d @ CHR ''/'' # z) = d @ CHR ''/'' # z"
    using assms(1,4) cstr_nul [of "d @ CHR ''/'' # z" r] cstr_all [of "d @ CHR ''/'' # z"]
    by (simp_all add: component_def NUL_def)
  then show "dirname (d @ CHR ''/'' # z @ NUL # r) = (d, d @ NUL # z @ NUL # r)"
    and "dirname (d @ CHR ''/'' # z) = (d, d @ NUL # z)"
    using dirname_cut_component [OF assms(1-3)] by (simp_all add: dirname_def set_nul_def)
qed

text \<open>Into an empty buffer the name shown is the directory of the link; the buffer keeps it, cut.\<close>

lemma link_dir_empty:
  assumes "component z" and "d \<noteq> []" and "last d \<noteq> CHR ''/''" and "NUL \<notin> set d" and "length d + length z + 1 < PATH_MAX"
  shows "link_dir (d @ CHR ''/'' # z) [] = (d, d @ NUL # z)"
proof -
  have n: "min (PATH_MAX - 1) (length (d @ CHR ''/'' # z)) = length (d @ CHR ''/'' # z)" using assms(5) by simp
  show ?thesis unfolding link_dir_def n by (simp add: dirname_component(2) [OF assms(1-4)] set_nul_def)
qed

text \<open>A shorter link into a buffer: what is behind its end belongs to the link before.\<close>

lemma link_dir_root:
  assumes "component z" and "d \<noteq> []" and "last d \<noteq> CHR ''/''" and "NUL \<notin> set d" and "hd d = CHR ''/''"
  shows "fst (link_dir ''/'' (d @ CHR ''/'' # z @ NUL # r)) = d"
proof -
  obtain e where d: "d = CHR ''/'' # e" using assms(2,5) by (cases d) auto
  have n: "min (PATH_MAX - 1) (length ''/'') = 1" by (simp add: PATH_MAX_def)
  have "take 1 ''/'' @ drop 1 (d @ CHR ''/'' # z @ NUL # r) = d @ CHR ''/'' # z @ NUL # r" using d by simp
  then show ?thesis
    unfolding link_dir_def n by (simp only: Let_def dirname_component(1) [OF assms(1-4)] split_def fst_conv)
qed

section \<open>Rows of the links\<close>

definition c_no_filters :: copts where
  "c_no_filters = \<lparr>arg1 = None, arg2 = None, arg3 = None\<rparr>"

definition info_row :: "pid_info_t \<Rightarrow> string \<Rightarrow> string \<Rightarrow> string \<Rightarrow> string \<Rightarrow> string" where
  "info_row info fd type inode name =
     c_row (cmdline_str info) (show_int (i_pid info)) (user_str info) fd type inode name"

lemma print_info_unfiltered:
  "print_info sy c_no_filters info fd type inode name s =
    Go (s\<lparr>c_out := c_out s @ [info_row info fd type inode name]\<rparr>)"
  by (simp add: print_info_def c_no_filters_def arg_ok_def nomatch_def info_row_def)

lemma print_info_go: "print_info sy op info fd type inode name s = Fault \<or>
    (\<exists>s'. print_info sy op info fd type inode name s = Go s')"
  by (auto simp: print_info_def)

section \<open>The end of a map\<close>

definition anonymous :: "string \<Rightarrow> bool" where
  "anonymous l \<longleftrightarrow> 5 \<le> length (tokens blanks (cstr l)) \<and> tokens blanks (cstr l) ! 4 = ''0''"

lemma get_maps_loop_end:
  "brk + length (filter anonymous ls) < 4 \<Longrightarrow> get_maps_loop sy op info ls brk pi pf s = Fault"
proof (induction ls arbitrary: brk pi pf s)
  case (Cons l ls)
  let ?ts = "tokens blanks (cstr l)"
  let ?p = "if length ?ts = 6 then print_info sy op info ''mem'' ''REG'' (?ts ! 4) (?ts ! 5) s
     else if ?ts ! 6 = ''(deleted)'' then print_info sy op info ''DEL'' ''unknown'' (?ts ! 4) (?ts ! 5) s else Go s"
  have print: "?p = Fault \<or> (\<exists>s'. ?p = Go s')" 
    by (cases "length ?ts = 6"; cases "?ts ! 6 = ''(deleted)''") (simp_all add: print_info_go)
  have rest: "brk + length (filter anonymous ls) < 4" "length (filter anonymous ls) < 4"
    using Cons.prems by (auto split: if_splits)
  show ?case
  proof (cases "5 \<le> length ?ts \<and> ?ts ! 4 = ''0''")
    case True
    then have "brk + 1 + length (filter anonymous ls) < 4" using Cons.prems by (simp add: anonymous_def [of l])
    then show ?thesis using True Cons.IH rest by (simp add: Let_def)
  next
    case False
    then show ?thesis using Cons.IH rest print by (auto simp: Let_def)
  qed
qed simp

section \<open>Properties\<close>

text \<open>C39. The first process listed shows a wrong root directory: the link \<open>/\<close> is laid over the link of
  \<open>cwd\<close>, \<open>dirname\<close> runs before the NUL is put behind it, and the row \<open>rtd\<close> has the directory two
  levels above the working directory. The row \<open>cwd\<close> has its parent.\<close>

theorem stale_link_shown:
  assumes "component y" and "component z" and "hd d = CHR ''/''" "last d \<noteq> CHR ''/''" "d \<noteq> []" "NUL \<notin> set d"
    and "length d + length y + length z + 2 < BUF_MAX" and "file_buff s = []"
    and "parent_length info = length (i_path info)"
    and "sys_readlink sy (i_path info @ ''cwd'') = Inr (d @ ''/'' @ y @ ''/'' @ z)"
    and "sys_readlink sy (i_path info @ ''root'') = Inr ''/''"
    and "sys_stat sy (i_path info @ ''cwd'') = Inr st" and "sys_stat sy (i_path info @ ''root'') = Inr st'"
  shows "\<exists>b. and_then (get_file sy c_no_filters ''cwd'' (info, s)) (get_file sy c_no_filters ''root'') =
    Go (info, s\<lparr>file_buff := b, c_out := c_out s @
      [info_row (add_path ''cwd'' info) ''cwd'' (type_of (st_mode st)) (pld (st_ino st)) (d @ ''/'' @ y),
       info_row (add_path ''root'' info) ''rtd'' (type_of (st_mode st')) (pld (st_ino st')) d]\<rparr>)"
proof -
  let ?e = "d @ CHR ''/'' # y"
  have e: "last ?e \<noteq> CHR ''/''" "NUL \<notin> set ?e" "?e \<noteq> []"
    using assms(1,6) by (auto simp: component_def NUL_def dest: last_in_set)
  have "link_dir (?e @ CHR ''/'' # z) [] = (?e, ?e @ NUL # z)"
    using assms(7) by (intro link_dir_empty [OF assms(2) e(3,1,2)]) (simp add: BUF_MAX_def PATH_MAX_def)
  then have first: "link_dir (d @ CHR ''/'' # y @ CHR ''/'' # z) [] = (?e, ?e @ NUL # z)" by simp
  obtain b where second: "link_dir ''/'' (d @ CHR ''/'' # y @ NUL # z) = (d, b)"
    using link_dir_root [OF assms(1,5,4,6,3), of z] by (metis prod.collapse)
  have "get_file sy c_no_filters ''cwd'' (info, s) =
    Go (info, s\<lparr>file_buff := ?e @ NUL # z, c_out := c_out s @
      [info_row (add_path ''cwd'' info) ''cwd'' (type_of (st_mode st)) (pld (st_ino st)) ?e]\<rparr>)"
    using assms(7-10,12) first
    by (simp add: get_file_def Let_def print_info_unfiltered fd_label_def add_path_def cut_path_def)
  moreover have "get_file sy c_no_filters ''root'' (info, t) =
    Go (info, t\<lparr>file_buff := b, c_out := c_out t @
      [info_row (add_path ''root'' info) ''rtd'' (type_of (st_mode st')) (pld (st_ino st')) d]\<rparr>)"
    if "file_buff t = ?e @ NUL # z" for t
    using assms(7,9,11,13) second that
    by (simp add: get_file_def Let_def print_info_unfiltered fd_label_def add_path_def cut_path_def)
  ultimately show ?thesis by auto
qed

definition home_sys :: csys where
  "home_sys = \<lparr>sys_stat = (\<lambda>p. Inr \<lparr>st_mode = 0x4000, st_ino = 2, st_uid = 0\<rparr>),
     sys_lstat = (\<lambda>p. Inl ENOENT),
     sys_readlink = (\<lambda>p. Inr (if p = ''/proc/5/cwd'' then ''/home/user/src'' else ''/'')),
     sys_opendir = (\<lambda>p. Inr []), sys_open = (\<lambda>p. Inr []), sys_user = (\<lambda>u. Some ''root''),
     sys_strerror = (\<lambda>e. ''error''), regex_ok = (\<lambda>r. True), regex_match = (\<lambda>r t. True),
     reg_nomatch = (\<lambda>r t. False), junk_inode = [], junk_file = []\<rparr>"

definition sh_info :: pid_info_t where
  "sh_info = \<lparr>i_pid = 5, i_user = ''root'', i_cmdline = ''sh'', i_path = ''/proc/5/'', parent_length = 8\<rparr>"

definition empty_clister :: clister where
  "empty_clister = \<lparr>file_buff = [], fd_buff = [], c_out = [], c_err = []\<rparr>"

lemma sh_info_simps: "i_path sh_info = ''/proc/5/''" "parent_length sh_info = 8"
  by (simp_all add: sh_info_def)

lemma home_sys_simps:
  "sys_readlink home_sys ''/proc/5/cwd'' = Inr ''/home/user/src''" "sys_readlink home_sys ''/proc/5/root'' = Inr ''/''"
  "sys_stat home_sys p = Inr \<lparr>st_mode = 0x4000, st_ino = 2, st_uid = 0\<rparr>"
  by (simp_all add: home_sys_def)

theorem stale_link_shown_witness:
  "\<exists>s r. and_then (get_file home_sys c_no_filters ''cwd'' (sh_info, empty_clister))
       (get_file home_sys c_no_filters ''root'') = Go (sh_info, s) \<and>
     c_out s = [r, info_row (add_path ''root'' sh_info) ''rtd'' (type_of 0x4000) (pld 2) ''/home'']"
proof -
  have "component ''user''" "component ''src''" "NUL \<notin> set ''/home''" "file_buff empty_clister = []" "c_out empty_clister = []"
    by (simp_all add: component_def NUL_def empty_clister_def)
  then show ?thesis
    using stale_link_shown [of "''user''" "''src''" "''/home''" empty_clister sh_info home_sys
        "\<lparr>st_mode = 0x4000, st_ino = 2, st_uid = 0\<rparr>" "\<lparr>st_mode = 0x4000, st_ino = 2, st_uid = 0\<rparr>"]
    by (auto simp: sh_info_simps home_sys_simps BUF_MAX_def)
qed

text \<open>C40. A process whose memory map has fewer than four lines without a file ends the program in a crash:
  at the end of the map \<open>getline\<close> answers -1, which the loop takes for success, and the missing
  fifth token is given to \<open>strncpy\<close>. The empty map of a kernel thread is such a map.\<close>

theorem short_map_crashes:
  assumes "sys_open sy (i_path info @ ''maps'') = Inr txt" and "length (filter anonymous (text_lines txt)) < 4"
  shows "get_maps sy op (info, s) = Fault"
  using assms get_maps_loop_end [of 0 "text_lines txt"] by (simp add: get_maps_def add_path_def Let_def)

theorem short_map_crashes_witness: "get_maps home_sys c_no_filters (sh_info, empty_clister) = Fault"
  by (rule short_map_crashes [of _ _ "[]"]) (simp_all add: home_sys_def text_lines.simps)

end
