(* ===== verification/Traps.thy ===== *)
theory Traps
  imports Sdb_Run
begin

text \<open>
  The exercise \<open>no_more_traps\<close> (\<open>asm/ptrace/no_more_traps/test.cpp\<close>): a tracer that replaces each
  trap its program stops at by the next byte of a file of hexadecimal digits. It uses the same
  system \<open>os\<close> as the debugger and the same patching of the low byte of a word.
\<close>

section \<open>The tracer\<close>

text \<open>The rest of the file (None if it could not be opened), the counter, the world, and the lines on
  the standard error output.\<close>

record 'w tracer =
  fptr :: "u8 list option"
  INT_cont :: u64
  t_world :: 'w
  t_err :: "string list"

definition errquit :: "'w os \<Rightarrow> string \<Rightarrow> 'w tracer \<Rightarrow> 'w tracer result" where
  "errquit os msg s = Exit (- 1) (s\<lparr>t_err := t_err s @ [msg @ '': '' @ strerror os (t_world s) @ [CHR 0x0A]]\<rparr>)"

definition to_hex :: "u32 \<Rightarrow> u64" where
  "to_hex c =
     (let num = scast c :: u64
      in if num < 58 \<and> 47 < num then num - 48 else if num < 103 \<and> 96 < num then num - 87 else num)"

text \<open>\<open>fgetc\<close>: -1 at the end of the file.\<close>

fun fgetc :: "u8 list \<Rightarrow> u32 \<times> u8 list" where
  "fgetc [] = (- 1, [])"
| "fgetc (b # bs) = (ucast b, bs)"

definition read_hex :: "u8 list \<Rightarrow> u64 \<times> u8 list" where
  "read_hex bs =
     (let (c1, bs) = fgetc bs; (c2, bs) = fgetc bs
      in (push_bit 4 (to_hex c1) OR to_hex c2, bs))"

definition ask :: "'w os \<Rightarrow> string \<Rightarrow> ('w \<Rightarrow> 'w option) \<Rightarrow> 'w tracer \<Rightarrow> 'w tracer result" where
  "ask os msg f s =
     (case f (t_world s) of Some w \<Rightarrow> Go (s\<lparr>t_world := w\<rparr>) | None \<Rightarrow> errquit os msg s)"

text \<open>What the loop does at a stop, up to \<open>PTRACE_CONT\<close>.\<close>

definition trap_stop :: "'w os \<Rightarrow> int \<Rightarrow> 'w tracer \<Rightarrow> 'w tracer result" where
  "trap_stop os child s =
     (case ptrace_getregs os child (t_world s) of
        None \<Rightarrow> errquit os ''ptrace(GETREGS)'' s
      | Some regs \<Rightarrow>
          let regs = regs(U_rip := regs U_rip - 1);
              code = ptrace_peektext os child (regs U_rip) (t_world s)
          in if code AND 0xff \<noteq> 0xcc then Go s
             else
               (case fptr s of
                  None \<Rightarrow> Fault
                | Some bs \<Rightarrow>
                    let (hex, bs) = read_hex bs
                    in and_then
                         (ask os ''ptrace(POKETEXT)''
                           (ptrace_poketext os child (regs U_rip) ((code AND 0xffffffffffffff00) OR hex))
                           (s\<lparr>INT_cont := INT_cont s + 1, fptr := Some bs\<rparr>))
                         (ask os ''ptrace(SETREGS)'' (ptrace_setregs os child regs))))"

text \<open>The loop, with fuel: None means that it has not ended. An error of \<open>PTRACE_CONT\<close> goes unseen.\<close>

fun trap_loop :: "nat \<Rightarrow> 'w os \<Rightarrow> int \<Rightarrow> 'w tracer \<Rightarrow> 'w tracer result option" where
  "trap_loop 0 os child s = None"
| "trap_loop (Suc n) os child s =
     (case waitpid os child (t_world s) of
        None \<Rightarrow>
          Some (Go (s\<lparr>t_err := t_err s @ [''## '' @ show_int (sint (INT_cont s)) @ '' cc instruction(s) executed'' @ [CHR 0x0A]]\<rparr>))
      | Some (status, w) \<Rightarrow>
          let s = s\<lparr>t_world := w\<rparr>
          in if \<not> WIFSTOPPED status then trap_loop n os child s
             else
               (case trap_stop os child s of
                  Go s \<Rightarrow>
                    (case ptrace_cont os child (t_world s) of
                       Some w \<Rightarrow> trap_loop n os child (s\<lparr>t_world := w\<rparr>)
                     | None \<Rightarrow> trap_loop n os child s)
                | r \<Rightarrow> Some r))"

definition traps_main :: "nat \<Rightarrow> 'w os \<Rightarrow> 'w tracer \<Rightarrow> 'w tracer result option" where
  "traps_main fuel os s =
     (let (child, w) = fork os (t_world s); s = s\<lparr>t_world := w\<rparr>
      in if child < 0 then Some (errquit os ''fork'' s)
         else if child = 0 then
           Some (and_then (ask os ''ptrace@child'' (ptrace_traceme os) s) (\<lambda>s.
             case execvp os ''./no_more_traps'' (t_world s) of
               Some w \<Rightarrow> Exec ''./no_more_traps'' (s\<lparr>t_world := w\<rparr>)
             | None \<Rightarrow> errquit os ''execvp'' s))
         else
           let s = s\<lparr>fptr := read_file os ''no_more_traps.txt'' (t_world s), INT_cont := 0\<rparr>
           in case waitpid os child (t_world s) of
                None \<Rightarrow> Some (errquit os ''waitpid'' s)
              | Some (status, w) \<Rightarrow>
                  let w = (case ptrace_setoptions os child w of Some w \<Rightarrow> w | None \<Rightarrow> w);
                      w = (case ptrace_cont os child w of Some w \<Rightarrow> w | None \<Rightarrow> w)
                  in trap_loop fuel os child (s\<lparr>t_world := w\<rparr>))"

text \<open>A line for debugging that the loop has commented out: the address and the eight bytes of the word.\<close>

definition dump_code :: "u64 \<Rightarrow> u64 \<Rightarrow> string" where
  "dump_code a w =
     ''## '' @ show_hex (unat a) @ '': code ='' @
     concat (map (\<lambda>i. CHR '' '' # pad_left (CHR ''0'') 2 (show_hex (unat (byte_of w i)))) [0..<8]) @ [CHR 0x0A]"

section \<open>Digits\<close>

definition hex_chars :: "u8 \<Rightarrow> u8 list" where
  "hex_chars b = [byte (digit (unat b div 16)), byte (digit (unat b mod 16))]"

lemma to_hex_digit: "d < 16 \<Longrightarrow> to_hex (ucast (byte (digit d))) = of_nat d"
proof -
  assume "d < 16"
  then have "d = 0 \<or> d = 1 \<or> d = 2 \<or> d = 3 \<or> d = 4 \<or> d = 5 \<or> d = 6 \<or> d = 7 \<or> d = 8 \<or> d = 9 \<or>
      d = 10 \<or> d = 11 \<or> d = 12 \<or> d = 13 \<or> d = 14 \<or> d = 15" by presburger
  then show ?thesis
    by (elim disjE) (simp_all add: to_hex_def byte_def digit_def of_char_of Let_def)
qed

lemma read_hex_chars: "read_hex (hex_chars b @ bs) = (ucast b, bs)"
proof -
  have "unat b < 256" using unsigned_less [of b, where 'a = nat] by simp
  then have d: "unat b div 16 < 16" "unat b mod 16 < 16" by auto
  have "unat b div 16 = drop_bit 4 (unat b)" "unat b mod 16 = take_bit 4 (unat b)"
    by (simp_all add: drop_bit_eq_div take_bit_eq_mod)
  then have "push_bit 4 (of_nat (unat b div 16)) OR of_nat (unat b mod 16) = (ucast b :: u64)"
    by (intro bit_word_eqI)
      (auto simp: bit_or_iff bit_push_bit_iff bit_of_nat_iff bit_drop_bit_eq bit_take_bit_iff bit_unsigned_iff bit_ucast_iff)
  then show ?thesis
    using d by (simp add: read_hex_def hex_chars_def to_hex_digit)
qed

lemma read_hex_end: "read_hex [] = (- 1, [])"
proof -
  have "to_hex (- 1) = - 1" by (simp add: to_hex_def Let_def)
  then show ?thesis by (simp add: read_hex_def)
qed

section \<open>A stop at a trap\<close>

lemma trap_stop_hit:
  assumes "ptrace_getregs os child (t_world s) = Some regs" and "v AND 0xff = 0xcc" and "read_hex bs = (h, bs')"
    and "ptrace_peektext os child (regs U_rip - 1) (t_world s) = v"
    and "fptr s = Some bs" and "trap_stop os child s = Go s'"
  shows "\<exists>w w'. ptrace_poketext os child (regs U_rip - 1) ((v AND 0xffffffffffffff00) OR h) (t_world s) = Some w \<and>
    ptrace_setregs os child (regs(U_rip := regs U_rip - 1)) w = Some w' \<and>
    s' = s\<lparr>INT_cont := INT_cont s + 1, fptr := Some bs', t_world := w'\<rparr>"
  using assms by (simp add: trap_stop_def Let_def ask_def errquit_def split: option.splits)

section \<open>Properties\<close>

text \<open>C37. When the program has run into a trap, the tracer puts the next byte of the file, written as two
  hexadecimal digits, in the place of the trap and changes no other byte; the program goes on
  from that byte, and the trap is counted.\<close>

theorem trap_replaced:
  assumes "traces os tm" and "regs_read_back os"
    and "\<And>p r w w'. ptrace_setregs os p r w = Some w' \<Longrightarrow> tm p w' = tm p w"
    and "ptrace_getregs os child (t_world s) = Some regs" and "tm child (t_world s) (regs U_rip - 1) = 0xcc"
    and "fptr s = Some (hex_chars b @ rest)" and "trap_stop os child s = Go s'"
  shows "tm child (t_world s') = (tm child (t_world s))(regs U_rip - 1 := b) \<and>
    ptrace_getregs os child (t_world s') = Some (regs(U_rip := regs U_rip - 1)) \<and>
    INT_cont s' = INT_cont s + 1 \<and> fptr s' = Some rest"
proof -
  let ?a = "regs U_rip - 1" let ?m = "tm child (t_world s)"
  have peek: "ptrace_peektext os child ?a (t_world s) = load64 ?m ?a" using assms(1) by (simp add: traces_def)
  have "load64 ?m ?a AND 0xff = 0xcc" using assms(5) low_byte_test by simp
  from trap_stop_hit [OF assms(4) this read_hex_chars peek assms(6,7)]
  obtain w w' where poke: "ptrace_poketext os child ?a ((load64 ?m ?a AND 0xffffffffffffff00) OR ucast b) (t_world s) = Some w"
    and set: "ptrace_setregs os child (regs(U_rip := ?a)) w = Some w'"
    and s': "s' = s\<lparr>INT_cont := INT_cont s + 1, fptr := Some rest, t_world := w'\<rparr>"
    by blast
  have "tm child w = store64 ?m ?a ((load64 ?m ?a AND 0xffffffffffffff00) OR ucast b)"
    using assms(1) poke by (auto simp: traces_def)
  then have "tm child w' = ?m(?a := b)" using assms(3) [OF set] by (simp only: store_low)
  moreover have "ptrace_getregs os child w = Some regs"
    using assms(1,4) poke by (auto simp: traces_def)
  then have "ptrace_getregs os child w' = Some (regs(U_rip := ?a))"
    using regs_written [OF assms(2) set] by simp
  ultimately show ?thesis using s' by simp
qed

definition trapped :: "u8 list \<Rightarrow> machine tracer" where
  "trapped bs = \<lparr>fptr = Some bs, INT_cont = 0,
     t_world = \<lparr>m_mem = (\<lambda>a. if a = 0x1000 then 0xcc else 0x90), m_regs = (\<lambda>r. 0x1001), m_status = 0x57f\<rparr>, t_err = []\<rparr>"

lemma trapped_stop: "\<exists>s'. trap_stop machine_os 42 (trapped bs) = Go s'"
  by (simp add: trap_stop_def ask_def split_def Let_def trapped_def)

theorem trap_replaced_witness:
  "\<exists>s'. trap_stop machine_os 42 (trapped (hex_chars 0x48)) = Go s' \<and> m_mem (t_world s') 0x1000 = 0x48"
proof -
  obtain s' where s': "trap_stop machine_os 42 (trapped (hex_chars 0x48)) = Go s'" using trapped_stop by blast
  from trap_replaced [OF machine_traces machine_read_back _ _ _ _ s', where regs = "\<lambda>r. 0x1001" and b = "0x48" and rest = "[]"] show ?thesis
    using s' by (auto simp: trapped_def)
qed

text \<open>C38. Behind the end of the file the digits are the value -1 of \<open>fgetc\<close>, which is not masked: the
  eight bytes from the trap on are overwritten with \<open>0xff\<close>.\<close>

theorem file_end_overwrites:
  assumes "traces os tm" and "\<And>p r w w'. ptrace_setregs os p r w = Some w' \<Longrightarrow> tm p w' = tm p w"
    and "ptrace_getregs os child (t_world s) = Some regs" and "tm child (t_world s) (regs U_rip - 1) = 0xcc"
    and "fptr s = Some []" and "trap_stop os child s = Go s'" and "i < 8"
  shows "tm child (t_world s') (regs U_rip - 1 + of_nat i) = 0xff"
proof -
  let ?a = "regs U_rip - 1" let ?m = "tm child (t_world s)"
  have peek: "ptrace_peektext os child ?a (t_world s) = load64 ?m ?a" using assms(1) by (simp add: traces_def)
  have "load64 ?m ?a AND 0xff = 0xcc" using assms(4) low_byte_test by simp
  from trap_stop_hit [OF assms(3) this read_hex_end peek assms(5,6)]
  obtain w w' where poke: "ptrace_poketext os child ?a ((load64 ?m ?a AND 0xffffffffffffff00) OR - 1) (t_world s) = Some w"
    and set: "ptrace_setregs os child (regs(U_rip := ?a)) w = Some w'" and s': "t_world s' = w'"
    by auto
  have "tm child w = store64 ?m ?a (- 1)" using assms(1) poke by (auto simp: traces_def)
  then have "tm child w' = store64 ?m ?a (- 1)" using assms(2) [OF set] by simp
  moreover have "byte_of (- 1) i = - 1"
    using assms(7) by (intro bit_word_eqI) (auto simp: bit_byte_of)
  ultimately show ?thesis using assms(7) s' by (simp add: store64_def)
qed

theorem file_end_overwrites_witness:
  "\<exists>s'. trap_stop machine_os 42 (trapped []) = Go s' \<and> m_mem (t_world s') 0x1003 = 0xff"
proof -
  obtain s' where s': "trap_stop machine_os 42 (trapped []) = Go s'" using trapped_stop by blast
  from file_end_overwrites [OF machine_traces _ _ _ _ s', of "\<lambda>r. 0x1001" 3] show ?thesis
    using s' by (auto simp: trapped_def)
qed

end
