(* ===== verification/Spec2Isabelle.thy ===== *)
theory Spec2Isabelle
  imports Libmini_Demos Sdb_Session Logger_Spec Logger_Launch Lsof_Rows Lsof_C_Spec Traps
begin

text \<open>
  A verification development for the repository: four homework programs of a course on Unix
  programming and one exercise beside them.

  \<^bold>\<open>The programs.\<close>

  \<^item> hw1 lists the open files of all processes from \<open>/proc\<close>. \<open>hw1.cpp\<close> is built, \<open>hw1.c\<close> is an
    older version of it.
  \<^item> hw2 logs the file activity of a program: the launcher \<open>hw2.cpp\<close> puts the shared object
    \<open>hw2_so.c\<close> before the C library, and the object writes a line for each of eighteen functions.
  \<^item> hw3 is a small C library for x86-64, \<open>libmini.c\<close> over the system calls and routines of
    \<open>libmini64.asm\<close>, entered by \<open>start.asm\<close>, with five programs that use it.
  \<^item> hw4 is a debugger for ELF files, \<open>hw4.cpp\<close> over \<open>ptrace\<close>, with a command loop.
  \<^item> \<open>asm/ptrace/no_more_traps\<close> is a tracer that replaces traps by the bytes of a file.

  \<^bold>\<open>Shared theories.\<close> \<open>Prelude\<close>: words and byte memory with
  little-endian loads and stores. \<open>Format\<close>: numbers as \<open>printf\<close>, the
  streams, \<open>strtoul\<close> and \<open>atoi\<close> write and read them, fields, words and
  lines of a text. \<open>Results\<close>: what an operation ends with (goes on, exits, is
  replaced, faults), its sequencing, and the predicates \<open>safe\<close>, \<open>goes\<close>
  and \<open>ends\<close> on it. \<open>Getopt\<close>: \<open>getopt\<close> with the permutation
  of operands.

  \<^bold>\<open>Debugger\<close> (\<open>hw4.cpp\<close>, \<open>hw4.h\<close>).
  \<open>Sdb_State\<close>: the globals as the record \<open>sdb\<close>, the streams with their
  manipulators, the system as the record \<open>os\<close>. \<open>Sdb_Break\<close>:
  \<open>bp\<close>, \<open>del\<close>, \<open>list\<close>, \<open>chkbp\<close>; the locale
  \<open>breakpoint_table\<close> states what the commands rely on of the list.
  \<open>Sdb_Patch\<close>: the memory of the tracee under these, and a small machine for the
  witnesses. \<open>Sdb_Inspect\<close>: \<open>get\<close>, \<open>set\<close>,
  \<open>getregs\<close>, \<open>dump\<close>, \<open>disasm\<close>, \<open>vmmap\<close>,
  \<open>help\<close>. \<open>Sdb_Run\<close>: \<open>start\<close>, \<open>run\<close>,
  \<open>cont\<close>, \<open>si\<close>, \<open>quit\<close> and the decoding of the wait status.
  \<open>Sdb_Elf\<close>: \<open>load\<close>. \<open>Sdb_Repl\<close>: \<open>execute\<close>,
  the two command loops and \<open>main\<close>. \<open>Sdb_Session\<close>: the commands as steps
  of a machine of three states, and what every session keeps. Shown: every command keeps the table
  and the state in order, and none touches memory the debugger does not own but those that read a
  file or disassemble (the size given to capstone is that of the whole file, so it can read behind
  its end); the breakpoints are the only difference between the code of the tracee and the
  original; what a hit, a step, a load, a change of a register and a dump do; that a debugger that
  exits kills the tracee; and where the code fails (a breakpoint in a loop, two hits in a row, a
  killed tracee, the end of the input).

  \<^bold>\<open>Library\<close> (\<open>libmini.c\<close>, \<open>libmini.h\<close>,
  \<open>libmini64.asm\<close>). \<open>Libmini_Syscall\<close>: the stubs and the wrappers, with
  the locale \<open>errno_wrapper\<close> for what they share. \<open>Libmini_Memory\<close>:
  \<open>memset\<close>, \<open>bzero\<close>, \<open>strlen\<close> with the three ways it can
  end. \<open>Libmini_Signal\<close>: signal sets against sets of numbers (locale
  \<open>signal_sets\<close>), \<open>signal\<close>, \<open>sigaction\<close>.
  \<open>Libmini_Perror\<close>: \<open>perror\<close>. \<open>Libmini_Asm\<close>: the routines
  in assembly as lists of instructions, run on registers and memory. \<open>Libmini_Demos\<close>:
  the programs over all of these, but for \<open>jmp1.c\<close>.

  \<^bold>\<open>Logger\<close> (\<open>hw2_so.c\<close>, \<open>hw2.cpp\<close>).
  \<open>Logger_So\<close>: the eighteen functions over the record \<open>libc\<close>.
  \<open>Logger_Spec\<close>: the locale \<open>interposer\<close> says when a layer is
  transparent, and the functions are an instance: the program gets the results and the world it
  would have without them, and one line per call. \<open>Logger_Launch\<close>: the launcher.

  \<^bold>\<open>File lister\<close> (\<open>hw1.cpp\<close>, \<open>hw1.c\<close>).
  \<open>Lsof\<close>: the C++ program over the record \<open>sys\<close>, one snapshot of the
  file system. \<open>Lsof_Spec\<close>: marks of deleted files, mapped files and descriptors
  against a reference, options. \<open>Lsof_Rows\<close>: the whole run prints rows of the table
  only, unless it faults. \<open>Lsof_C\<close> and \<open>Lsof_C_Spec\<close>: the C version.

  \<^bold>\<open>Tracer\<close> (\<open>test.cpp\<close>). \<open>Traps\<close>, over the system
  of the debugger.

  \<^bold>\<open>How the code is modelled.\<close> Globals and locals that live across calls are
  fields of a state record that every operation takes and returns. \<open>Exit\<close> is a call
  of \<open>exit\<close> with its code, \<open>Fault\<close> (or None where the theory says so) an
  access outside of an object or an exception that ends the program. Machine integers are words
  where their width can matter. The kernel, the C library under the logger, the file system,
  \<open>regex\<close> and capstone are parameters; what a theorem needs of them is a named
  hypothesis (\<open>masks\<close>, \<open>writes\<close>, \<open>traces\<close>,
  \<open>regs_read_back\<close>, \<open>good_libc\<close> and others), each with an instance in a
  witness. Memory of the process itself is a function on all addresses; where the code reads until
  it finds something (\<open>strlen\<close>, the buffers of the logger) the addresses that can be
  read are a parameter and reading another one is a fault. A store of the library to an address
  that is not mapped is not told from one that is.

  \<^bold>\<open>Loops that may not end.\<close> \<open>strlen_loop\<close> is a partial function,
  with a fault as a result of its own. The command loop \<open>repl\<close> and the loop of the
  tracer have fuel: the theorem on \<open>repl\<close> is for every amount of it, since at the end
  of the input that loop need not end; scripts need none. The machine of the witnesses runs at
  most 100 instructions per \<open>cont\<close>, which is more than its programs have. All other
  loops are total functions.

  \<^bold>\<open>Not modelled.\<close> \<open>traceme2.c\<close>, whose data and function body are
  removed from the source. The program \<open>jmp1.c\<close>: its control flow is a second return
  of \<open>setjmp\<close> into compiled C code; \<open>setjmp\<close> and \<open>longjmp\<close>
  themselves are in \<open>Libmini_Asm\<close>. The programs under
  \<open>hw4/advanced_testcase\<close>, which are input of the debugger and have no interface. The
  fragments of assembly under \<open>asm/assembly\<close>, which have no program around them.
  Makefiles, shell and Python scripts. Of the system: time, concurrent changes of
  \<open>/proc\<close> while the lister runs, and the order of output of two processes.\<close>

end
